(* ===== verification/Prelude.thy ===== *)
theory Prelude
  imports Main "HOL-Library.Signed_Division"
begin

text \<open>
  The shared vocabulary of the development.

  A contract entry point is a \<^emph>\<open>call\<close>: a function from the contract's state to either a
  failure or a result with the new state.  A failure carries no state, because the Soroban host
  rolls back every write of an invocation that returns an error or traps.  \<open>Err e\<close> is a
  declared contract error (\<^verbatim>\<open>return Err(e)\<close>, or \<^verbatim>\<open>?\<close> on one), \<open>Trap\<close> is a host trap: a
  missing authorization, a panicking callee, or an arithmetic overflow (the release profile of
  the workspace's \<^verbatim>\<open>Cargo.toml\<close> sets \<^verbatim>\<open>overflow-checks = true\<close>).

  The theory holds the combinators that sequence calls, the range-checked machine integers, the
  two predicate transformers \<open>wp\<close> (if the call returns, then) and \<open>twp\<close> (the call returns,
  and then) with their computation rules in the collections of the same names, the collection
  \<open>exec\<close> that evaluates calls on concrete states, and the list read back from an indexed map.
\<close>

named_theorems exec \<open>evaluate a call on a state\<close>
named_theorems wp_rules \<open>compute the weakest precondition of a call\<close>
named_theorems twp_rules \<open>compute the total weakest precondition of a call\<close>

section \<open>Calls\<close>

datatype 'e failure = Err 'e | Trap

type_synonym ('s, 'e, 'a) call = "'s \<Rightarrow> 'e failure + 'a \<times> 's"

definition return :: "'a \<Rightarrow> ('s, 'e, 'a) call" where
  "return x = (\<lambda>s. Inr (x, s))"

definition throw :: "'e \<Rightarrow> ('s, 'e, 'a) call" where
  "throw e = (\<lambda>s. Inl (Err e))"

definition trap :: "('s, 'e, 'a) call" where
  "trap = (\<lambda>s. Inl Trap)"

definition bindE :: "('s, 'e, 'a) call \<Rightarrow> ('a \<Rightarrow> ('s, 'e, 'b) call) \<Rightarrow> ('s, 'e, 'b) call" where
  "bindE m f = (\<lambda>s. case m s of Inl e \<Rightarrow> Inl e | Inr (x, s') \<Rightarrow> f x s')"

definition thenE :: "('s, 'e, 'a) call \<Rightarrow> ('s, 'e, 'b) call \<Rightarrow> ('s, 'e, 'b) call" where
  "thenE m k = bindE m (\<lambda>_. k)"

definition gets :: "('s \<Rightarrow> 'a) \<Rightarrow> ('s, 'e, 'a) call" where
  "gets f = (\<lambda>s. Inr (f s, s))"

definition modify :: "('s \<Rightarrow> 's) \<Rightarrow> ('s, 'e, unit) call" where
  "modify f = (\<lambda>s. Inr ((), f s))"

text \<open>\<^verbatim>\<open>if !b { return Err(e) }\<close>, and a host check whose failure traps.\<close>

definition ensure :: "bool \<Rightarrow> 'e \<Rightarrow> ('s, 'e, unit) call" where
  "ensure b e = (if b then return () else throw e)"

definition host_check :: "bool \<Rightarrow> ('s, 'e, unit) call" where
  "host_check b = (if b then return () else trap)"

text \<open>\<^verbatim>\<open>o.ok_or(e)?\<close>, and \<^verbatim>\<open>o.unwrap()\<close>.\<close>

definition ok_or :: "'a option \<Rightarrow> 'e \<Rightarrow> ('s, 'e, 'a) call" where
  "ok_or v e = (case v of None \<Rightarrow> throw e | Some x \<Rightarrow> return x)"

definition unwrap :: "'a option \<Rightarrow> ('s, 'e, 'a) call" where
  "unwrap v = (case v of None \<Rightarrow> trap | Some x \<Rightarrow> return x)"

definition whenE :: "bool \<Rightarrow> ('s, 'e, unit) call \<Rightarrow> ('s, 'e, unit) call" where
  "whenE b m = (if b then m else return ())"

text \<open>A loop over the elements of a vector that threads an accumulator.\<close>

fun foldE :: "('x \<Rightarrow> 'a \<Rightarrow> ('s, 'e, 'a) call) \<Rightarrow> 'x list \<Rightarrow> 'a \<Rightarrow> ('s, 'e, 'a) call" where
  "foldE f [] a = return a"
| "foldE f (x # xs) a = bindE (f x a) (foldE f xs)"

definition for_each :: "('x \<Rightarrow> ('s, 'e, unit) call) \<Rightarrow> 'x list \<Rightarrow> ('s, 'e, unit) call" where
  "for_each f xs = foldE (\<lambda>x _. f x) xs ()"

section \<open>Machine integers\<close>

text \<open>
  \<^verbatim>\<open>i128\<close> values are \<open>int\<close>s, \<^verbatim>\<open>u32\<close> and \<^verbatim>\<open>u64\<close> values are \<open>nat\<close>s; an arithmetic
  result passes through the check of its width and traps when it does not fit.  Rust's signed
  division truncates towards zero, which is \<open>sdiv\<close>.
\<close>

definition i128_min :: int where "i128_min = - (2 ^ 127)"
definition i128_max :: int where "i128_max = 2 ^ 127 - 1"
definition u32_max :: nat where "u32_max = 2 ^ 32 - 1"
definition u64_max :: nat where "u64_max = 2 ^ 64 - 1"

definition i128 :: "int \<Rightarrow> ('s, 'e, int) call" where
  "i128 x = (if i128_min \<le> x \<and> x \<le> i128_max then return x else trap)"

definition u32 :: "nat \<Rightarrow> ('s, 'e, nat) call" where
  "u32 n = (if n \<le> u32_max then return n else trap)"

definition u64 :: "nat \<Rightarrow> ('s, 'e, nat) call" where
  "u64 n = (if n \<le> u64_max then return n else trap)"

text \<open>Unsigned subtraction traps below zero; \<^verbatim>\<open>saturating_add\<close> stops at the maximum.\<close>

definition sub_u :: "nat \<Rightarrow> nat \<Rightarrow> ('s, 'e, nat) call" where
  "sub_u a b = (if b \<le> a then return (a - b) else trap)"

definition saturating_add_u32 :: "nat \<Rightarrow> nat \<Rightarrow> nat" where
  "saturating_add_u32 a b = min (a + b) u32_max"

definition saturating_add_u64 :: "nat \<Rightarrow> nat \<Rightarrow> nat" where
  "saturating_add_u64 a b = min (a + b) u64_max"

definition checked_add_u32 :: "nat \<Rightarrow> nat \<Rightarrow> nat option" where
  "checked_add_u32 a b = (if a + b \<le> u32_max then Some (a + b) else None)"

definition checked_sub_u32 :: "nat \<Rightarrow> nat \<Rightarrow> nat option" where
  "checked_sub_u32 a b = (if b \<le> a then Some (a - b) else None)"

text \<open>\<^verbatim>\<open>amount * (bps as i128) / 10_000\<close>, the recurring basis-point expression.\<close>

definition mul_bps :: "int \<Rightarrow> nat \<Rightarrow> ('s, 'e, int) call" where
  "mul_bps amount bps = bindE (i128 (amount * int bps)) (\<lambda>p. return (p sdiv 10000))"

lemma int_sdiv_nonneg: "0 \<le> a \<Longrightarrow> 0 < b \<Longrightarrow> a sdiv b = (a div b :: int)"
  by (cases "a = 0") (simp_all add: signed_divide_int_def)

lemma sdiv_bps_nonneg: "0 \<le> a \<Longrightarrow> 0 \<le> a * int b sdiv 10000"
  by (simp add: int_sdiv_nonneg pos_imp_zdiv_nonneg_iff)

lemma sdiv_bps_le:
  assumes "0 \<le> a" and "b \<le> 10000"
  shows "a * int b sdiv 10000 \<le> a"
proof -
  have "a * int b \<le> a * 10000" using assms by (intro mult_left_mono) auto
  then have "a * int b div 10000 \<le> a * 10000 div 10000" by (rule zdiv_mono1) simp
  then show ?thesis using assms by (simp add: int_sdiv_nonneg)
qed

lemma sdiv_bps_full [simp]: "a * 10000 sdiv 10000 = (a :: int)"
  by (simp add: signed_divide_int_def abs_mult sgn_mult sgn_mult_abs)

section \<open>Evaluation\<close>

lemma exec_return [exec]: "return x s = Inr (x, s)" by (simp add: return_def)
lemma exec_throw [exec]: "throw e s = Inl (Err e)" by (simp add: throw_def)
lemma exec_trap [exec]: "trap s = Inl Trap" by (simp add: trap_def)
lemma exec_bindE [exec]: "bindE m f s = (case m s of Inl e \<Rightarrow> Inl e | Inr (x, s') \<Rightarrow> f x s')"
  by (simp add: bindE_def)
lemma exec_thenE [exec]: "thenE m k s = (case m s of Inl e \<Rightarrow> Inl e | Inr (x, s') \<Rightarrow> k s')"
  by (simp add: thenE_def bindE_def)
lemma exec_gets [exec]: "gets f s = Inr (f s, s)" by (simp add: gets_def)
lemma exec_modify [exec]: "modify f s = Inr ((), f s)" by (simp add: modify_def)
lemma exec_ensure [exec]: "ensure b e s = (if b then Inr ((), s) else Inl (Err e))"
  by (simp add: ensure_def exec)
lemma exec_host_check [exec]: "host_check b s = (if b then Inr ((), s) else Inl Trap)"
  by (simp add: host_check_def exec)
lemma exec_ok_or [exec]:
  "ok_or v e s = (case v of None \<Rightarrow> Inl (Err e) | Some x \<Rightarrow> Inr (x, s))"
  by (simp add: ok_or_def exec split: option.split)
lemma exec_unwrap [exec]: "unwrap v s = (case v of None \<Rightarrow> Inl Trap | Some x \<Rightarrow> Inr (x, s))"
  by (simp add: unwrap_def exec split: option.split)
lemma exec_whenE [exec]: "whenE b m s = (if b then m s else Inr ((), s))"
  by (simp add: whenE_def exec)
lemma exec_foldE_Nil [exec]: "foldE f [] a s = Inr (a, s)" by (simp add: exec)
lemma exec_foldE_Cons [exec]:
  "foldE f (x # xs) a s = (case f x a s of Inl e \<Rightarrow> Inl e | Inr (b, s') \<Rightarrow> foldE f xs b s')"
  by (simp add: exec)
lemma exec_for_each [exec]: "for_each f xs s = foldE (\<lambda>x _. f x) xs () s"
  by (simp add: for_each_def)
lemma exec_i128 [exec]:
  "i128 x s = (if i128_min \<le> x \<and> x \<le> i128_max then Inr (x, s) else Inl Trap)"
  by (simp add: i128_def exec)
lemma exec_u32 [exec]: "u32 n s = (if n \<le> u32_max then Inr (n, s) else Inl Trap)"
  by (simp add: u32_def exec)
lemma exec_u64 [exec]: "u64 n s = (if n \<le> u64_max then Inr (n, s) else Inl Trap)"
  by (simp add: u64_def exec)
lemma exec_sub_u [exec]: "sub_u a b s = (if b \<le> a then Inr (a - b, s) else Inl Trap)"
  by (simp add: sub_u_def exec)
lemma exec_mul_bps [exec]:
  "mul_bps a b s = (if i128_min \<le> a * int b \<and> a * int b \<le> i128_max
     then Inr (a * int b sdiv 10000, s) else Inl Trap)"
  by (simp add: mul_bps_def exec)

declare foldE.simps [simp del]

lemmas int_limits = i128_min_def i128_max_def u32_max_def u64_max_def

section \<open>Weakest preconditions\<close>

definition wp :: "('s, 'e, 'a) call \<Rightarrow> ('a \<Rightarrow> 's \<Rightarrow> bool) \<Rightarrow> 's \<Rightarrow> bool" where
  "wp m Q s = (case m s of Inl _ \<Rightarrow> True | Inr (x, s') \<Rightarrow> Q x s')"

definition twp :: "('s, 'e, 'a) call \<Rightarrow> ('a \<Rightarrow> 's \<Rightarrow> bool) \<Rightarrow> 's \<Rightarrow> bool" where
  "twp m Q s = (case m s of Inl _ \<Rightarrow> False | Inr (x, s') \<Rightarrow> Q x s')"

lemma wpD: "wp m Q s \<Longrightarrow> m s = Inr (x, s') \<Longrightarrow> Q x s'"
  by (simp add: wp_def)

lemma wpI: "(\<And>x s'. m s = Inr (x, s') \<Longrightarrow> Q x s') \<Longrightarrow> wp m Q s"
  by (auto simp: wp_def split: sum.split)

lemma twpI: "m s = Inr (x, s') \<Longrightarrow> Q x s' \<Longrightarrow> twp m Q s"
  by (simp add: twp_def)

lemma twpE:
  assumes "twp m Q s"
  obtains x s' where "m s = Inr (x, s')" and "Q x s'"
  using assms by (auto simp: twp_def split: sum.splits)

lemma returns_iff_twp: "m s = Inr (x, s') \<longleftrightarrow> twp m (\<lambda>y t. y = x \<and> t = s') s"
  by (auto simp: twp_def split: sum.splits)

lemma wp_mono: "wp m Q s \<Longrightarrow> (\<And>x s'. Q x s' \<Longrightarrow> R x s') \<Longrightarrow> wp m R s"
  by (auto simp: wp_def split: sum.splits)

lemma wp_conj: "wp m (\<lambda>x s'. Q x s' \<and> R x s') s \<longleftrightarrow> wp m Q s \<and> wp m R s"
  by (auto simp: wp_def split: sum.splits)

lemma wp_return [wp_rules]: "wp (return x) Q s = Q x s" by (simp add: wp_def exec)
lemma wp_throw [wp_rules]: "wp (throw e) Q s" by (simp add: wp_def exec)
lemma wp_trap [wp_rules]: "wp trap Q s" by (simp add: wp_def exec)
lemma wp_bindE [wp_rules]: "wp (bindE m f) Q s = wp m (\<lambda>x. wp (f x) Q) s"
  by (auto simp: wp_def exec split: sum.split)
lemma wp_thenE [wp_rules]: "wp (thenE m k) Q s = wp m (\<lambda>_. wp k Q) s"
  by (simp add: thenE_def wp_rules)
lemma wp_gets [wp_rules]: "wp (gets f) Q s = Q (f s) s" by (simp add: wp_def exec)
lemma wp_modify [wp_rules]: "wp (modify f) Q s = Q () (f s)" by (simp add: wp_def exec)
lemma wp_ensure [wp_rules]: "wp (ensure b e) Q s = (b \<longrightarrow> Q () s)" by (simp add: wp_def exec)
lemma wp_host_check [wp_rules]: "wp (host_check b) Q s = (b \<longrightarrow> Q () s)"
  by (simp add: wp_def exec)
lemma wp_ok_or [wp_rules]: "wp (ok_or v e) Q s = (\<forall>x. v = Some x \<longrightarrow> Q x s)"
  by (auto simp: wp_def exec split: option.split)
lemma wp_unwrap [wp_rules]: "wp (unwrap v) Q s = (\<forall>x. v = Some x \<longrightarrow> Q x s)"
  by (auto simp: wp_def exec split: option.split)
lemma wp_whenE [wp_rules]: "wp (whenE b m) Q s = (if b then wp m Q s else Q () s)"
  by (simp add: wp_def exec)
lemma wp_if [wp_rules]: "wp (if b then m else k) Q s = (if b then wp m Q s else wp k Q s)"
  by simp
lemma wp_i128 [wp_rules]: "wp (i128 x) Q s = (i128_min \<le> x \<and> x \<le> i128_max \<longrightarrow> Q x s)"
  by (auto simp: wp_def exec)
lemma wp_u32 [wp_rules]: "wp (u32 n) Q s = (n \<le> u32_max \<longrightarrow> Q n s)" by (simp add: wp_def exec)
lemma wp_u64 [wp_rules]: "wp (u64 n) Q s = (n \<le> u64_max \<longrightarrow> Q n s)" by (simp add: wp_def exec)
lemma wp_sub_u [wp_rules]: "wp (sub_u a b) Q s = (b \<le> a \<longrightarrow> Q (a - b) s)"
  by (simp add: wp_def exec)
lemma wp_mul_bps [wp_rules]:
  "wp (mul_bps a b) Q s =
     (i128_min \<le> a * int b \<and> a * int b \<le> i128_max \<longrightarrow> Q (a * int b sdiv 10000) s)"
  by (auto simp: wp_def exec)

lemma twp_return [twp_rules]: "twp (return x) Q s = Q x s" by (simp add: twp_def exec)
lemma twp_throw [twp_rules]: "\<not> twp (throw e) Q s" by (simp add: twp_def exec)
lemma twp_trap [twp_rules]: "\<not> twp trap Q s" by (simp add: twp_def exec)
lemma twp_bindE [twp_rules]: "twp (bindE m f) Q s = twp m (\<lambda>x. twp (f x) Q) s"
  by (auto simp: twp_def exec split: sum.split)
lemma twp_thenE [twp_rules]: "twp (thenE m k) Q s = twp m (\<lambda>_. twp k Q) s"
  by (simp add: thenE_def twp_rules)
lemma twp_gets [twp_rules]: "twp (gets f) Q s = Q (f s) s" by (simp add: twp_def exec)
lemma twp_modify [twp_rules]: "twp (modify f) Q s = Q () (f s)" by (simp add: twp_def exec)
lemma twp_ensure [twp_rules]: "twp (ensure b e) Q s = (b \<and> Q () s)" by (simp add: twp_def exec)
lemma twp_host_check [twp_rules]: "twp (host_check b) Q s = (b \<and> Q () s)"
  by (simp add: twp_def exec)
lemma twp_ok_or [twp_rules]: "twp (ok_or v e) Q s = (\<exists>x. v = Some x \<and> Q x s)"
  by (auto simp: twp_def exec split: option.split)
lemma twp_unwrap [twp_rules]: "twp (unwrap v) Q s = (\<exists>x. v = Some x \<and> Q x s)"
  by (auto simp: twp_def exec split: option.split)
lemma twp_whenE [twp_rules]: "twp (whenE b m) Q s = (if b then twp m Q s else Q () s)"
  by (simp add: twp_def exec)
lemma twp_if [twp_rules]: "twp (if b then m else k) Q s = (if b then twp m Q s else twp k Q s)"
  by simp
lemma twp_i128 [twp_rules]: "twp (i128 x) Q s = (i128_min \<le> x \<and> x \<le> i128_max \<and> Q x s)"
  by (auto simp: twp_def exec)
lemma twp_u32 [twp_rules]: "twp (u32 n) Q s = (n \<le> u32_max \<and> Q n s)" by (simp add: twp_def exec)
lemma twp_u64 [twp_rules]: "twp (u64 n) Q s = (n \<le> u64_max \<and> Q n s)" by (simp add: twp_def exec)
lemma twp_sub_u [twp_rules]: "twp (sub_u a b) Q s = (b \<le> a \<and> Q (a - b) s)"
  by (simp add: twp_def exec)
lemma twp_mul_bps [twp_rules]:
  "twp (mul_bps a b) Q s =
     (i128_min \<le> a * int b \<and> a * int b \<le> i128_max \<and> Q (a * int b sdiv 10000) s)"
  by (auto simp: twp_def exec)

text \<open>The invariant rule of a loop.\<close>

lemma wp_foldE:
  assumes "\<And>x a t. x \<in> set xs \<Longrightarrow> I a t \<Longrightarrow> wp (f x a) I t"
    and "I a s" and "\<And>b t. I b t \<Longrightarrow> Q b t"
  shows "wp (foldE f xs a) Q s"
  using assms
proof (induction xs arbitrary: a s)
  case Nil
  then show ?case by (simp add: foldE.simps wp_rules)
next
  case (Cons x xs)
  have "wp (f x a) I s" using Cons.prems by simp
  then have "wp (f x a) (\<lambda>b. wp (foldE f xs b) Q) s"
    by (rule wp_mono) (use Cons in auto)
  then show ?case by (simp add: foldE.simps wp_rules)
qed

lemma wp_for_each:
  assumes "\<And>x t. x \<in> set xs \<Longrightarrow> I t \<Longrightarrow> wp (f x) (\<lambda>_. I) t"
    and "I s" and "\<And>t. I t \<Longrightarrow> Q () t"
  shows "wp (for_each f xs) Q s"
  unfolding for_each_def
  by (rule wp_foldE [where I = "\<lambda>_. I"]) (use assms in auto)

section \<open>Indexed lists\<close>

text \<open>
  The contracts store a growing list as one entry per index and a count, and read it back with
  \<^verbatim>\<open>for i in 0..count\<close>, keeping the entries that are present.
\<close>

definition idx_list :: "(nat \<Rightarrow> 'v option) \<Rightarrow> nat \<Rightarrow> 'v list" where
  "idx_list m n = List.map_filter m [0..<n]"

lemma idx_list_0 [simp]: "idx_list m 0 = []"
  by (simp add: idx_list_def map_filter_simps)

lemma map_filter_append: "List.map_filter f (xs @ ys) = List.map_filter f xs @ List.map_filter f ys"
  by (simp add: List.map_filter_def)

lemma idx_list_Suc [simp]:
  "idx_list m (Suc n) = idx_list m n @ (case m n of None \<Rightarrow> [] | Some v \<Rightarrow> [v])"
  by (simp add: idx_list_def map_filter_append map_filter_simps split: option.split)

lemma idx_list_cong: "(\<And>i. i < n \<Longrightarrow> m i = m' i) \<Longrightarrow> idx_list m n = idx_list m' n"
  by (induction n) auto

lemma idx_list_numeral [exec]:
  "idx_list m (numeral k) = idx_list m (pred_numeral k) @
     (case m (pred_numeral k) of None \<Rightarrow> [] | Some v \<Rightarrow> [v])"
  by (simp add: numeral_eq_Suc)

lemma idx_list_1 [exec]: "idx_list m 1 = (case m 0 of None \<Rightarrow> [] | Some v \<Rightarrow> [v])"
  using idx_list_Suc [of m 0] by simp

lemma set_idx_list: "set (idx_list m n) = {v. \<exists>i<n. m i = Some v}"
  by (induction n) (auto simp: less_Suc_eq split: option.splits)

text \<open>When no index is missing the list has one element per index.\<close>

lemma idx_list_total: "(\<And>i. i < n \<Longrightarrow> m i = Some (f i)) \<Longrightarrow> idx_list m n = map f [0..<n]"
  by (induction n) auto

end
