(* ===== verification/Soroban.thy ===== *)
theory Soroban
  imports Prelude "HOL-Library.Word"
begin

text \<open>
  What the contracts use of the Soroban host and its SDK: the value types, and one record for
  everything an invocation reads from outside the contract's own storage.

  The record is a parameter of every operation.  Its fields are the ledger's sequence number and
  time, the contract's own address, the set of addresses whose authorization the invocation
  carries (\<^verbatim>\<open>require_auth\<close>), the token contracts' \<^verbatim>\<open>transfer\<close> and \<^verbatim>\<open>balance\<close>, the
  generic cross-contract call, the XDR encoding and the two cryptographic host functions.  The
  token contracts and other contracts reached by address live in a world \<open>'w\<close> of their own that
  the operations thread through; a \<open>None\<close> of one of these functions is a failed sub-invocation.
  What the theorems need to know of them is stated as named hypotheses (\<open>token_laws\<close>,
  \<open>invoke_keeps_tokens\<close>, \<open>not_self_authorized\<close>).

  Storage entries do not expire in this model: every \<^verbatim>\<open>extend_ttl\<close> of the source runs on a key
  that was just written or just found present, and changes no value.
\<close>

section \<open>Values\<close>

datatype address = Addr nat

type_synonym symbol = string
type_synonym byte = "8 word"
type_synonym bytes = "byte list"

text \<open>A \<^verbatim>\<open>BytesN<32>\<close> is a byte string; the contracts only compare, hash and store it.\<close>

type_synonym bytes32 = bytes

text \<open>Values handed to the XDR encoder or to a cross-contract call.\<close>

datatype host_val =
    VAddress address
  | VU32 nat
  | VU64 nat
  | VSymbol symbol
  | VTuple "host_val list"

section \<open>The invocation environment\<close>

record 'w env =
  ledger_sequence :: nat
  ledger_timestamp :: nat
  network_id :: bytes32
  current_contract_address :: address
  authorized :: "address \<Rightarrow> bool"
  token_transfer :: "address \<Rightarrow> address \<Rightarrow> address \<Rightarrow> int \<Rightarrow> 'w \<Rightarrow> 'w option"
  token_balance :: "address \<Rightarrow> address \<Rightarrow> 'w \<Rightarrow> int"
  invoke_contract :: "address \<Rightarrow> symbol \<Rightarrow> host_val list \<Rightarrow> 'w \<Rightarrow> 'w option"
  to_xdr :: "host_val \<Rightarrow> bytes"
  sha256 :: "bytes \<Rightarrow> bytes32"
  ed25519_verify :: "bytes32 \<Rightarrow> bytes \<Rightarrow> bytes \<Rightarrow> bool"

text \<open>\<^verbatim>\<open>addr.require_auth()\<close> traps unless the invocation carries the authorization.\<close>

definition require_auth :: "'w env \<Rightarrow> address \<Rightarrow> ('s, 'e, unit) call" where
  "require_auth env a = host_check (authorized env a)"

lemma exec_require_auth [exec]:
  "require_auth env a s = (if authorized env a then Inr ((), s) else Inl Trap)"
  by (simp add: require_auth_def exec)

lemma wp_require_auth [wp_rules]: "wp (require_auth env a) Q s = (authorized env a \<longrightarrow> Q () s)"
  by (simp add: require_auth_def wp_rules)

lemma twp_require_auth [twp_rules]: "twp (require_auth env a) Q s = (authorized env a \<and> Q () s)"
  by (simp add: require_auth_def twp_rules)

section \<open>What the contracts rely on\<close>

text \<open>
  The token interface (SEP-41): a transfer that succeeds moves a non-negative amount of that
  token from one address to the other and changes no other balance.
\<close>

definition token_laws :: "'w env \<Rightarrow> bool" where
  "token_laws env \<longleftrightarrow>
     (\<forall>tok src dst amt w w'. token_transfer env tok src dst amt w = Some w' \<longrightarrow>
        0 \<le> amt \<and>
        (\<forall>t a. token_balance env t a w' = token_balance env t a w
            + (if t = tok \<and> a = dst then amt else 0)
            - (if t = tok \<and> a = src then amt else 0)))"

text \<open>A cross-contract call that moves no tokens.\<close>

definition invoke_keeps_tokens :: "'w env \<Rightarrow> bool" where
  "invoke_keeps_tokens env \<longleftrightarrow>
     (\<forall>c fn args w w' t a. invoke_contract env c fn args w = Some w' \<longrightarrow>
        token_balance env t a w' = token_balance env t a w)"

text \<open>The host forbids reentrancy, so a contract never authorizes a call to itself.\<close>

definition not_self_authorized :: "'w env \<Rightarrow> bool" where
  "not_self_authorized env \<longleftrightarrow> \<not> authorized env (current_contract_address env)"

lemma token_lawsD:
  assumes "token_laws env" and "token_transfer env tok src dst amt w = Some w'"
  shows "0 \<le> amt"
    and "token_balance env t a w' = token_balance env t a w
            + (if t = tok \<and> a = dst then amt else 0) - (if t = tok \<and> a = src then amt else 0)"
  using assms unfolding token_laws_def by blast+

lemma invoke_keeps_tokensD:
  "invoke_keeps_tokens env \<Longrightarrow> invoke_contract env c fn args w = Some w' \<Longrightarrow>
   token_balance env t a w' = token_balance env t a w"
  unfolding invoke_keeps_tokens_def by blast

section \<open>A concrete environment\<close>

text \<open>
  An environment that satisfies these hypotheses, used to evaluate the model on concrete inputs:
  the world is the table of all token balances, addresses and bytes are encoded injectively
  enough to be told apart, and the hash is the identity on byte strings.
\<close>

type_synonym ledger = "address \<Rightarrow> address \<Rightarrow> int"

definition ledger_transfer ::
    "address \<Rightarrow> address \<Rightarrow> address \<Rightarrow> int \<Rightarrow> ledger \<Rightarrow> ledger option" where
  "ledger_transfer tok src dst amt w =
     (if 0 \<le> amt \<and> amt \<le> w tok src then
        (let w1 = w(tok := (w tok)(src := w tok src - amt))
         in Some (w1(tok := (w1 tok)(dst := w1 tok dst + amt))))
      else None)"

fun sample_xdr :: "host_val \<Rightarrow> bytes" where
  "sample_xdr (VAddress (Addr n)) = [1, of_nat n]"
| "sample_xdr (VU32 n) = [2, of_nat n]"
| "sample_xdr (VU64 n) = [3, of_nat n]"
| "sample_xdr (VSymbol s) = 4 # map (\<lambda>c. of_nat (of_char c)) s"
| "sample_xdr (VTuple vs) = 5 # concat (map sample_xdr vs)"

definition sample_env :: "nat \<Rightarrow> nat \<Rightarrow> address \<Rightarrow> (address \<Rightarrow> bool) \<Rightarrow> ledger env" where
  "sample_env seq time self auth =
     \<lparr>ledger_sequence = seq, ledger_timestamp = time, network_id = [0],
      current_contract_address = self, authorized = auth,
      token_transfer = ledger_transfer, token_balance = (\<lambda>t a w. w t a),
      invoke_contract = (\<lambda>_ _ _ w. Some w),
      to_xdr = sample_xdr, sha256 = (\<lambda>b. b), ed25519_verify = (\<lambda>_ _ _. True)\<rparr>"

lemma sample_env_simps [simp]:
  "ledger_sequence (sample_env seq time self auth) = seq"
  "ledger_timestamp (sample_env seq time self auth) = time"
  "network_id (sample_env seq time self auth) = [0]"
  "current_contract_address (sample_env seq time self auth) = self"
  "authorized (sample_env seq time self auth) = auth"
  "token_transfer (sample_env seq time self auth) = ledger_transfer"
  "token_balance (sample_env seq time self auth) t a w = w t a"
  "invoke_contract (sample_env seq time self auth) c fn args w = Some w"
  "to_xdr (sample_env seq time self auth) = sample_xdr"
  "sha256 (sample_env seq time self auth) b = b"
  "ed25519_verify (sample_env seq time self auth) k m sg"
  by (simp_all add: sample_env_def)

lemma sample_env_token_laws [simp]: "token_laws (sample_env seq time self auth)"
  by (auto simp: token_laws_def ledger_transfer_def Let_def split: if_splits)

lemma sample_env_invoke [simp]: "invoke_keeps_tokens (sample_env seq time self auth)"
  by (simp add: invoke_keeps_tokens_def)

end
