(* ===== verification/Common_Lemmas.thy ===== *)
theory Common_Lemmas
  imports Common_Utils
begin

text \<open>
  The revenue split as an abstract object: \<open>valid_split\<close> says which configurations are accepted,
  \<open>split_share\<close> what each recipient is owed.  The executable routines of \<^verbatim>\<open>common-utils\<close> are
  shown to compute exactly these, and the shares to add up to the distributed amount with the
  rounding dust bounded by the number of recipients.
\<close>

section \<open>Accepted configurations\<close>

definition valid_split :: "(address \<times> nat) list \<Rightarrow> address \<Rightarrow> bool" where
  "valid_split splits organizer \<longleftrightarrow>
     splits = [] \<or>
     (length splits \<le> 5 \<and> fst (hd splits) = organizer \<and> 0 \<notin> set (map snd splits) \<and>
      distinct (map fst splits) \<and> sum_list (map snd splits) = 10000)"

lemma twp_check_splits:
  "twp (check_splits before tot xs) Q s \<longleftrightarrow>
     0 \<notin> set (map snd xs) \<and> distinct (map fst xs) \<and>
     set (map fst xs) \<inter> set (map fst before) = {} \<and>
     (xs = [] \<or> tot + sum_list (map snd xs) \<le> u32_max) \<and> Q (tot + sum_list (map snd xs)) s"
proof (induction before tot xs arbitrary: s rule: check_splits.induct)
  case (1 before tot)
  then show ?case by (simp add: twp_rules)
next
  case (2 before tot recipient bps rest)
  show ?case
    by (cases "rest = []") (auto simp: twp_rules 2 checked_add_u32_def add.assoc)
qed

lemma twp_validate_revenue_splits [twp_rules]:
  "twp (validate_revenue_splits splits organizer) Q s \<longleftrightarrow> valid_split splits organizer \<and> Q () s"
  by (auto simp: validate_revenue_splits_def valid_split_def twp_rules twp_check_splits
      MAX_REVENUE_SPLIT_RECIPIENTS_def TOTAL_BASIS_POINTS_def u32_max_def)

lemma sum_from_Some:
  "sum_from t xs = Some u \<longleftrightarrow> u = t + sum_list xs \<and> (xs = [] \<or> u \<le> u32_max)"
  by (induction t xs arbitrary: u rule: sum_from.induct)
    (auto simp: checked_add_u32_def split: option.splits if_splits)

section \<open>Shares\<close>

definition floor_share :: "int \<Rightarrow> nat \<Rightarrow> int" where
  "floor_share net bps = net * int bps sdiv 10000"

fun floor_sum :: "int \<Rightarrow> (address \<times> nat) list \<Rightarrow> int" where
  "floor_sum net [] = 0"
| "floor_sum net ((r, bps) # xs) = floor_share net bps + floor_sum net xs"

fun split_share :: "(address \<times> nat) list \<Rightarrow> address \<Rightarrow> int \<Rightarrow> int" where
  "split_share [] who net = 0"
| "split_share ((primary, b) # others) who net =
     (if who = primary then net - floor_sum net others
      else (case map_of others who of None \<Rightarrow> 0 | Some bps \<Rightarrow> floor_share net bps))"

text \<open>The amounts for which no intermediate product leaves the \<^verbatim>\<open>i128\<close> range.\<close>

definition splittable :: "int \<Rightarrow> bool" where
  "splittable net \<longleftrightarrow> 0 \<le> net \<and> net * 10000 \<le> i128_max"

lemma floor_share_nonneg: "0 \<le> net \<Longrightarrow> 0 \<le> floor_share net bps"
  by (simp add: floor_share_def sdiv_bps_nonneg)

lemma floor_share_times:
  assumes "0 \<le> net"
  shows "floor_share net bps * 10000 \<le> net * int bps"
    and "net * int bps < floor_share net bps * 10000 + 10000"
proof -
  have "floor_share net bps = net * int bps div 10000"
    using assms by (simp add: floor_share_def int_sdiv_nonneg)
  then show "floor_share net bps * 10000 \<le> net * int bps"
    and "net * int bps < floor_share net bps * 10000 + 10000"
    using div_mult_mod_eq [of "net * int bps" 10000]
      pos_mod_sign [of 10000 "net * int bps"] pos_mod_bound [of 10000 "net * int bps"]
    by linarith+
qed

lemma sum_floor_share_bounds:
  assumes "0 \<le> net"
  shows "floor_sum net xs * 10000 \<le> net * int (sum_list (map snd xs))"
    and "net * int (sum_list (map snd xs))
           \<le> floor_sum net xs * 10000 + 10000 * int (length xs)"
    and "0 \<le> floor_sum net xs"
proof (induction xs)
  case Nil
  { case 1 show ?case by simp next case 2 show ?case by simp next case 3 show ?case by simp }
next
  case (Cons x xs)
  obtain r b where x: "x = (r, b)" by (cases x)
  note fs = floor_share_times [OF assms, of b] floor_share_nonneg [OF assms, of b]
  { case 1 show ?case using Cons fs x by (simp add: algebra_simps)
  next case 2 show ?case using Cons fs x by (simp add: algebra_simps)
  next case 3 show ?case using Cons fs x by simp }
qed

lemma sum_floor_share_le:
  assumes "0 \<le> net" and "sum_list (map snd xs) \<le> 10000"
  shows "floor_sum net xs \<le> net"
proof -
  have "net * int (sum_list (map snd xs)) \<le> net * 10000"
    using assms by (intro mult_left_mono) auto
  then show ?thesis using sum_floor_share_bounds(1) [OF assms(1), of xs] by linarith
qed

lemma splittable_product:
  assumes "splittable net" and "bps \<le> 10000"
  shows "i128_min \<le> net * int bps" and "net * int bps \<le> i128_max"
proof -
  have "0 \<le> net * int bps" and "net * int bps \<le> net * 10000"
    using assms by (auto simp: splittable_def intro: mult_left_mono)
  then show "i128_min \<le> net * int bps" and "net * int bps \<le> i128_max"
    using assms by (auto simp: splittable_def i128_min_def)
qed

lemma splittable_range:
  assumes "splittable net" and "- net \<le> x" and "x \<le> net"
  shows "i128_min \<le> x" and "x \<le> i128_max"
  using assms by (auto simp: splittable_def i128_min_def i128_max_def)

lemma twp_others_total:
  assumes "splittable net" and "0 \<le> acc"
    and "sum_list (map snd xs) \<le> 10000"
    and "acc + floor_sum net xs \<le> net"
  shows "twp (foldE (\<lambda>(_, bps) others_total.
            bindE (mul_bps net bps) (\<lambda>x. i128 (others_total + x))) xs acc) Q s
     \<longleftrightarrow> Q (acc + floor_sum net xs) s"
  using assms(2-)
proof (induction xs arbitrary: acc s)
  case Nil
  then show ?case by (simp add: foldE.simps twp_rules)
next
  case (Cons x xs)
  obtain a b where x: "x = (a, b)" by (cases x)
  have nonneg: "0 \<le> floor_share net b" "0 \<le> floor_sum net xs"
    using assms(1) floor_share_nonneg sum_floor_share_bounds(3) by (auto simp: splittable_def)
  have b: "b \<le> 10000" using Cons.prems x by simp
  have "i128_min \<le> acc + floor_share net b" "acc + floor_share net b \<le> i128_max"
    using splittable_range [OF assms(1), of "acc + floor_share net b"] nonneg Cons.prems x
      assms(1) by (auto simp: splittable_def)
  then show ?case
    using Cons.IH [of "acc + floor_share net b"] Cons.prems x nonneg
      splittable_product [OF assms(1) b]
    by (simp add: foldE.simps twp_rules floor_share_def [symmetric] add.assoc)
qed

lemma find_recipient_basis_points_map_of:
  "find_recipient_basis_points splits who = map_of splits who"
  by (induction splits who rule: find_recipient_basis_points.induct) auto

lemma map_of_le_sum: "map_of xs k = Some (b :: nat) \<Longrightarrow> b \<le> sum_list (map snd xs)"
  by (induction xs) (auto split: if_splits intro: trans_le_add2)

lemma twp_calculate_recipient_share:
  assumes "splits \<noteq> []" and "sum_list (map snd splits) \<le> 10000" and "splittable net"
  shows "twp (calculate_recipient_share splits who organizer net) Q s
     \<longleftrightarrow> Q (split_share splits who net) s"
proof -
  obtain primary b others where sp: "splits = (primary, b) # others"
    using assms(1) by (cases splits) auto
  have others: "sum_list (map snd others) \<le> 10000" using assms(2) sp by simp
  have net: "0 \<le> net" using assms(3) by (simp add: splittable_def)
  have le: "floor_sum net others \<le> net"
    and ge: "0 \<le> floor_sum net others"
    using sum_floor_share_le [OF net others] sum_floor_share_bounds(3) [OF net] by auto
  show ?thesis
  proof (cases "who = primary")
    case True
    have fold: "twp (foldE (\<lambda>(_, bps) others_total.
            bindE (mul_bps net bps) (\<lambda>x. i128 (others_total + x))) others 0) R s
     \<longleftrightarrow> R (floor_sum net others) s" for R
      using twp_others_total [OF assms(3) _ others, of 0] le by simp
    have "i128_min \<le> net - floor_sum net others"
      "net - floor_sum net others \<le> i128_max"
      using splittable_range [OF assms(3)] le ge net by auto
    then show ?thesis
      using True sp by (simp add: calculate_recipient_share_def twp_rules fold)
  next
    case False
    then show ?thesis
      using sp splittable_product [OF assms(3)] map_of_le_sum [of others who] others
      by (auto simp: calculate_recipient_share_def twp_rules find_recipient_basis_points_map_of
          floor_share_def split: option.split)
  qed
qed

lemma twp_all_shares_loop:
  assumes "splits \<noteq> []" and "sum_list (map snd splits) \<le> 10000" and "splittable net"
  shows "twp (foldE (\<lambda>(recipient, _) result.
             bindE (calculate_recipient_share splits recipient organizer net) (\<lambda>share.
             return (result @ [(recipient, share)]))) xs acc) Q s
     \<longleftrightarrow> Q (acc @ map (\<lambda>(r, _). (r, split_share splits r net)) xs) s"
  by (induction xs arbitrary: acc)
    (auto simp: foldE.simps twp_rules twp_calculate_recipient_share [OF assms])

lemma split_share_other:
  assumes "distinct (map fst ((p, b) # others))" and "(r, bps) \<in> set others"
  shows "split_share ((p, b) # others) r net = floor_share net bps"
proof -
  have "map_of others r = Some bps" using assms by simp
  moreover have "r \<noteq> p" using assms by force
  ultimately show ?thesis by simp
qed

lemma sum_split_shares_floor:
  assumes "\<And>r bps. (r, bps) \<in> set xs \<Longrightarrow> split_share splits r net = floor_share net bps"
  shows "sum_list (map (\<lambda>(r, _). split_share splits r net) xs) = floor_sum net xs"
  using assms by (induction xs) auto

lemma sum_split_shares:
  assumes "distinct (map fst splits)" and "splits \<noteq> []"
  shows "sum_list (map (\<lambda>(r, _). split_share splits r net) splits) = net"
proof -
  obtain p b others where sp: "splits = (p, b) # others" using assms(2) by (cases splits) auto
  have "sum_list (map (\<lambda>(r, _). split_share splits r net) others) = floor_sum net others"
    using split_share_other assms(1) sp by (intro sum_split_shares_floor) blast
  then show ?thesis using sp by simp
qed

text \<open>The primary recipient receives the rounding dust: less than one unit per other recipient.\<close>

lemma primary_share_bounds:
  assumes "0 \<le> net" and "b + sum_list (map snd others) = 10000"
  shows "floor_share net b \<le> net - floor_sum net others"
    and "net - floor_sum net others \<le> floor_share net b + int (length others) + 1"
proof -
  have "int b + int (sum_list (map snd others)) = 10000" using assms(2) by linarith
  then have sum: "net * int b + net * int (sum_list (map snd others)) = net * 10000"
    by (metis distrib_left)
  show "floor_share net b \<le> net - floor_sum net others"
    using floor_share_times(1) [OF assms(1), of b] sum_floor_share_bounds(1) [OF assms(1), of others] sum
    by linarith
  show "net - floor_sum net others \<le> floor_share net b + int (length others) + 1"
    using floor_share_times(2) [OF assms(1), of b] sum_floor_share_bounds(2) [OF assms(1), of others] sum
    by linarith
qed

section \<open>Properties\<close>

text \<open>A revenue split is accepted exactly when it is empty, or has at most five entries of
  which the first is the organizer, none is zero, no recipient repeats, and the basis points sum
  to 10000.\<close>
theorem validate_revenue_splits_exact:
  "validate_revenue_splits splits organizer s = Inr (u, s') \<longleftrightarrow>
     s' = s \<and> (splits = [] \<or>
       (length splits \<le> 5 \<and> fst (hd splits) = organizer \<and> 0 \<notin> set (map snd splits) \<and>
        distinct (map fst splits) \<and> sum_list (map snd splits) = 10000))"
  unfolding returns_iff_twp by (auto simp: twp_rules valid_split_def)

text \<open>C17: For an accepted, non-empty split and any amount up to a ten-thousandth of the integer
  range, computing the shares never overflows; the shares go to the recipients in order, are
  non-negative and sum exactly to the amount, every recipient but the first gets the rounded-down
  proportion, and the first gets its own proportion plus less than one unit of rounding per
  recipient.\<close>
theorem calculate_all_shares_exact:
  assumes "validate_revenue_splits ((p, b) # others) organizer s = Inr (u, s)"
    and "0 \<le> net" and "net * 10000 \<le> i128_max"
  shows "\<exists>primary.
    calculate_all_shares ((p, b) # others) organizer net s =
      Inr ((p, primary) # map (\<lambda>(r, bps). (r, net * int bps div 10000)) others, s) \<and>
    primary + sum_list (map (\<lambda>(r, bps). net * int bps div 10000) others) = net \<and>
    net * int b div 10000 \<le> primary \<and> primary \<le> net * int b div 10000 + int (length others) + 1 \<and>
    (\<forall>(r, bps)\<in>set others. 0 \<le> net * int bps div 10000)"
proof -
  let ?sp = "(p, b) # others" and ?primary = "net - floor_sum net others"
  have valid: "distinct (map fst ?sp)" "b + sum_list (map snd others) = 10000"
    using assms(1) unfolding returns_iff_twp by (auto simp: twp_rules valid_split_def)
  have floor: "floor_share net bps = net * int bps div 10000" for bps
    using assms(2) by (simp add: floor_share_def int_sdiv_nonneg)
  have shares: "map (\<lambda>(r, _). (r, split_share ?sp r net)) others
      = map (\<lambda>(r, bps). (r, net * int bps div 10000)) others"
    using split_share_other [OF valid(1)] by (auto simp: floor)
  have total: "floor_sum net others = sum_list (map (\<lambda>(r, bps). net * int bps div 10000) others)"
    by (induction others) (auto simp: floor)
  have "split_share ?sp p net = ?primary" by simp
  then have all: "map (\<lambda>(r, _). (r, split_share ?sp r net)) ?sp
      = (p, ?primary) # map (\<lambda>(r, bps). (r, net * int bps div 10000)) others"
    using shares by (simp del: split_share.simps)
  have loop: "twp (calculate_all_shares ?sp organizer net) Q s
      \<longleftrightarrow> Q (map (\<lambda>(r, _). (r, split_share ?sp r net)) ?sp) s" for Q
    using twp_all_shares_loop [of ?sp net organizer ?sp "[]" Q s] valid(2) assms(2,3)
    by (simp add: calculate_all_shares_def splittable_def del: split_share.simps)
  have "twp (calculate_all_shares ?sp organizer net) (\<lambda>y t.
      y = (p, ?primary) # map (\<lambda>(r, bps). (r, net * int bps div 10000)) others \<and> t = s) s"
    unfolding loop all by simp
  then show ?thesis
    using primary_share_bounds [OF assms(2) valid(2)] assms(2) total
    unfolding returns_iff_twp [symmetric] floor
    by (intro exI [of _ ?primary]) (auto simp: pos_imp_zdiv_nonneg_iff)
qed

theorem calculate_all_shares_exact_witness:
  "calculate_all_shares [(Addr 1, 3334), (Addr 2, 3333), (Addr 3, 3333)] (Addr 1) 100 () =
     (Inr ([(Addr 1, 34), (Addr 2, 33), (Addr 3, 33)], ()) :: string failure + _)"
proof -
  have "validate_revenue_splits [(Addr 1, 3334), (Addr 2, 3333), (Addr 3, 3333)] (Addr 1) ()
      = Inr ((), ())"
    by (simp add: validate_revenue_splits_def exec MAX_REVENUE_SPLIT_RECIPIENTS_def
        TOTAL_BASIS_POINTS_def checked_add_u32_def u32_max_def)
  from calculate_all_shares_exact [OF this, of 100]
  show ?thesis by (auto simp: i128_max_def)
qed

text \<open>The shared error messages are defined for every category code and only for those.\<close>
theorem error_message_of_codes:
  "error_message n \<noteq> ''Unknown error'' \<longleftrightarrow> (\<exists>c. n = common_code c)"
proof
  assume "error_message n \<noteq> ''Unknown error''"
  then have "n \<in> {1, 2, 11, 21, 22, 23, 24, 41, 42, 43, 61, 62, 81, 82, 83, 101, 102, 103, 121, 122}"
    by (auto simp: error_message_def split: if_splits)
  then show "\<exists>c. n = common_code c"
    using common_code.simps [symmetric] by (elim insertE) blast+
next
  assume "\<exists>c. n = common_code c"
  then obtain c where "n = common_code c" by blast
  then show "error_message n \<noteq> ''Unknown error''" by (cases c) (simp_all add: error_message_def)
qed

end
