(* ===== verification/Privacy_Utils.thy ===== *)
theory Privacy_Utils
  imports Soroban
begin

text \<open>
  The crate \<^verbatim>\<open>privacy-utils\<close>: how an address is shown in an emitted event.  The lemmas say
  that a standard event shows the address itself and that the other levels depend on the
  address only through the prefix or the hash of its encoding.
\<close>

datatype privacy_level = Standard | Private | Anonymous

datatype masked_address = Full address | Partial bytes | Hashed bytes32

definition mask_address :: "'w env \<Rightarrow> address \<Rightarrow> privacy_level \<Rightarrow> masked_address" where
  "mask_address env address level =
     (case level of
        Standard \<Rightarrow> Full address
      | Private \<Rightarrow>
          (let xdr = to_xdr env (VAddress address); limit = min 8 (length xdr)
           in Partial (take limit xdr))
      | Anonymous \<Rightarrow> Hashed (sha256 env (to_xdr env (VAddress address))))"

lemma mask_address_simps [simp]:
  "mask_address env a Standard = Full a"
  "mask_address env a Private = Partial (take 8 (to_xdr env (VAddress a)))"
  "mask_address env a Anonymous = Hashed (sha256 env (to_xdr env (VAddress a)))"
  by (simp_all add: mask_address_def Let_def min_def)

text \<open>
  Two addresses whose encodings agree on the first eight bytes (for the same network, the XDR
  discriminants of an address are such a prefix) cannot be told apart by a private event.
\<close>

lemma mask_address_private_prefix:
  "take 8 (to_xdr env (VAddress a)) = take 8 (to_xdr env (VAddress b)) \<Longrightarrow>
   mask_address env a Private = mask_address env b Private"
  by simp

lemma mask_address_injective_standard:
  "mask_address env a Standard = mask_address env b Standard \<longleftrightarrow> a = b"
  by simp

end
