(* ===== verification/Indexed_Storage.thy ===== *)
theory Indexed_Storage
  imports Prelude
begin

text \<open>
  The two storage patterns that the ticket and the payments contracts use for lists that grow
  without bound, each as an interface.

  \<open>append_log\<close> is one entry per index and a count per owner (\<^verbatim>\<open>EventTicketIndex\<close> with
  \<^verbatim>\<open>EventTicketsCount\<close>, \<^verbatim>\<open>EventPaymentIndex\<close>, \<^verbatim>\<open>PayerPaymentIndex\<close>, \<^verbatim>\<open>EventTokenIndex\<close>,
  \<^verbatim>\<open>WithdrawalRecord\<close>): reading the list back after a push gives the old list with the new
  element at the end.

  \<open>swap_index\<close> extends it with a membership entry that holds the index of each element, so that
  an element is removed by moving the last one into its slot (\<^verbatim>\<open>OwnerTicket\<close>,
  \<^verbatim>\<open>OwnerTicketIndex\<close>, \<^verbatim>\<open>OwnerTicketsCount\<close>): membership and list stay consistent.
\<close>

section \<open>Growing lists\<close>

locale append_log =
  fixes slot :: "'s \<Rightarrow> 'o \<Rightarrow> nat \<Rightarrow> 'v option"
    and count :: "'s \<Rightarrow> 'o \<Rightarrow> nat"
    and push :: "'o \<Rightarrow> 'v \<Rightarrow> 's \<Rightarrow> 's"
  assumes slot_push:
      "slot (push x v s) y i = (if y = x \<and> i = count s x then Some v else slot s y i)"
    and count_push: "count (push x v s) y = (if y = x then count s x + 1 else count s y)"
begin

definition items :: "'s \<Rightarrow> 'o \<Rightarrow> 'v list" where
  "items s x = idx_list (slot s x) (count s x)"

lemma items_push: "items (push x v s) y = (if y = x then items s x @ [v] else items s y)"
  by (auto simp: items_def slot_push count_push intro!: idx_list_cong)

lemma items_cong:
  assumes "\<And>i. i < count s x \<Longrightarrow> slot t x i = slot s x i" and "count t x = count s x"
  shows "items t x = items s x"
  unfolding items_def assms(2) by (rule idx_list_cong) (use assms(1) in auto)

end

section \<open>Lists with removal by swapping\<close>

locale swap_index = append_log slot count push
  for slot :: "'s \<Rightarrow> 'o \<Rightarrow> nat \<Rightarrow> 'v option"
    and count :: "'s \<Rightarrow> 'o \<Rightarrow> nat"
    and push :: "'o \<Rightarrow> 'v \<Rightarrow> 's \<Rightarrow> 's" +
  fixes member :: "'s \<Rightarrow> 'o \<Rightarrow> 'v \<Rightarrow> nat option"
    and remove :: "'o \<Rightarrow> 'v \<Rightarrow> 's \<Rightarrow> 's"
  assumes member_push:
      "member (push x v s) y w = (if y = x \<and> w = v then Some (count s x) else member s y w)"
    and member_remove:
      "member s x v = Some i \<Longrightarrow> count s x = Suc n \<Longrightarrow> slot s x n = Some l \<Longrightarrow> i \<le> n \<Longrightarrow>
       member (remove x v s) y w =
         (if y = x \<and> i < n \<and> w = l then Some i
          else if y = x \<and> w = v then None else member s y w)"
    and slot_remove:
      "member s x v = Some i \<Longrightarrow> count s x = Suc n \<Longrightarrow> slot s x n = Some l \<Longrightarrow> i \<le> n \<Longrightarrow>
       slot (remove x v s) y j =
         (if y = x \<and> j = n then None
          else if y = x \<and> j = i then Some l else slot s y j)"
    and count_remove:
      "member s x v = Some i \<Longrightarrow> count s x = Suc n \<Longrightarrow>
       count (remove x v s) y = (if y = x then n else count s y)"
begin

text \<open>
  The invariant: the membership entry of an element is its slot, and every slot below the count
  is filled.
\<close>

definition index_ok :: "'s \<Rightarrow> bool" where
  "index_ok s \<longleftrightarrow>
     (\<forall>x v i. member s x v = Some i \<longleftrightarrow> i < count s x \<and> slot s x i = Some v) \<and>
     (\<forall>x i. i < count s x \<longrightarrow> slot s x i \<noteq> None)"

lemma index_okD:
  assumes "index_ok s"
  shows "member s x v = Some i \<longleftrightarrow> i < count s x \<and> slot s x i = Some v"
    and "i < count s x \<Longrightarrow> \<exists>v. slot s x i = Some v"
  using assms by (auto simp: index_ok_def)

lemma index_ok_slot_inj:
  assumes "index_ok s" and "i < count s x" and "j < count s x"
    and "slot s x i = Some v" and "slot s x j = Some v"
  shows "i = j"
  using assms by (metis index_okD(1) option.inject)

lemma index_ok_push:
  assumes "index_ok s" and "member s x v = None"
  shows "index_ok (push x v s)"
proof -
  have new: "i < count s x \<Longrightarrow> slot s x i \<noteq> Some v" for i
    using index_okD(1) [OF assms(1), of x v i] assms(2) by auto
  show ?thesis
    unfolding index_ok_def member_push slot_push count_push
    using index_okD [OF assms(1)] new by (auto simp: less_Suc_eq)
qed

lemma removal_facts:
  assumes "index_ok s" and "member s x v = Some i"
  obtains n l where "count s x = Suc n" and "slot s x n = Some l" and "i \<le> n"
    and "slot s x i = Some v"
proof -
  have i: "i < count s x" "slot s x i = Some v" using index_okD(1) [OF assms(1)] assms(2) by auto
  then obtain n where n: "count s x = Suc n" by (cases "count s x") auto
  then obtain l where "slot s x n = Some l" using index_okD(2) [OF assms(1), of n x] by auto
  then show thesis using that n i by auto
qed

lemma index_ok_remove:
  assumes ok: "index_ok s" and v: "member s x v \<noteq> None"
  shows "index_ok (remove x v s)"
proof -
  obtain i where i: "member s x v = Some i" using v by auto
  obtain n l where n: "count s x = Suc n" "slot s x n = Some l" "i \<le> n" "slot s x i = Some v"
    by (rule removal_facts [OF ok i])
  note member' = member_remove [OF i n(1-3)] and slot' = slot_remove [OF i n(1-3)]
    and count' = count_remove [OF i n(1)]
  have inj: "a = b" if "a \<le> n" "b \<le> n" "slot s x a = Some w" "slot s x b = Some w" for a b w
    using index_ok_slot_inj [OF ok, of a x b w] that n(1) by auto
  have mem: "member s x w = Some a \<longleftrightarrow> a \<le> n \<and> slot s x a = Some w" for w a
    using index_okD(1) [OF ok, of x w a] n(1) by auto
  show ?thesis
    unfolding index_ok_def
  proof (intro conjI allI impI)
    fix y w j
    show "member (remove x v s) y w = Some j \<longleftrightarrow>
            j < count (remove x v s) y \<and> slot (remove x v s) y j = Some w"
    proof (cases "y = x")
      case False
      then show ?thesis using index_okD(1) [OF ok, of y w j] by (simp add: member' slot' count')
    next
      case True
      have "member (remove x v s) x w = Some j \<longleftrightarrow> j < n \<and> slot (remove x v s) x j = Some w"
      proof (cases "i < n")
        case True
        have l: "l \<noteq> v" using inj [of i n v] True n by auto
        have jl: "j < n \<Longrightarrow> slot s x j \<noteq> Some l" using inj [of n j l] n(2) by fastforce
        have jv: "j \<noteq> i \<Longrightarrow> j < n \<Longrightarrow> slot s x j \<noteq> Some v"
          using inj [of i j v] n(3,4) by fastforce
        consider "w = l" | "w = v" | "w \<noteq> l" "w \<noteq> v" by blast
        then show ?thesis
        proof cases
          case 1
          then show ?thesis using True l jl by (auto simp: member' slot')
        next
          case 2
          then show ?thesis using True l jv by (auto simp: member' slot')
        next
          case 3
          then show ?thesis using True n(2,4) mem [of w j] by (auto simp: member' slot' le_less)
        qed
      next
        case False
        then have "i = n" using n(3) by simp
        moreover have "j < n \<Longrightarrow> slot s x j \<noteq> Some v"
          using inj [of i j v] n(3,4) \<open>i = n\<close> by fastforce
        ultimately show ?thesis using n(2,4) mem [of w j] by (auto simp: member' slot' le_less)
      qed
      then show ?thesis using \<open>y = x\<close> n(1) by (simp add: count')
    qed
  next
    fix y j
    assume "j < count (remove x v s) y"
    then show "slot (remove x v s) y j \<noteq> None"
      using index_okD(2) [OF ok, of j y] n by (auto simp: slot' count' split: if_splits)
  qed
qed

lemma member_remove_iff:
  assumes ok: "index_ok s" and v: "member s x v \<noteq> None"
  shows "member (remove x v s) y w \<noteq> None \<longleftrightarrow> member s y w \<noteq> None \<and> \<not> (y = x \<and> w = v)"
proof -
  obtain i where i: "member s x v = Some i" using v by auto
  obtain n l where n: "count s x = Suc n" "slot s x n = Some l" "i \<le> n" "slot s x i = Some v"
    by (rule removal_facts [OF ok i])
  have "member s x l = Some n" using index_okD(1) [OF ok] n by simp
  moreover have "i < n \<Longrightarrow> l \<noteq> v" using calculation i by auto
  ultimately show ?thesis by (auto simp: member_remove [OF i n(1-3)])
qed

lemma set_items:
  assumes "index_ok s"
  shows "set (items s x) = {v. member s x v \<noteq> None}"
proof -
  have "(\<exists>i < count s x. slot s x i = Some v) \<longleftrightarrow> member s x v \<noteq> None" for v
    by (metis index_okD(1) [OF assms] not_None_eq)
  then show ?thesis by (simp add: items_def set_idx_list)
qed

lemma items_eq_map:
  assumes "index_ok s"
  shows "items s x = map (\<lambda>i. the (slot s x i)) [0..<count s x]"
proof -
  have "i < count s x \<Longrightarrow> slot s x i = Some (the (slot s x i))" for i
    using index_okD(2) [OF assms, of i x] by auto
  then show ?thesis unfolding items_def by (rule idx_list_total)
qed

lemma length_items: "index_ok s \<Longrightarrow> length (items s x) = count s x"
  by (simp add: items_eq_map)

lemma distinct_items:
  assumes "index_ok s"
  shows "distinct (items s x)"
proof -
  have "inj_on (\<lambda>i. the (slot s x i)) {0..<count s x}"
  proof (rule inj_onI)
    fix i j
    assume ij: "i \<in> {0..<count s x}" "j \<in> {0..<count s x}"
      and eq: "the (slot s x i) = the (slot s x j)"
    obtain v w where "slot s x i = Some v" "slot s x j = Some w"
      using index_okD(2) [OF assms] ij by (meson atLeastLessThan_iff)
    then show "i = j" using index_ok_slot_inj [OF assms, of i x j v] ij eq by simp
  qed
  then show ?thesis by (simp add: items_eq_map [OF assms] distinct_map)
qed

end

end
