(* ===== verification/Ticket_State.thy ===== *)
theory Ticket_State
  imports Soroban Indexed_Storage
begin

text \<open>
  The ticket contract's data: \<^verbatim>\<open>types.rs\<close>, \<^verbatim>\<open>errors.rs\<close>, the events of \<^verbatim>\<open>events.rs\<close> and the
  storage of \<^verbatim>\<open>storage.rs\<close>.  The persistent storage is a record with one field per constructor of
  \<^verbatim>\<open>DataKey\<close> (a map where the key carries data, an option where it does not) and the log of
  emitted events.  Two interpretations tie the storage operations to the indexed-list interfaces.
\<close>

section \<open>Types and errors\<close>

datatype ticket_status = Valid | Used | TicketCancelled

record ticket =
  t_ticket_id :: nat
  t_event_id :: symbol
  t_organizer :: address
  t_owner :: address
  t_issued_at :: nat
  t_status :: ticket_status
  t_is_transferable :: bool
  t_is_used :: bool

datatype ticket_error =
    T_TicketNotFound | T_TicketAlreadyExists | T_InvalidStatusTransition | T_Unauthorized
  | T_InvalidInput | T_TicketNotActive | T_InvalidTicketDate | T_InvalidTicketCount
  | T_InvalidPrice | T_TicketNotUpdatable | T_TicketNotTransferable | T_TransferToSelf
  | T_TicketAlreadyUsed | T_EventNotActive | T_MigrationFailed | T_UnsupportedVersion
  | T_RecoveryKeyNotFound | T_InvalidRecoverySignature | T_TicketNotUsed

fun ticket_error_code :: "ticket_error \<Rightarrow> nat" where
  "ticket_error_code T_TicketNotFound = 1"
| "ticket_error_code T_TicketAlreadyExists = 2"
| "ticket_error_code T_InvalidStatusTransition = 23"
| "ticket_error_code T_Unauthorized = 11"
| "ticket_error_code T_InvalidInput = 21"
| "ticket_error_code T_TicketNotActive = 41"
| "ticket_error_code T_InvalidTicketDate = 400"
| "ticket_error_code T_InvalidTicketCount = 401"
| "ticket_error_code T_InvalidPrice = 22"
| "ticket_error_code T_TicketNotUpdatable = 402"
| "ticket_error_code T_TicketNotTransferable = 403"
| "ticket_error_code T_TransferToSelf = 404"
| "ticket_error_code T_TicketAlreadyUsed = 43"
| "ticket_error_code T_EventNotActive = 42"
| "ticket_error_code T_MigrationFailed = 121"
| "ticket_error_code T_UnsupportedVersion = 122"
| "ticket_error_code T_RecoveryKeyNotFound = 3"
| "ticket_error_code T_InvalidRecoverySignature = 24"
| "ticket_error_code T_TicketNotUsed = 405"

section \<open>Events\<close>

text \<open>The last field of each event is the ledger time of the emission.\<close>

datatype ticket_event =
    TicketTransferred nat symbol address address nat
  | TicketUsed nat symbol address nat
  | TicketMinted nat symbol address address nat
  | TicketWasCancelled nat symbol address nat
  | TicketRecoveryKeySet nat address nat
  | TicketRecovered nat address address nat
  | AttendanceCredentialIssued nat symbol address bytes32 nat

section \<open>Storage\<close>

record ticket_state =
  tk_Ticket :: "nat \<Rightarrow> ticket option"
  tk_OwnerTicket :: "address \<times> nat \<Rightarrow> nat option"
  tk_EventTicket :: "symbol \<times> nat \<Rightarrow> bool option"
  tk_NextTicketId :: "nat option"
  tk_ContractVersion :: "nat option"
  tk_Admin :: "address option"
  tk_RecoveryKey :: "nat \<Rightarrow> bytes32 option"
  tk_PaymentsContract :: "address option"
  tk_EventContract :: "address option"
  tk_OwnerTicketIndex :: "address \<times> nat \<Rightarrow> nat option"
  tk_OwnerTicketsCount :: "address \<Rightarrow> nat option"
  tk_EventTicketIndex :: "symbol \<times> nat \<Rightarrow> nat option"
  tk_EventTicketsCount :: "symbol \<Rightarrow> nat option"
  tk_AttendanceCredential :: "nat \<Rightarrow> bytes32 option"
  tk_emitted :: "ticket_event list"

type_synonym 'a ticket_call = "(ticket_state, ticket_error, 'a) call"

definition empty_ticket_state :: ticket_state where
  "empty_ticket_state =
     \<lparr>tk_Ticket = Map.empty, tk_OwnerTicket = Map.empty, tk_EventTicket = Map.empty,
      tk_NextTicketId = None, tk_ContractVersion = None, tk_Admin = None,
      tk_RecoveryKey = Map.empty, tk_PaymentsContract = None, tk_EventContract = None,
      tk_OwnerTicketIndex = Map.empty, tk_OwnerTicketsCount = Map.empty,
      tk_EventTicketIndex = Map.empty, tk_EventTicketsCount = Map.empty,
      tk_AttendanceCredential = Map.empty, tk_emitted = []\<rparr>"

definition emit_tk :: "ticket_event \<Rightarrow> unit ticket_call" where
  "emit_tk e = modify (\<lambda>s. s\<lparr>tk_emitted := tk_emitted s @ [e]\<rparr>)"

definition get_ticket_tk :: "nat \<Rightarrow> ticket ticket_call" where
  "get_ticket_tk ticket_id =
     bindE (gets tk_Ticket) (\<lambda>m. ok_or (m ticket_id) T_TicketNotFound)"

definition update_ticket :: "ticket \<Rightarrow> unit ticket_call" where
  "update_ticket ticket =
     modify (\<lambda>s. s\<lparr>tk_Ticket := (tk_Ticket s)(t_ticket_id ticket \<mapsto> ticket)\<rparr>)"

definition get_owner_tickets_count_tk :: "ticket_state \<Rightarrow> address \<Rightarrow> nat" where
  "get_owner_tickets_count_tk s owner =
     (case tk_OwnerTicketsCount s owner of None \<Rightarrow> 0 | Some n \<Rightarrow> n)"

definition get_event_tickets_count :: "ticket_state \<Rightarrow> symbol \<Rightarrow> nat" where
  "get_event_tickets_count s event_id =
     (case tk_EventTicketsCount s event_id of None \<Rightarrow> 0 | Some n \<Rightarrow> n)"

text \<open>The three writes of \<^verbatim>\<open>add_owner_ticket\<close>, and the operation with its checked increment.\<close>

definition put_owner_ticket :: "address \<Rightarrow> nat \<Rightarrow> ticket_state \<Rightarrow> ticket_state" where
  "put_owner_ticket owner ticket_id s =
     (let count = get_owner_tickets_count_tk s owner in
      s\<lparr>tk_OwnerTicket := (tk_OwnerTicket s)((owner, ticket_id) \<mapsto> count),
        tk_OwnerTicketIndex := (tk_OwnerTicketIndex s)((owner, count) \<mapsto> ticket_id),
        tk_OwnerTicketsCount := (tk_OwnerTicketsCount s)(owner \<mapsto> count + 1)\<rparr>)"

definition add_owner_ticket :: "address \<Rightarrow> nat \<Rightarrow> unit ticket_call" where
  "add_owner_ticket owner ticket_id =
     bindE (gets (\<lambda>s. get_owner_tickets_count_tk s owner)) (\<lambda>count.
     thenE (u64 (count + 1)) (modify (put_owner_ticket owner ticket_id)))"

definition has_owner_ticket :: "ticket_state \<Rightarrow> address \<Rightarrow> nat \<Rightarrow> bool" where
  "has_owner_ticket s owner ticket_id = (tk_OwnerTicket s (owner, ticket_id) \<noteq> None)"

definition remove_owner_ticket :: "address \<Rightarrow> nat \<Rightarrow> ticket_state \<Rightarrow> ticket_state" where
  "remove_owner_ticket owner ticket_id s =
     (let stored_index = tk_OwnerTicket s (owner, ticket_id);
          s = s\<lparr>tk_OwnerTicket := (tk_OwnerTicket s)((owner, ticket_id) := None)\<rparr>
      in case stored_index of
           None \<Rightarrow> s
         | Some idx \<Rightarrow>
             let count = get_owner_tickets_count_tk s owner in
             if count = 0 then
               s\<lparr>tk_OwnerTicketIndex := (tk_OwnerTicketIndex s)((owner, idx) := None)\<rparr>
             else
               let last_idx = count - 1;
                   s = (if idx < last_idx then
                          (case tk_OwnerTicketIndex s (owner, last_idx) of
                             None \<Rightarrow> s
                           | Some last_ticket_id \<Rightarrow>
                               s\<lparr>tk_OwnerTicketIndex :=
                                    (tk_OwnerTicketIndex s)((owner, idx) \<mapsto> last_ticket_id),
                                 tk_OwnerTicket :=
                                    (tk_OwnerTicket s)((owner, last_ticket_id) \<mapsto> idx)\<rparr>)
                        else s)
               in s\<lparr>tk_OwnerTicketIndex :=
                       (tk_OwnerTicketIndex s)((owner, last_idx) := None),
                    tk_OwnerTicketsCount := (tk_OwnerTicketsCount s)(owner \<mapsto> last_idx)\<rparr>)"

definition put_event_ticket :: "symbol \<Rightarrow> nat \<Rightarrow> ticket_state \<Rightarrow> ticket_state" where
  "put_event_ticket event_id ticket_id s =
     (let count = get_event_tickets_count s event_id in
      s\<lparr>tk_EventTicket := (tk_EventTicket s)((event_id, ticket_id) \<mapsto> True),
        tk_EventTicketIndex := (tk_EventTicketIndex s)((event_id, count) \<mapsto> ticket_id),
        tk_EventTicketsCount := (tk_EventTicketsCount s)(event_id \<mapsto> count + 1)\<rparr>)"

definition add_event_ticket :: "symbol \<Rightarrow> nat \<Rightarrow> unit ticket_call" where
  "add_event_ticket event_id ticket_id =
     bindE (gets (\<lambda>s. get_event_tickets_count s event_id)) (\<lambda>count.
     thenE (u64 (count + 1)) (modify (put_event_ticket event_id ticket_id)))"

definition has_event_ticket :: "ticket_state \<Rightarrow> symbol \<Rightarrow> nat \<Rightarrow> bool" where
  "has_event_ticket s event_id ticket_id = (tk_EventTicket s (event_id, ticket_id) \<noteq> None)"

definition get_tickets_by_owner :: "ticket_state \<Rightarrow> address \<Rightarrow> nat list" where
  "get_tickets_by_owner s owner =
     idx_list (\<lambda>i. tk_OwnerTicketIndex s (owner, i)) (get_owner_tickets_count_tk s owner)"

definition get_tickets_by_event :: "ticket_state \<Rightarrow> symbol \<Rightarrow> nat list" where
  "get_tickets_by_event s event_id =
     idx_list (\<lambda>i. tk_EventTicketIndex s (event_id, i)) (get_event_tickets_count s event_id)"

definition get_contract_version_tk :: "ticket_state \<Rightarrow> nat" where
  "get_contract_version_tk s = (case tk_ContractVersion s of None \<Rightarrow> 1 | Some v \<Rightarrow> v)"

definition set_contract_version_tk :: "nat \<Rightarrow> unit ticket_call" where
  "set_contract_version_tk version = modify (\<lambda>s. s\<lparr>tk_ContractVersion := Some version\<rparr>)"

definition verify_version_tk :: "unit ticket_call" where
  "verify_version_tk = bindE (gets get_contract_version_tk) (\<lambda>v. ensure (v \<le> 1) T_UnsupportedVersion)"

definition put_recovery_key :: "nat \<Rightarrow> bytes32 \<Rightarrow> unit ticket_call" where
  "put_recovery_key ticket_id public_key =
     modify (\<lambda>s. s\<lparr>tk_RecoveryKey := (tk_RecoveryKey s)(ticket_id \<mapsto> public_key)\<rparr>)"

definition remove_recovery_key :: "nat \<Rightarrow> unit ticket_call" where
  "remove_recovery_key ticket_id =
     modify (\<lambda>s. s\<lparr>tk_RecoveryKey := (tk_RecoveryKey s)(ticket_id := None)\<rparr>)"

definition put_attendance_credential :: "nat \<Rightarrow> bytes32 \<Rightarrow> unit ticket_call" where
  "put_attendance_credential ticket_id hash =
     modify (\<lambda>s. s\<lparr>tk_AttendanceCredential :=
                     (tk_AttendanceCredential s)(ticket_id \<mapsto> hash)\<rparr>)"

definition get_admin_tk :: "address ticket_call" where
  "get_admin_tk = bindE (gets tk_Admin) (\<lambda>a. ok_or a T_Unauthorized)"

definition get_payments_contract_tk :: "address ticket_call" where
  "get_payments_contract_tk = bindE (gets tk_PaymentsContract) (\<lambda>a. ok_or a T_Unauthorized)"

definition put_payments_contract :: "address \<Rightarrow> unit ticket_call" where
  "put_payments_contract a = modify (\<lambda>s. s\<lparr>tk_PaymentsContract := Some a\<rparr>)"

definition put_event_contract :: "address \<Rightarrow> unit ticket_call" where
  "put_event_contract a = modify (\<lambda>s. s\<lparr>tk_EventContract := Some a\<rparr>)"

definition put_admin :: "address \<Rightarrow> unit ticket_call" where
  "put_admin a = modify (\<lambda>s. s\<lparr>tk_Admin := Some a\<rparr>)"

section \<open>The indexed lists\<close>

interpretation event_tickets: append_log
  "\<lambda>s e i. tk_EventTicketIndex s (e, i)" get_event_tickets_count put_event_ticket
  by unfold_locales (auto simp: put_event_ticket_def get_event_tickets_count_def Let_def)

interpretation owner_tickets: swap_index
  "\<lambda>s o' i. tk_OwnerTicketIndex s (o', i)" get_owner_tickets_count_tk put_owner_ticket
  "\<lambda>s o' k. tk_OwnerTicket s (o', k)" remove_owner_ticket
  by unfold_locales
    (auto simp: put_owner_ticket_def remove_owner_ticket_def get_owner_tickets_count_tk_def
      Let_def split: option.splits)

lemma get_tickets_by_owner_items: "get_tickets_by_owner s a = owner_tickets.items s a"
  by (simp add: get_tickets_by_owner_def owner_tickets.items_def)

lemma get_tickets_by_event_items: "get_tickets_by_event s e = event_tickets.items s e"
  by (simp add: get_tickets_by_event_def event_tickets.items_def)

end
