(* ===== verification/Ticket_Contract.thy ===== *)
theory Ticket_Contract
  imports Ticket_State
begin

text \<open>
  The entry points of the ticket contract (\<^verbatim>\<open>lib.rs\<close>), each with the guards, writes and emitted
  events of the source in their order, and the step relation whose rules are the entry points.
  Only \<^verbatim>\<open>get_*\<close> functions and \<^verbatim>\<open>contract_version\<close> are read-only.
\<close>

section \<open>Minting\<close>

definition read_next_ticket_id :: "nat ticket_call" where
  "read_next_ticket_id =
     gets (\<lambda>s. case tk_NextTicketId s of None \<Rightarrow> 1 | Some i \<Rightarrow> i)"

definition write_next_ticket_id :: "nat \<Rightarrow> unit ticket_call" where
  "write_next_ticket_id next_id = modify (\<lambda>s. s\<lparr>tk_NextTicketId := Some next_id\<rparr>)"

text \<open>
  Who must authorize a mint: the event contract when it is configured, else the payments
  contract when it is configured, else the organizer.
\<close>

definition mint_authority :: "ticket_state \<Rightarrow> address \<Rightarrow> address" where
  "mint_authority s organizer =
     (case tk_EventContract s of
        Some event_contract \<Rightarrow> event_contract
      | None \<Rightarrow> (case tk_PaymentsContract s of
                  Some payments_contract \<Rightarrow> payments_contract
                | None \<Rightarrow> organizer))"

definition new_ticket :: "'w env \<Rightarrow> nat \<Rightarrow> symbol \<Rightarrow> address \<Rightarrow> address \<Rightarrow> ticket" where
  "new_ticket env tid event_id organizer owner =
     \<lparr>t_ticket_id = tid, t_event_id = event_id, t_organizer = organizer, t_owner = owner,
      t_issued_at = ledger_timestamp env, t_status = Valid, t_is_transferable = True,
      t_is_used = False\<rparr>"

definition mint_ticket ::
    "'w env \<Rightarrow> symbol \<Rightarrow> address \<Rightarrow> address \<Rightarrow> nat ticket_call" where
  "mint_ticket env event_id organizer owner =
     bindE (gets (\<lambda>s. mint_authority s organizer)) (\<lambda>authority.
     thenE (require_auth env authority) (
     bindE read_next_ticket_id (\<lambda>ticket_id.
     thenE (update_ticket (new_ticket env ticket_id event_id organizer owner)) (
     thenE (add_owner_ticket owner ticket_id) (
     thenE (add_event_ticket event_id ticket_id) (
     bindE (u64 (ticket_id + 1)) (\<lambda>next_id.
     thenE (write_next_ticket_id next_id) (
     thenE (emit_tk (TicketMinted ticket_id event_id owner organizer (ledger_timestamp env))) (
     return ticket_id)))))))))"

fun batch_mint_loop ::
    "'w env \<Rightarrow> symbol \<Rightarrow> address \<Rightarrow> address \<Rightarrow> nat \<Rightarrow> nat \<Rightarrow> nat list \<Rightarrow>
     (nat list \<times> nat) ticket_call" where
  "batch_mint_loop env event_id organizer owner 0 next_id ticket_ids =
     return (ticket_ids, next_id)"
| "batch_mint_loop env event_id organizer owner (Suc n) next_id ticket_ids =
     thenE (update_ticket (new_ticket env next_id event_id organizer owner)) (
     thenE (add_owner_ticket owner next_id) (
     thenE (add_event_ticket event_id next_id) (
     thenE (emit_tk (TicketMinted next_id event_id owner organizer (ledger_timestamp env))) (
     bindE (u64 (next_id + 1)) (\<lambda>next_id'.
     batch_mint_loop env event_id organizer owner n next_id' (ticket_ids @ [next_id]))))))"

definition batch_mint_ticket ::
    "'w env \<Rightarrow> symbol \<Rightarrow> address \<Rightarrow> address \<Rightarrow> nat \<Rightarrow> nat list ticket_call" where
  "batch_mint_ticket env event_id organizer owner count =
     thenE (ensure (\<not> (count = 0 \<or> count > 100)) T_InvalidInput) (
     bindE (gets (\<lambda>s. mint_authority s organizer)) (\<lambda>authority.
     thenE (require_auth env authority) (
     bindE read_next_ticket_id (\<lambda>next_id.
     bindE (batch_mint_loop env event_id organizer owner count next_id []) (\<lambda>(ticket_ids, next_id').
     thenE (write_next_ticket_id next_id') (
     return ticket_ids))))))"

section \<open>Changing the owner\<close>

definition transfer_ticket ::
    "'w env \<Rightarrow> address \<Rightarrow> address \<Rightarrow> nat \<Rightarrow> unit ticket_call" where
  "transfer_ticket env from_addr to_addr ticket_id =
     thenE (require_auth env from_addr) (
     thenE (ensure (from_addr \<noteq> to_addr) T_TransferToSelf) (
     bindE (get_ticket_tk ticket_id) (\<lambda>ticket.
     thenE (ensure (t_owner ticket = from_addr) T_Unauthorized) (
     thenE (ensure (t_is_transferable ticket) T_TicketNotTransferable) (
     thenE (ensure (\<not> t_is_used ticket) T_TicketNotTransferable) (
     thenE (ensure (t_status ticket = Valid) T_TicketNotTransferable) (
     thenE (modify (\<lambda>s. s\<lparr>tk_Ticket :=
              (tk_Ticket s)(ticket_id \<mapsto> ticket\<lparr>t_owner := to_addr\<rparr>)\<rparr>)) (
     thenE (modify (remove_owner_ticket from_addr ticket_id)) (
     thenE (add_owner_ticket to_addr ticket_id) (
     emit_tk (TicketTransferred ticket_id (t_event_id ticket) from_addr to_addr
       (ledger_timestamp env))))))))))))"

definition admin_transfer_ticket ::
    "'w env \<Rightarrow> address \<Rightarrow> address \<Rightarrow> address \<Rightarrow> nat \<Rightarrow> unit ticket_call" where
  "admin_transfer_ticket env admin from_addr to_addr ticket_id =
     thenE (require_auth env admin) (
     bindE get_payments_contract_tk (\<lambda>payments_contract.
     thenE (ensure (admin = payments_contract) T_Unauthorized) (
     bindE (get_ticket_tk ticket_id) (\<lambda>ticket.
     thenE (ensure (t_owner ticket = from_addr) T_Unauthorized) (
     thenE (ensure (t_is_transferable ticket \<and> \<not> t_is_used ticket \<and> t_status ticket = Valid)
              T_TicketNotTransferable) (
     thenE (update_ticket (ticket\<lparr>t_owner := to_addr\<rparr>)) (
     thenE (modify (remove_owner_ticket from_addr ticket_id)) (
     thenE (add_owner_ticket to_addr ticket_id) (
     emit_tk (TicketTransferred ticket_id (t_event_id ticket) from_addr to_addr
       (ledger_timestamp env)))))))))))"

definition set_recovery_key ::
    "'w env \<Rightarrow> address \<Rightarrow> nat \<Rightarrow> bytes32 \<Rightarrow> unit ticket_call" where
  "set_recovery_key env owner ticket_id public_key =
     thenE (require_auth env owner) (
     bindE (get_ticket_tk ticket_id) (\<lambda>ticket.
     thenE (ensure (t_owner ticket = owner) T_Unauthorized) (
     thenE (ensure (\<not> (t_is_used ticket \<or> t_status ticket \<noteq> Valid)) T_TicketNotTransferable) (
     thenE (put_recovery_key ticket_id public_key) (
     emit_tk (TicketRecoveryKeySet ticket_id owner (ledger_timestamp env)))))))"

text \<open>The host traps when the Ed25519 signature of the new owner's encoding does not verify.\<close>

definition recover_ticket ::
    "'w env \<Rightarrow> nat \<Rightarrow> address \<Rightarrow> bytes \<Rightarrow> unit ticket_call" where
  "recover_ticket env ticket_id new_owner signature =
     bindE (get_ticket_tk ticket_id) (\<lambda>ticket.
     thenE (ensure (\<not> (t_is_used ticket \<or> t_status ticket \<noteq> Valid)) T_TicketNotTransferable) (
     bindE (gets tk_RecoveryKey) (\<lambda>keys.
     bindE (ok_or (keys ticket_id) T_RecoveryKeyNotFound) (\<lambda>public_key.
     thenE (host_check (ed25519_verify env public_key (to_xdr env (VAddress new_owner)) signature)) (
     let old_owner = t_owner ticket in
     thenE (update_ticket (ticket\<lparr>t_owner := new_owner\<rparr>)) (
     thenE (modify (remove_owner_ticket old_owner ticket_id)) (
     thenE (add_owner_ticket new_owner ticket_id) (
     thenE (remove_recovery_key ticket_id) (
     emit_tk (TicketRecovered ticket_id old_owner new_owner (ledger_timestamp env)))))))))))"

section \<open>Use and cancellation\<close>

definition use_ticket :: "'w env \<Rightarrow> address \<Rightarrow> address \<Rightarrow> nat \<Rightarrow> unit ticket_call" where
  "use_ticket env organizer owner ticket_id =
     thenE (require_auth env organizer) (
     thenE (require_auth env owner) (
     bindE (get_ticket_tk ticket_id) (\<lambda>ticket.
     thenE (ensure (t_organizer ticket = organizer) T_Unauthorized) (
     thenE (ensure (t_owner ticket = owner) T_Unauthorized) (
     thenE (ensure (\<not> t_is_used ticket) T_TicketAlreadyUsed) (
     thenE (case t_status ticket of
              Valid \<Rightarrow> return ()
            | TicketCancelled \<Rightarrow> throw T_EventNotActive
            | Used \<Rightarrow> throw T_TicketAlreadyUsed) (
     thenE (modify (\<lambda>s. s\<lparr>tk_Ticket := (tk_Ticket s)
              (ticket_id \<mapsto> ticket\<lparr>t_is_used := True, t_status := Used\<rparr>)\<rparr>)) (
     let hash = sha256 env (to_xdr env (VTuple [VSymbol (t_event_id ticket), VU64 ticket_id,
                  VAddress (t_owner ticket)])) in
     thenE (put_attendance_credential ticket_id hash) (
     thenE (emit_tk (TicketUsed ticket_id (t_event_id ticket) (t_owner ticket)
              (ledger_timestamp env))) (
     emit_tk (AttendanceCredentialIssued ticket_id (t_event_id ticket) (t_owner ticket) hash
       (ledger_timestamp env))))))))))))"

definition get_attendance_credential :: "nat \<Rightarrow> bytes32 ticket_call" where
  "get_attendance_credential ticket_id =
     bindE (get_ticket_tk ticket_id) (\<lambda>ticket.
     thenE (ensure (t_is_used ticket) T_TicketNotUsed) (
     bindE (gets tk_AttendanceCredential) (\<lambda>m. ok_or (m ticket_id) T_TicketNotUsed)))"

definition cancel_ticket :: "'w env \<Rightarrow> nat \<Rightarrow> address \<Rightarrow> unit ticket_call" where
  "cancel_ticket env ticket_id caller =
     thenE (require_auth env caller) (
     bindE (get_ticket_tk ticket_id) (\<lambda>ticket.
     thenE (ensure (caller = t_owner ticket) T_Unauthorized) (
     thenE (ensure (\<not> t_is_used ticket) T_TicketAlreadyUsed) (
     thenE (ensure (t_status ticket = Valid) T_TicketAlreadyUsed) (
     thenE (update_ticket (ticket\<lparr>t_status := TicketCancelled\<rparr>)) (
     emit_tk (TicketWasCancelled ticket_id (t_event_id ticket) (t_owner ticket)
       (ledger_timestamp env))))))))"

section \<open>Configuration and migration\<close>

definition initialize_tk :: "'w env \<Rightarrow> address \<Rightarrow> address \<Rightarrow> unit ticket_call" where
  "initialize_tk env admin payments_contract =
     bindE (gets tk_Admin) (\<lambda>stored.
     thenE (ensure (stored = None) T_Unauthorized) (
     thenE (require_auth env admin) (
     thenE (put_admin admin) (
     put_payments_contract payments_contract))))"

definition set_payments_contract_tk :: "'w env \<Rightarrow> address \<Rightarrow> address \<Rightarrow> unit ticket_call" where
  "set_payments_contract_tk env admin payments_contract =
     thenE (require_auth env admin) (
     bindE get_admin_tk (\<lambda>stored_admin.
     thenE (ensure (admin = stored_admin) T_Unauthorized) (
     put_payments_contract payments_contract)))"

definition set_event_contract_tk :: "'w env \<Rightarrow> address \<Rightarrow> address \<Rightarrow> unit ticket_call" where
  "set_event_contract_tk env admin event_contract =
     thenE (require_auth env admin) (
     bindE get_admin_tk (\<lambda>stored_admin.
     thenE (ensure (admin = stored_admin) T_Unauthorized) (
     put_event_contract event_contract)))"

definition migrate_tk :: "'w env \<Rightarrow> address \<Rightarrow> nat ticket_call" where
  "migrate_tk env caller =
     thenE (require_auth env caller) (
     bindE get_admin_tk (\<lambda>admin.
     thenE (ensure (caller = admin) T_Unauthorized) (
     bindE (gets get_contract_version_tk) (\<lambda>current_version.
     bindE (u32 (current_version + 1)) (\<lambda>new_version.
     thenE (if current_version = 0 then set_contract_version_tk 1
            else if current_version = 1 then set_contract_version_tk 2
            else if current_version = 2 then set_contract_version_tk 3
            else throw T_UnsupportedVersion) (
     return new_version))))))"

section \<open>The contract as a state machine\<close>

inductive ticket_step :: "'w env \<Rightarrow> ticket_state \<Rightarrow> ticket_state \<Rightarrow> bool" for env where
  step_mint: "mint_ticket env e org own s = Inr (i, s') \<Longrightarrow> ticket_step env s s'"
| step_batch_mint: "batch_mint_ticket env e org own n s = Inr (ids, s') \<Longrightarrow> ticket_step env s s'"
| step_transfer: "transfer_ticket env a b i s = Inr (u, s') \<Longrightarrow> ticket_step env s s'"
| step_admin_transfer: "admin_transfer_ticket env c a b i s = Inr (u, s') \<Longrightarrow> ticket_step env s s'"
| step_recovery_key: "set_recovery_key env a i k s = Inr (u, s') \<Longrightarrow> ticket_step env s s'"
| step_recover: "recover_ticket env i a sig s = Inr (u, s') \<Longrightarrow> ticket_step env s s'"
| step_use: "use_ticket env org own i s = Inr (u, s') \<Longrightarrow> ticket_step env s s'"
| step_cancel: "cancel_ticket env i a s = Inr (u, s') \<Longrightarrow> ticket_step env s s'"
| step_initialize: "initialize_tk env a p s = Inr (u, s') \<Longrightarrow> ticket_step env s s'"
| step_set_payments: "set_payments_contract_tk env a p s = Inr (u, s') \<Longrightarrow> ticket_step env s s'"
| step_set_event: "set_event_contract_tk env a p s = Inr (u, s') \<Longrightarrow> ticket_step env s s'"
| step_migrate: "migrate_tk env a s = Inr (v, s') \<Longrightarrow> ticket_step env s s'"

end
