(* ===== verification/State_Machine.thy ===== *)
theory State_Machine
  imports Prelude
begin

text \<open>
  A contract seen from outside is a state machine: an initial storage, and one step per
  invocation that commits.  The locale is the interface between a contract's entry points and
  its global properties: an invariant that holds initially and that every step preserves holds
  in every reachable state, and a relation that every step respects and that composes holds
  between any two states of an execution.
\<close>

inductive reachable :: "('s \<Rightarrow> bool) \<Rightarrow> ('s \<Rightarrow> 's \<Rightarrow> bool) \<Rightarrow> 's \<Rightarrow> bool" for init step where
  reachable_init: "init s \<Longrightarrow> reachable init step s"
| reachable_step: "reachable init step s \<Longrightarrow> step s s' \<Longrightarrow> reachable init step s'"

lemma reachable_rtranclp: "reachable I R s \<Longrightarrow> R\<^sup>*\<^sup>* s s' \<Longrightarrow> reachable I R s'"
  by (erule rtranclp_induct) (auto intro: reachable_step)

text \<open>An execution written as a sequence of calls.\<close>

lemma reachable_thenE:
  assumes "reachable I R s" and "thenE m k s = Inr (x, s')"
    and "\<And>y t. m s = Inr (y, t) \<Longrightarrow> R s t"
    and "\<And>t. reachable I R t \<Longrightarrow> k t = Inr (x, s') \<Longrightarrow> reachable I R s'"
  shows "reachable I R s'"
proof -
  obtain y t where m: "m s = Inr (y, t)" and k: "k t = Inr (x, s')"
    using assms(2) by (auto simp: exec split: sum.splits)
  show ?thesis by (rule assms(4) [OF reachable_step [OF assms(1) assms(3) [OF m]] k])
qed

locale state_machine =
  fixes init :: "'s \<Rightarrow> bool" and step :: "'s \<Rightarrow> 's \<Rightarrow> bool" and inv :: "'s \<Rightarrow> bool"
  assumes init_inv: "init s \<Longrightarrow> inv s"
    and step_inv: "step s s' \<Longrightarrow> inv s \<Longrightarrow> inv s'"
begin

lemma reachable_inv: "reachable init step s \<Longrightarrow> inv s"
  by (induction rule: reachable.induct) (auto intro: init_inv step_inv)

lemma execution_inv:
  assumes "step\<^sup>*\<^sup>* s s'" and "inv s"
  shows "inv s'"
  using assms by (induction rule: rtranclp_induct) (auto intro: step_inv)

text \<open>A preorder that every step from a state with the invariant respects.\<close>

lemma execution_preserves:
  assumes "step\<^sup>*\<^sup>* s s'" and "inv s"
    and step: "\<And>t t'. inv t \<Longrightarrow> step t t' \<Longrightarrow> R t t'"
    and refl: "\<And>t. R t t" and trans: "\<And>t u v. R t u \<Longrightarrow> R u v \<Longrightarrow> R t v"
  shows "R s s'"
  using assms(1)
proof (induction rule: rtranclp_induct)
  case base
  show ?case by (rule refl)
next
  case (step t u)
  then show ?case using execution_inv [OF step.hyps(1) assms(2)] assms(3) trans by blast
qed

end

end
