(* ===== verification/Ticket_Invariant.thy ===== *)
theory Ticket_Invariant
  imports Ticket_Contract State_Machine
begin

text \<open>
  The ticket contract's invariant and its preservation by every entry point.  A stored ticket
  carries its own key and an identifier below the next one, \<^verbatim>\<open>is_used\<close> says the same as the
  status \<^verbatim>\<open>Used\<close>, an attendance credential exists exactly for the used tickets, the owner lists
  hold exactly the tickets whose owner field is that address, and the event lists exactly the
  tickets of the event.
\<close>

section \<open>The invariant\<close>

definition next_ticket_id :: "ticket_state \<Rightarrow> nat" where
  "next_ticket_id s = (case tk_NextTicketId s of None \<Rightarrow> 1 | Some i \<Rightarrow> i)"

definition attendance_hash :: "'w env \<Rightarrow> ticket \<Rightarrow> bytes32" where
  "attendance_hash env ticket =
     sha256 env (to_xdr env (VTuple [VSymbol (t_event_id ticket), VU64 (t_ticket_id ticket),
       VAddress (t_owner ticket)]))"

definition tickets_ok :: "ticket_state \<Rightarrow> bool" where
  "tickets_ok s \<longleftrightarrow>
     (\<forall>k t. tk_Ticket s k = Some t \<longrightarrow>
        t_ticket_id t = k \<and> k < next_ticket_id s \<and> (t_is_used t \<longleftrightarrow> t_status t = Used)) \<and>
     (\<forall>k. tk_AttendanceCredential s k \<noteq> None \<longleftrightarrow>
        (\<exists>t. tk_Ticket s k = Some t \<and> t_status t = Used))"

definition owner_lists_ok :: "ticket_state \<Rightarrow> bool" where
  "owner_lists_ok s \<longleftrightarrow>
     owner_tickets.index_ok s \<and>
     (\<forall>a k. tk_OwnerTicket s (a, k) \<noteq> None \<longleftrightarrow>
        (\<exists>t. tk_Ticket s k = Some t \<and> t_owner t = a))"

definition event_lists_ok :: "ticket_state \<Rightarrow> bool" where
  "event_lists_ok s \<longleftrightarrow>
     (\<forall>e. distinct (get_tickets_by_event s e) \<and>
        set (get_tickets_by_event s e) = {k. \<exists>t. tk_Ticket s k = Some t \<and> t_event_id t = e})"

definition ticket_inv :: "ticket_state \<Rightarrow> bool" where
  "ticket_inv s \<longleftrightarrow> tickets_ok s \<and> owner_lists_ok s \<and> event_lists_ok s"

lemma ticket_inv_fresh: "ticket_inv s \<Longrightarrow> tk_Ticket s (next_ticket_id s) = None"
  unfolding ticket_inv_def tickets_ok_def by (metis not_None_eq less_irrefl)

lemma ticket_inv_owner:
  "ticket_inv s \<Longrightarrow>
   tk_OwnerTicket s (a, k) = None \<longleftrightarrow> (\<forall>t. tk_Ticket s k = Some t \<longrightarrow> t_owner t \<noteq> a)"
  unfolding ticket_inv_def owner_lists_ok_def by blast

section \<open>What an update leaves alone\<close>

lemma index_ok_frame:
  assumes "tk_OwnerTicket t = tk_OwnerTicket s" and "tk_OwnerTicketIndex t = tk_OwnerTicketIndex s"
    and "tk_OwnerTicketsCount t = tk_OwnerTicketsCount s"
  shows "owner_tickets.index_ok t = owner_tickets.index_ok s"
  using assms by (simp add: owner_tickets.index_ok_def get_owner_tickets_count_tk_def)

lemma by_event_frame:
  assumes "tk_EventTicketIndex t = tk_EventTicketIndex s"
    and "tk_EventTicketsCount t = tk_EventTicketsCount s"
  shows "get_tickets_by_event t e = get_tickets_by_event s e"
  using assms by (simp add: get_tickets_by_event_def get_event_tickets_count_def)

lemma put_owner_ticket_frame [simp]:
  "tk_Ticket (put_owner_ticket a k s) = tk_Ticket s"
  "tk_NextTicketId (put_owner_ticket a k s) = tk_NextTicketId s"
  "tk_AttendanceCredential (put_owner_ticket a k s) = tk_AttendanceCredential s"
  "tk_RecoveryKey (put_owner_ticket a k s) = tk_RecoveryKey s"
  "tk_EventTicketIndex (put_owner_ticket a k s) = tk_EventTicketIndex s"
  "tk_EventTicketsCount (put_owner_ticket a k s) = tk_EventTicketsCount s"
  by (simp_all add: put_owner_ticket_def Let_def)

lemma remove_owner_ticket_frame [simp]:
  "tk_Ticket (remove_owner_ticket a k s) = tk_Ticket s"
  "tk_NextTicketId (remove_owner_ticket a k s) = tk_NextTicketId s"
  "tk_AttendanceCredential (remove_owner_ticket a k s) = tk_AttendanceCredential s"
  "tk_RecoveryKey (remove_owner_ticket a k s) = tk_RecoveryKey s"
  "tk_EventTicketIndex (remove_owner_ticket a k s) = tk_EventTicketIndex s"
  "tk_EventTicketsCount (remove_owner_ticket a k s) = tk_EventTicketsCount s"
  by (simp_all add: remove_owner_ticket_def Let_def split: option.split)

lemma put_event_ticket_frame [simp]:
  "tk_Ticket (put_event_ticket e k s) = tk_Ticket s"
  "tk_NextTicketId (put_event_ticket e k s) = tk_NextTicketId s"
  "tk_AttendanceCredential (put_event_ticket e k s) = tk_AttendanceCredential s"
  "tk_RecoveryKey (put_event_ticket e k s) = tk_RecoveryKey s"
  "tk_OwnerTicket (put_event_ticket e k s) = tk_OwnerTicket s"
  "tk_OwnerTicketIndex (put_event_ticket e k s) = tk_OwnerTicketIndex s"
  "tk_OwnerTicketsCount (put_event_ticket e k s) = tk_OwnerTicketsCount s"
  by (simp_all add: put_event_ticket_def Let_def)

text \<open>An update that leaves tickets, credentials, the next identifier and the lists alone.\<close>

lemma ticket_inv_frame:
  assumes "tk_Ticket t = tk_Ticket s" and "tk_AttendanceCredential t = tk_AttendanceCredential s"
    and "tk_NextTicketId t = tk_NextTicketId s"
    and "tk_OwnerTicket t = tk_OwnerTicket s" and "tk_OwnerTicketIndex t = tk_OwnerTicketIndex s"
    and "tk_OwnerTicketsCount t = tk_OwnerTicketsCount s"
    and "tk_EventTicketIndex t = tk_EventTicketIndex s"
    and "tk_EventTicketsCount t = tk_EventTicketsCount s"
  shows "ticket_inv t = ticket_inv s"
  using assms index_ok_frame [of t s] by_event_frame [of t s]
  by (simp add: ticket_inv_def tickets_ok_def owner_lists_ok_def event_lists_ok_def
      next_ticket_id_def)

section \<open>The three kinds of update\<close>

text \<open>A new ticket under the next identifier.\<close>

lemma ticket_inv_new:
  assumes inv: "ticket_inv s" and k: "k = next_ticket_id s"
    and t: "t_ticket_id t = k" "t_is_used t = False" "t_status t = Valid"
    and s': "s' = (put_event_ticket (t_event_id t) k (put_owner_ticket (t_owner t) k
                (s\<lparr>tk_Ticket := (tk_Ticket s)(k \<mapsto> t)\<rparr>)))\<lparr>tk_NextTicketId := Some (Suc k)\<rparr>"
  shows "ticket_inv s'"
proof -
  let ?u = "s\<lparr>tk_Ticket := (tk_Ticket s)(k \<mapsto> t)\<rparr>"
  let ?v = "put_owner_ticket (t_owner t) k ?u"
  have fresh: "tk_Ticket s k = None"
    using ticket_inv_fresh [OF inv] k by simp
  then have nomember: "tk_OwnerTicket s (a, k) = None" for a
    using ticket_inv_owner [OF inv] by simp
  have tickets: "tickets_ok s'"
    using inv t k fresh
    by (fastforce simp: s' ticket_inv_def tickets_ok_def next_ticket_id_def less_Suc_eq)
  have ok: "owner_tickets.index_ok ?u"
    using inv by (simp add: index_ok_frame [of ?u s] ticket_inv_def owner_lists_ok_def)
  then have "owner_tickets.index_ok ?v"
    by (rule owner_tickets.index_ok_push) (simp add: nomember)
  moreover have "owner_tickets.index_ok s' = owner_tickets.index_ok ?v"
    by (rule index_ok_frame) (simp_all add: s')
  ultimately have "owner_tickets.index_ok s'" by simp
  moreover have "tk_OwnerTicket s' (a, j) \<noteq> None \<longleftrightarrow> (\<exists>w. tk_Ticket s' j = Some w \<and> t_owner w = a)"
    for a j
    using inv fresh nomember owner_tickets.member_push [of "t_owner t" k ?u a j]
    by (auto simp: s' ticket_inv_def owner_lists_ok_def)
  ultimately have owners: "owner_lists_ok s'" by (simp add: owner_lists_ok_def)
  have "get_tickets_by_event s' e = get_tickets_by_event s e @ (if e = t_event_id t then [k] else [])"
    for e
  proof -
    have "get_tickets_by_event s' e = get_tickets_by_event (put_event_ticket (t_event_id t) k ?v) e"
      by (rule by_event_frame) (simp_all add: s')
    moreover have "get_tickets_by_event ?v e = get_tickets_by_event s e"
      by (rule by_event_frame) simp_all
    ultimately show ?thesis
      using event_tickets.items_push [of "t_event_id t" k ?v e]
      by (cases "e = t_event_id t") (simp_all add: get_tickets_by_event_items)
  qed
  then have "event_lists_ok s'"
    using inv fresh by (auto simp: ticket_inv_def event_lists_ok_def s')
  with tickets owners show ?thesis by (simp add: ticket_inv_def)
qed

text \<open>A new owner for a stored ticket.\<close>

lemma ticket_inv_reown:
  assumes inv: "ticket_inv s" and k: "tk_Ticket s k = Some t"
    and s': "s' = put_owner_ticket b k (remove_owner_ticket (t_owner t) k
                (s\<lparr>tk_Ticket := (tk_Ticket s)(k \<mapsto> t\<lparr>t_owner := b\<rparr>)\<rparr>))"
  shows "ticket_inv s'"
proof -
  let ?u = "s\<lparr>tk_Ticket := (tk_Ticket s)(k \<mapsto> t\<lparr>t_owner := b\<rparr>)\<rparr>"
  let ?v = "remove_owner_ticket (t_owner t) k ?u"
  have tickets: "tickets_ok s'"
    using inv k by (auto simp: s' ticket_inv_def tickets_ok_def next_ticket_id_def)
  have ok: "owner_tickets.index_ok ?u"
    using inv by (simp add: index_ok_frame [of ?u s] ticket_inv_def owner_lists_ok_def)
  have owner: "tk_OwnerTicket ?u (a, j) \<noteq> None \<longleftrightarrow> (\<exists>w. tk_Ticket s j = Some w \<and> t_owner w = a)"
    for a j using inv by (simp add: ticket_inv_def owner_lists_ok_def)
  have old: "tk_OwnerTicket ?u (t_owner t, k) \<noteq> None" using owner k by blast
  note okv = owner_tickets.index_ok_remove [OF ok old]
  note memv = owner_tickets.member_remove_iff [OF ok old]
  have none: "tk_OwnerTicket ?v (a, k) = None" for a
    using memv [of a k] owner [of a k] k by auto
  have "owner_tickets.index_ok s'"
    unfolding s' by (rule owner_tickets.index_ok_push [OF okv none])
  moreover have "tk_OwnerTicket s' (a, j) \<noteq> None \<longleftrightarrow> (\<exists>w. tk_Ticket s' j = Some w \<and> t_owner w = a)"
    for a j
    using memv [of a j] owner [of a j] k none
      owner_tickets.member_push [of b k ?v a j]
    by (auto simp: s')
  ultimately have owners: "owner_lists_ok s'" by (simp add: owner_lists_ok_def)
  have "get_tickets_by_event s' e = get_tickets_by_event s e" for e
    by (rule by_event_frame) (simp_all add: s')
  then have "event_lists_ok s'"
    using inv k by (auto simp: s' ticket_inv_def event_lists_ok_def)
  with tickets owners show ?thesis by (simp add: ticket_inv_def)
qed

text \<open>A new status for a stored ticket, with its credential when it is used.\<close>

lemma ticket_inv_status:
  assumes inv: "ticket_inv s" and k: "tk_Ticket s k = Some t"
    and t': "t_ticket_id t' = t_ticket_id t" "t_owner t' = t_owner t" "t_event_id t' = t_event_id t"
      "t_is_used t' \<longleftrightarrow> t_status t' = Used"
    and s': "s' = s\<lparr>tk_Ticket := (tk_Ticket s)(k \<mapsto> t'), tk_AttendanceCredential := c\<rparr>"
    and c: "\<And>j. c j \<noteq> None \<longleftrightarrow> (if j = k then t_status t' = Used
              else tk_AttendanceCredential s j \<noteq> None)"
  shows "ticket_inv s'"
proof -
  have "tickets_ok s'"
    using inv k t' c by (auto simp: s' ticket_inv_def tickets_ok_def next_ticket_id_def)
  moreover have "owner_tickets.index_ok s' = owner_tickets.index_ok s"
    by (rule index_ok_frame) (simp_all add: s')
  then have "owner_lists_ok s'"
    using inv k t' by (auto simp: s' ticket_inv_def owner_lists_ok_def)
  moreover have "get_tickets_by_event s' e = get_tickets_by_event s e" for e
    by (rule by_event_frame) (simp_all add: s')
  then have "event_lists_ok s'"
    using inv k t' by (auto simp: s' ticket_inv_def event_lists_ok_def)
  ultimately show ?thesis by (simp add: ticket_inv_def)
qed

section \<open>Every entry point preserves the invariant\<close>

lemmas ticket_storage_defs =
  emit_tk_def get_ticket_tk_def update_ticket_def read_next_ticket_id_def write_next_ticket_id_def
  put_recovery_key_def remove_recovery_key_def put_attendance_credential_def get_admin_tk_def
  get_payments_contract_tk_def put_payments_contract_def put_event_contract_def put_admin_def
  set_contract_version_tk_def

lemma wp_add_owner_ticket [wp_rules]:
  "wp (add_owner_ticket a k) Q s =
     (get_owner_tickets_count_tk s a + 1 \<le> u64_max \<longrightarrow> Q () (put_owner_ticket a k s))"
  by (simp add: add_owner_ticket_def wp_rules)

lemma wp_add_event_ticket [wp_rules]:
  "wp (add_event_ticket e k) Q s =
     (get_event_tickets_count s e + 1 \<le> u64_max \<longrightarrow> Q () (put_event_ticket e k s))"
  by (simp add: add_event_ticket_def wp_rules)

lemma exec_add_owner_ticket [exec]:
  "add_owner_ticket a k s = (if get_owner_tickets_count_tk s a + 1 \<le> u64_max
     then Inr ((), put_owner_ticket a k s) else Inl Trap)"
  by (simp add: add_owner_ticket_def exec)

lemma exec_add_event_ticket [exec]:
  "add_event_ticket e k s = (if get_event_tickets_count s e + 1 \<le> u64_max
     then Inr ((), put_event_ticket e k s) else Inl Trap)"
  by (simp add: add_event_ticket_def exec)

lemma new_ticket_simps [simp]:
  "t_ticket_id (new_ticket env k e org own) = k" "t_event_id (new_ticket env k e org own) = e"
  "t_owner (new_ticket env k e org own) = own" "t_status (new_ticket env k e org own) = Valid"
  "t_is_used (new_ticket env k e org own) = False"
  "t_organizer (new_ticket env k e org own) = org"
  by (simp_all add: new_ticket_def)

lemma ticket_inv_config [simp]:
  "ticket_inv (s\<lparr>tk_emitted := l\<rparr>) = ticket_inv s"
  "ticket_inv (s\<lparr>tk_RecoveryKey := m\<rparr>) = ticket_inv s"
  "ticket_inv (s\<lparr>tk_Admin := a\<rparr>) = ticket_inv s"
  "ticket_inv (s\<lparr>tk_PaymentsContract := p\<rparr>) = ticket_inv s"
  "ticket_inv (s\<lparr>tk_EventContract := c\<rparr>) = ticket_inv s"
  "ticket_inv (s\<lparr>tk_ContractVersion := v\<rparr>) = ticket_inv s"
  by (rule ticket_inv_frame; simp)+

lemma ticket_inv_mint:
  assumes "ticket_inv (s\<lparr>tk_NextTicketId := Some k\<rparr>)"
  shows "ticket_inv ((put_event_ticket e k (put_owner_ticket own k (s\<lparr>tk_Ticket :=
           (tk_Ticket s)(k \<mapsto> new_ticket env k e org own)\<rparr>)))\<lparr>tk_NextTicketId := Some (Suc k)\<rparr>)"
proof (rule ticket_inv_new [OF assms, of k "new_ticket env k e org own"])
qed (simp_all add: next_ticket_id_def put_event_ticket_def put_owner_ticket_def Let_def
      get_event_tickets_count_def get_owner_tickets_count_tk_def)

lemma next_ticket_id_set:
  "ticket_inv (s\<lparr>tk_NextTicketId := Some (case tk_NextTicketId s of None \<Rightarrow> 1 | Some i \<Rightarrow> i)\<rparr>)
     = ticket_inv s"
proof -
  let ?t = "s\<lparr>tk_NextTicketId := Some (case tk_NextTicketId s of None \<Rightarrow> 1 | Some i \<Rightarrow> i)\<rparr>"
  have "owner_tickets.index_ok ?t = owner_tickets.index_ok s" by (rule index_ok_frame) simp_all
  moreover have "get_tickets_by_event ?t e = get_tickets_by_event s e" for e
    by (rule by_event_frame) simp_all
  ultimately show ?thesis
    by (simp add: ticket_inv_def tickets_ok_def owner_lists_ok_def event_lists_ok_def
        next_ticket_id_def)
qed

lemma mint_ticket_inv:
  assumes "ticket_inv s" shows "wp (mint_ticket env e org own) (\<lambda>_. ticket_inv) s"
  using ticket_inv_mint [where s = s and k = "case tk_NextTicketId s of None \<Rightarrow> 1 | Some i \<Rightarrow> i" and e = e and own = own and env = env and org = org] assms
  unfolding next_ticket_id_set by (simp add: mint_ticket_def ticket_storage_defs wp_rules)

lemma batch_mint_loop_inv:
  "ticket_inv (s\<lparr>tk_NextTicketId := Some k\<rparr>) \<Longrightarrow>
   wp (batch_mint_loop env e org own n k ids)
      (\<lambda>(_, k') s'. ticket_inv (s'\<lparr>tk_NextTicketId := Some k'\<rparr>)) s"
proof (induction n arbitrary: k ids s)
  case 0
  then show ?case by (simp add: wp_rules)
next
  case (Suc n)
  have emit: "ticket_inv (t\<lparr>tk_emitted := l, tk_NextTicketId := i\<rparr>) = ticket_inv (t\<lparr>tk_NextTicketId := i\<rparr>)"
    for t l i by (rule ticket_inv_frame) simp_all
  show ?case
    using Suc.IH ticket_inv_mint [OF Suc.prems, where e = e and own = own and env = env and org = org]
    by (simp add: ticket_storage_defs wp_rules emit)
qed

lemma batch_mint_ticket_inv:
  assumes "ticket_inv s" shows "wp (batch_mint_ticket env e org own n) (\<lambda>_. ticket_inv) s"
proof -
  have "wp (batch_mint_loop env e org own n (case tk_NextTicketId s of None \<Rightarrow> 1 | Some i \<Rightarrow> i) [])
      (\<lambda>(_, k') s'. ticket_inv (s'\<lparr>tk_NextTicketId := Some k'\<rparr>)) s"
    by (rule batch_mint_loop_inv) (simp add: next_ticket_id_set assms)
  then show ?thesis
    by (auto simp: batch_mint_ticket_def ticket_storage_defs wp_rules split_def elim!: wp_mono)
qed

lemma transfer_ticket_inv:
  "ticket_inv s \<Longrightarrow> wp (transfer_ticket env a b k) (\<lambda>_. ticket_inv) s"
  using ticket_inv_reown [where s = s and k = k] by (auto simp: transfer_ticket_def ticket_storage_defs wp_rules)

lemma ticket_inv_key: "ticket_inv s \<Longrightarrow> tk_Ticket s k = Some t \<Longrightarrow> t_ticket_id t = k"
  by (auto simp: ticket_inv_def tickets_ok_def)

lemma ticket_inv_used:
  "ticket_inv s \<Longrightarrow> tk_Ticket s k = Some t \<Longrightarrow> t_is_used t \<longleftrightarrow> t_status t = Used"
  by (auto simp: ticket_inv_def tickets_ok_def)

lemma ticket_inv_credential:
  "ticket_inv s \<Longrightarrow> tk_Ticket s k = Some t \<Longrightarrow>
   tk_AttendanceCredential s k \<noteq> None \<longleftrightarrow> t_status t = Used"
  by (auto simp: ticket_inv_def tickets_ok_def)

lemma admin_transfer_ticket_inv:
  "ticket_inv s \<Longrightarrow> wp (admin_transfer_ticket env c a b k) (\<lambda>_. ticket_inv) s"
  using ticket_inv_reown [where s = s and k = k] ticket_inv_key [where s = s and k = k]
  by (auto simp: admin_transfer_ticket_def ticket_storage_defs wp_rules)

lemma set_recovery_key_inv:
  "ticket_inv s \<Longrightarrow> wp (set_recovery_key env a k pk) (\<lambda>_. ticket_inv) s"
  by (simp add: set_recovery_key_def ticket_storage_defs wp_rules)

lemma recover_ticket_inv:
  "ticket_inv s \<Longrightarrow> wp (recover_ticket env k b sig) (\<lambda>_. ticket_inv) s"
  using ticket_inv_reown [where s = s and k = k] ticket_inv_key [where s = s and k = k]
  by (auto simp: recover_ticket_def ticket_storage_defs wp_rules Let_def)

lemma use_ticket_inv:
  assumes "ticket_inv s" shows "wp (use_ticket env org own k) (\<lambda>_. ticket_inv) s"
proof -
  have "ticket_inv (s\<lparr>tk_Ticket := (tk_Ticket s)(k \<mapsto> t\<lparr>t_is_used := True, t_status := Used\<rparr>),
          tk_AttendanceCredential := (tk_AttendanceCredential s)(k \<mapsto> h)\<rparr>)"
    if "tk_Ticket s k = Some t" for t h
    by (rule ticket_inv_status [OF assms that, of "t\<lparr>t_is_used := True, t_status := Used\<rparr>"]) auto
  then show ?thesis
    by (auto simp: use_ticket_def ticket_storage_defs wp_rules Let_def split: ticket_status.split)
qed

lemma cancel_ticket_inv:
  assumes "ticket_inv s" shows "wp (cancel_ticket env k a) (\<lambda>_. ticket_inv) s"
proof -
  have "ticket_inv (s\<lparr>tk_Ticket := (tk_Ticket s)(t_ticket_id t \<mapsto> t\<lparr>t_status := TicketCancelled\<rparr>)\<rparr>)"
    if t: "tk_Ticket s k = Some t" "\<not> t_is_used t" for t
  proof (rule ticket_inv_status [OF assms t(1), of "t\<lparr>t_status := TicketCancelled\<rparr>" _
           "tk_AttendanceCredential s"])
  qed (use t ticket_inv_key [OF assms t(1)] ticket_inv_used [OF assms t(1)]
       ticket_inv_credential [OF assms t(1)] in auto)
  then show ?thesis by (auto simp: cancel_ticket_def ticket_storage_defs wp_rules)
qed

lemma configuration_inv:
  assumes "ticket_inv s"
  shows "wp (initialize_tk env a p) (\<lambda>_. ticket_inv) s"
    and "wp (set_payments_contract_tk env a p) (\<lambda>_. ticket_inv) s"
    and "wp (set_event_contract_tk env a p) (\<lambda>_. ticket_inv) s"
    and "wp (migrate_tk env a) (\<lambda>_. ticket_inv) s"
  using assms
  by (simp_all add: initialize_tk_def set_payments_contract_tk_def set_event_contract_tk_def
      migrate_tk_def ticket_storage_defs wp_rules)

lemmas ticket_op_invs =
  mint_ticket_inv batch_mint_ticket_inv transfer_ticket_inv admin_transfer_ticket_inv
  set_recovery_key_inv recover_ticket_inv use_ticket_inv cancel_ticket_inv configuration_inv

lemma ticket_step_inv: "ticket_step env s s' \<Longrightarrow> ticket_inv s \<Longrightarrow> ticket_inv s'"
  by (induction rule: ticket_step.induct) (auto dest: ticket_op_invs [THEN wpD])

lemma ticket_inv_empty: "ticket_inv empty_ticket_state"
  by (simp add: ticket_inv_def tickets_ok_def owner_lists_ok_def event_lists_ok_def
      owner_tickets.index_ok_def empty_ticket_state_def get_owner_tickets_count_tk_def
      get_tickets_by_event_def get_event_tickets_count_def)

text \<open>Executions in which the invocations run in environments of a set \<open>E\<close>.\<close>

interpretation ticket_machine: state_machine
  "\<lambda>s. s = empty_ticket_state" "\<lambda>s s'. \<exists>env\<in>E. ticket_step env s s'" ticket_inv for E
  by unfold_locales (auto intro: ticket_inv_empty ticket_step_inv)

end
