(* ===== verification/Ticket_Properties.thy ===== *)
theory Ticket_Properties
  imports Ticket_Invariant
begin

text \<open>
  The ticket contract's properties: the life cycle of a ticket over whole executions, the exact
  content of the owner and event lists, what minting and using a ticket do, and what a
  registered recovery key permits.
\<close>

section \<open>The life cycle of a ticket\<close>

definition ticket_evolution :: "ticket \<Rightarrow> ticket \<Rightarrow> bool" where
  "ticket_evolution t t' \<longleftrightarrow>
     t_ticket_id t' = t_ticket_id t \<and> t_event_id t' = t_event_id t \<and>
     t_organizer t' = t_organizer t \<and> t_issued_at t' = t_issued_at t \<and>
     t_is_transferable t' = t_is_transferable t \<and> (t_status t \<noteq> Valid \<longrightarrow> t' = t)"

definition tickets_evolve :: "ticket_state \<Rightarrow> ticket_state \<Rightarrow> bool" where
  "tickets_evolve s s' \<longleftrightarrow>
     (\<forall>k t. tk_Ticket s k = Some t \<longrightarrow>
        (\<exists>t'. tk_Ticket s' k = Some t' \<and> ticket_evolution t t') \<and>
        (t_status t = Used \<longrightarrow> tk_AttendanceCredential s' k = tk_AttendanceCredential s k))"

lemma ticket_evolution_refl [simp]: "ticket_evolution t t"
  by (simp add: ticket_evolution_def)

lemma tickets_evolve_refl [simp]: "tickets_evolve s s"
  by (simp add: tickets_evolve_def)

lemma tickets_evolve_trans:
  assumes "tickets_evolve s t" and "tickets_evolve t u"
  shows "tickets_evolve s u"
  unfolding tickets_evolve_def
proof (intro allI impI)
  fix k x assume x: "tk_Ticket s k = Some x"
  obtain y where y: "tk_Ticket t k = Some y" "ticket_evolution x y"
    and cy: "t_status x = Used \<longrightarrow> tk_AttendanceCredential t k = tk_AttendanceCredential s k"
    using assms(1) x unfolding tickets_evolve_def by blast
  obtain z where "tk_Ticket u k = Some z" "ticket_evolution y z"
    and "t_status y = Used \<longrightarrow> tk_AttendanceCredential u k = tk_AttendanceCredential t k"
    using assms(2) y unfolding tickets_evolve_def by blast
  then show "(\<exists>z. tk_Ticket u k = Some z \<and> ticket_evolution x z) \<and>
      (t_status x = Used \<longrightarrow> tk_AttendanceCredential u k = tk_AttendanceCredential s k)"
    using y cy unfolding ticket_evolution_def by (metis ticket_status.distinct(1))
qed

lemma tickets_evolve_frame:
  "tk_Ticket s' = tk_Ticket s \<Longrightarrow> tk_AttendanceCredential s' = tk_AttendanceCredential s \<Longrightarrow>
   tickets_evolve s s'"
  by (simp add: tickets_evolve_def)

lemma tickets_evolve_update:
  assumes "tk_Ticket s' = (tk_Ticket s)(k \<mapsto> t')"
    and "\<And>j. j \<noteq> k \<Longrightarrow> tk_AttendanceCredential s' j = tk_AttendanceCredential s j"
    and "\<And>t. tk_Ticket s k = Some t \<Longrightarrow> ticket_evolution t t' \<and> t_status t \<noteq> Used"
  shows "tickets_evolve s s'"
  unfolding tickets_evolve_def
proof (intro allI impI)
  fix j t assume j: "tk_Ticket s j = Some t"
  show "(\<exists>t'. tk_Ticket s' j = Some t' \<and> ticket_evolution t t') \<and>
      (t_status t = Used \<longrightarrow> tk_AttendanceCredential s' j = tk_AttendanceCredential s j)"
    using assms(1) assms(2) [of j] assms(3) [of t] j by (cases "j = k") auto
qed

lemma mint_ticket_evolves:
  assumes "ticket_inv s" shows "wp (mint_ticket env e org own) (\<lambda>_. tickets_evolve s) s"
  using ticket_inv_fresh [OF assms]
  by (auto simp: mint_ticket_def ticket_storage_defs wp_rules next_ticket_id_def
      intro!: tickets_evolve_update)

lemma batch_mint_loop_evolves:
  "ticket_inv (s\<lparr>tk_NextTicketId := Some k\<rparr>) \<Longrightarrow>
   wp (batch_mint_loop env e org own n k ids) (\<lambda>_. tickets_evolve s) s"
proof (induction n arbitrary: k ids s)
  case 0
  then show ?case by (simp add: wp_rules)
next
  case (Suc n)
  let ?t = "(put_event_ticket e k (put_owner_ticket own k (s\<lparr>tk_Ticket :=
           (tk_Ticket s)(k \<mapsto> new_ticket env k e org own)\<rparr>)))"
  have emit: "ticket_inv (t\<lparr>tk_emitted := l, tk_NextTicketId := i\<rparr>) = ticket_inv (t\<lparr>tk_NextTicketId := i\<rparr>)"
    for t l i by (rule ticket_inv_frame) simp_all
  have fresh: "tk_Ticket s k = None"
    using ticket_inv_fresh [OF Suc.prems] by (simp add: next_ticket_id_def)
  have step: "tickets_evolve s (?t\<lparr>tk_emitted := l\<rparr>)" for l
    by (rule tickets_evolve_update) (auto simp: fresh)
  have "ticket_inv (?t\<lparr>tk_NextTicketId := Some (Suc k)\<rparr>)" by (rule ticket_inv_mint [OF Suc.prems])
  then have "wp (batch_mint_loop env e org own n (Suc k) ids')
      (\<lambda>_. tickets_evolve s) (?t\<lparr>tk_emitted := l\<rparr>)" for l ids'
    by (intro wp_mono [OF Suc.IH]) (auto simp: emit intro: tickets_evolve_trans [OF step])
  then show ?case by (simp add: ticket_storage_defs wp_rules)
qed

lemma batch_mint_ticket_evolves:
  assumes "ticket_inv s" shows "wp (batch_mint_ticket env e org own n) (\<lambda>_. tickets_evolve s) s"
proof -
  have "wp (batch_mint_loop env e org own n (case tk_NextTicketId s of None \<Rightarrow> 1 | Some i \<Rightarrow> i) [])
      (\<lambda>_. tickets_evolve s) s"
    by (rule batch_mint_loop_evolves) (simp add: next_ticket_id_set assms)
  then show ?thesis
    by (auto simp: batch_mint_ticket_def ticket_storage_defs wp_rules split_def tickets_evolve_def
        elim!: wp_mono)
qed

lemma owner_change_evolves:
  assumes "ticket_inv s"
  shows "wp (transfer_ticket env a b k) (\<lambda>_. tickets_evolve s) s"
    and "wp (admin_transfer_ticket env c a b k) (\<lambda>_. tickets_evolve s) s"
    and "wp (recover_ticket env k b sig) (\<lambda>_. tickets_evolve s) s"
  using ticket_inv_key [OF assms, of k]
  by (auto simp: transfer_ticket_def admin_transfer_ticket_def recover_ticket_def Let_def
      ticket_storage_defs wp_rules ticket_evolution_def intro!: tickets_evolve_update)

lemma status_change_evolves:
  assumes "ticket_inv s"
  shows "wp (use_ticket env org own k) (\<lambda>_. tickets_evolve s) s"
    and "wp (cancel_ticket env k a) (\<lambda>_. tickets_evolve s) s"
  using ticket_inv_key [OF assms, of k]
  by (auto simp: use_ticket_def cancel_ticket_def Let_def ticket_storage_defs wp_rules
      ticket_evolution_def split: ticket_status.split intro!: tickets_evolve_update)

lemma configuration_evolves:
  shows "wp (initialize_tk env a p) (\<lambda>_. tickets_evolve s) s"
    and "wp (set_payments_contract_tk env a p) (\<lambda>_. tickets_evolve s) s"
    and "wp (set_event_contract_tk env a p) (\<lambda>_. tickets_evolve s) s"
    and "wp (set_recovery_key env a k pk) (\<lambda>_. tickets_evolve s) s"
    and "wp (migrate_tk env a) (\<lambda>_. tickets_evolve s) s"
  by (simp_all add: initialize_tk_def set_payments_contract_tk_def set_event_contract_tk_def
      set_recovery_key_def migrate_tk_def ticket_storage_defs wp_rules tickets_evolve_frame)

lemmas ticket_op_evolves =
  mint_ticket_evolves batch_mint_ticket_evolves owner_change_evolves status_change_evolves
  configuration_evolves

lemma ticket_step_evolves: "ticket_step env s s' \<Longrightarrow> ticket_inv s \<Longrightarrow> tickets_evolve s s'"
  by (induction rule: ticket_step.induct) (auto dest: ticket_op_evolves [THEN wpD])

section \<open>Batch minting\<close>

lemma by_owner_frame:
  assumes "tk_OwnerTicketIndex t = tk_OwnerTicketIndex s"
    and "tk_OwnerTicketsCount t = tk_OwnerTicketsCount s"
  shows "get_tickets_by_owner t a = get_tickets_by_owner s a"
  using assms by (simp add: get_tickets_by_owner_def get_owner_tickets_count_tk_def)

lemma by_owner_put:
  "get_tickets_by_owner (put_owner_ticket a k s) b =
     (if b = a then get_tickets_by_owner s a @ [k] else get_tickets_by_owner s b)"
  unfolding get_tickets_by_owner_items by (rule owner_tickets.items_push)

lemma batch_mint_loop_spec:
  "wp (batch_mint_loop env e org own n k ids)
      (\<lambda>(ids', k') s'. ids' = ids @ [k..<k + n] \<and> k' = k + n \<and>
         get_tickets_by_owner s' own = get_tickets_by_owner s own @ [k..<k + n] \<and>
         (\<forall>j. tk_Ticket s' j =
            (if k \<le> j \<and> j < k + n then Some (new_ticket env j e org own) else tk_Ticket s j))) s"
proof (induction n arbitrary: k ids s)
  case 0
  then show ?case by (auto simp: wp_rules)
next
  case (Suc n)
  let ?t = "put_event_ticket e k (put_owner_ticket own k (s\<lparr>tk_Ticket :=
           (tk_Ticket s)(k \<mapsto> new_ticket env k e org own)\<rparr>))"
  let ?u = "s\<lparr>tk_Ticket := (tk_Ticket s)(k \<mapsto> new_ticket env k e org own)\<rparr>"
  have items: "get_tickets_by_owner (?t\<lparr>tk_emitted := l\<rparr>) own = get_tickets_by_owner s own @ [k]" for l
  proof -
    have "get_tickets_by_owner (?t\<lparr>tk_emitted := l\<rparr>) own
        = get_tickets_by_owner (put_owner_ticket own k ?u) own"
      by (rule by_owner_frame) simp_all
    moreover have "get_tickets_by_owner ?u own = get_tickets_by_owner s own"
      by (rule by_owner_frame) simp_all
    ultimately show ?thesis by (simp add: by_owner_put)
  qed
  have upt: "[k..<Suc (k + n)] = k # [Suc k..<Suc (k + n)]" by (rule upt_conv_Cons) simp
  have "wp (batch_mint_loop env e org own n (Suc k) (ids @ [k]))
      (\<lambda>(ids', k') s'. ids' = ids @ [k..<k + Suc n] \<and> k' = k + Suc n \<and>
         get_tickets_by_owner s' own = get_tickets_by_owner s own @ [k..<k + Suc n] \<and>
         (\<forall>j. tk_Ticket s' j = (if k \<le> j \<and> j < k + Suc n
            then Some (new_ticket env j e org own) else tk_Ticket s j))) (?t\<lparr>tk_emitted := l\<rparr>)" for l
    by (rule wp_mono [OF Suc.IH])
      (auto simp: items upt Suc_le_eq le_less simp del: upt_Suc)
  then show ?case by (simp add: ticket_storage_defs wp_rules del: upt_Suc)
qed

section \<open>Sample execution\<close>

text \<open>
  A batch of two tickets for one event; the first gets a recovery key and is transferred, the
  second is used.
\<close>

definition sample_ticket_env :: "ledger env" where
  "sample_ticket_env = sample_env 10 1000 (Addr 100) (\<lambda>_. True)"

abbreviation ticket_execution :: "'w env set \<Rightarrow> ticket_state \<Rightarrow> bool" where
  "ticket_execution E \<equiv>
     reachable (\<lambda>s. s = empty_ticket_state) (\<lambda>s s'. \<exists>env\<in>E. ticket_step env s s')"

definition sample_ticket_run :: "unit ticket_call" where
  "sample_ticket_run =
     thenE (batch_mint_ticket sample_ticket_env ''ev'' (Addr 9) (Addr 1) 2) (
     thenE (set_recovery_key sample_ticket_env (Addr 1) 1 [7]) (
     thenE (transfer_ticket sample_ticket_env (Addr 1) (Addr 2) 1) (
     use_ticket sample_ticket_env (Addr 9) (Addr 1) 2)))"

definition sample_tickets :: ticket_state where
  "sample_tickets = snd (projr (sample_ticket_run empty_ticket_state))"

lemma batch_mint_loop_2:
  "batch_mint_loop env e org own 2 k ids = batch_mint_loop env e org own (Suc (Suc 0)) k ids"
  by (simp add: numeral_2_eq_2)

lemmas sample_ticket_defs =
  sample_tickets_def sample_ticket_run_def sample_ticket_env_def empty_ticket_state_def
  batch_mint_ticket_def set_recovery_key_def transfer_ticket_def use_ticket_def
  mint_authority_def ticket_storage_defs put_owner_ticket_def put_event_ticket_def
  remove_owner_ticket_def get_owner_tickets_count_tk_def get_event_tickets_count_def
  new_ticket_def u64_max_def batch_mint_loop_2 Let_def exec

lemma sample_ticket_run_returns: "sample_ticket_run empty_ticket_state = Inr ((), sample_tickets)"
  by (simp add: sample_ticket_defs)

lemma sample_tickets_reachable: "ticket_execution {sample_ticket_env} sample_tickets"
proof -
  note run = sample_ticket_run_returns [unfolded sample_ticket_run_def]
  show ?thesis
    by (rule reachable_thenE [OF reachable_init run], simp, simp, erule step_batch_mint,
        erule (1) reachable_thenE, simp, erule step_recovery_key,
        erule (1) reachable_thenE, simp, erule step_transfer,
        erule reachable_step, simp, erule step_use)
qed

lemma sample_tickets_values:
  "get_tickets_by_owner sample_tickets (Addr 1) = [2]"
  "get_tickets_by_owner sample_tickets (Addr 2) = [1]"
  "get_tickets_by_event sample_tickets ''ev'' = [1, 2]"
  "tk_Ticket sample_tickets 1 = Some ((new_ticket sample_ticket_env 1 ''ev'' (Addr 9) (Addr 1))
      \<lparr>t_owner := Addr 2\<rparr>)"
  "tk_Ticket sample_tickets 2 = Some ((new_ticket sample_ticket_env 2 ''ev'' (Addr 9) (Addr 1))
      \<lparr>t_is_used := True, t_status := Used\<rparr>)"
  "tk_RecoveryKey sample_tickets 1 = Some [7]"
  "tk_NextTicketId sample_tickets = Some 3"
  "tk_EventContract sample_tickets = None" "tk_PaymentsContract sample_tickets = None"
  "tk_OwnerTicketsCount sample_tickets (Addr 1) = Some 1"
  "tk_OwnerTicketsCount sample_tickets (Addr 2) = Some 1"
  "tk_OwnerTicketsCount sample_tickets (Addr 3) = None"
  "tk_EventTicketsCount sample_tickets ''ev'' = Some 2"
  by (simp_all add: sample_ticket_defs get_tickets_by_owner_def get_tickets_by_event_def)

lemmas sample_tickets_simps =
  sample_tickets_values sample_tickets_values [unfolded One_nat_def]

section \<open>Properties\<close>

text \<open>C19: In every reachable state of the ticket contract the owner list of an address has no
  duplicates and holds exactly the tickets whose owner field is that address, and the list of an
  event holds exactly the tickets of that event.\<close>
theorem ticket_lists_exact:
  assumes "ticket_execution E s"
  shows "distinct (get_tickets_by_owner s a) \<and>
    set (get_tickets_by_owner s a) = {k. \<exists>t. tk_Ticket s k = Some t \<and> t_owner t = a} \<and>
    distinct (get_tickets_by_event s e) \<and>
    set (get_tickets_by_event s e) = {k. \<exists>t. tk_Ticket s k = Some t \<and> t_event_id t = e}"
proof -
  have inv: "ticket_inv s" by (rule ticket_machine.reachable_inv [OF assms])
  then have ok: "owner_tickets.index_ok s"
    and iff: "tk_OwnerTicket s (a, k) \<noteq> None \<longleftrightarrow> (\<exists>t. tk_Ticket s k = Some t \<and> t_owner t = a)" for k
    unfolding ticket_inv_def owner_lists_ok_def by blast+
  show ?thesis
    using inv unfolding get_tickets_by_owner_items owner_tickets.set_items [OF ok] iff
    by (simp add: owner_tickets.distinct_items [OF ok] ticket_inv_def event_lists_ok_def)
qed

theorem ticket_lists_exact_witness:
  "{k. \<exists>t. tk_Ticket sample_tickets k = Some t \<and> t_owner t = Addr 2} = {1} \<and>
   {k. \<exists>t. tk_Ticket sample_tickets k = Some t \<and> t_event_id t = ''ev''} = {1, 2}"
  using ticket_lists_exact [OF sample_tickets_reachable, of "Addr 2" "''ev''"]
  by (simp add: sample_tickets_simps)

text \<open>C18: A ticket never disappears, keeps its event, organizer, issue time and transferability,
  and once it is used or cancelled it never changes again: no invocation revives it, hands it
  over or replaces the attendance credential of a used ticket.\<close>
theorem ticket_life_cycle:
  assumes "ticket_execution E s" and "(\<lambda>s s'. \<exists>env\<in>E. ticket_step env s s')\<^sup>*\<^sup>* s s'"
    and "tk_Ticket s k = Some t"
  shows "\<exists>t'. tk_Ticket s' k = Some t' \<and> t_event_id t' = t_event_id t \<and>
     t_organizer t' = t_organizer t \<and> t_issued_at t' = t_issued_at t \<and>
     t_is_transferable t' = t_is_transferable t \<and> (t_status t \<noteq> Valid \<longrightarrow> t' = t) \<and>
     (t_status t = Used \<longrightarrow> tk_AttendanceCredential s' k = tk_AttendanceCredential s k)"
proof -
  have "tickets_evolve s s'"
    by (rule ticket_machine.execution_preserves [OF assms(2) ticket_machine.reachable_inv [OF assms(1)]])
      (auto intro: ticket_step_evolves tickets_evolve_trans)
  then show ?thesis using assms(3) unfolding tickets_evolve_def ticket_evolution_def by blast
qed

theorem ticket_life_cycle_witness:
  "\<exists>s'. cancel_ticket sample_ticket_env 1 (Addr 2) sample_tickets = Inr ((), s') \<and>
     tk_Ticket s' 2 = tk_Ticket sample_tickets 2 \<and> tk_Ticket s' 1 \<noteq> tk_Ticket sample_tickets 1"
proof -
  obtain s' where s': "cancel_ticket sample_ticket_env 1 (Addr 2) sample_tickets = Inr ((), s')"
    and "tk_Ticket s' 1 \<noteq> tk_Ticket sample_tickets 1"
    by (simp add: cancel_ticket_def ticket_storage_defs exec sample_tickets_simps new_ticket_def
        sample_ticket_env_def)
  moreover have "ticket_step sample_ticket_env sample_tickets s'" using s' by (rule step_cancel)
  ultimately show ?thesis
    using ticket_life_cycle [OF sample_tickets_reachable, of s' 2] sample_tickets_values(5)
    by (auto simp: r_into_rtranclp)
qed

text \<open>C20: A ticket is used exactly when organizer and owner both authorize, they are the ticket's
  organizer and owner, and it is valid and unused; then it becomes used, its credential is the
  hash of event, identifier and owner, and the two events are emitted.  In every other case the
  call fails and changes nothing.\<close>
theorem use_ticket_exact:
  "use_ticket env org own k s = Inr (u, s') \<longleftrightarrow>
     authorized env org \<and> authorized env own \<and>
     (\<exists>t h. tk_Ticket s k = Some t \<and> t_organizer t = org \<and> t_owner t = own \<and> \<not> t_is_used t \<and>
        t_status t = Valid \<and>
        h = sha256 env (to_xdr env (VTuple [VSymbol (t_event_id t), VU64 k, VAddress own])) \<and>
        s' = s\<lparr>tk_Ticket := (tk_Ticket s)(k \<mapsto> t\<lparr>t_is_used := True, t_status := Used\<rparr>),
               tk_AttendanceCredential := (tk_AttendanceCredential s)(k \<mapsto> h),
               tk_emitted := tk_emitted s @
                 [TicketUsed k (t_event_id t) own (ledger_timestamp env),
                  AttendanceCredentialIssued k (t_event_id t) own h (ledger_timestamp env)]\<rparr>)"
  unfolding returns_iff_twp
  by (cases "tk_Ticket s k"; cases "t_status (the (tk_Ticket s k))")
    (auto simp: use_ticket_def ticket_storage_defs twp_rules Let_def)

text \<open>A batch mint is authorized, has between 1 and 100 tickets and returns consecutive
  identifiers, starting at the next free one; these tickets are new, valid and appended to the
  owner's list, and every other ticket is as before.\<close>
theorem batch_mint_ticket_consecutive:
  assumes "ticket_execution E s" and "batch_mint_ticket env e org own n s = Inr (ids, s')"
  shows "authorized env (mint_authority s org) \<and> 1 \<le> n \<and> n \<le> 100 \<and>
    ids = [next_ticket_id s..<next_ticket_id s + n] \<and> next_ticket_id s' = next_ticket_id s + n \<and>
    get_tickets_by_owner s' own = get_tickets_by_owner s own @ ids \<and>
    (\<forall>j. tk_Ticket s' j = (if j \<in> set ids then Some (new_ticket env j e org own) else tk_Ticket s j)) \<and>
    (\<forall>j\<in>set ids. tk_Ticket s j = None)"
proof -
  have inv: "ticket_inv s" by (rule ticket_machine.reachable_inv [OF assms(1)])
  have fresh: "tk_Ticket s j = None" if "next_ticket_id s \<le> j" for j
    using inv that unfolding ticket_inv_def tickets_ok_def by (metis not_None_eq not_less)
  have frame: "get_tickets_by_owner (t\<lparr>tk_NextTicketId := i\<rparr>) a = get_tickets_by_owner t a" for t i a
    by (rule by_owner_frame) simp_all
  have "wp (batch_mint_ticket env e org own n) (\<lambda>ids s'. authorized env (mint_authority s org) \<and>
      1 \<le> n \<and> n \<le> 100 \<and> ids = [next_ticket_id s..<next_ticket_id s + n] \<and>
      next_ticket_id s' = next_ticket_id s + n \<and>
      get_tickets_by_owner s' own = get_tickets_by_owner s own @ ids \<and>
      (\<forall>j. tk_Ticket s' j = (if j \<in> set ids then Some (new_ticket env j e org own) else tk_Ticket s j))) s"
    using batch_mint_loop_spec [of env e org own n "next_ticket_id s" "[]" s]
    by (auto simp: batch_mint_ticket_def ticket_storage_defs wp_rules split_def next_ticket_id_def
        frame elim!: wp_mono)
  from wpD [OF this assms(2)] show ?thesis using fresh by auto
qed

theorem batch_mint_ticket_consecutive_witness:
  "\<exists>s'. batch_mint_ticket sample_ticket_env ''ev'' (Addr 9) (Addr 1) 2 sample_tickets
          = Inr ([3, 4], s') \<and> get_tickets_by_owner s' (Addr 1) = [2, 3, 4]"
proof -
  obtain ids s' where r: "batch_mint_ticket sample_ticket_env ''ev'' (Addr 9) (Addr 1) 2
      sample_tickets = Inr (ids, s')"
    by (simp add: batch_mint_ticket_def ticket_storage_defs exec sample_tickets_simps
        batch_mint_loop_2 mint_authority_def put_owner_ticket_def put_event_ticket_def Let_def
        get_owner_tickets_count_tk_def get_event_tickets_count_def u64_max_def
        sample_ticket_env_def)
  from batch_mint_ticket_consecutive [OF sample_tickets_reachable r] r show ?thesis
    by (simp add: sample_tickets_simps next_ticket_id_def upt_rec)
qed

text \<open>C21: The recovery key registered by a previous owner survives the transfer of the ticket: after a
  sale, whoever holds a signature by that key over some address moves the ticket to that address,
  without any authorization by the new owner.\<close>
theorem recovery_key_survives_transfer:
  assumes "tk_RecoveryKey s k = Some pk"
    and "transfer_ticket env seller buyer k s = Inr (u, s1)"
    and "ed25519_verify env' pk (to_xdr env' (VAddress thief)) sig" and "thief \<noteq> buyer"
    and "get_owner_tickets_count_tk s1 thief < u64_max"
    and "tk_Ticket s k = Some t" and "t_ticket_id t = k"
  shows "\<exists>s2. recover_ticket env' k thief sig s1 = Inr ((), s2) \<and>
     tk_Ticket s1 k = Some (t\<lparr>t_owner := buyer\<rparr>) \<and> tk_Ticket s2 k = Some (t\<lparr>t_owner := thief\<rparr>)"
proof -
  have "wp (transfer_ticket env seller buyer k) (\<lambda>_ s1. tk_RecoveryKey s1 k = Some pk \<and>
      t_status t = Valid \<and> \<not> t_is_used t \<and> tk_Ticket s1 k = Some (t\<lparr>t_owner := buyer\<rparr>)) s"
    using assms(1,6) by (auto simp: transfer_ticket_def ticket_storage_defs wp_rules)
  note s1 = wpD [OF this assms(2)]
  have count: "get_owner_tickets_count_tk (remove_owner_ticket buyer k (s1\<lparr>tk_Ticket := m\<rparr>)) thief
      = get_owner_tickets_count_tk s1 thief" for m
    using assms(4) by (simp add: remove_owner_ticket_def get_owner_tickets_count_tk_def Let_def
        split: option.split)
  show ?thesis
    using s1 assms(3,5,7)
    by (simp add: recover_ticket_def ticket_storage_defs exec count)
qed

theorem recovery_key_survives_transfer_witness:
  "\<exists>s1 s2. transfer_ticket sample_ticket_env (Addr 2) (Addr 3) 1 sample_tickets = Inr ((), s1) \<and>
     recover_ticket sample_ticket_env 1 (Addr 4) [] s1 = Inr ((), s2) \<and>
     map_option t_owner (tk_Ticket s2 1) = Some (Addr 4)"
proof -
  obtain s1 where r: "transfer_ticket sample_ticket_env (Addr 2) (Addr 3) 1 sample_tickets = Inr ((), s1)"
    and c: "get_owner_tickets_count_tk s1 (Addr 4) < u64_max"
    by (simp add: sample_ticket_defs)
  show ?thesis
    using recovery_key_survives_transfer [OF sample_tickets_values(6) r, of sample_ticket_env "Addr 4" "[]"] r c
    by (auto simp: sample_tickets_simps sample_ticket_env_def)
qed

end
