(* ===== verification/Payments_Types.thy ===== *)
theory Payments_Types
  imports Soroban Privacy_Utils
begin

text \<open>
  The payments contract's data: \<^verbatim>\<open>types.rs\<close>, the configuration structs of \<^verbatim>\<open>storage.rs\<close>,
  the error enumeration of \<^verbatim>\<open>errors.rs\<close> with its discriminants, and the emitted events of
  \<^verbatim>\<open>events.rs\<close>.  Field names carry a prefix per struct; the constant \<^verbatim>\<open>event_type\<close> symbol of
  an emitted event is its constructor.
\<close>

section \<open>Types\<close>

datatype event_status = Upcoming | Active | Completed | Cancelled | Postponed

datatype payment_status = Held | Released | Refunded | Disputed

record escrow_metadata =
  em_organizer :: address
  em_event_end_time :: nat
  em_auto_released :: bool

datatype payment_privacy = P_Anonymous | P_Private | P_Standard

record payment_record =
  p_payment_id :: nat
  p_event_id :: symbol
  p_payer :: "address option"
  p_hashed_wallet :: "bytes32 option"
  p_stealth_delivery_key :: "bytes32 option"
  p_nullifier_commitment :: "bytes32 option"
  p_amount :: int
  p_token :: address
  p_status :: payment_status
  p_paid_at :: nat
  p_privacy_level :: payment_privacy
  p_refunded_amount :: int
  p_zk_email_commitment :: "bytes32 option"

record pay_ticket =
  pt_ticket_id :: nat
  pt_event_id :: symbol
  pt_owner :: "address option"
  pt_hashed_owner :: "bytes32 option"
  pt_nullifier_commitment :: "bytes32 option"
  pt_payment_id :: nat
  pt_privacy_level :: payment_privacy

record withdrawal_record =
  wr_amount :: int
  wr_timestamp :: nat
  wr_organizer :: address

record revenue_split =
  rs_recipient :: address
  rs_basis_points :: nat

record split_settlement =
  ss_token :: address
  ss_net_distributable :: int

datatype flag_resolution = ReleaseToRecipient | ReassignToPrimary

record resale_listing =
  rl_price :: int
  rl_seller :: address

record dispute_record =
  dr_ticket_id :: nat
  dr_event_id :: symbol
  dr_payment_id :: nat
  dr_reason_code :: nat
  dr_raised_at_ledger :: nat

record event_privacy_config =
  epc_allow_anonymous :: bool
  epc_requires_verification :: bool

record event_config =
  ec_organizer :: address
  ec_payout_token :: address
  ec_allow_anonymous :: bool
  ec_requires_verification :: bool
  ec_max_tickets_per_user :: nat
  ec_max_supply :: nat
  ec_sold_count :: nat
  ec_event_start_ledger :: nat
  ec_event_end_ledger :: nat
  ec_withdrawal_delay_ledgers :: nat
  ec_admin_delay_extension_ledgers :: nat
  ec_cancel_ledger :: "nat option"
  ec_withdrawable_ratio_bps :: "nat option"
  ec_organizer_withdrawn :: bool
  ec_resale_royalty_bps :: nat
  ec_max_resale_price :: "int option"
  ec_allow_free_ticket_transfer :: bool

record payment_params =
  pp_nonce :: nat
  pp_payer :: address
  pp_event_id :: symbol
  pp_amount :: int
  pp_token_address :: address
  pp_is_anonymous :: bool
  pp_is_verified :: bool
  pp_privacy_level :: payment_privacy
  pp_email_hash :: "bytes32 option"
  pp_zk_email_commitment :: "bytes32 option"
  pp_nullifier_commitment :: "bytes32 option"
  pp_stealth_delivery_key :: "bytes32 option"

section \<open>Errors\<close>

datatype (plugins only: size code) payment_error =
    PaymentNotFound | TicketNotFound | InsufficientFunds | Unauthorized | PaymentAlreadyProcessed
  | InvalidAmount | RefundFailed | NotInitialized | PaymentAlreadyRefunded | NoRevenue
  | AnonymousPaymentsDisabled | VerificationRequired | UnauthorizedWithdrawal | InvalidOrganizer
  | InvalidPayoutToken | EventNotActive | EventNotCompleted | RefundNotAllowed | EscrowNotExpired
  | EscrowAlreadyReleased | EscrowNotConfigured | AccountingMismatch | InvalidFeeBps
  | NoPlatformRevenue | DuplicateRequest | MigrationFailed | UnsupportedVersion
  | MaxTicketsReached | EventSoldOut | NonceRequired | ContractPaused | TransferFailed
  | PostponementWindowClosed | EventNotPostponed | InvalidSplitConfig | SplitsNotConfigured
  | NotASplitRecipient | SplitAlreadyWithdrawn | RecipientFlagged | RecipientNotFlagged
  | CommitmentAlreadySet | CommitmentNotAllowed | MissingNullifierCommitment
  | MissingStealthDeliveryKey | PrivacyLevelMismatch | DisputeWindowClosed | DisputeAlreadyExists
  | DisputeNotFound | DisputeExpired | InvalidDisputeReason | ActiveDisputes
  | RevenueInvariantViolated

definition payment_error_codes :: "(payment_error \<times> nat) list" where
  "payment_error_codes =
    [(PaymentNotFound, 1), (TicketNotFound, 2), (InsufficientFunds, 81), (Unauthorized, 11),
     (PaymentAlreadyProcessed, 43), (InvalidAmount, 22), (RefundFailed, 300), (NotInitialized, 61),
     (PaymentAlreadyRefunded, 41), (NoRevenue, 301), (AnonymousPaymentsDisabled, 302),
     (VerificationRequired, 303), (UnauthorizedWithdrawal, 12), (InvalidOrganizer, 304),
     (InvalidPayoutToken, 305), (EventNotActive, 42), (EventNotCompleted, 44),
     (RefundNotAllowed, 306), (EscrowNotExpired, 307), (EscrowAlreadyReleased, 45),
     (EscrowNotConfigured, 62), (AccountingMismatch, 103), (InvalidFeeBps, 24),
     (NoPlatformRevenue, 308), (DuplicateRequest, 309), (MigrationFailed, 121),
     (UnsupportedVersion, 122), (MaxTicketsReached, 82), (EventSoldOut, 83), (NonceRequired, 310),
     (ContractPaused, 101), (TransferFailed, 102), (PostponementWindowClosed, 311),
     (EventNotPostponed, 312), (InvalidSplitConfig, 21), (SplitsNotConfigured, 63),
     (NotASplitRecipient, 313), (SplitAlreadyWithdrawn, 46), (RecipientFlagged, 314),
     (RecipientNotFlagged, 315), (CommitmentAlreadySet, 47), (CommitmentNotAllowed, 316),
     (MissingNullifierCommitment, 317), (MissingStealthDeliveryKey, 318),
     (PrivacyLevelMismatch, 319), (DisputeWindowClosed, 320), (DisputeAlreadyExists, 321),
     (DisputeNotFound, 322), (DisputeExpired, 323), (InvalidDisputeReason, 324),
     (ActiveDisputes, 325), (RevenueInvariantViolated, 326)]"

section \<open>Events\<close>

datatype payment_event =
    PaymentReceived nat symbol masked_address int address nat
  | PaymentReceiptRequested nat symbol "bytes32 option" nat
  | ReceiptCommitmentBound nat symbol nat
  | PaymentRefunded nat symbol masked_address int address nat
  | TicketIssued nat symbol masked_address nat nat
  | RevenueWithdrawn symbol masked_address int address address nat
  | EscrowAutoReleased symbol address int nat
  | PlatformFeeCollected symbol int int address nat
  | PlatformFeeUpdated address nat nat nat
  | PlatformRevenueWithdrawn symbol int address address nat
  | CohostFlagged symbol address address nat
  | FlaggedShareResolved symbol address bool int nat
  | DisputeRaised symbol nat nat nat nat
  | DisputeResolved symbol nat bool nat
  | DisputeTimedOut symbol nat nat

fun payment_privacy_to_level :: "payment_privacy \<Rightarrow> privacy_level" where
  "payment_privacy_to_level P_Standard = Standard"
| "payment_privacy_to_level P_Private = Private"
| "payment_privacy_to_level P_Anonymous = Anonymous"

definition zero_hash :: bytes32 where "zero_hash = replicate 32 0"

definition masked_payment_identity :: "payment_record \<Rightarrow> masked_address" where
  "masked_payment_identity payment =
     (case p_privacy_level payment of
        P_Standard \<Rightarrow> (case p_payer payment of Some addr \<Rightarrow> Full addr | None \<Rightarrow> Hashed zero_hash)
      | P_Private \<Rightarrow> (case p_hashed_wallet payment of
                       Some hash \<Rightarrow> Hashed hash | None \<Rightarrow> Hashed zero_hash)
      | P_Anonymous \<Rightarrow> (case p_nullifier_commitment payment of
                         Some commitment \<Rightarrow> Hashed commitment | None \<Rightarrow> Hashed zero_hash))"

definition masked_ticket_identity :: "pay_ticket \<Rightarrow> masked_address" where
  "masked_ticket_identity ticket =
     (case pt_privacy_level ticket of
        P_Standard \<Rightarrow> (case pt_owner ticket of Some addr \<Rightarrow> Full addr | None \<Rightarrow> Hashed zero_hash)
      | P_Private \<Rightarrow> (case pt_hashed_owner ticket of
                       Some hash \<Rightarrow> Hashed hash | None \<Rightarrow> Hashed zero_hash)
      | P_Anonymous \<Rightarrow> (case pt_nullifier_commitment ticket of
                         Some commitment \<Rightarrow> Hashed commitment | None \<Rightarrow> Hashed zero_hash))"

end
