(* ===== verification/Payments_State.thy ===== *)
theory Payments_State
  imports Payments_Types
begin

text \<open>
  The payments contract's persistent storage: one record field per constructor of the
  \<^verbatim>\<open>DataKey\<close> enumeration of \<^verbatim>\<open>storage.rs\<close> (a map where the key carries data, an option where
  it does not), with the state of the token and ticket contracts it calls and the log of emitted
  events.
\<close>

record 'w payments_state =
  pk_Admin :: "address option"
  pk_AcceptedToken :: "address option"
  pk_EventContract :: "address option"
  pk_EventPrivacy :: "symbol \<Rightarrow> event_privacy_config option"
  pk_EventConfig :: "symbol \<Rightarrow> event_config option"
  pk_Payment :: "nat \<Rightarrow> payment_record option"
  pk_Ticket :: "nat \<Rightarrow> pay_ticket option"
  pk_EventRevenue :: "symbol \<Rightarrow> int option"
  pk_EventTokenRevenue :: "symbol \<times> address \<Rightarrow> int option"
  pk_SupportedToken :: "address \<Rightarrow> bool option"
  pk_EventStatus :: "symbol \<Rightarrow> event_status option"
  pk_EventPayment :: "symbol \<times> nat \<Rightarrow> bool option"
  pk_OwnerTicket :: "address \<times> nat \<Rightarrow> nat option"
  pk_PayerPayment :: "address \<times> nat \<Rightarrow> bool option"
  pk_WithdrawalRecord :: "symbol \<times> nat \<Rightarrow> withdrawal_record option"
  pk_WithdrawalCount :: "symbol \<Rightarrow> nat option"
  pk_EventToken :: "symbol \<times> address \<Rightarrow> bool option"
  pk_EventTokenIndex :: "symbol \<times> nat \<Rightarrow> address option"
  pk_EventTokenCount :: "symbol \<Rightarrow> nat option"
  pk_NextPaymentId :: "nat option"
  pk_NextTicketId :: "nat option"
  pk_PlatformFeeBps :: "nat option"
  pk_PlatformWallet :: "address option"
  pk_PlatformRevenue :: "symbol \<Rightarrow> int option"
  pk_EmissionPrivacy :: "symbol \<Rightarrow> privacy_level option"
  pk_EscrowMeta :: "symbol \<Rightarrow> escrow_metadata option"
  pk_ProcessedNonce :: "address \<times> nat \<Rightarrow> bool option"
  pk_ContractVersion :: "nat option"
  pk_UserEventTickets :: "symbol \<times> address \<Rightarrow> nat option"
  pk_Paused :: "bool option"
  pk_PostponeDeadline :: "symbol \<Rightarrow> nat option"
  pk_EventSplits :: "symbol \<Rightarrow> revenue_split list option"
  pk_SplitSettlement :: "symbol \<Rightarrow> split_settlement option"
  pk_SplitWithdrawn :: "symbol \<times> address \<Rightarrow> int option"
  pk_SplitFlagged :: "symbol \<times> address \<Rightarrow> bool option"
  pk_ResaleListing :: "nat \<Rightarrow> resale_listing option"
  pk_TicketContract :: "address option"
  pk_ProcessedNonceHash :: "bytes32 \<times> nat \<Rightarrow> bool option"
  pk_UserEventTicketsHash :: "symbol \<times> bytes32 \<Rightarrow> nat option"
  pk_SpentNullifier :: "bytes32 \<Rightarrow> bool option"
  pk_Dispute :: "nat \<Rightarrow> dispute_record option"
  pk_EventDisputes :: "symbol \<Rightarrow> nat list option"
  pk_TotalPayments :: "symbol \<Rightarrow> int option"
  pk_TotalRefunds :: "symbol \<Rightarrow> int option"
  pk_TotalWithdrawn :: "symbol \<Rightarrow> int option"
  pk_EventPaymentIndex :: "symbol \<times> nat \<Rightarrow> nat option"
  pk_EventPaymentsCount :: "symbol \<Rightarrow> nat option"
  pk_PayerPaymentIndex :: "address \<times> nat \<Rightarrow> nat option"
  pk_PayerPaymentsCount :: "address \<Rightarrow> nat option"
  pk_EventTokenVolume :: "symbol \<times> address \<Rightarrow> int option"
  pk_TotalTokenRefunds :: "symbol \<times> address \<Rightarrow> int option"
  pk_TotalTokenWithdrawn :: "symbol \<times> address \<Rightarrow> int option"
  pk_OwnerTicketIndex :: "address \<times> nat \<Rightarrow> nat option"
  pk_OwnerTicketsCount :: "address \<Rightarrow> nat option"
  pk_EventPayments :: "symbol \<Rightarrow> nat list option"
  pk_world :: 'w
  pk_emitted :: "payment_event list"

definition empty_payments_state :: "'w \<Rightarrow> 'w payments_state" where
  "empty_payments_state w =
     \<lparr>pk_Admin = None,
      pk_AcceptedToken = None,
      pk_EventContract = None,
      pk_EventPrivacy = Map.empty,
      pk_EventConfig = Map.empty,
      pk_Payment = Map.empty,
      pk_Ticket = Map.empty,
      pk_EventRevenue = Map.empty,
      pk_EventTokenRevenue = Map.empty,
      pk_SupportedToken = Map.empty,
      pk_EventStatus = Map.empty,
      pk_EventPayment = Map.empty,
      pk_OwnerTicket = Map.empty,
      pk_PayerPayment = Map.empty,
      pk_WithdrawalRecord = Map.empty,
      pk_WithdrawalCount = Map.empty,
      pk_EventToken = Map.empty,
      pk_EventTokenIndex = Map.empty,
      pk_EventTokenCount = Map.empty,
      pk_NextPaymentId = None,
      pk_NextTicketId = None,
      pk_PlatformFeeBps = None,
      pk_PlatformWallet = None,
      pk_PlatformRevenue = Map.empty,
      pk_EmissionPrivacy = Map.empty,
      pk_EscrowMeta = Map.empty,
      pk_ProcessedNonce = Map.empty,
      pk_ContractVersion = None,
      pk_UserEventTickets = Map.empty,
      pk_Paused = None,
      pk_PostponeDeadline = Map.empty,
      pk_EventSplits = Map.empty,
      pk_SplitSettlement = Map.empty,
      pk_SplitWithdrawn = Map.empty,
      pk_SplitFlagged = Map.empty,
      pk_ResaleListing = Map.empty,
      pk_TicketContract = None,
      pk_ProcessedNonceHash = Map.empty,
      pk_UserEventTicketsHash = Map.empty,
      pk_SpentNullifier = Map.empty,
      pk_Dispute = Map.empty,
      pk_EventDisputes = Map.empty,
      pk_TotalPayments = Map.empty,
      pk_TotalRefunds = Map.empty,
      pk_TotalWithdrawn = Map.empty,
      pk_EventPaymentIndex = Map.empty,
      pk_EventPaymentsCount = Map.empty,
      pk_PayerPaymentIndex = Map.empty,
      pk_PayerPaymentsCount = Map.empty,
      pk_EventTokenVolume = Map.empty,
      pk_TotalTokenRefunds = Map.empty,
      pk_TotalTokenWithdrawn = Map.empty,
      pk_OwnerTicketIndex = Map.empty,
      pk_OwnerTicketsCount = Map.empty,
      pk_EventPayments = Map.empty,
      pk_world = w, pk_emitted = []\<rparr>"

type_synonym ('w, 'a) payment_call = "('w payments_state, payment_error, 'a) call"

end
