(* ===== verification/Payments_Storage.thy ===== *)
theory Payments_Storage
  imports Payments_State Indexed_Storage
begin

text \<open>
  The storage functions of the payments contract (\<^verbatim>\<open>storage.rs\<close>).  A getter with a default is a
  function of the state, one with an error is a call; a setter is a call that replaces one entry;
  the additions are checked at the width of the stored integer.  Where an entry point of
  \<^verbatim>\<open>lib.rs\<close> has the same name, the setter is called \<open>put_...\<close>.  The multi-entry writes of the
  indexed lists are state functions, each tied to its interface by an interpretation.
\<close>

section \<open>Event status and the postponement deadline\<close>

definition put_event_status :: "symbol \<Rightarrow> event_status \<Rightarrow> ('w, unit) payment_call" where
  "put_event_status event_id status =
     modify (\<lambda>s. s\<lparr>pk_EventStatus := (pk_EventStatus s)(event_id \<mapsto> status)\<rparr>)"

definition get_event_status :: "'w payments_state \<Rightarrow> symbol \<Rightarrow> event_status option" where
  "get_event_status s event_id = pk_EventStatus s event_id"

text \<open>The entry lives at least until the deadline; only its time to live depends on the ledger.\<close>

definition set_postpone_deadline :: "symbol \<Rightarrow> nat \<Rightarrow> ('w, unit) payment_call" where
  "set_postpone_deadline event_id deadline_ledger =
     modify (\<lambda>s. s\<lparr>pk_PostponeDeadline := (pk_PostponeDeadline s)(event_id \<mapsto> deadline_ledger)\<rparr>)"

definition get_postpone_deadline :: "'w payments_state \<Rightarrow> symbol \<Rightarrow> nat option" where
  "get_postpone_deadline s event_id = pk_PostponeDeadline s event_id"

definition remove_postpone_deadline :: "symbol \<Rightarrow> ('w, unit) payment_call" where
  "remove_postpone_deadline event_id =
     modify (\<lambda>s. s\<lparr>pk_PostponeDeadline := (pk_PostponeDeadline s)(event_id := None)\<rparr>)"

section \<open>Contract configuration\<close>

definition get_admin :: "('w, address) payment_call" where
  "get_admin = bindE (gets pk_Admin) (\<lambda>m. ok_or m NotInitialized)"

definition set_admin :: "address \<Rightarrow> ('w, unit) payment_call" where
  "set_admin admin = modify (\<lambda>s. s\<lparr>pk_Admin := Some admin\<rparr>)"

definition is_paused :: "'w payments_state \<Rightarrow> bool" where
  "is_paused s =
     (case pk_Paused s of None \<Rightarrow> False | Some v \<Rightarrow> v)"

definition put_paused :: "bool \<Rightarrow> ('w, unit) payment_call" where
  "put_paused paused = modify (\<lambda>s. s\<lparr>pk_Paused := Some paused\<rparr>)"

definition get_accepted_token :: "('w, address) payment_call" where
  "get_accepted_token = bindE (gets pk_AcceptedToken) (\<lambda>m. ok_or m NotInitialized)"

definition set_accepted_token :: "address \<Rightarrow> ('w, unit) payment_call" where
  "set_accepted_token token = modify (\<lambda>s. s\<lparr>pk_AcceptedToken := Some token\<rparr>)"

definition put_supported_token :: "address \<Rightarrow> ('w, unit) payment_call" where
  "put_supported_token token =
     modify (\<lambda>s. s\<lparr>pk_SupportedToken := (pk_SupportedToken s)(token \<mapsto> True)\<rparr>)"

definition is_supported_token :: "'w payments_state \<Rightarrow> address \<Rightarrow> bool" where
  "is_supported_token s token =
     (if pk_AcceptedToken s = Some token then True
      else (case pk_SupportedToken s token of None \<Rightarrow> False | Some v \<Rightarrow> v))"

definition get_event_contract :: "('w, address) payment_call" where
  "get_event_contract = bindE (gets pk_EventContract) (\<lambda>m. ok_or m NotInitialized)"

definition set_event_contract :: "address \<Rightarrow> ('w, unit) payment_call" where
  "set_event_contract event_contract = modify (\<lambda>s. s\<lparr>pk_EventContract := Some event_contract\<rparr>)"

definition get_ticket_contract :: "('w, address) payment_call" where
  "get_ticket_contract = bindE (gets pk_TicketContract) (\<lambda>m. ok_or m NotInitialized)"

definition put_ticket_contract :: "address \<Rightarrow> ('w, unit) payment_call" where
  "put_ticket_contract ticket_contract = modify (\<lambda>s. s\<lparr>pk_TicketContract := Some ticket_contract\<rparr>)"

definition is_initialized :: "'w payments_state \<Rightarrow> bool" where
  "is_initialized s =
     (pk_Admin s \<noteq> None \<and> pk_AcceptedToken s \<noteq> None \<and> pk_EventContract s \<noteq> None)"

definition get_platform_fee_bps :: "'w payments_state \<Rightarrow> nat" where
  "get_platform_fee_bps s =
     (case pk_PlatformFeeBps s of None \<Rightarrow> 0 | Some v \<Rightarrow> v)"

definition set_platform_fee_bps :: "nat \<Rightarrow> ('w, unit) payment_call" where
  "set_platform_fee_bps bps = modify (\<lambda>s. s\<lparr>pk_PlatformFeeBps := Some bps\<rparr>)"

definition get_platform_wallet :: "('w, address) payment_call" where
  "get_platform_wallet = bindE (gets pk_PlatformWallet) (\<lambda>m. ok_or m NotInitialized)"

definition set_platform_wallet :: "address \<Rightarrow> ('w, unit) payment_call" where
  "set_platform_wallet wallet = modify (\<lambda>s. s\<lparr>pk_PlatformWallet := Some wallet\<rparr>)"

definition get_contract_version :: "'w payments_state \<Rightarrow> nat" where
  "get_contract_version s =
     (case pk_ContractVersion s of None \<Rightarrow> 1 | Some v \<Rightarrow> v)"

definition set_contract_version :: "nat \<Rightarrow> ('w, unit) payment_call" where
  "set_contract_version version = modify (\<lambda>s. s\<lparr>pk_ContractVersion := Some version\<rparr>)"

definition verify_version :: "('w, unit) payment_call" where
  "verify_version = bindE (gets get_contract_version) (\<lambda>v. ensure (v \<le> 1) UnsupportedVersion)"

section \<open>Event configuration and privacy\<close>

definition get_event_privacy :: "'w payments_state \<Rightarrow> symbol \<Rightarrow> event_privacy_config" where
  "get_event_privacy s event_id =
     (case pk_EventPrivacy s event_id of
        None \<Rightarrow> \<lparr>epc_allow_anonymous = True, epc_requires_verification = False\<rparr>
      | Some v \<Rightarrow> v)"

definition put_event_privacy :: "symbol \<Rightarrow> event_privacy_config \<Rightarrow> ('w, unit) payment_call" where
  "put_event_privacy event_id privacy =
     modify (\<lambda>s. s\<lparr>pk_EventPrivacy := (pk_EventPrivacy s)(event_id \<mapsto> privacy)\<rparr>)"

definition get_event_config :: "'w payments_state \<Rightarrow> symbol \<Rightarrow> event_config option" where
  "get_event_config s event_id = pk_EventConfig s event_id"

definition set_event_config :: "symbol \<Rightarrow> event_config \<Rightarrow> ('w, unit) payment_call" where
  "set_event_config event_id config =
     modify (\<lambda>s. s\<lparr>pk_EventConfig := (pk_EventConfig s)(event_id \<mapsto> config)\<rparr>)"

definition get_event_organizer :: "symbol \<Rightarrow> ('w, address) payment_call" where
  "get_event_organizer event_id =
     bindE (gets (\<lambda>s. map_option ec_organizer (get_event_config s event_id))) (\<lambda>v.
     ok_or v InvalidOrganizer)"

definition get_event_payout_token :: "symbol \<Rightarrow> ('w, address) payment_call" where
  "get_event_payout_token event_id =
     bindE (gets (\<lambda>s. map_option ec_payout_token (get_event_config s event_id))) (\<lambda>v.
     ok_or v InvalidPayoutToken)"

definition set_emission_privacy :: "symbol \<Rightarrow> privacy_level \<Rightarrow> ('w, unit) payment_call" where
  "set_emission_privacy event_id level =
     modify (\<lambda>s. s\<lparr>pk_EmissionPrivacy := (pk_EmissionPrivacy s)(event_id \<mapsto> level)\<rparr>)"

definition get_emission_privacy :: "'w payments_state \<Rightarrow> symbol \<Rightarrow> privacy_level" where
  "get_emission_privacy s event_id =
     (case pk_EmissionPrivacy s event_id of None \<Rightarrow> Standard | Some v \<Rightarrow> v)"

definition set_escrow_meta :: "symbol \<Rightarrow> escrow_metadata \<Rightarrow> ('w, unit) payment_call" where
  "set_escrow_meta event_id meta =
     modify (\<lambda>s. s\<lparr>pk_EscrowMeta := (pk_EscrowMeta s)(event_id \<mapsto> meta)\<rparr>)"

definition get_escrow_meta :: "symbol \<Rightarrow> ('w, escrow_metadata) payment_call" where
  "get_escrow_meta event_id = bindE (gets pk_EscrowMeta) (\<lambda>m. ok_or (m event_id) EscrowNotConfigured)"

section \<open>Payments and tickets\<close>

definition get_next_payment_id :: "('w, nat) payment_call" where
  "get_next_payment_id =
     bindE (gets (\<lambda>s. case pk_NextPaymentId s of None \<Rightarrow> 0 | Some i \<Rightarrow> i)) (\<lambda>current_id.
     bindE (u64 (current_id + 1)) (\<lambda>next_id.
     thenE (modify (\<lambda>s. s\<lparr>pk_NextPaymentId := Some next_id\<rparr>)) (return next_id)))"

definition get_next_ticket_id :: "('w, nat) payment_call" where
  "get_next_ticket_id =
     bindE (gets (\<lambda>s. case pk_NextTicketId s of None \<Rightarrow> 0 | Some i \<Rightarrow> i)) (\<lambda>current_id.
     bindE (u64 (current_id + 1)) (\<lambda>next_id.
     thenE (modify (\<lambda>s. s\<lparr>pk_NextTicketId := Some next_id\<rparr>)) (return next_id)))"

definition save_payment :: "payment_record \<Rightarrow> ('w, unit) payment_call" where
  "save_payment payment =
     bindE (gets pk_Payment) (\<lambda>m.
     thenE (ensure (m (p_payment_id payment) = None) PaymentAlreadyProcessed) (
     modify (\<lambda>s. s\<lparr>pk_Payment := (pk_Payment s)(p_payment_id payment \<mapsto> payment)\<rparr>)))"

definition update_payment :: "payment_record \<Rightarrow> ('w, unit) payment_call" where
  "update_payment payment =
     bindE (gets pk_Payment) (\<lambda>m.
     thenE (ensure (m (p_payment_id payment) \<noteq> None) PaymentNotFound) (
     modify (\<lambda>s. s\<lparr>pk_Payment := (pk_Payment s)(p_payment_id payment \<mapsto> payment)\<rparr>)))"

definition get_payment :: "nat \<Rightarrow> ('w, payment_record) payment_call" where
  "get_payment payment_id = bindE (gets pk_Payment) (\<lambda>m. ok_or (m payment_id) PaymentNotFound)"

definition save_ticket :: "pay_ticket \<Rightarrow> ('w, unit) payment_call" where
  "save_ticket ticket =
     bindE (gets pk_Ticket) (\<lambda>m.
     thenE (ensure (m (pt_ticket_id ticket) = None) DuplicateRequest) (
     modify (\<lambda>s. s\<lparr>pk_Ticket := (pk_Ticket s)(pt_ticket_id ticket \<mapsto> ticket)\<rparr>)))"

definition get_ticket :: "nat \<Rightarrow> ('w, pay_ticket) payment_call" where
  "get_ticket ticket_id = bindE (gets pk_Ticket) (\<lambda>m. ok_or (m ticket_id) TicketNotFound)"

section \<open>Owner tickets, indexed with removal\<close>

definition get_owner_tickets_count :: "'w payments_state \<Rightarrow> address \<Rightarrow> nat" where
  "get_owner_tickets_count s owner =
     (case pk_OwnerTicketsCount s owner of None \<Rightarrow> 0 | Some v \<Rightarrow> v)"

definition put_owner_ticket_map ::
    "address \<Rightarrow> nat \<Rightarrow> 'w payments_state \<Rightarrow> 'w payments_state" where
  "put_owner_ticket_map owner ticket_id s =
     (let count = get_owner_tickets_count s owner in
      s\<lparr>pk_OwnerTicket := (pk_OwnerTicket s)((owner, ticket_id) \<mapsto> count),
        pk_OwnerTicketIndex := (pk_OwnerTicketIndex s)((owner, count) \<mapsto> ticket_id),
        pk_OwnerTicketsCount := (pk_OwnerTicketsCount s)(owner \<mapsto> count + 1)\<rparr>)"

definition add_owner_ticket_map :: "address \<Rightarrow> nat \<Rightarrow> ('w, unit) payment_call" where
  "add_owner_ticket_map owner ticket_id =
     bindE (gets (\<lambda>s. get_owner_tickets_count s owner)) (\<lambda>count.
     thenE (u64 (count + 1)) (modify (put_owner_ticket_map owner ticket_id)))"

definition remove_owner_ticket_map ::
    "address \<Rightarrow> nat \<Rightarrow> 'w payments_state \<Rightarrow> 'w payments_state" where
  "remove_owner_ticket_map owner ticket_id s =
     (let stored_index = pk_OwnerTicket s (owner, ticket_id);
          s = s\<lparr>pk_OwnerTicket := (pk_OwnerTicket s)((owner, ticket_id) := None)\<rparr>
      in case stored_index of
           None \<Rightarrow> s
         | Some idx \<Rightarrow>
             let count = get_owner_tickets_count s owner in
             if count = 0 then s
             else
               let last_idx = count - 1;
                   s = (if idx < last_idx then
                          (case pk_OwnerTicketIndex s (owner, last_idx) of
                             None \<Rightarrow> s
                           | Some last_ticket_id \<Rightarrow>
                               s\<lparr>pk_OwnerTicket :=
                                    (pk_OwnerTicket s)((owner, last_ticket_id) \<mapsto> idx),
                                 pk_OwnerTicketIndex :=
                                    (pk_OwnerTicketIndex s)((owner, idx) \<mapsto> last_ticket_id)\<rparr>)
                        else s)
               in s\<lparr>pk_OwnerTicketIndex :=
                       (pk_OwnerTicketIndex s)((owner, last_idx) := None),
                    pk_OwnerTicketsCount := (pk_OwnerTicketsCount s)(owner \<mapsto> last_idx)\<rparr>)"

definition get_owner_tickets :: "'w payments_state \<Rightarrow> address \<Rightarrow> nat list" where
  "get_owner_tickets s owner =
     idx_list (\<lambda>i. pk_OwnerTicketIndex s (owner, i)) (get_owner_tickets_count s owner)"

section \<open>Growing lists\<close>

definition get_event_payments_count :: "'w payments_state \<Rightarrow> symbol \<Rightarrow> nat" where
  "get_event_payments_count s event_id =
     (case pk_EventPaymentsCount s event_id of None \<Rightarrow> 0 | Some v \<Rightarrow> v)"

definition put_event_payment :: "symbol \<Rightarrow> nat \<Rightarrow> 'w payments_state \<Rightarrow> 'w payments_state" where
  "put_event_payment event_id payment_id s =
     (let count = get_event_payments_count s event_id in
      s\<lparr>pk_EventPayment := (pk_EventPayment s)((event_id, payment_id) \<mapsto> True),
        pk_EventPaymentIndex := (pk_EventPaymentIndex s)((event_id, count) \<mapsto> payment_id),
        pk_EventPaymentsCount := (pk_EventPaymentsCount s)(event_id \<mapsto> count + 1)\<rparr>)"

definition add_event_payment :: "symbol \<Rightarrow> nat \<Rightarrow> ('w, unit) payment_call" where
  "add_event_payment event_id payment_id =
     bindE (gets (\<lambda>s. get_event_payments_count s event_id)) (\<lambda>count.
     thenE (u64 (count + 1)) (modify (put_event_payment event_id payment_id)))"

definition get_event_payments :: "'w payments_state \<Rightarrow> symbol \<Rightarrow> nat list" where
  "get_event_payments s event_id =
     idx_list (\<lambda>i. pk_EventPaymentIndex s (event_id, i)) (get_event_payments_count s event_id)"

definition get_payer_payments_count :: "'w payments_state \<Rightarrow> address \<Rightarrow> nat" where
  "get_payer_payments_count s payer =
     (case pk_PayerPaymentsCount s payer of None \<Rightarrow> 0 | Some v \<Rightarrow> v)"

definition put_payer_payment :: "address \<Rightarrow> nat \<Rightarrow> 'w payments_state \<Rightarrow> 'w payments_state" where
  "put_payer_payment payer payment_id s =
     (let count = get_payer_payments_count s payer in
      s\<lparr>pk_PayerPayment := (pk_PayerPayment s)((payer, payment_id) \<mapsto> True),
        pk_PayerPaymentIndex := (pk_PayerPaymentIndex s)((payer, count) \<mapsto> payment_id),
        pk_PayerPaymentsCount := (pk_PayerPaymentsCount s)(payer \<mapsto> count + 1)\<rparr>)"

definition add_payer_payment :: "address \<Rightarrow> nat \<Rightarrow> ('w, unit) payment_call" where
  "add_payer_payment payer payment_id =
     bindE (gets (\<lambda>s. get_payer_payments_count s payer)) (\<lambda>count.
     thenE (u64 (count + 1)) (modify (put_payer_payment payer payment_id)))"

definition get_payer_payments :: "'w payments_state \<Rightarrow> address \<Rightarrow> nat list" where
  "get_payer_payments s payer =
     idx_list (\<lambda>i. pk_PayerPaymentIndex s (payer, i)) (get_payer_payments_count s payer)"

definition get_withdrawal_count :: "'w payments_state \<Rightarrow> symbol \<Rightarrow> nat" where
  "get_withdrawal_count s event_id =
     (case pk_WithdrawalCount s event_id of None \<Rightarrow> 0 | Some v \<Rightarrow> v)"

definition put_withdrawal_record ::
    "symbol \<Rightarrow> withdrawal_record \<Rightarrow> 'w payments_state \<Rightarrow> 'w payments_state" where
  "put_withdrawal_record event_id r s =
     (let count = get_withdrawal_count s event_id in
      s\<lparr>pk_WithdrawalRecord := (pk_WithdrawalRecord s)((event_id, count) \<mapsto> r),
        pk_WithdrawalCount := (pk_WithdrawalCount s)(event_id \<mapsto> count + 1)\<rparr>)"

definition add_withdrawal_record :: "symbol \<Rightarrow> withdrawal_record \<Rightarrow> ('w, unit) payment_call" where
  "add_withdrawal_record event_id r =
     bindE (gets (\<lambda>s. get_withdrawal_count s event_id)) (\<lambda>count.
     thenE (u32 (count + 1)) (modify (put_withdrawal_record event_id r)))"

definition get_withdrawal_history :: "'w payments_state \<Rightarrow> symbol \<Rightarrow> withdrawal_record list" where
  "get_withdrawal_history s event_id =
     idx_list (\<lambda>i. pk_WithdrawalRecord s (event_id, i)) (get_withdrawal_count s event_id)"

definition get_event_token_count :: "'w payments_state \<Rightarrow> symbol \<Rightarrow> nat" where
  "get_event_token_count s event_id =
     (case pk_EventTokenCount s event_id of None \<Rightarrow> 0 | Some v \<Rightarrow> v)"

definition has_event_token :: "'w payments_state \<Rightarrow> symbol \<Rightarrow> address \<Rightarrow> bool" where
  "has_event_token s event_id token = (pk_EventToken s (event_id, token) \<noteq> None)"

definition put_event_token ::
    "symbol \<Rightarrow> address \<Rightarrow> 'w payments_state \<Rightarrow> 'w payments_state" where
  "put_event_token event_id token s =
     (let count = get_event_token_count s event_id in
      s\<lparr>pk_EventToken := (pk_EventToken s)((event_id, token) \<mapsto> True),
        pk_EventTokenIndex := (pk_EventTokenIndex s)((event_id, count) \<mapsto> token),
        pk_EventTokenCount := (pk_EventTokenCount s)(event_id \<mapsto> count + 1)\<rparr>)"

definition add_event_token_map :: "symbol \<Rightarrow> address \<Rightarrow> ('w, unit) payment_call" where
  "add_event_token_map event_id token =
     bindE (gets (\<lambda>s. get_event_token_count s event_id)) (\<lambda>count.
     thenE (u32 (count + 1)) (modify (put_event_token event_id token)))"

definition add_event_token :: "symbol \<Rightarrow> address \<Rightarrow> ('w, unit) payment_call" where
  "add_event_token event_id token =
     bindE (gets (\<lambda>s. has_event_token s event_id token)) (\<lambda>present.
     whenE (\<not> present) (add_event_token_map event_id token))"

definition get_event_tokens :: "'w payments_state \<Rightarrow> symbol \<Rightarrow> address list" where
  "get_event_tokens s event_id =
     idx_list (\<lambda>i. pk_EventTokenIndex s (event_id, i)) (get_event_token_count s event_id)"

section \<open>Revenue and the running totals\<close>

definition get_event_token_revenue :: "'w payments_state \<Rightarrow> symbol \<Rightarrow> address \<Rightarrow> int" where
  "get_event_token_revenue s event_id token =
     (case pk_EventTokenRevenue s (event_id, token) of None \<Rightarrow> 0 | Some v \<Rightarrow> v)"

text \<open>
  The revenue of an event is recomputed from its tokens; the entry \<^verbatim>\<open>EventRevenue\<close> is
  only ever written.
\<close>

definition get_event_revenue :: "symbol \<Rightarrow> ('w, int) payment_call" where
  "get_event_revenue event_id =
     bindE (gets (\<lambda>s. get_event_tokens s event_id)) (\<lambda>tokens.
     foldE (\<lambda>token sum.
       bindE (gets (\<lambda>s. get_event_token_revenue s event_id token)) (\<lambda>r.
       i128 (sum + r))) tokens 0)"

definition set_event_revenue :: "symbol \<Rightarrow> int \<Rightarrow> ('w, unit) payment_call" where
  "set_event_revenue event_id amount =
     modify (\<lambda>s. s\<lparr>pk_EventRevenue := (pk_EventRevenue s)(event_id \<mapsto> amount)\<rparr>)"

definition add_event_revenue :: "symbol \<Rightarrow> int \<Rightarrow> ('w, unit) payment_call" where
  "add_event_revenue event_id amount =
     bindE (get_event_revenue event_id) (\<lambda>current_revenue.
     bindE (i128 (current_revenue + amount)) (\<lambda>new_revenue.
     set_event_revenue event_id new_revenue))"

definition set_event_token_revenue :: "symbol \<Rightarrow> address \<Rightarrow> int \<Rightarrow> ('w, unit) payment_call" where
  "set_event_token_revenue event_id token amount =
     modify (\<lambda>s. s\<lparr>pk_EventTokenRevenue :=
       (pk_EventTokenRevenue s)((event_id, token) \<mapsto> amount)\<rparr>)"

definition add_event_token_revenue :: "symbol \<Rightarrow> address \<Rightarrow> int \<Rightarrow> ('w, unit) payment_call" where
  "add_event_token_revenue event_id token amount =
     bindE (gets (\<lambda>s. get_event_token_revenue s event_id token)) (\<lambda>current.
     bindE (i128 (current + amount)) (\<lambda>new.
     modify (\<lambda>s. s\<lparr>pk_EventTokenRevenue := (pk_EventTokenRevenue s)((event_id, token) \<mapsto> new)\<rparr>)))"

definition reset_event_revenue :: "symbol \<Rightarrow> ('w, unit) payment_call" where
  "reset_event_revenue event_id =
     thenE (set_event_revenue event_id 0) (
     bindE (gets (\<lambda>s. get_event_tokens s event_id)) (\<lambda>tokens.
     for_each (\<lambda>token. set_event_token_revenue event_id token 0) tokens))"

definition get_platform_revenue :: "'w payments_state \<Rightarrow> symbol \<Rightarrow> int" where
  "get_platform_revenue s event_id =
     (case pk_PlatformRevenue s event_id of None \<Rightarrow> 0 | Some v \<Rightarrow> v)"

definition add_platform_revenue :: "symbol \<Rightarrow> int \<Rightarrow> ('w, unit) payment_call" where
  "add_platform_revenue event_id amount =
     bindE (gets (\<lambda>s. get_platform_revenue s event_id)) (\<lambda>current.
     bindE (i128 (current + amount)) (\<lambda>new.
     modify (\<lambda>s. s\<lparr>pk_PlatformRevenue := (pk_PlatformRevenue s)(event_id \<mapsto> new)\<rparr>)))"

definition reset_platform_revenue :: "symbol \<Rightarrow> ('w, unit) payment_call" where
  "reset_platform_revenue event_id =
     modify (\<lambda>s. s\<lparr>pk_PlatformRevenue := (pk_PlatformRevenue s)(event_id \<mapsto> 0)\<rparr>)"

definition get_total_payments :: "'w payments_state \<Rightarrow> symbol \<Rightarrow> int" where
  "get_total_payments s event_id =
     (case pk_TotalPayments s event_id of None \<Rightarrow> 0 | Some v \<Rightarrow> v)"

definition add_total_payments :: "symbol \<Rightarrow> int \<Rightarrow> ('w, unit) payment_call" where
  "add_total_payments event_id amount =
     bindE (gets (\<lambda>s. get_total_payments s event_id)) (\<lambda>current.
     bindE (i128 (current + amount)) (\<lambda>new.
     modify (\<lambda>s. s\<lparr>pk_TotalPayments := (pk_TotalPayments s)(event_id \<mapsto> new)\<rparr>)))"

definition get_total_refunds :: "'w payments_state \<Rightarrow> symbol \<Rightarrow> int" where
  "get_total_refunds s event_id =
     (case pk_TotalRefunds s event_id of None \<Rightarrow> 0 | Some v \<Rightarrow> v)"

definition add_total_refunds :: "symbol \<Rightarrow> int \<Rightarrow> ('w, unit) payment_call" where
  "add_total_refunds event_id amount =
     bindE (gets (\<lambda>s. get_total_refunds s event_id)) (\<lambda>current.
     bindE (i128 (current + amount)) (\<lambda>new.
     modify (\<lambda>s. s\<lparr>pk_TotalRefunds := (pk_TotalRefunds s)(event_id \<mapsto> new)\<rparr>)))"

definition get_total_withdrawn :: "'w payments_state \<Rightarrow> symbol \<Rightarrow> int" where
  "get_total_withdrawn s event_id =
     (case pk_TotalWithdrawn s event_id of None \<Rightarrow> 0 | Some v \<Rightarrow> v)"

definition add_total_withdrawn :: "symbol \<Rightarrow> int \<Rightarrow> ('w, unit) payment_call" where
  "add_total_withdrawn event_id amount =
     bindE (gets (\<lambda>s. get_total_withdrawn s event_id)) (\<lambda>current.
     bindE (i128 (current + amount)) (\<lambda>new.
     modify (\<lambda>s. s\<lparr>pk_TotalWithdrawn := (pk_TotalWithdrawn s)(event_id \<mapsto> new)\<rparr>)))"

definition get_total_token_volume :: "'w payments_state \<Rightarrow> symbol \<Rightarrow> address \<Rightarrow> int" where
  "get_total_token_volume s event_id token =
     (case pk_EventTokenVolume s (event_id, token) of None \<Rightarrow> 0 | Some v \<Rightarrow> v)"

definition add_total_token_volume :: "symbol \<Rightarrow> address \<Rightarrow> int \<Rightarrow> ('w, unit) payment_call" where
  "add_total_token_volume event_id token amount =
     bindE (gets (\<lambda>s. get_total_token_volume s event_id token)) (\<lambda>current.
     bindE (i128 (current + amount)) (\<lambda>new.
     modify (\<lambda>s. s\<lparr>pk_EventTokenVolume := (pk_EventTokenVolume s)((event_id, token) \<mapsto> new)\<rparr>)))"

definition get_total_token_refunds :: "'w payments_state \<Rightarrow> symbol \<Rightarrow> address \<Rightarrow> int" where
  "get_total_token_refunds s event_id token =
     (case pk_TotalTokenRefunds s (event_id, token) of None \<Rightarrow> 0 | Some v \<Rightarrow> v)"

definition add_total_token_refunds :: "symbol \<Rightarrow> address \<Rightarrow> int \<Rightarrow> ('w, unit) payment_call" where
  "add_total_token_refunds event_id token amount =
     bindE (gets (\<lambda>s. get_total_token_refunds s event_id token)) (\<lambda>current.
     bindE (i128 (current + amount)) (\<lambda>new.
     modify (\<lambda>s. s\<lparr>pk_TotalTokenRefunds := (pk_TotalTokenRefunds s)((event_id, token) \<mapsto> new)\<rparr>)))"

definition get_total_token_withdrawn :: "'w payments_state \<Rightarrow> symbol \<Rightarrow> address \<Rightarrow> int" where
  "get_total_token_withdrawn s event_id token =
     (case pk_TotalTokenWithdrawn s (event_id, token) of None \<Rightarrow> 0 | Some v \<Rightarrow> v)"

definition add_total_token_withdrawn :: "symbol \<Rightarrow> address \<Rightarrow> int \<Rightarrow> ('w, unit) payment_call" where
  "add_total_token_withdrawn event_id token amount =
     bindE (gets (\<lambda>s. get_total_token_withdrawn s event_id token)) (\<lambda>current.
     bindE (i128 (current + amount)) (\<lambda>new.
     modify (\<lambda>s. s\<lparr>pk_TotalTokenWithdrawn := (pk_TotalTokenWithdrawn s)((event_id, token) \<mapsto> new)\<rparr>)))"

section \<open>Replay protection and purchase counters\<close>

definition has_nonce :: "'w payments_state \<Rightarrow> address \<Rightarrow> nat \<Rightarrow> bool" where
  "has_nonce s address nonce =
     (case pk_ProcessedNonce s (address, nonce) of None \<Rightarrow> False | Some v \<Rightarrow> v)"

definition set_nonce :: "address \<Rightarrow> nat \<Rightarrow> ('w, unit) payment_call" where
  "set_nonce address nonce =
     modify (\<lambda>s. s\<lparr>pk_ProcessedNonce := (pk_ProcessedNonce s)((address, nonce) \<mapsto> True)\<rparr>)"

definition has_nonce_hash :: "'w payments_state \<Rightarrow> bytes32 \<Rightarrow> nat \<Rightarrow> bool" where
  "has_nonce_hash s hash nonce =
     (case pk_ProcessedNonceHash s (hash, nonce) of None \<Rightarrow> False | Some v \<Rightarrow> v)"

definition set_nonce_hash :: "bytes32 \<Rightarrow> nat \<Rightarrow> ('w, unit) payment_call" where
  "set_nonce_hash hash nonce =
     modify (\<lambda>s. s\<lparr>pk_ProcessedNonceHash :=
       (pk_ProcessedNonceHash s)((hash, nonce) \<mapsto> True)\<rparr>)"

definition has_nullifier :: "'w payments_state \<Rightarrow> bytes32 \<Rightarrow> bool" where
  "has_nullifier s commitment =
     (case pk_SpentNullifier s commitment of None \<Rightarrow> False | Some v \<Rightarrow> v)"

definition mark_nullifier_spent :: "bytes32 \<Rightarrow> ('w, unit) payment_call" where
  "mark_nullifier_spent commitment =
     modify (\<lambda>s. s\<lparr>pk_SpentNullifier := (pk_SpentNullifier s)(commitment \<mapsto> True)\<rparr>)"

definition get_user_event_tickets :: "'w payments_state \<Rightarrow> symbol \<Rightarrow> address \<Rightarrow> nat" where
  "get_user_event_tickets s event_id user =
     (case pk_UserEventTickets s (event_id, user) of None \<Rightarrow> 0 | Some v \<Rightarrow> v)"

definition get_user_event_tickets_hash :: "'w payments_state \<Rightarrow> symbol \<Rightarrow> bytes32 \<Rightarrow> nat" where
  "get_user_event_tickets_hash s event_id user_hash =
     (case pk_UserEventTicketsHash s (event_id, user_hash) of None \<Rightarrow> 0 | Some v \<Rightarrow> v)"

definition increment_user_event_tickets :: "symbol \<Rightarrow> address \<Rightarrow> ('w, unit) payment_call" where
  "increment_user_event_tickets event_id user =
     bindE (gets (\<lambda>s. get_user_event_tickets s event_id user)) (\<lambda>current.
     bindE (u32 (current + 1)) (\<lambda>new.
     modify (\<lambda>s. s\<lparr>pk_UserEventTickets := (pk_UserEventTickets s)((event_id, user) \<mapsto> new)\<rparr>)))"

definition increment_user_event_tickets_hash :: "symbol \<Rightarrow> bytes32 \<Rightarrow> ('w, unit) payment_call" where
  "increment_user_event_tickets_hash event_id user_hash =
     bindE (gets (\<lambda>s. get_user_event_tickets_hash s event_id user_hash)) (\<lambda>current.
     bindE (u32 (current + 1)) (\<lambda>new.
     modify (\<lambda>s. s\<lparr>pk_UserEventTicketsHash := (pk_UserEventTicketsHash s)((event_id, user_hash) \<mapsto> new)\<rparr>)))"

definition increment_event_sold_count :: "symbol \<Rightarrow> ('w, unit) payment_call" where
  "increment_event_sold_count event_id =
     bindE (gets (\<lambda>s. get_event_config s event_id)) (\<lambda>c.
     bindE (ok_or c InvalidOrganizer) (\<lambda>config.
     bindE (ok_or (checked_add_u32 (ec_sold_count config) 1) EventSoldOut) (\<lambda>sold.
     set_event_config event_id (config\<lparr>ec_sold_count := sold\<rparr>))))"

section \<open>Revenue splits, listings and disputes\<close>

definition has_splits :: "'w payments_state \<Rightarrow> symbol \<Rightarrow> bool" where
  "has_splits s event_id = (pk_EventSplits s event_id \<noteq> None)"

definition get_splits :: "'w payments_state \<Rightarrow> symbol \<Rightarrow> revenue_split list" where
  "get_splits s event_id =
     (case pk_EventSplits s event_id of None \<Rightarrow> [] | Some v \<Rightarrow> v)"

definition set_splits :: "symbol \<Rightarrow> revenue_split list \<Rightarrow> ('w, unit) payment_call" where
  "set_splits event_id splits =
     modify (\<lambda>s. s\<lparr>pk_EventSplits := (pk_EventSplits s)(event_id \<mapsto> splits)\<rparr>)"

definition get_split_settlement :: "'w payments_state \<Rightarrow> symbol \<Rightarrow> split_settlement option" where
  "get_split_settlement s event_id = pk_SplitSettlement s event_id"

definition set_split_settlement :: "symbol \<Rightarrow> split_settlement \<Rightarrow> ('w, unit) payment_call" where
  "set_split_settlement event_id settlement =
     modify (\<lambda>s. s\<lparr>pk_SplitSettlement := (pk_SplitSettlement s)(event_id \<mapsto> settlement)\<rparr>)"

definition get_split_withdrawn :: "'w payments_state \<Rightarrow> symbol \<Rightarrow> address \<Rightarrow> int" where
  "get_split_withdrawn s event_id recipient =
     (case pk_SplitWithdrawn s (event_id, recipient) of None \<Rightarrow> 0 | Some v \<Rightarrow> v)"

definition set_split_withdrawn :: "symbol \<Rightarrow> address \<Rightarrow> int \<Rightarrow> ('w, unit) payment_call" where
  "set_split_withdrawn event_id recipient amount =
     modify (\<lambda>s. s\<lparr>pk_SplitWithdrawn :=
       (pk_SplitWithdrawn s)((event_id, recipient) \<mapsto> amount)\<rparr>)"

definition is_split_flagged :: "'w payments_state \<Rightarrow> symbol \<Rightarrow> address \<Rightarrow> bool" where
  "is_split_flagged s event_id recipient =
     (case pk_SplitFlagged s (event_id, recipient) of None \<Rightarrow> False | Some v \<Rightarrow> v)"

definition set_split_flagged :: "symbol \<Rightarrow> address \<Rightarrow> bool \<Rightarrow> ('w, unit) payment_call" where
  "set_split_flagged event_id recipient flagged =
     modify (\<lambda>s. s\<lparr>pk_SplitFlagged :=
       (pk_SplitFlagged s)((event_id, recipient) \<mapsto> flagged)\<rparr>)"

definition save_resale_listing :: "nat \<Rightarrow> resale_listing \<Rightarrow> ('w, unit) payment_call" where
  "save_resale_listing ticket_id listing =
     modify (\<lambda>s. s\<lparr>pk_ResaleListing := (pk_ResaleListing s)(ticket_id \<mapsto> listing)\<rparr>)"

definition get_resale_listing :: "'w payments_state \<Rightarrow> nat \<Rightarrow> resale_listing option" where
  "get_resale_listing s ticket_id = pk_ResaleListing s ticket_id"

definition remove_resale_listing :: "nat \<Rightarrow> ('w, unit) payment_call" where
  "remove_resale_listing ticket_id =
     modify (\<lambda>s. s\<lparr>pk_ResaleListing := (pk_ResaleListing s)(ticket_id := None)\<rparr>)"

definition get_dispute :: "'w payments_state \<Rightarrow> nat \<Rightarrow> dispute_record option" where
  "get_dispute s ticket_id = pk_Dispute s ticket_id"

definition set_dispute :: "nat \<Rightarrow> dispute_record \<Rightarrow> ('w, unit) payment_call" where
  "set_dispute ticket_id dispute =
     modify (\<lambda>s. s\<lparr>pk_Dispute := (pk_Dispute s)(ticket_id \<mapsto> dispute)\<rparr>)"

definition remove_dispute :: "nat \<Rightarrow> ('w, unit) payment_call" where
  "remove_dispute ticket_id =
     modify (\<lambda>s. s\<lparr>pk_Dispute := (pk_Dispute s)(ticket_id := None)\<rparr>)"

definition get_event_disputes :: "'w payments_state \<Rightarrow> symbol \<Rightarrow> nat list" where
  "get_event_disputes s event_id =
     (case pk_EventDisputes s event_id of None \<Rightarrow> [] | Some v \<Rightarrow> v)"

definition set_event_disputes :: "symbol \<Rightarrow> nat list \<Rightarrow> ('w, unit) payment_call" where
  "set_event_disputes event_id disputes =
     modify (\<lambda>s. s\<lparr>pk_EventDisputes := (pk_EventDisputes s)(event_id \<mapsto> disputes)\<rparr>)"

section \<open>Token transfers and emitted events\<close>

text \<open>The token client's \<^verbatim>\<open>transfer\<close> and \<^verbatim>\<open>balance\<close>; a failing transfer traps.\<close>

definition transfer :: "'w env \<Rightarrow> address \<Rightarrow> address \<Rightarrow> address \<Rightarrow> int \<Rightarrow> ('w, unit) payment_call" where
  "transfer env token src dst amount =
     bindE (gets pk_world) (\<lambda>w.
     bindE (unwrap (token_transfer env token src dst amount w)) (\<lambda>w'.
     modify (\<lambda>s. s\<lparr>pk_world := w'\<rparr>)))"

definition try_transfer :: "'w env \<Rightarrow> address \<Rightarrow> address \<Rightarrow> address \<Rightarrow> int \<Rightarrow> ('w, unit) payment_call" where
  "try_transfer env token src dst amount =
     bindE (gets pk_world) (\<lambda>w.
     bindE (ok_or (token_transfer env token src dst amount w) TransferFailed) (\<lambda>w'.
     modify (\<lambda>s. s\<lparr>pk_world := w'\<rparr>)))"

definition balance :: "'w env \<Rightarrow> 'w payments_state \<Rightarrow> address \<Rightarrow> int" where
  "balance env s token = token_balance env token (current_contract_address env) (pk_world s)"

definition publish :: "payment_event \<Rightarrow> ('w, unit) payment_call" where
  "publish e = modify (\<lambda>s. s\<lparr>pk_emitted := pk_emitted s @ [e]\<rparr>)"

definition emit_revenue_withdrawn ::
    "'w env \<Rightarrow> symbol \<Rightarrow> address \<Rightarrow> int \<Rightarrow> address \<Rightarrow> address \<Rightarrow> ('w, unit) payment_call" where
  "emit_revenue_withdrawn env event_id organizer amount token dest =
     bindE (gets (\<lambda>s. get_emission_privacy s event_id)) (\<lambda>level.
     publish (RevenueWithdrawn event_id (mask_address env organizer level) amount token dest
       (ledger_timestamp env)))"

definition emit_payment_refunded :: "'w env \<Rightarrow> payment_record \<Rightarrow> int \<Rightarrow> ('w, unit) payment_call" where
  "emit_payment_refunded env payment amount =
     publish (PaymentRefunded (p_payment_id payment) (p_event_id payment)
       (masked_payment_identity payment) amount (p_token payment) (ledger_timestamp env))"

section \<open>The indexed lists\<close>

interpretation event_payments: append_log
  "\<lambda>s e i. pk_EventPaymentIndex s (e, i)" get_event_payments_count put_event_payment
  by unfold_locales (auto simp: put_event_payment_def get_event_payments_count_def Let_def)

interpretation payer_payments: append_log
  "\<lambda>s a i. pk_PayerPaymentIndex s (a, i)" get_payer_payments_count put_payer_payment
  by unfold_locales (auto simp: put_payer_payment_def get_payer_payments_count_def Let_def)

interpretation withdrawals: append_log
  "\<lambda>s e i. pk_WithdrawalRecord s (e, i)" get_withdrawal_count put_withdrawal_record
  by unfold_locales (auto simp: put_withdrawal_record_def get_withdrawal_count_def Let_def)

interpretation event_tokens: append_log
  "\<lambda>s e i. pk_EventTokenIndex s (e, i)" get_event_token_count put_event_token
  by unfold_locales (auto simp: put_event_token_def get_event_token_count_def Let_def)

interpretation payment_owners: swap_index
  "\<lambda>s a i. pk_OwnerTicketIndex s (a, i)" get_owner_tickets_count put_owner_ticket_map
  "\<lambda>s a k. pk_OwnerTicket s (a, k)" remove_owner_ticket_map
  by unfold_locales
    (auto simp: put_owner_ticket_map_def remove_owner_ticket_map_def get_owner_tickets_count_def
      Let_def split: option.splits)

section \<open>Definition bundles\<close>

lemmas storage_call_defs =
  put_event_status_def set_postpone_deadline_def remove_postpone_deadline_def get_admin_def
  set_admin_def put_paused_def get_accepted_token_def set_accepted_token_def
  put_supported_token_def get_event_contract_def set_event_contract_def get_ticket_contract_def
  put_ticket_contract_def set_platform_fee_bps_def get_platform_wallet_def
  set_platform_wallet_def set_contract_version_def verify_version_def put_event_privacy_def
  set_event_config_def get_event_organizer_def get_event_payout_token_def
  set_emission_privacy_def set_escrow_meta_def get_escrow_meta_def get_next_payment_id_def
  get_next_ticket_id_def save_payment_def update_payment_def get_payment_def save_ticket_def
  get_ticket_def add_owner_ticket_map_def add_event_payment_def add_payer_payment_def
  add_withdrawal_record_def add_event_token_map_def add_event_token_def get_event_revenue_def
  set_event_revenue_def add_event_revenue_def set_event_token_revenue_def
  add_event_token_revenue_def reset_event_revenue_def add_platform_revenue_def
  reset_platform_revenue_def add_total_payments_def add_total_refunds_def
  add_total_withdrawn_def add_total_token_volume_def add_total_token_refunds_def
  add_total_token_withdrawn_def set_nonce_def set_nonce_hash_def mark_nullifier_spent_def
  increment_user_event_tickets_def increment_user_event_tickets_hash_def
  increment_event_sold_count_def set_splits_def set_split_settlement_def set_split_withdrawn_def
  set_split_flagged_def save_resale_listing_def remove_resale_listing_def set_dispute_def
  remove_dispute_def set_event_disputes_def transfer_def try_transfer_def publish_def
  emit_revenue_withdrawn_def emit_payment_refunded_def

lemmas storage_getter_defs =
  get_event_status_def get_postpone_deadline_def is_paused_def is_supported_token_def
  is_initialized_def get_platform_fee_bps_def get_contract_version_def get_event_privacy_def
  get_event_config_def get_emission_privacy_def get_owner_tickets_count_def
  get_owner_tickets_def get_event_payments_count_def get_event_payments_def
  get_payer_payments_count_def get_payer_payments_def get_withdrawal_count_def
  get_withdrawal_history_def get_event_token_count_def has_event_token_def get_event_tokens_def
  get_event_token_revenue_def get_platform_revenue_def get_total_payments_def
  get_total_refunds_def get_total_withdrawn_def get_total_token_volume_def
  get_total_token_refunds_def get_total_token_withdrawn_def has_nonce_def has_nonce_hash_def
  has_nullifier_def get_user_event_tickets_def get_user_event_tickets_hash_def has_splits_def
  get_splits_def get_split_settlement_def get_split_withdrawn_def is_split_flagged_def
  get_resale_listing_def get_dispute_def get_event_disputes_def balance_def

lemmas storage_put_defs =
  put_owner_ticket_map_def remove_owner_ticket_map_def put_event_payment_def
  put_payer_payment_def put_withdrawal_record_def put_event_token_def

end
