(* ===== verification/Payments_Core.thy ===== *)
theory Payments_Core
  imports Payments_Storage Common_Utils
begin

text \<open>
  The payments contract's internal functions (the first part of \<^verbatim>\<open>lib.rs\<close>): building the record
  and the ticket of a payment for its privacy level, the dispute timeouts, the escrow check, and
  the creation of a payment that every \<^verbatim>\<open>pay_for_ticket\<close> entry point shares.
\<close>

section \<open>Constants\<close>

definition MIN_DISPUTE_WINDOW_LEDGERS :: nat where "MIN_DISPUTE_WINDOW_LEDGERS = 100"
definition ATTENDEE_DISPUTE_WINDOW_LEDGERS :: nat where
  "ATTENDEE_DISPUTE_WINDOW_LEDGERS = 17280 * 7"
definition DISPUTE_TIMEOUT_LEDGERS :: nat where "DISPUTE_TIMEOUT_LEDGERS = 17280 * 14"

section \<open>Records and tickets\<close>

text \<open>Salted with the stealth key, so the stored hash cannot be enumerated from known wallets.\<close>

definition stealth_wallet_hash :: "'w env \<Rightarrow> address \<Rightarrow> bytes32 \<Rightarrow> bytes32" where
  "stealth_wallet_hash env payer stealth_key =
     sha256 env (to_xdr env (VAddress payer) @ stealth_key)"

definition build_payment_record ::
    "'w env \<Rightarrow> payment_params \<Rightarrow> nat \<Rightarrow> nat \<Rightarrow> ('s, payment_error, payment_record) call" where
  "build_payment_record env params payment_id paid_at =
     (case pp_privacy_level params of
        P_Anonymous \<Rightarrow>
          thenE (ensure (pp_stealth_delivery_key params = None) PrivacyLevelMismatch) (
          bindE (ok_or (pp_nullifier_commitment params) MissingNullifierCommitment) (\<lambda>commitment.
          return \<lparr>p_payment_id = payment_id, p_event_id = pp_event_id params, p_payer = None,
            p_hashed_wallet = None, p_stealth_delivery_key = None,
            p_nullifier_commitment = Some commitment, p_amount = pp_amount params,
            p_token = pp_token_address params, p_status = Held, p_paid_at = paid_at,
            p_privacy_level = P_Anonymous, p_refunded_amount = 0,
            p_zk_email_commitment = pp_zk_email_commitment params\<rparr>))
      | P_Private \<Rightarrow>
          thenE (ensure (pp_nullifier_commitment params = None) PrivacyLevelMismatch) (
          bindE (ok_or (pp_stealth_delivery_key params) MissingStealthDeliveryKey) (\<lambda>stealth_key.
          return \<lparr>p_payment_id = payment_id, p_event_id = pp_event_id params, p_payer = None,
            p_hashed_wallet = Some (stealth_wallet_hash env (pp_payer params) stealth_key),
            p_stealth_delivery_key = Some stealth_key, p_nullifier_commitment = None,
            p_amount = pp_amount params, p_token = pp_token_address params, p_status = Held,
            p_paid_at = paid_at, p_privacy_level = P_Private, p_refunded_amount = 0,
            p_zk_email_commitment = pp_zk_email_commitment params\<rparr>))
      | P_Standard \<Rightarrow>
          thenE (ensure (\<not> (pp_nullifier_commitment params \<noteq> None \<or>
                             pp_stealth_delivery_key params \<noteq> None)) PrivacyLevelMismatch) (
          return \<lparr>p_payment_id = payment_id, p_event_id = pp_event_id params,
            p_payer = Some (pp_payer params), p_hashed_wallet = None,
            p_stealth_delivery_key = None, p_nullifier_commitment = None,
            p_amount = pp_amount params, p_token = pp_token_address params, p_status = Held,
            p_paid_at = paid_at, p_privacy_level = P_Standard, p_refunded_amount = 0,
            p_zk_email_commitment = pp_zk_email_commitment params\<rparr>))"

definition build_ticket :: "payment_record \<Rightarrow> nat \<Rightarrow> pay_ticket" where
  "build_ticket payment ticket_id =
     \<lparr>pt_ticket_id = ticket_id, pt_event_id = p_event_id payment, pt_owner = p_payer payment,
      pt_hashed_owner = p_hashed_wallet payment,
      pt_nullifier_commitment = p_nullifier_commitment payment,
      pt_payment_id = p_payment_id payment, pt_privacy_level = p_privacy_level payment\<rparr>"

definition private_wallet_hash :: "'w env \<Rightarrow> address \<Rightarrow> bytes32" where
  "private_wallet_hash env payer = sha256 env (to_xdr env (VAddress payer))"

section \<open>Guards\<close>

definition validate_payment_privacy :: "symbol \<Rightarrow> bool \<Rightarrow> bool \<Rightarrow> ('w, unit) payment_call" where
  "validate_payment_privacy event_id is_anonymous is_verified =
     bindE (gets (\<lambda>s. get_event_privacy s event_id)) (\<lambda>privacy.
     thenE (ensure (\<not> (is_anonymous \<and> \<not> epc_allow_anonymous privacy)) AnonymousPaymentsDisabled) (
     ensure (\<not> (epc_requires_verification privacy \<and> \<not> is_verified)) VerificationRequired))"

definition require_not_paused :: "('w, unit) payment_call" where
  "require_not_paused = bindE (gets is_paused) (\<lambda>paused. ensure (\<not> paused) ContractPaused)"

definition ensure_no_splits :: "symbol \<Rightarrow> ('w, unit) payment_call" where
  "ensure_no_splits event_id =
     bindE (gets (\<lambda>s. has_splits s event_id)) (\<lambda>b. ensure (\<not> b) InvalidSplitConfig)"

section \<open>Disputes and the escrow check\<close>

text \<open>
  A dispute that timed out gives the payment back to the held revenue; a listed dispute without
  a record is dropped from the list.
\<close>

definition time_out_dispute :: "'w env \<Rightarrow> symbol \<Rightarrow> dispute_record \<Rightarrow> ('w, unit) payment_call" where
  "time_out_dispute env event_id dispute =
     bindE (gets pk_Payment) (\<lambda>payments.
     case payments (dr_payment_id dispute) of
       None \<Rightarrow> return ()
     | Some payment \<Rightarrow>
         whenE (p_status payment = Disputed) (
           thenE (update_payment (payment\<lparr>p_status := Held\<rparr>)) (
           bindE (get_event_revenue event_id) (\<lambda>rev.
           bindE (i128 (rev + p_amount payment)) (\<lambda>new_rev.
           thenE (set_event_revenue event_id new_rev) (
           bindE (gets (\<lambda>s. get_event_token_revenue s event_id (p_token payment))) (\<lambda>token_rev.
           bindE (i128 (token_rev + p_amount payment)) (\<lambda>new_token_rev.
           set_event_token_revenue event_id (p_token payment) new_token_rev))))))))"

definition time_out_step ::
    "'w env \<Rightarrow> symbol \<Rightarrow> nat \<Rightarrow> nat list \<times> bool \<Rightarrow> ('w, nat list \<times> bool) payment_call" where
  "time_out_step env event_id ticket_id acc =
     bindE (gets (\<lambda>s. get_dispute s ticket_id)) (\<lambda>d.
     case d of
       None \<Rightarrow> return acc
     | Some dispute \<Rightarrow>
         if saturating_add_u32 (dr_raised_at_ledger dispute) DISPUTE_TIMEOUT_LEDGERS
              \<le> ledger_sequence env then
           thenE (time_out_dispute env event_id dispute) (
           thenE (remove_dispute ticket_id) (
           thenE (publish (DisputeTimedOut event_id ticket_id (ledger_timestamp env))) (
           return (fst acc, True))))
         else return (fst acc @ [ticket_id], snd acc))"

definition process_timed_out_disputes :: "'w env \<Rightarrow> symbol \<Rightarrow> ('w, unit) payment_call" where
  "process_timed_out_disputes env event_id =
     bindE (gets (\<lambda>s. get_event_disputes s event_id)) (\<lambda>disputes.
     if disputes = [] then return ()
     else bindE (foldE (time_out_step env event_id) disputes ([], False)) (\<lambda>(remaining, modified).
          whenE modified (set_event_disputes event_id remaining)))"

definition check_token_balance :: "'w env \<Rightarrow> symbol \<Rightarrow> address \<Rightarrow> ('w, unit) payment_call" where
  "check_token_balance env event_id token =
     bindE (gets (\<lambda>s. get_total_token_volume s event_id token)) (\<lambda>total_payments.
     bindE (gets (\<lambda>s. get_total_token_refunds s event_id token)) (\<lambda>total_refunds.
     bindE (gets (\<lambda>s. get_total_token_withdrawn s event_id token)) (\<lambda>total_withdrawn.
     bindE (i128 (total_payments - total_refunds)) (\<lambda>net.
     bindE (i128 (net - total_withdrawn)) (\<lambda>expected_balance.
     bindE (gets (\<lambda>s. balance env s token)) (\<lambda>actual_balance.
     ensure (\<not> actual_balance < expected_balance) RevenueInvariantViolated))))))"

definition validate_revenue_invariant :: "'w env \<Rightarrow> symbol \<Rightarrow> ('w, unit) payment_call" where
  "validate_revenue_invariant env event_id =
     thenE (process_timed_out_disputes env event_id) (
     bindE (gets (\<lambda>s. get_event_tokens s event_id)) (\<lambda>tokens.
     for_each (check_token_balance env event_id) tokens))"

section \<open>Creating a payment\<close>

definition nonce_already_used ::
    "'w env \<Rightarrow> payment_params \<Rightarrow> 'w payments_state \<Rightarrow> bool" where
  "nonce_already_used env params s =
     (case pp_privacy_level params of
        P_Standard \<Rightarrow> has_nonce s (pp_payer params) (pp_nonce params)
      | P_Private \<Rightarrow> has_nonce_hash s (private_wallet_hash env (pp_payer params)) (pp_nonce params)
      | P_Anonymous \<Rightarrow> (case pp_nullifier_commitment params of
                         Some commitment \<Rightarrow> has_nonce_hash s commitment (pp_nonce params)
                       | None \<Rightarrow> False))"

definition check_ticket_limits :: "'w env \<Rightarrow> payment_params \<Rightarrow> ('w, unit) payment_call" where
  "check_ticket_limits env params =
     bindE (gets (\<lambda>s. get_event_config s (pp_event_id params))) (\<lambda>c.
     case c of
       None \<Rightarrow> return ()
     | Some config \<Rightarrow>
         thenE (ensure (\<not> (ec_max_supply config > 0 \<and> ec_max_supply config \<le> ec_sold_count config))
                  EventSoldOut) (
         whenE (ec_max_tickets_per_user config > 0) (
           bindE (gets (\<lambda>s. case pp_privacy_level params of
                      P_Standard \<Rightarrow> get_user_event_tickets s (pp_event_id params) (pp_payer params)
                    | P_Private \<Rightarrow> get_user_event_tickets_hash s (pp_event_id params)
                                     (private_wallet_hash env (pp_payer params))
                    | P_Anonymous \<Rightarrow> 0)) (\<lambda>current_tickets.
           ensure (\<not> ec_max_tickets_per_user config \<le> current_tickets) MaxTicketsReached))))"

definition check_event_open :: "symbol \<Rightarrow> ('w, unit) payment_call" where
  "check_event_open event_id =
     bindE (gets (\<lambda>s. get_event_status s event_id)) (\<lambda>status.
     ensure (status \<notin> {Some Completed, Some Cancelled, Some Postponed}) EventNotActive)"

definition spend_nullifier :: "payment_record \<Rightarrow> ('w, unit) payment_call" where
  "spend_nullifier payment =
     (case p_nullifier_commitment payment of
        None \<Rightarrow> return ()
      | Some commitment \<Rightarrow>
          bindE (gets (\<lambda>s. has_nullifier s commitment)) (\<lambda>spent.
          thenE (ensure (\<not> spent) DuplicateRequest) (mark_nullifier_spent commitment)))"

definition record_nonce ::
    "'w env \<Rightarrow> payment_params \<Rightarrow> payment_record \<Rightarrow> ('w, unit) payment_call" where
  "record_nonce env params payment =
     (case pp_privacy_level params of
        P_Standard \<Rightarrow> set_nonce (pp_payer params) (pp_nonce params)
      | P_Private \<Rightarrow> set_nonce_hash (private_wallet_hash env (pp_payer params)) (pp_nonce params)
      | P_Anonymous \<Rightarrow> (case p_nullifier_commitment payment of
                         None \<Rightarrow> return ()
                       | Some commitment \<Rightarrow> set_nonce_hash commitment (pp_nonce params)))"

definition count_user_ticket :: "'w env \<Rightarrow> payment_params \<Rightarrow> ('w, unit) payment_call" where
  "count_user_ticket env params =
     (case pp_privacy_level params of
        P_Standard \<Rightarrow> increment_user_event_tickets (pp_event_id params) (pp_payer params)
      | P_Private \<Rightarrow> increment_user_event_tickets_hash (pp_event_id params)
                       (private_wallet_hash env (pp_payer params))
      | P_Anonymous \<Rightarrow> return ())"

text \<open>The guards of a payment, in the source's order, up to the token transfer.\<close>

definition check_payment :: "'w env \<Rightarrow> payment_params \<Rightarrow> ('w, unit) payment_call" where
  "check_payment env params =
     thenE (require_auth env (pp_payer params)) (
     thenE require_not_paused (
     thenE (ensure (pp_nonce params \<noteq> 0) NonceRequired) (
     bindE (gets (nonce_already_used env params)) (\<lambda>already_used.
     thenE (ensure (\<not> already_used) DuplicateRequest) (
     thenE (ensure (\<not> pp_amount params \<le> 0) InvalidAmount) (
     thenE (validate_payment_privacy (pp_event_id params) (pp_is_anonymous params)
              (pp_is_verified params)) (
     thenE (check_ticket_limits env params) (
     thenE (check_event_open (pp_event_id params)) (
     bindE (gets (\<lambda>s. is_supported_token s (pp_token_address params))) (\<lambda>supported.
     ensure supported InvalidPayoutToken))))))))))"

text \<open>The bookkeeping of an accepted payment, up to the emission of its events.\<close>

definition record_payment ::
    "'w env \<Rightarrow> payment_params \<Rightarrow> payment_record \<Rightarrow> ('w, unit) payment_call" where
  "record_payment env params payment =
     thenE (spend_nullifier payment) (
     thenE (save_payment payment) (
     thenE (add_event_payment (pp_event_id params) (p_payment_id payment)) (
     thenE (whenE (p_privacy_level payment = P_Standard)
              (add_payer_payment (pp_payer params) (p_payment_id payment))) (
     thenE (record_nonce env params payment) (
     thenE (add_event_revenue (pp_event_id params) (pp_amount params)) (
     thenE (add_event_token_revenue (pp_event_id params) (pp_token_address params)
              (pp_amount params)) (
     thenE (add_event_token (pp_event_id params) (pp_token_address params)) (
     thenE (add_total_payments (pp_event_id params) (pp_amount params)) (
     add_total_token_volume (pp_event_id params) (pp_token_address params)
       (pp_amount params))))))))))"

definition emit_payment_received :: "payment_record \<Rightarrow> ('w, unit) payment_call" where
  "emit_payment_received payment =
     publish (PaymentReceived (p_payment_id payment) (p_event_id payment)
       (masked_payment_identity payment) (p_amount payment) (p_token payment)
       (p_paid_at payment))"

definition emit_payment_receipt_requested ::
    "'w env \<Rightarrow> nat \<Rightarrow> symbol \<Rightarrow> bytes32 option \<Rightarrow> ('w, unit) payment_call" where
  "emit_payment_receipt_requested env payment_id event_id email_hash =
     publish (PaymentReceiptRequested payment_id event_id email_hash (ledger_timestamp env))"

definition emit_ticket_issued :: "'w env \<Rightarrow> pay_ticket \<Rightarrow> ('w, unit) payment_call" where
  "emit_ticket_issued env ticket =
     publish (TicketIssued (pt_ticket_id ticket) (pt_event_id ticket)
       (masked_ticket_identity ticket) (pt_payment_id ticket) (ledger_timestamp env))"

text \<open>The ticket of an accepted payment and the purchase counters.\<close>

definition issue_ticket ::
    "'w env \<Rightarrow> payment_params \<Rightarrow> payment_record \<Rightarrow> ('w, unit) payment_call" where
  "issue_ticket env params payment =
     bindE get_next_ticket_id (\<lambda>ticket_id.
     let ticket = build_ticket payment ticket_id in
     thenE (save_ticket ticket) (
     thenE (whenE (p_privacy_level payment = P_Standard)
              (add_owner_ticket_map (pp_payer params) ticket_id)) (
     thenE (count_user_ticket env params) (
     bindE (gets (\<lambda>s. get_event_config s (pp_event_id params))) (\<lambda>c.
     thenE (whenE (c \<noteq> None) (increment_event_sold_count (pp_event_id params))) (
     emit_ticket_issued env ticket))))))"

definition create_payment :: "'w env \<Rightarrow> payment_params \<Rightarrow> ('w, nat) payment_call" where
  "create_payment env params =
     thenE (check_payment env params) (
     thenE (try_transfer env (pp_token_address params) (pp_payer params)
              (current_contract_address env) (pp_amount params)) (
     bindE get_next_payment_id (\<lambda>payment_id.
     bindE (build_payment_record env params payment_id (ledger_timestamp env)) (\<lambda>payment.
     thenE (record_payment env params payment) (
     thenE (emit_payment_received payment) (
     thenE (case pp_email_hash params of
              None \<Rightarrow> return ()
            | Some hash \<Rightarrow> emit_payment_receipt_requested env payment_id (pp_event_id params)
                              (Some hash)) (
     thenE (issue_ticket env params payment) (
     return payment_id))))))))"

text \<open>The three payment entry points differ in the parameters they fix.\<close>

definition pay_for_ticket ::
    "'w env \<Rightarrow> nat \<Rightarrow> address \<Rightarrow> symbol \<Rightarrow> int \<Rightarrow> bytes32 option \<Rightarrow> address \<Rightarrow> payment_privacy \<Rightarrow>
     bytes32 option \<Rightarrow> bytes32 option \<Rightarrow> ('w, nat) payment_call" where
  "pay_for_ticket env nonce payer event_id amount email_hash token_address privacy_level
       nullifier_commitment stealth_delivery_key =
     create_payment env \<lparr>pp_nonce = nonce, pp_payer = payer, pp_event_id = event_id,
       pp_amount = amount, pp_token_address = token_address, pp_is_anonymous = False,
       pp_is_verified = False, pp_privacy_level = privacy_level, pp_email_hash = email_hash,
       pp_zk_email_commitment = None, pp_nullifier_commitment = nullifier_commitment,
       pp_stealth_delivery_key = stealth_delivery_key\<rparr>"

definition pay_for_ticket_with_commitment ::
    "'w env \<Rightarrow> nat \<Rightarrow> address \<Rightarrow> symbol \<Rightarrow> int \<Rightarrow> bytes32 option \<Rightarrow> address \<Rightarrow> payment_privacy \<Rightarrow>
     bytes32 option \<Rightarrow> ('w, nat) payment_call" where
  "pay_for_ticket_with_commitment env nonce payer event_id amount email_hash token_address
       privacy_level zk_email_commitment =
     create_payment env \<lparr>pp_nonce = nonce, pp_payer = payer, pp_event_id = event_id,
       pp_amount = amount, pp_token_address = token_address, pp_is_anonymous = False,
       pp_is_verified = False, pp_privacy_level = privacy_level, pp_email_hash = email_hash,
       pp_zk_email_commitment = zk_email_commitment, pp_nullifier_commitment = None,
       pp_stealth_delivery_key = None\<rparr>"

definition pay_for_ticket_with_options ::
    "'w env \<Rightarrow> nat \<Rightarrow> address \<Rightarrow> symbol \<Rightarrow> int \<Rightarrow> address \<Rightarrow> bool \<Rightarrow> bool \<Rightarrow>
     ('w, nat) payment_call" where
  "pay_for_ticket_with_options env nonce payer event_id amount token_address is_anonymous
       is_verified =
     create_payment env \<lparr>pp_nonce = nonce, pp_payer = payer, pp_event_id = event_id,
       pp_amount = amount, pp_token_address = token_address, pp_is_anonymous = is_anonymous,
       pp_is_verified = is_verified, pp_privacy_level = P_Standard, pp_email_hash = None,
       pp_zk_email_commitment = None, pp_nullifier_commitment = None,
       pp_stealth_delivery_key = None\<rparr>"

section \<open>Cancellation and splits\<close>

definition disputed_amount ::
    "address \<Rightarrow> nat \<Rightarrow> int \<Rightarrow> ('w, int) payment_call" where
  "disputed_amount token_address ticket_id disputed_volume =
     bindE (gets (\<lambda>s. get_dispute s ticket_id)) (\<lambda>d.
     case d of
       None \<Rightarrow> return disputed_volume
     | Some dispute \<Rightarrow>
         bindE (gets (\<lambda>s. pk_Payment s (dr_payment_id dispute))) (\<lambda>p.
         case p of
           None \<Rightarrow> return disputed_volume
         | Some payment \<Rightarrow>
             if p_token payment = token_address then i128 (disputed_volume + p_amount payment)
             else return disputed_volume))"

definition collect_cancellation_organizer_pool ::
    "symbol \<Rightarrow> address \<Rightarrow> nat \<Rightarrow> ('w, int) payment_call" where
  "collect_cancellation_organizer_pool event_id token_address withdrawable_ratio_bps =
     bindE (gets (\<lambda>s. get_total_token_volume s event_id token_address)) (\<lambda>total_volume.
     bindE (gets (\<lambda>s. get_event_disputes s event_id)) (\<lambda>disputes.
     bindE (foldE (disputed_amount token_address) disputes 0) (\<lambda>disputed_volume.
     bindE (i128 (total_volume - disputed_volume)) (\<lambda>eligible_volume.
     mul_bps eligible_volume withdrawable_ratio_bps))))"

definition split_pairs :: "revenue_split list \<Rightarrow> (address \<times> nat) list" where
  "split_pairs splits = map (\<lambda>x. (rs_recipient x, rs_basis_points x)) splits"

definition find_split_bps :: "revenue_split list \<Rightarrow> address \<Rightarrow> nat option" where
  "find_split_bps splits who = find_recipient_basis_points (split_pairs splits) who"

definition recipient_share :: "revenue_split list \<Rightarrow> address \<Rightarrow> int \<Rightarrow> ('s, 'e, int) call" where
  "recipient_share splits who net =
     (case splits of
        [] \<Rightarrow> return 0
      | primary # _ \<Rightarrow>
          calculate_recipient_share (split_pairs splits) who (rs_recipient primary) net)"

text \<open>
  The timing rules of a withdrawal: a completed event after its delay, a cancelled one after the
  dispute window, with the withdrawable ratio in basis points as the result.
\<close>

definition settlement_ratio :: "'w env \<Rightarrow> symbol \<Rightarrow> event_config \<Rightarrow> ('w, nat) payment_call" where
  "settlement_ratio env event_id config =
     bindE (gets (\<lambda>s. get_event_status s event_id)) (\<lambda>status.
     case status of
       Some Completed \<Rightarrow>
         bindE (u32 (ec_event_end_ledger config + ec_withdrawal_delay_ledgers config)) (\<lambda>a.
         bindE (u32 (a + ec_admin_delay_extension_ledgers config)) (\<lambda>unlock_ledger.
         thenE (ensure (\<not> ledger_sequence env < unlock_ledger) EscrowNotExpired) (
         return 10000)))
     | Some Cancelled \<Rightarrow>
         bindE (ok_or (ec_cancel_ledger config) EventNotCompleted) (\<lambda>cancel_ledger.
         bindE (u32 (cancel_ledger + MIN_DISPUTE_WINDOW_LEDGERS)) (\<lambda>min_dispute_unlock.
         thenE (ensure (\<not> ledger_sequence env < min_dispute_unlock) EscrowNotExpired) (
         bindE (ok_or (ec_withdrawable_ratio_bps config) EventNotCompleted) (\<lambda>ratio.
         thenE (ensure (ratio \<noteq> 0) NoRevenue) (
         return ratio)))))
     | _ \<Rightarrow> throw EventNotCompleted)"

definition require_no_disputes :: "symbol \<Rightarrow> ('w, unit) payment_call" where
  "require_no_disputes event_id =
     bindE (gets (\<lambda>s. get_event_disputes s event_id)) (\<lambda>disputes.
     ensure (disputes = []) ActiveDisputes)"

definition collect_platform_fee ::
    "'w env \<Rightarrow> symbol \<Rightarrow> int \<Rightarrow> int \<Rightarrow> address \<Rightarrow> ('w, unit) payment_call" where
  "collect_platform_fee env event_id fee_amount organizer_amount token =
     whenE (fee_amount > 0) (
       thenE (add_platform_revenue event_id fee_amount) (
       publish (PlatformFeeCollected event_id fee_amount organizer_amount token
         (ledger_timestamp env))))"

text \<open>Take an amount out of the event's recomputed revenue entry.\<close>

definition subtract_event_revenue :: "symbol \<Rightarrow> int \<Rightarrow> ('w, unit) payment_call" where
  "subtract_event_revenue event_id amount =
     bindE (get_event_revenue event_id) (\<lambda>revenue.
     bindE (i128 (revenue - amount)) (\<lambda>new.
     set_event_revenue event_id new))"

definition subtract_event_token_revenue ::
    "symbol \<Rightarrow> address \<Rightarrow> int \<Rightarrow> ('w, unit) payment_call" where
  "subtract_event_token_revenue event_id token amount =
     bindE (gets (\<lambda>s. get_event_token_revenue s event_id token)) (\<lambda>token_revenue.
     bindE (i128 (token_revenue - amount)) (\<lambda>new.
     set_event_token_revenue event_id token new))"

definition settlement_amount :: "symbol \<Rightarrow> address \<Rightarrow> nat \<Rightarrow> ('w, int) payment_call" where
  "settlement_amount event_id payout_token ratio =
     bindE (gets (\<lambda>s. get_event_status s event_id)) (\<lambda>status.
     if status = Some Cancelled then collect_cancellation_organizer_pool event_id payout_token ratio
     else
       bindE (gets (\<lambda>s. get_event_token_revenue s event_id payout_token)) (\<lambda>total.
       thenE (ensure (\<not> total \<le> 0) NoRevenue) (
       mul_bps total ratio)))"

definition ensure_split_settled :: "'w env \<Rightarrow> symbol \<Rightarrow> ('w, split_settlement) payment_call" where
  "ensure_split_settled env event_id =
     bindE (gets (\<lambda>s. get_split_settlement s event_id)) (\<lambda>existing.
     case existing of
       Some settlement \<Rightarrow> return settlement
     | None \<Rightarrow>
         bindE (gets (\<lambda>s. get_event_config s event_id)) (\<lambda>c.
         bindE (ok_or c InvalidOrganizer) (\<lambda>config.
         bindE (settlement_ratio env event_id config) (\<lambda>ratio.
         thenE (validate_revenue_invariant env event_id) (
         thenE (require_no_disputes event_id) (
         bindE (get_event_payout_token event_id) (\<lambda>payout_token.
         bindE (settlement_amount event_id payout_token ratio) (\<lambda>total_to_withdraw.
         thenE (ensure (\<not> total_to_withdraw \<le> 0) NoRevenue) (
         bindE (gets get_platform_fee_bps) (\<lambda>fee_bps.
         bindE (mul_bps total_to_withdraw fee_bps) (\<lambda>fee_amount.
         bindE (i128 (total_to_withdraw - fee_amount)) (\<lambda>net.
         thenE (ensure (\<not> net \<le> 0) NoRevenue) (
         thenE (if ratio = 10000 then set_event_token_revenue event_id payout_token 0
                else subtract_event_token_revenue event_id payout_token total_to_withdraw) (
         thenE (subtract_event_revenue event_id total_to_withdraw) (
         thenE (collect_platform_fee env event_id fee_amount net payout_token) (
         let settlement = \<lparr>ss_token = payout_token, ss_net_distributable = net\<rparr> in
         thenE (set_split_settlement event_id settlement) (
         return settlement)))))))))))))))))"

end
