(* ===== verification/Payments_Config.thy ===== *)
theory Payments_Config
  imports Payments_Core
begin

text \<open>
  The payments contract's configuration entry points: initialization, the administrator's
  settings, the synchronization calls of the event contract, cancellation, postponement and
  resumption of an event, and the version and event migrations.
\<close>

section \<open>Initialization and administration\<close>

definition initialize ::
    "address \<Rightarrow> address \<Rightarrow> nat \<Rightarrow> address \<Rightarrow> address \<Rightarrow> ('w, unit) payment_call" where
  "initialize admin token platform_fee_bps platform_wallet event_contract =
     bindE (gets is_initialized) (\<lambda>initialized.
     if initialized then return ()
     else
       thenE (ensure (\<not> platform_fee_bps > 10000) InvalidFeeBps) (
       thenE (set_admin admin) (
       thenE (set_accepted_token token) (
       thenE (set_platform_fee_bps platform_fee_bps) (
       thenE (set_platform_wallet platform_wallet) (
       set_event_contract event_contract))))))"

text \<open>The administrator's guard, in the two orders in which the entry points check it.\<close>

definition require_admin :: "'w env \<Rightarrow> address \<Rightarrow> ('w, unit) payment_call" where
  "require_admin env admin =
     bindE get_admin (\<lambda>stored_admin.
     thenE (ensure (admin = stored_admin) Unauthorized) (
     require_auth env admin))"

definition require_auth_admin :: "'w env \<Rightarrow> address \<Rightarrow> ('w, unit) payment_call" where
  "require_auth_admin env admin =
     thenE (require_auth env admin) (
     bindE get_admin (\<lambda>current_admin.
     ensure (current_admin = admin) Unauthorized))"

definition add_supported_token :: "'w env \<Rightarrow> address \<Rightarrow> address \<Rightarrow> ('w, unit) payment_call" where
  "add_supported_token env admin token =
     thenE (require_auth_admin env admin) (put_supported_token token)"

definition set_paused :: "'w env \<Rightarrow> address \<Rightarrow> bool \<Rightarrow> ('w, unit) payment_call" where
  "set_paused env admin paused = thenE (require_admin env admin) (put_paused paused)"

definition set_event_status ::
    "'w env \<Rightarrow> address \<Rightarrow> symbol \<Rightarrow> event_status \<Rightarrow> ('w, unit) payment_call" where
  "set_event_status env admin event_id status =
     thenE require_not_paused (
     thenE (require_admin env admin) (
     put_event_status event_id status))"

definition set_platform_fee :: "'w env \<Rightarrow> nat \<Rightarrow> address \<Rightarrow> ('w, unit) payment_call" where
  "set_platform_fee env fee_bps wallet =
     thenE require_not_paused (
     bindE get_admin (\<lambda>admin.
     thenE (require_auth env admin) (
     thenE (ensure (\<not> fee_bps > 10000) InvalidFeeBps) (
     bindE (gets get_platform_fee_bps) (\<lambda>old_bps.
     thenE (set_platform_fee_bps fee_bps) (
     thenE (set_platform_wallet wallet) (
     publish (PlatformFeeUpdated admin old_bps fee_bps (ledger_timestamp env)))))))))"

definition set_event_privacy ::
    "'w env \<Rightarrow> address \<Rightarrow> symbol \<Rightarrow> privacy_level \<Rightarrow> ('w, unit) payment_call" where
  "set_event_privacy env admin event_id level =
     thenE require_not_paused (
     thenE (require_admin env admin) (
     set_emission_privacy event_id level))"

definition set_ticket_contract :: "'w env \<Rightarrow> address \<Rightarrow> address \<Rightarrow> ('w, unit) payment_call" where
  "set_ticket_contract env admin ticket_contract =
     thenE (require_admin env admin) (put_ticket_contract ticket_contract)"

definition set_event_end_time ::
    "'w env \<Rightarrow> address \<Rightarrow> symbol \<Rightarrow> address \<Rightarrow> nat \<Rightarrow> ('w, unit) payment_call" where
  "set_event_end_time env admin event_id organizer event_end_time =
     thenE require_not_paused (
     thenE (require_admin env admin) (
     set_escrow_meta event_id \<lparr>em_organizer = organizer, em_event_end_time = event_end_time,
       em_auto_released = False\<rparr>))"

definition extend_withdrawal_delay ::
    "'w env \<Rightarrow> address \<Rightarrow> symbol \<Rightarrow> nat \<Rightarrow> ('w, unit) payment_call" where
  "extend_withdrawal_delay env admin event_id additional_ledgers =
     thenE (require_admin env admin) (
     bindE (gets (\<lambda>s. get_event_config s event_id)) (\<lambda>c.
     bindE (ok_or c InvalidOrganizer) (\<lambda>config.
     bindE (u32 (ec_admin_delay_extension_ledgers config + additional_ledgers)) (\<lambda>extension.
     set_event_config event_id (config\<lparr>ec_admin_delay_extension_ledgers := extension\<rparr>)))))"

section \<open>Calls of the event contract\<close>

definition require_event_contract :: "'w env \<Rightarrow> address \<Rightarrow> ('w, unit) payment_call" where
  "require_event_contract env event_contract =
     bindE get_event_contract (\<lambda>stored.
     thenE (ensure (event_contract = stored) Unauthorized) (
     require_auth env event_contract))"

definition sync_event_privacy ::
    "'w env \<Rightarrow> address \<Rightarrow> symbol \<Rightarrow> bool \<Rightarrow> bool \<Rightarrow> ('w, unit) payment_call" where
  "sync_event_privacy env event_contract event_id allow_anonymous requires_verification =
     thenE require_not_paused (
     thenE (require_event_contract env event_contract) (
     put_event_privacy event_id \<lparr>epc_allow_anonymous = allow_anonymous,
       epc_requires_verification = requires_verification\<rparr>))"

text \<open>
  The incoming configuration carries the parameters of the call; the sold count, the delay
  extension, the cancellation data and the withdrawal latch come from the stored one.
\<close>

definition sync_event_config ::
    "'w env \<Rightarrow> address \<Rightarrow> symbol \<Rightarrow> event_config \<Rightarrow> ('w, unit) payment_call" where
  "sync_event_config env event_contract event_id params =
     thenE require_not_paused (
     thenE (require_event_contract env event_contract) (
     bindE get_accepted_token (\<lambda>accepted_token.
     thenE (ensure (ec_payout_token params = accepted_token) InvalidPayoutToken) (
     bindE (gets (\<lambda>s. get_event_config s event_id)) (\<lambda>c.
     bindE (case c of
              Some existing_config \<Rightarrow>
                thenE (ensure (ec_organizer existing_config = ec_organizer params) InvalidOrganizer) (
                thenE (ensure (ec_payout_token existing_config = ec_payout_token params)
                         InvalidPayoutToken) (
                return (ec_sold_count existing_config,
                        ec_admin_delay_extension_ledgers existing_config,
                        ec_cancel_ledger existing_config, ec_withdrawable_ratio_bps existing_config,
                        ec_organizer_withdrawn existing_config)))
            | None \<Rightarrow> return (0, 0, None, None, False))
       (\<lambda>(existing_sold, existing_admin_delay, existing_cancel, existing_ratio, existing_withdrawn).
     set_event_config event_id (params\<lparr>
       ec_sold_count := existing_sold,
       ec_admin_delay_extension_ledgers := existing_admin_delay,
       ec_cancel_ledger := existing_cancel,
       ec_withdrawable_ratio_bps := existing_ratio,
       ec_organizer_withdrawn := existing_withdrawn\<rparr>)))))))"

text \<open>The share of the revenue that the organizer may keep, by the time elapsed.\<close>

definition cancellation_ratio :: "nat \<Rightarrow> nat \<Rightarrow> nat \<Rightarrow> nat" where
  "cancellation_ratio current_ledger start_ledger end_ledger =
     (if current_ledger < start_ledger then 0
      else if end_ledger \<le> current_ledger then 10000
      else let elapsed = current_ledger - start_ledger; tot = end_ledger - start_ledger
           in if tot = 0 then 10000 else elapsed * 10000 div tot)"

definition cancel_event :: "'w env \<Rightarrow> symbol \<Rightarrow> address \<Rightarrow> ('w, unit) payment_call" where
  "cancel_event env event_id organizer =
     bindE get_event_contract (\<lambda>event_contract.
     thenE (require_auth env event_contract) (
     bindE (gets (\<lambda>s. get_event_config s event_id)) (\<lambda>c.
     bindE (ok_or c InvalidOrganizer) (\<lambda>config.
     thenE (ensure (ec_organizer config = organizer) Unauthorized) (
     thenE (set_event_config event_id (config\<lparr>
       ec_cancel_ledger := Some (ledger_sequence env),
       ec_withdrawable_ratio_bps := Some (cancellation_ratio (ledger_sequence env)
         (ec_event_start_ledger config) (ec_event_end_ledger config))\<rparr>)) (
     put_event_status event_id Cancelled))))))"

definition postpone_event ::
    "'w env \<Rightarrow> symbol \<Rightarrow> address \<Rightarrow> nat \<Rightarrow> ('w, unit) payment_call" where
  "postpone_event env event_id organizer choice_deadline_ledger =
     thenE require_not_paused (
     bindE get_event_contract (\<lambda>event_contract.
     thenE (require_auth env event_contract) (
     bindE (gets (\<lambda>s. get_event_config s event_id)) (\<lambda>c.
     bindE (ok_or c InvalidOrganizer) (\<lambda>config.
     thenE (ensure (ec_organizer config = organizer) Unauthorized) (
     thenE (put_event_status event_id Postponed) (
     set_postpone_deadline event_id choice_deadline_ledger)))))))"

definition resume_event :: "'w env \<Rightarrow> symbol \<Rightarrow> address \<Rightarrow> ('w, unit) payment_call" where
  "resume_event env event_id organizer =
     thenE require_not_paused (
     bindE get_event_contract (\<lambda>event_contract.
     thenE (require_auth env event_contract) (
     bindE (gets (\<lambda>s. get_event_config s event_id)) (\<lambda>c.
     bindE (ok_or c InvalidOrganizer) (\<lambda>config.
     thenE (ensure (ec_organizer config = organizer) Unauthorized) (
     bindE (gets (\<lambda>s. get_event_status s event_id)) (\<lambda>status.
     thenE (ensure (status = Some Postponed) EventNotPostponed) (
     thenE (put_event_status event_id Active) (
     remove_postpone_deadline event_id)))))))))"

section \<open>Migration\<close>

definition migrate :: "'w env \<Rightarrow> address \<Rightarrow> ('w, nat) payment_call" where
  "migrate env admin =
     thenE require_not_paused (
     thenE (require_auth_admin env admin) (
     bindE (gets get_contract_version) (\<lambda>current_version.
     bindE (u32 (current_version + 1)) (\<lambda>new_version.
     thenE (if current_version = 0 then set_contract_version 1
            else if current_version = 1 then set_contract_version 2
            else if current_version = 2 then set_contract_version 3
            else throw UnsupportedVersion) (
     return new_version)))))"

text \<open>One element of the legacy vector: its index, and the two totals so far.\<close>

definition migrate_payment ::
    "symbol \<Rightarrow> nat \<times> nat \<Rightarrow> int \<times> int \<Rightarrow> ('w, int \<times> int) payment_call" where
  "migrate_payment event_id = (\<lambda>(i, payment_id) (total_payments, total_refunds).
     thenE (modify (\<lambda>s. s\<lparr>pk_EventPaymentIndex :=
              (pk_EventPaymentIndex s)((event_id, i) \<mapsto> payment_id)\<rparr>)) (
     bindE (gets (\<lambda>s. pk_Payment s payment_id)) (\<lambda>p.
     case p of
       None \<Rightarrow> return (total_payments, total_refunds)
     | Some payment \<Rightarrow>
         bindE (i128 (total_payments + p_amount payment)) (\<lambda>new_payments.
         bindE (i128 (total_refunds + p_refunded_amount payment)) (\<lambda>new_refunds.
         thenE (add_total_token_volume event_id (p_token payment) (p_amount payment)) (
         thenE (add_event_token event_id (p_token payment)) (
         thenE (whenE (p_refunded_amount payment > 0)
                  (add_total_token_refunds event_id (p_token payment) (p_refunded_amount payment))) (
         return (new_payments, new_refunds)))))))))"

text \<open>The event's totals, written anew from the legacy payments and the withdrawal history.\<close>

definition migrate_totals ::
    "'w env \<Rightarrow> symbol \<Rightarrow> nat \<Rightarrow> int \<Rightarrow> int \<Rightarrow> ('w, unit) payment_call" where
  "migrate_totals env event_id count total_payments total_refunds =
     thenE (modify (\<lambda>s. s\<lparr>pk_EventPaymentsCount :=
              (pk_EventPaymentsCount s)(event_id \<mapsto> count)\<rparr>)) (
     thenE (modify (\<lambda>s. s\<lparr>pk_TotalPayments := (pk_TotalPayments s)(event_id \<mapsto> total_payments)\<rparr>)) (
     thenE (modify (\<lambda>s. s\<lparr>pk_TotalRefunds := (pk_TotalRefunds s)(event_id \<mapsto> total_refunds)\<rparr>)) (
     bindE (gets (\<lambda>s. get_withdrawal_history s event_id)) (\<lambda>history.
     bindE (foldE (\<lambda>r sum. i128 (sum + wr_amount r)) history 0) (\<lambda>total_withdrawn.
     thenE (modify (\<lambda>s. s\<lparr>pk_TotalWithdrawn := (pk_TotalWithdrawn s)(event_id \<mapsto> total_withdrawn)\<rparr>)) (
     bindE (gets (\<lambda>s. get_event_tokens s event_id)) (\<lambda>tokens.
     thenE (whenE (total_withdrawn > 0) (
              thenE (ensure (\<not> length tokens > 1) AccountingMismatch) (
              case tokens of
                [] \<Rightarrow> return ()
              | single_token # _ \<Rightarrow> add_total_token_withdrawn event_id single_token total_withdrawn))) (
     thenE (modify (\<lambda>s. s\<lparr>pk_EventPayments := (pk_EventPayments s)(event_id := None)\<rparr>)) (
     validate_revenue_invariant env event_id)))))))))"

definition migrate_event :: "'w env \<Rightarrow> address \<Rightarrow> symbol \<Rightarrow> ('w, unit) payment_call" where
  "migrate_event env admin event_id =
     thenE require_not_paused (
     thenE (require_auth_admin env admin) (
     bindE (gets (\<lambda>s. case pk_EventPayments s event_id of None \<Rightarrow> [] | Some v \<Rightarrow> v)) (\<lambda>legacy_payments.
     bindE (foldE (migrate_payment event_id) (enumerate 0 legacy_payments) (0, 0))
       (\<lambda>(total_payments, total_refunds).
     migrate_totals env event_id (length legacy_payments) total_payments total_refunds))))"

end
