(* ===== verification/Payments_Refunds.thy ===== *)
theory Payments_Refunds
  imports Payments_Core
begin

text \<open>
  Refunds to the payer of a payment: by the administrator, by the payer of a cancelled event,
  and by the ticket owner of a postponed one; and the receipt commitment bound to a payment.
\<close>

text \<open>\<^verbatim>\<open>10_000 - withdrawable_ratio_bps\<close>, an unsigned subtraction.\<close>

definition refund_ratio :: "event_config option \<Rightarrow> ('s, 'e, nat) call" where
  "refund_ratio config =
     sub_u 10000 (case config of
        None \<Rightarrow> 0
      | Some c \<Rightarrow> (case ec_withdrawable_ratio_bps c of None \<Rightarrow> 0 | Some r \<Rightarrow> r))"

text \<open>The accounting that every refund ends with.\<close>

definition record_refund :: "'w env \<Rightarrow> payment_record \<Rightarrow> int \<Rightarrow> ('w, unit) payment_call" where
  "record_refund env payment refund_amt =
     thenE (update_payment payment) (
     bindE (get_event_revenue (p_event_id payment)) (\<lambda>revenue.
     bindE (i128 (revenue - refund_amt)) (\<lambda>new_revenue.
     thenE (set_event_revenue (p_event_id payment) new_revenue) (
     bindE (gets (\<lambda>s. get_event_token_revenue s (p_event_id payment) (p_token payment))) (\<lambda>token_revenue.
     bindE (i128 (token_revenue - refund_amt)) (\<lambda>new_token_revenue.
     thenE (set_event_token_revenue (p_event_id payment) (p_token payment) new_token_revenue) (
     thenE (add_total_refunds (p_event_id payment) refund_amt) (
     thenE (add_total_token_refunds (p_event_id payment) (p_token payment) refund_amt) (
     emit_payment_refunded env payment refund_amt)))))))))"

definition max_refund :: "payment_record \<Rightarrow> event_config option \<Rightarrow> event_status option \<Rightarrow>
    ('w, int) payment_call" where
  "max_refund payment config status =
     (if status = Some Cancelled then
        bindE (refund_ratio config) (\<lambda>refund_ratio_bps.
        bindE (mul_bps (p_amount payment) refund_ratio_bps) (\<lambda>total_refundable.
        i128 (total_refundable - p_refunded_amount payment)))
      else i128 (p_amount payment - p_refunded_amount payment))"

definition refund :: "'w env \<Rightarrow> address \<Rightarrow> nat \<Rightarrow> int option \<Rightarrow> ('w, unit) payment_call" where
  "refund env admin payment_id amount =
     thenE require_not_paused (
     bindE get_admin (\<lambda>stored_admin.
     thenE (ensure (admin = stored_admin) Unauthorized) (
     thenE (require_auth env admin) (
     bindE (get_payment payment_id) (\<lambda>payment.
     thenE (ensure (p_privacy_level payment = P_Standard) RefundNotAllowed) (
     thenE (ensure (p_status payment \<noteq> Refunded) PaymentAlreadyRefunded) (
     thenE (ensure (p_status payment = Held) PaymentAlreadyProcessed) (
     bindE (gets (\<lambda>s. get_event_config s (p_event_id payment))) (\<lambda>config.
     thenE (case config of
              None \<Rightarrow> return ()
            | Some cfg \<Rightarrow> ensure (\<not> (ec_organizer_withdrawn cfg \<and>
                (case ec_withdrawable_ratio_bps cfg of None \<Rightarrow> 10000 | Some r \<Rightarrow> r) = 10000))
                PaymentAlreadyProcessed) (
     bindE (gets (\<lambda>s. pk_EscrowMeta s (p_event_id payment))) (\<lambda>meta.
     thenE (case meta of
              None \<Rightarrow> return ()
            | Some m \<Rightarrow> ensure (\<not> em_auto_released m) PaymentAlreadyProcessed) (
     bindE (gets (\<lambda>s. get_event_status s (p_event_id payment))) (\<lambda>status.
     bindE (max_refund payment config status) (\<lambda>max_amt.
     let refund_amt = (case amount of None \<Rightarrow> max_amt | Some a \<Rightarrow> a) in
     thenE (ensure (\<not> (refund_amt \<le> 0 \<or> refund_amt > max_amt)) InvalidAmount) (
     thenE (case p_payer payment of
              None \<Rightarrow> return ()
            | Some refund_to \<Rightarrow> transfer env (p_token payment) (current_contract_address env)
                                  refund_to refund_amt) (
     bindE (i128 (p_refunded_amount payment + refund_amt)) (\<lambda>refunded.
     record_refund env (payment\<lparr>p_refunded_amount := refunded,
         p_status := (if refunded = p_amount payment then Refunded else p_status payment)\<rparr>)
       refund_amt)))))))))))))))))"

definition claim_refund :: "'w env \<Rightarrow> address \<Rightarrow> nat \<Rightarrow> ('w, unit) payment_call" where
  "claim_refund env payer payment_id =
     thenE (require_auth env payer) (
     bindE (get_payment payment_id) (\<lambda>payment.
     bindE (ok_or (p_payer payment) RefundNotAllowed) (\<lambda>stored_payer.
     thenE (ensure (stored_payer = payer) Unauthorized) (
     thenE (ensure (p_status payment = Held) PaymentAlreadyProcessed) (
     bindE (gets (\<lambda>s. get_event_status s (p_event_id payment))) (\<lambda>status.
     thenE (ensure (status = Some Cancelled) EventNotActive) (
     bindE (gets (\<lambda>s. get_event_config s (p_event_id payment))) (\<lambda>config.
     bindE (refund_ratio config) (\<lambda>refund_ratio_bps.
     thenE (ensure (refund_ratio_bps \<noteq> 0) NoRevenue) (
     bindE (mul_bps (p_amount payment) refund_ratio_bps) (\<lambda>max_refund.
     bindE (i128 (max_refund - p_refunded_amount payment)) (\<lambda>remaining.
     thenE (ensure (\<not> remaining \<le> 0) InvalidAmount) (
     thenE (transfer env (p_token payment) (current_contract_address env) stored_payer remaining) (
     bindE (i128 (p_refunded_amount payment + remaining)) (\<lambda>refunded.
     record_refund env (payment\<lparr>p_refunded_amount := refunded, p_status := Refunded\<rparr>)
       remaining)))))))))))))))"

definition request_postponement_refund ::
    "'w env \<Rightarrow> address \<Rightarrow> nat \<Rightarrow> ('w, unit) payment_call" where
  "request_postponement_refund env caller ticket_id =
     thenE require_not_paused (
     bindE get_event_contract (\<lambda>event_contract.
     thenE (require_auth env event_contract) (
     bindE (get_ticket ticket_id) (\<lambda>ticket.
     bindE (ok_or (pt_owner ticket) RefundNotAllowed) (\<lambda>ticket_owner.
     thenE (ensure (ticket_owner = caller) Unauthorized) (
     bindE (get_payment (pt_payment_id ticket)) (\<lambda>payment.
     bindE (ok_or (p_payer payment) RefundNotAllowed) (\<lambda>refund_recipient.
     thenE (ensure (p_status payment \<noteq> Refunded) PaymentAlreadyRefunded) (
     thenE (ensure (p_status payment = Held) PaymentAlreadyProcessed) (
     bindE (gets (\<lambda>s. get_event_status s (p_event_id payment))) (\<lambda>status.
     thenE (ensure (status = Some Postponed) EventNotPostponed) (
     bindE (gets (\<lambda>s. get_postpone_deadline s (p_event_id payment))) (\<lambda>d.
     bindE (ok_or d EventNotPostponed) (\<lambda>deadline.
     thenE (ensure (\<not> ledger_sequence env > deadline) PostponementWindowClosed) (
     bindE (i128 (p_amount payment - p_refunded_amount payment)) (\<lambda>refund_amt.
     thenE (ensure (\<not> refund_amt \<le> 0) InvalidAmount) (
     thenE (transfer env (p_token payment) (current_contract_address env) refund_recipient refund_amt) (
     bindE (i128 (p_refunded_amount payment + refund_amt)) (\<lambda>refunded.
     record_refund env (payment\<lparr>p_refunded_amount := refunded, p_status := Refunded\<rparr>)
       refund_amt)))))))))))))))))))"

section \<open>Receipt commitments\<close>

definition bind_email_commitment ::
    "'w env \<Rightarrow> address \<Rightarrow> nat \<Rightarrow> bytes32 \<Rightarrow> ('w, unit) payment_call" where
  "bind_email_commitment env payer payment_id commitment =
     thenE require_not_paused (
     thenE (require_auth env payer) (
     bindE (get_payment payment_id) (\<lambda>payment.
     thenE (ensure (p_payer payment = Some payer) Unauthorized) (
     thenE (ensure (p_status payment \<noteq> Refunded) CommitmentNotAllowed) (
     thenE (ensure (p_zk_email_commitment payment = None) CommitmentAlreadySet) (
     thenE (update_payment (payment\<lparr>p_zk_email_commitment := Some commitment\<rparr>)) (
     publish (ReceiptCommitmentBound payment_id (p_event_id payment) (ledger_timestamp env)))))))))"

definition get_payment_commitment :: "nat \<Rightarrow> ('w, bytes32 option) payment_call" where
  "get_payment_commitment payment_id =
     bindE (get_payment payment_id) (\<lambda>payment. return (p_zk_email_commitment payment))"

definition verify_email_commitment :: "nat \<Rightarrow> bytes32 \<Rightarrow> ('w, bool) payment_call" where
  "verify_email_commitment payment_id candidate =
     bindE (get_payment payment_id) (\<lambda>payment.
     return (p_zk_email_commitment payment = Some candidate))"

end
