(* ===== verification/Payments_Settlement.thy ===== *)
theory Payments_Settlement
  imports Payments_Core
begin

text \<open>
  The withdrawals of escrowed revenue: the organizer's, the administrator's, the automatic
  release after the event, the two token withdrawals, and the platform's fees.
\<close>

definition withdrawal_log ::
    "'w env \<Rightarrow> symbol \<Rightarrow> address \<Rightarrow> int \<Rightarrow> ('w, unit) payment_call" where
  "withdrawal_log env event_id organizer amount =
     add_withdrawal_record event_id \<lparr>wr_amount = amount, wr_timestamp = ledger_timestamp env,
       wr_organizer = organizer\<rparr>"

text \<open>The amount of an organizer's withdrawal, with the checks before and after it.\<close>

definition withdrawable_total :: "symbol \<Rightarrow> address \<Rightarrow> nat \<Rightarrow> ('w, int) payment_call" where
  "withdrawable_total event_id payout_token ratio =
     bindE (gets (\<lambda>s. get_event_token_revenue s event_id payout_token)) (\<lambda>revenue.
     thenE (ensure (\<not> revenue \<le> 0) NoRevenue) (
     bindE (gets (\<lambda>s. get_event_status s event_id)) (\<lambda>status.
     bindE (if status = Some Cancelled
            then collect_cancellation_organizer_pool event_id payout_token ratio
            else gets (\<lambda>s. get_event_token_revenue s event_id payout_token)) (\<lambda>tot.
     thenE (ensure (\<not> tot \<le> 0) NoRevenue) (
     bindE (if status = Some Cancelled then return tot else mul_bps tot ratio) (\<lambda>total_to_withdraw.
     thenE (ensure (\<not> total_to_withdraw \<le> 0) NoRevenue) (
     return total_to_withdraw)))))))"

definition withdraw :: "'w env \<Rightarrow> address \<Rightarrow> symbol \<Rightarrow> ('w, unit) payment_call" where
  "withdraw env organizer event_id =
     thenE require_not_paused (
     thenE (require_auth env organizer) (
     thenE (ensure_no_splits event_id) (
     bindE (get_event_organizer event_id) (\<lambda>stored_organizer.
     thenE (ensure (organizer = stored_organizer) UnauthorizedWithdrawal) (
     bindE (gets (\<lambda>s. get_event_config s event_id)) (\<lambda>c.
     bindE (ok_or c InvalidOrganizer) (\<lambda>config.
     thenE (ensure (\<not> ec_organizer_withdrawn config) NoRevenue) (
     bindE (settlement_ratio env event_id config) (\<lambda>ratio.
     thenE (validate_revenue_invariant env event_id) (
     thenE (require_no_disputes event_id) (
     bindE (get_event_payout_token event_id) (\<lambda>payout_token.
     bindE (withdrawable_total event_id payout_token ratio) (\<lambda>total_to_withdraw.
     bindE (gets get_platform_fee_bps) (\<lambda>fee_bps.
     bindE (mul_bps total_to_withdraw fee_bps) (\<lambda>fee_amount.
     bindE (i128 (total_to_withdraw - fee_amount)) (\<lambda>organizer_amount.
     thenE (transfer env payout_token (current_contract_address env) stored_organizer
              organizer_amount) (
     thenE (collect_platform_fee env event_id fee_amount organizer_amount payout_token) (
     thenE (if ratio = 10000 then set_event_token_revenue event_id payout_token 0
            else
              thenE (subtract_event_token_revenue event_id payout_token total_to_withdraw) (
              subtract_event_revenue event_id total_to_withdraw)) (
     thenE (add_total_withdrawn event_id organizer_amount) (
     thenE (add_total_token_withdrawn event_id payout_token organizer_amount) (
     thenE (set_event_config event_id (config\<lparr>ec_organizer_withdrawn := True\<rparr>)) (
     thenE (withdrawal_log env event_id stored_organizer organizer_amount) (
     emit_revenue_withdrawn env event_id stored_organizer organizer_amount payout_token
       stored_organizer)))))))))))))))))))))))"

definition withdraw_revenue :: "'w env \<Rightarrow> symbol \<Rightarrow> address \<Rightarrow> ('w, unit) payment_call" where
  "withdraw_revenue env event_id to_addr =
     thenE require_not_paused (
     bindE get_admin (\<lambda>admin.
     thenE (require_auth env admin) (
     thenE (ensure_no_splits event_id) (
     bindE (gets (\<lambda>s. get_event_status s event_id)) (\<lambda>status.
     thenE (ensure (status \<noteq> Some Postponed) EventNotActive) (
     bindE (gets (\<lambda>s. get_event_config s event_id)) (\<lambda>config.
     thenE (case config of
              None \<Rightarrow> return ()
            | Some c \<Rightarrow> ensure (\<not> ec_organizer_withdrawn c) PaymentAlreadyProcessed) (
     thenE (validate_revenue_invariant env event_id) (
     bindE get_accepted_token (\<lambda>token_address.
     bindE (gets (\<lambda>s. get_event_token_revenue s event_id token_address)) (\<lambda>revenue.
     thenE (ensure (\<not> revenue \<le> 0) InvalidAmount) (
     bindE (gets get_platform_fee_bps) (\<lambda>fee_bps.
     bindE (mul_bps revenue fee_bps) (\<lambda>fee_amount.
     bindE (i128 (revenue - fee_amount)) (\<lambda>organizer_amount.
     thenE (transfer env token_address (current_contract_address env) to_addr organizer_amount) (
     thenE (collect_platform_fee env event_id fee_amount organizer_amount token_address) (
     thenE (set_event_token_revenue event_id token_address 0) (
     thenE (subtract_event_revenue event_id revenue) (
     thenE (add_total_withdrawn event_id organizer_amount) (
     thenE (add_total_token_withdrawn event_id token_address organizer_amount) (
     thenE (case config of
              None \<Rightarrow> return ()
            | Some c \<Rightarrow> set_event_config event_id (c\<lparr>ec_organizer_withdrawn := True\<rparr>)) (
     thenE (withdrawal_log env event_id to_addr organizer_amount) (
     emit_revenue_withdrawn env event_id to_addr organizer_amount token_address
       to_addr)))))))))))))))))))))))"

text \<open>One token of an automatic release, with the total so far.\<close>

definition release_token ::
    "'w env \<Rightarrow> symbol \<Rightarrow> address \<Rightarrow> address \<Rightarrow> int \<Rightarrow> ('w, int) payment_call" where
  "release_token env event_id organizer token_address tot =
     bindE (gets (\<lambda>s. get_event_token_revenue s event_id token_address)) (\<lambda>token_total.
     if token_total > 0 then
       thenE (transfer env token_address (current_contract_address env) organizer token_total) (
       thenE (set_event_token_revenue event_id token_address 0) (
       thenE (subtract_event_revenue event_id token_total) (
       thenE (withdrawal_log env event_id organizer token_total) (
       thenE (add_total_withdrawn event_id token_total) (
       thenE (add_total_token_withdrawn event_id token_address token_total) (
       i128 (tot + token_total)))))))
     else return tot)"

definition release_if_expired :: "'w env \<Rightarrow> symbol \<Rightarrow> ('w, unit) payment_call" where
  "release_if_expired env event_id =
     thenE require_not_paused (
     thenE (ensure_no_splits event_id) (
     bindE (get_escrow_meta event_id) (\<lambda>meta.
     thenE (ensure (\<not> em_auto_released meta) EscrowAlreadyReleased) (
     bindE (gets (\<lambda>s. get_event_status s event_id)) (\<lambda>status.
     thenE (ensure (status \<noteq> Some Postponed) EventNotActive) (
     thenE (ensure (\<not> ledger_timestamp env < em_event_end_time meta) EscrowNotExpired) (
     bindE (gets (\<lambda>s. get_event_config s event_id)) (\<lambda>c.
     thenE (case c of
              None \<Rightarrow> return ()
            | Some config \<Rightarrow> ensure (\<not> ledger_sequence env < ec_event_end_ledger config)
                               EscrowNotExpired) (
     thenE (validate_revenue_invariant env event_id) (
     bindE (gets (\<lambda>s. get_event_tokens s event_id)) (\<lambda>tokens.
     bindE (foldE (release_token env event_id (em_organizer meta)) tokens 0) (\<lambda>tot.
     thenE (set_escrow_meta event_id (meta\<lparr>em_auto_released := True\<rparr>)) (
     publish (EscrowAutoReleased event_id (em_organizer meta) tot (ledger_timestamp env)))))))))))))))"

definition withdraw_platform_revenue :: "'w env \<Rightarrow> symbol \<Rightarrow> ('w, unit) payment_call" where
  "withdraw_platform_revenue env event_id =
     thenE require_not_paused (
     bindE get_admin (\<lambda>admin.
     thenE (require_auth env admin) (
     bindE (gets (\<lambda>s. get_platform_revenue s event_id)) (\<lambda>platform_revenue.
     thenE (ensure (\<not> platform_revenue \<le> 0) NoPlatformRevenue) (
     bindE get_platform_wallet (\<lambda>platform_wallet.
     bindE get_accepted_token (\<lambda>token_address.
     thenE (transfer env token_address (current_contract_address env) platform_wallet
              platform_revenue) (
     thenE (add_total_token_withdrawn event_id token_address platform_revenue) (
     thenE (reset_platform_revenue event_id) (
     publish (PlatformRevenueWithdrawn event_id platform_revenue token_address platform_wallet
       (ledger_timestamp env))))))))))))"

text \<open>The guard that the two token withdrawals share.\<close>

definition require_completed :: "symbol \<Rightarrow> ('w, unit) payment_call" where
  "require_completed event_id =
     bindE (gets (\<lambda>s. get_event_status s event_id)) (\<lambda>status.
     ensure (status = Some Completed) EventNotCompleted)"

definition withdraw_token ::
    "'w env \<Rightarrow> address \<Rightarrow> symbol \<Rightarrow> address \<Rightarrow> ('w, unit) payment_call" where
  "withdraw_token env organizer event_id token_address =
     thenE require_not_paused (
     thenE (require_auth env organizer) (
     thenE (ensure_no_splits event_id) (
     thenE (require_completed event_id) (
     thenE (validate_revenue_invariant env event_id) (
     bindE (gets (\<lambda>s. get_event_token_revenue s event_id token_address)) (\<lambda>revenue.
     thenE (ensure (\<not> revenue \<le> 0) NoRevenue) (
     thenE (transfer env token_address (current_contract_address env) organizer revenue) (
     thenE (set_event_token_revenue event_id token_address 0) (
     thenE (subtract_event_revenue event_id revenue) (
     thenE (add_total_withdrawn event_id revenue) (
     thenE (add_total_token_withdrawn event_id token_address revenue) (
     thenE (withdrawal_log env event_id organizer revenue) (
     emit_revenue_withdrawn env event_id organizer revenue token_address organizer)))))))))))))"

definition drain_token ::
    "'w env \<Rightarrow> symbol \<Rightarrow> address \<Rightarrow> address \<Rightarrow> bool \<Rightarrow> ('w, bool) payment_call" where
  "drain_token env event_id organizer token_address has_revenue =
     bindE (gets (\<lambda>s. get_event_token_revenue s event_id token_address)) (\<lambda>revenue.
     if revenue > 0 then
       thenE (transfer env token_address (current_contract_address env) organizer revenue) (
       thenE (set_event_token_revenue event_id token_address 0) (
       thenE (add_total_withdrawn event_id revenue) (
       thenE (add_total_token_withdrawn event_id token_address revenue) (
       thenE (subtract_event_revenue event_id revenue) (
       thenE (withdrawal_log env event_id organizer revenue) (
       thenE (emit_revenue_withdrawn env event_id organizer revenue token_address organizer) (
       return True)))))))
     else return has_revenue)"

definition withdraw_all_tokens :: "'w env \<Rightarrow> address \<Rightarrow> symbol \<Rightarrow> ('w, unit) payment_call" where
  "withdraw_all_tokens env organizer event_id =
     thenE require_not_paused (
     thenE (require_auth env organizer) (
     thenE (ensure_no_splits event_id) (
     thenE (require_completed event_id) (
     thenE (validate_revenue_invariant env event_id) (
     bindE (gets (\<lambda>s. get_event_tokens s event_id)) (\<lambda>tokens.
     bindE (foldE (drain_token env event_id organizer) tokens False) (\<lambda>has_revenue.
     ensure has_revenue NoRevenue)))))))"

end
