(* ===== verification/Payments_Splits.thy ===== *)
theory Payments_Splits
  imports Payments_Core
begin

text \<open>
  Revenue splits: the event contract registers a split once; each recipient withdraws its share
  of the amount frozen by the first settlement; the primary organizer can flag a co-host, whose
  share the administrator then releases or reassigns.
\<close>

fun normalize_splits ::
    "(address \<times> nat) list \<Rightarrow> nat \<Rightarrow> revenue_split list \<Rightarrow> (address \<times> nat) list \<Rightarrow>
     ('w, nat \<times> revenue_split list) payment_call" where
  "normalize_splits before tot normalized [] = return (tot, normalized)"
| "normalize_splits before tot normalized ((recipient, bps) # rest) =
     thenE (ensure (bps \<noteq> 0) InvalidSplitConfig) (
     bindE (ok_or (checked_add_u32 tot bps) InvalidSplitConfig) (\<lambda>tot'.
     thenE (ensure (recipient \<notin> set (map fst before)) InvalidSplitConfig) (
     normalize_splits (before @ [(recipient, bps)]) tot'
       (normalized @ [\<lparr>rs_recipient = recipient, rs_basis_points = bps\<rparr>]) rest)))"

definition sync_revenue_splits ::
    "'w env \<Rightarrow> address \<Rightarrow> symbol \<Rightarrow> (address \<times> nat) list \<Rightarrow> ('w, unit) payment_call" where
  "sync_revenue_splits env event_contract event_id splits =
     thenE require_not_paused (
     bindE get_event_contract (\<lambda>stored.
     thenE (ensure (event_contract = stored) Unauthorized) (
     thenE (require_auth env event_contract) (
     bindE (gets (\<lambda>s. has_splits s event_id)) (\<lambda>exists.
     thenE (ensure (\<not> exists) InvalidSplitConfig) (
     thenE (ensure (\<not> (length splits = 0 \<or> length splits > 5)) InvalidSplitConfig) (
     bindE (gets (\<lambda>s. get_event_config s event_id)) (\<lambda>c.
     bindE (ok_or c InvalidOrganizer) (\<lambda>config.
     thenE (ensure (fst (hd splits) = ec_organizer config) InvalidSplitConfig) (
     bindE (normalize_splits [] 0 [] splits) (\<lambda>(tot, normalized).
     thenE (ensure (tot = 10000) InvalidSplitConfig) (
     set_splits event_id normalized))))))))))))"

definition get_revenue_splits :: "'w payments_state \<Rightarrow> symbol \<Rightarrow> (address \<times> nat) list" where
  "get_revenue_splits s event_id = split_pairs (get_splits s event_id)"

definition pay_share ::
    "'w env \<Rightarrow> symbol \<Rightarrow> split_settlement \<Rightarrow> address \<Rightarrow> int \<Rightarrow> ('w, unit) payment_call" where
  "pay_share env event_id settlement dest share =
     transfer env (ss_token settlement) (current_contract_address env) dest share"

definition withdraw_split :: "'w env \<Rightarrow> address \<Rightarrow> symbol \<Rightarrow> ('w, unit) payment_call" where
  "withdraw_split env recipient event_id =
     thenE require_not_paused (
     thenE (require_auth env recipient) (
     bindE (gets (\<lambda>s. get_splits s event_id)) (\<lambda>splits.
     thenE (ensure (splits \<noteq> []) SplitsNotConfigured) (
     thenE (ensure (find_split_bps splits recipient \<noteq> None) NotASplitRecipient) (
     bindE (gets (\<lambda>s. is_split_flagged s event_id recipient)) (\<lambda>flagged.
     thenE (ensure (\<not> flagged) RecipientFlagged) (
     bindE (gets (\<lambda>s. get_split_withdrawn s event_id recipient)) (\<lambda>withdrawn.
     thenE (ensure (\<not> withdrawn > 0) SplitAlreadyWithdrawn) (
     bindE (ensure_split_settled env event_id) (\<lambda>settlement.
     bindE (recipient_share splits recipient (ss_net_distributable settlement)) (\<lambda>share.
     thenE (ensure (\<not> share \<le> 0) NoRevenue) (
     thenE (pay_share env event_id settlement recipient share) (
     thenE (set_split_withdrawn event_id recipient share) (
     thenE (add_withdrawal_record event_id \<lparr>wr_amount = share,
              wr_timestamp = ledger_timestamp env, wr_organizer = recipient\<rparr>) (
     thenE (add_total_withdrawn event_id share) (
     thenE (add_total_token_withdrawn event_id (ss_token settlement) share) (
     emit_revenue_withdrawn env event_id recipient share (ss_token settlement)
       recipient)))))))))))))))))"

definition flag_cohost :: "'w env \<Rightarrow> address \<Rightarrow> symbol \<Rightarrow> address \<Rightarrow> ('w, unit) payment_call" where
  "flag_cohost env primary_organizer event_id recipient =
     thenE require_not_paused (
     bindE (gets (\<lambda>s. get_splits s event_id)) (\<lambda>splits.
     case splits of
       [] \<Rightarrow> throw SplitsNotConfigured
     | first # _ \<Rightarrow>
         let primary = rs_recipient first in
         thenE (ensure (primary_organizer = primary) Unauthorized) (
         thenE (require_auth env primary_organizer) (
         thenE (ensure (recipient \<noteq> primary) Unauthorized) (
         thenE (ensure (find_split_bps splits recipient \<noteq> None) NotASplitRecipient) (
         bindE (gets (\<lambda>s. get_split_withdrawn s event_id recipient)) (\<lambda>withdrawn.
         thenE (ensure (\<not> withdrawn > 0) SplitAlreadyWithdrawn) (
         thenE (set_split_flagged event_id recipient True) (
         publish (CohostFlagged event_id recipient primary_organizer
           (ledger_timestamp env)))))))))))"

definition resolve_flagged_share ::
    "'w env \<Rightarrow> symbol \<Rightarrow> address \<Rightarrow> flag_resolution \<Rightarrow> ('w, unit) payment_call" where
  "resolve_flagged_share env event_id recipient resolution =
     thenE require_not_paused (
     bindE get_admin (\<lambda>admin.
     thenE (require_auth env admin) (
     bindE (gets (\<lambda>s. get_splits s event_id)) (\<lambda>splits.
     case splits of
       [] \<Rightarrow> throw SplitsNotConfigured
     | first # _ \<Rightarrow>
         thenE (ensure (find_split_bps splits recipient \<noteq> None) NotASplitRecipient) (
         bindE (gets (\<lambda>s. is_split_flagged s event_id recipient)) (\<lambda>flagged.
         thenE (ensure flagged RecipientNotFlagged) (
         case resolution of
           ReleaseToRecipient \<Rightarrow>
             thenE (set_split_flagged event_id recipient False) (
             publish (FlaggedShareResolved event_id recipient True 0 (ledger_timestamp env)))
         | ReassignToPrimary \<Rightarrow>
             bindE (gets (\<lambda>s. get_split_withdrawn s event_id recipient)) (\<lambda>withdrawn.
             thenE (ensure (\<not> withdrawn > 0) SplitAlreadyWithdrawn) (
             bindE (ensure_split_settled env event_id) (\<lambda>settlement.
             let primary = rs_recipient first in
             bindE (recipient_share splits recipient (ss_net_distributable settlement)) (\<lambda>share.
             thenE (ensure (\<not> share \<le> 0) NoRevenue) (
             thenE (pay_share env event_id settlement primary share) (
             thenE (set_split_withdrawn event_id recipient share) (
             thenE (set_split_flagged event_id recipient False) (
             thenE (add_total_withdrawn event_id share) (
             thenE (add_total_token_withdrawn event_id (ss_token settlement) share) (
             thenE (add_withdrawal_record event_id \<lparr>wr_amount = share,
                      wr_timestamp = ledger_timestamp env, wr_organizer = primary\<rparr>) (
             publish (FlaggedShareResolved event_id recipient False share
               (ledger_timestamp env))))))))))))))))))))"

end
