(* ===== verification/Payments_Market.thy ===== *)
theory Payments_Market
  imports Payments_Core
begin

text \<open>
  The secondary market: a ticket's owner lists it at a price, and a buyer pays the price into the
  contract, which pays the seller, credits platform fee and royalty, and has the ticket contract
  transfer the ticket.
\<close>

definition list_ticket_for_resale :: "'w env \<Rightarrow> address \<Rightarrow> nat \<Rightarrow> int \<Rightarrow> ('w, unit) payment_call" where
  "list_ticket_for_resale env seller ticket_id price =
     thenE require_not_paused (
     thenE (require_auth env seller) (
     bindE (get_ticket ticket_id) (\<lambda>ticket.
     thenE (ensure (pt_owner ticket = Some seller) Unauthorized) (
     bindE (gets (\<lambda>s. get_event_config s (pt_event_id ticket))) (\<lambda>c.
     bindE (ok_or c InvalidOrganizer) (\<lambda>config.
     bindE (get_payment (pt_payment_id ticket)) (\<lambda>payment.
     thenE (ensure (\<not> (p_amount payment = 0 \<and> price > 0 \<and>
                         \<not> ec_allow_free_ticket_transfer config)) InvalidAmount) (
     thenE (ensure (\<not> (\<not> ec_allow_free_ticket_transfer config \<and> p_amount payment = 0))
              InvalidAmount) (
     thenE (ensure (\<not> (p_amount payment = 0 \<and> price > 0)) InvalidAmount) (
     thenE (case ec_max_resale_price config of
              None \<Rightarrow> return ()
            | Some max_price \<Rightarrow> ensure (\<not> price > max_price) InvalidAmount) (
     save_resale_listing ticket_id \<lparr>rl_price = price, rl_seller = seller\<rparr>)))))))))))"

definition delist_ticket :: "'w env \<Rightarrow> address \<Rightarrow> nat \<Rightarrow> ('w, unit) payment_call" where
  "delist_ticket env seller ticket_id =
     thenE require_not_paused (
     thenE (require_auth env seller) (
     bindE (gets (\<lambda>s. get_resale_listing s ticket_id)) (\<lambda>l.
     bindE (ok_or l TicketNotFound) (\<lambda>listing.
     thenE (ensure (rl_seller listing = seller) Unauthorized) (
     remove_resale_listing ticket_id)))))"

text \<open>The payment of a sale with a positive price.\<close>

definition settle_sale ::
    "'w env \<Rightarrow> address \<Rightarrow> symbol \<Rightarrow> event_config \<Rightarrow> resale_listing \<Rightarrow> ('w, unit) payment_call" where
  "settle_sale env buyer event_id config listing =
     bindE (gets get_platform_fee_bps) (\<lambda>platform_fee_bps.
     bindE (mul_bps (rl_price listing) platform_fee_bps) (\<lambda>platform_fee.
     bindE (mul_bps (rl_price listing) (ec_resale_royalty_bps config)) (\<lambda>royalty.
     bindE (i128 (rl_price listing - platform_fee)) (\<lambda>after_fee.
     bindE (i128 (after_fee - royalty)) (\<lambda>seller_proceeds.
     thenE (transfer env (ec_payout_token config) buyer (current_contract_address env)
              (rl_price listing)) (
     thenE (whenE (seller_proceeds > 0)
              (transfer env (ec_payout_token config) (current_contract_address env)
                 (rl_seller listing) seller_proceeds)) (
     thenE (whenE (platform_fee > 0) (add_platform_revenue event_id platform_fee)) (
     whenE (royalty > 0) (
       thenE (add_event_revenue event_id royalty) (
       add_event_token_revenue event_id (ec_payout_token config) royalty))))))))))"

text \<open>\<^verbatim>\<open>env.invoke_contract\<close>: the callee's world changes, or the invocation traps.\<close>

definition call_contract :: "'w env \<Rightarrow> address \<Rightarrow> symbol \<Rightarrow> host_val list \<Rightarrow> ('w, unit) payment_call" where
  "call_contract env contract fn args =
     bindE (gets pk_world) (\<lambda>w.
     bindE (unwrap (invoke_contract env contract fn args w)) (\<lambda>w'.
     modify (\<lambda>s. s\<lparr>pk_world := w'\<rparr>)))"

text \<open>
  A listing whose seller no longer owns the ticket is removed before the error is returned; the
  error rolls the removal back.
\<close>

definition buy_resale_ticket :: "'w env \<Rightarrow> address \<Rightarrow> nat \<Rightarrow> ('w, unit) payment_call" where
  "buy_resale_ticket env buyer ticket_id =
     thenE require_not_paused (
     thenE (require_auth env buyer) (
     bindE (gets (\<lambda>s. get_resale_listing s ticket_id)) (\<lambda>l.
     bindE (ok_or l TicketNotFound) (\<lambda>listing.
     bindE (get_ticket ticket_id) (\<lambda>ticket.
     thenE (whenE (pt_owner ticket \<noteq> Some (rl_seller listing)) (
              thenE (remove_resale_listing ticket_id) (throw Unauthorized))) (
     bindE (gets (\<lambda>s. get_event_config s (pt_event_id ticket))) (\<lambda>c.
     bindE (ok_or c InvalidOrganizer) (\<lambda>config.
     thenE (whenE (rl_price listing > 0)
              (settle_sale env buyer (pt_event_id ticket) config listing)) (
     bindE get_ticket_contract (\<lambda>ticket_contract.
     thenE (call_contract env ticket_contract ''admin_transfer_ticket''
              [VAddress (current_contract_address env), VAddress (rl_seller listing),
               VAddress buyer, VU64 ticket_id]) (
     thenE (modify (\<lambda>s. s\<lparr>pk_Ticket :=
              (pk_Ticket s)(ticket_id \<mapsto> ticket\<lparr>pt_owner := Some buyer\<rparr>)\<rparr>)) (
     thenE (modify (remove_owner_ticket_map (rl_seller listing) ticket_id)) (
     thenE (add_owner_ticket_map buyer ticket_id) (
     remove_resale_listing ticket_id))))))))))))))"

end
