(* ===== verification/Payments_Disputes.thy ===== *)
theory Payments_Disputes
  imports Payments_Core
begin

text \<open>
  Disputes: a ticket holder raises one within the window after the event, which takes the payment
  out of the held revenue; the administrator approves a refund before the timeout or rejects the
  dispute; anyone can process the timeouts.
\<close>

text \<open>
  Who may raise a dispute, by the ticket's privacy level: the owner, the holder of the nullifier's
  preimage, or the holder of the stealth key.
\<close>

definition authorize_dispute ::
    "'w env \<Rightarrow> nat \<Rightarrow> pay_ticket \<Rightarrow> bytes option \<Rightarrow> ('w, unit) payment_call" where
  "authorize_dispute env ticket_id ticket proof_bytes =
     (case pt_privacy_level ticket of
        P_Standard \<Rightarrow>
          (case pt_owner ticket of
             Some owner \<Rightarrow> require_auth env owner
           | None \<Rightarrow> throw Unauthorized)
      | P_Anonymous \<Rightarrow>
          bindE (ok_or proof_bytes Unauthorized) (\<lambda>preimage.
          ensure (Some (sha256 env preimage) = pt_nullifier_commitment ticket) Unauthorized)
      | P_Private \<Rightarrow>
          bindE (ok_or proof_bytes Unauthorized) (\<lambda>signature.
          bindE (get_payment (pt_payment_id ticket)) (\<lambda>payment.
          bindE (ok_or (p_stealth_delivery_key payment) Unauthorized) (\<lambda>pub_key.
          thenE (ensure (length signature = 64) Unauthorized) (
          host_check (ed25519_verify env pub_key (to_xdr env (VU64 ticket_id))
            signature))))))"

definition raise_dispute :: "'w env \<Rightarrow> nat \<Rightarrow> nat \<Rightarrow> bytes option \<Rightarrow> ('w, unit) payment_call" where
  "raise_dispute env ticket_id reason_code proof_bytes =
     thenE require_not_paused (
     thenE (ensure (\<not> reason_code > 2) InvalidDisputeReason) (
     bindE (get_ticket ticket_id) (\<lambda>ticket.
     thenE (authorize_dispute env ticket_id ticket proof_bytes) (
     bindE (gets (\<lambda>s. get_event_config s (pt_event_id ticket))) (\<lambda>c.
     bindE (ok_or c InvalidOrganizer) (\<lambda>config.
     thenE (ensure (\<not> ledger_sequence env < ec_event_end_ledger config) DisputeWindowClosed) (
     thenE (ensure (\<not> saturating_add_u32 (ec_event_end_ledger config)
              ATTENDEE_DISPUTE_WINDOW_LEDGERS \<le> ledger_sequence env) DisputeWindowClosed) (
     bindE (gets (\<lambda>s. get_dispute s ticket_id)) (\<lambda>existing.
     thenE (ensure (existing = None) DisputeAlreadyExists) (
     bindE (get_payment (pt_payment_id ticket)) (\<lambda>payment.
     thenE (ensure (p_status payment = Held) PaymentAlreadyProcessed) (
     thenE (update_payment (payment\<lparr>p_status := Disputed\<rparr>)) (
     thenE (subtract_event_revenue (pt_event_id ticket) (p_amount payment)) (
     thenE (subtract_event_token_revenue (pt_event_id ticket) (p_token payment)
              (p_amount payment)) (
     thenE (set_dispute ticket_id \<lparr>dr_ticket_id = ticket_id, dr_event_id = pt_event_id ticket,
              dr_payment_id = p_payment_id payment, dr_reason_code = reason_code,
              dr_raised_at_ledger = ledger_sequence env\<rparr>) (
     bindE (gets (\<lambda>s. get_event_disputes s (pt_event_id ticket))) (\<lambda>disputes.
     thenE (set_event_disputes (pt_event_id ticket) (disputes @ [ticket_id])) (
     publish (DisputeRaised (pt_event_id ticket) ticket_id (p_payment_id payment) reason_code
       (ledger_timestamp env))))))))))))))))))))"

text \<open>Delete the dispute's record and its entry in the event's list.\<close>

definition close_dispute :: "nat \<Rightarrow> dispute_record \<Rightarrow> ('w, unit) payment_call" where
  "close_dispute ticket_id dispute =
     thenE (remove_dispute ticket_id) (
     bindE (gets (\<lambda>s. get_event_disputes s (dr_event_id dispute))) (\<lambda>disputes.
     set_event_disputes (dr_event_id dispute) (filter (\<lambda>tid. tid \<noteq> ticket_id) disputes)))"

definition approve_refund :: "'w env \<Rightarrow> nat \<Rightarrow> ('w, unit) payment_call" where
  "approve_refund env ticket_id =
     thenE require_not_paused (
     bindE get_admin (\<lambda>admin.
     thenE (require_auth env admin) (
     bindE (gets (\<lambda>s. get_dispute s ticket_id)) (\<lambda>d.
     bindE (ok_or d DisputeNotFound) (\<lambda>dispute.
     thenE (ensure (\<not> saturating_add_u32 (dr_raised_at_ledger dispute) DISPUTE_TIMEOUT_LEDGERS
              \<le> ledger_sequence env) DisputeExpired) (
     bindE (get_payment (dr_payment_id dispute)) (\<lambda>payment.
     thenE (ensure (p_status payment = Disputed) PaymentAlreadyProcessed) (
     bindE (i128 (p_amount payment - p_refunded_amount payment)) (\<lambda>remaining.
     bindE (ok_or (p_payer payment) RefundNotAllowed) (\<lambda>refund_to.
     thenE (transfer env (p_token payment) (current_contract_address env) refund_to remaining) (
     bindE (i128 (p_refunded_amount payment + remaining)) (\<lambda>refunded.
     thenE (update_payment (payment\<lparr>p_refunded_amount := refunded, p_status := Refunded\<rparr>)) (
     thenE (add_total_refunds (dr_event_id dispute) remaining) (
     thenE (add_total_token_refunds (dr_event_id dispute) (p_token payment) remaining) (
     thenE (close_dispute ticket_id dispute) (
     publish (DisputeResolved (dr_event_id dispute) ticket_id True
       (ledger_timestamp env))))))))))))))))))"

definition reject_dispute :: "'w env \<Rightarrow> nat \<Rightarrow> ('w, unit) payment_call" where
  "reject_dispute env ticket_id =
     thenE require_not_paused (
     bindE get_admin (\<lambda>admin.
     thenE (require_auth env admin) (
     bindE (gets (\<lambda>s. get_dispute s ticket_id)) (\<lambda>d.
     bindE (ok_or d DisputeNotFound) (\<lambda>dispute.
     bindE (get_payment (dr_payment_id dispute)) (\<lambda>payment.
     thenE (ensure (p_status payment = Disputed) PaymentAlreadyProcessed) (
     thenE (update_payment (payment\<lparr>p_status := Held\<rparr>)) (
     bindE (get_event_revenue (dr_event_id dispute)) (\<lambda>rev.
     bindE (i128 (rev + p_amount payment)) (\<lambda>new_rev.
     thenE (set_event_revenue (dr_event_id dispute) new_rev) (
     thenE (add_event_token_revenue (dr_event_id dispute) (p_token payment) (p_amount payment)) (
     thenE (close_dispute ticket_id dispute) (
     publish (DisputeResolved (dr_event_id dispute) ticket_id False
       (ledger_timestamp env)))))))))))))))"

definition process_dispute_timeouts :: "'w env \<Rightarrow> symbol \<Rightarrow> ('w, unit) payment_call" where
  "process_dispute_timeouts env event_id = process_timed_out_disputes env event_id"

end
