(* ===== verification/Frames.thy ===== *)
theory Frames
  imports Prelude
begin

text \<open>
  Compositional reasoning about calls.  A call \<^emph>\<open>keeps\<close> a relation between states when every
  returning run ends in a related state; for a preorder this composes along all combinators, which
  is the interface \<open>history\<close>.  The rules in \<open>wp_intro\<close> decompose a weakest precondition into the
  facts each step establishes, so that steps whose effect does not matter are skipped through
  their frame and only the ones that matter are left as facts about the states in between.
\<close>

named_theorems wp_intro \<open>introduction rules for weakest preconditions\<close>

definition keeps :: "('s \<Rightarrow> 's \<Rightarrow> bool) \<Rightarrow> ('s, 'e, 'a) call \<Rightarrow> bool" where
  "keeps R m \<longleftrightarrow> (\<forall>s. wp m (\<lambda>_. R s) s)"

lemma keepsI: "(\<And>s. wp m (\<lambda>_. R s) s) \<Longrightarrow> keeps R m"
  by (simp add: keeps_def)

lemma keepsD: "keeps R m \<Longrightarrow> m s = Inr (x, s') \<Longrightarrow> R s s'"
  unfolding keeps_def by (drule spec, erule wpD, assumption)

lemma wp_keeps:
  assumes "keeps R m" and "\<And>x s'. R s s' \<Longrightarrow> Q x s'"
  shows "wp m Q s"
  by (rule wp_mono [of m "\<lambda>_. R s"]) (use assms in \<open>auto simp: keeps_def\<close>)

lemma keeps_modify: "(\<And>s. R s (f s)) \<Longrightarrow> keeps R (modify f)"
  by (simp add: keeps_def wp_rules)

locale history =
  fixes R :: "'s \<Rightarrow> 's \<Rightarrow> bool"
  assumes refl: "R s s" and trans: "R s t \<Longrightarrow> R t u \<Longrightarrow> R s u"
begin

lemma pure_keeps:
  "keeps R (return x)" "keeps R (throw e)" "keeps R trap" "keeps R (gets f)"
  "keeps R (ensure b e)" "keeps R (host_check b)" "keeps R (ok_or v e)"
  "keeps R (unwrap v)" "keeps R (i128 i)" "keeps R (u32 n)" "keeps R (u64 n)"
  "keeps R (sub_u n k)" "keeps R (mul_bps i n)"
  by (simp_all add: keeps_def wp_rules refl)

lemma bindE_keeps:
  assumes "keeps R m" and "\<And>x. keeps R (f x)"
  shows "keeps R (bindE m f)"
proof (rule keepsI)
  fix s
  have "wp m (\<lambda>x. wp (f x) (\<lambda>_. R s)) s"
    by (rule wp_keeps [OF assms(1)], rule wp_keeps [OF assms(2)]) (rule trans)
  then show "wp (bindE m f) (\<lambda>_. R s) s" by (simp add: wp_rules)
qed

lemma thenE_keeps: "keeps R m \<Longrightarrow> keeps R k \<Longrightarrow> keeps R (thenE m k)"
  by (simp add: thenE_def bindE_keeps)

lemma whenE_keeps: "keeps R m \<Longrightarrow> keeps R (whenE b m)"
  by (simp add: whenE_def pure_keeps)

lemma if_keeps:
  "(b \<Longrightarrow> keeps R m) \<Longrightarrow> (\<not> b \<Longrightarrow> keeps R k) \<Longrightarrow> keeps R (if b then m else k)"
  by simp

lemma option_keeps:
  "keeps R m \<Longrightarrow> (\<And>x. keeps R (f x)) \<Longrightarrow>
   keeps R (case v of None \<Rightarrow> m | Some x \<Rightarrow> f x)"
  by (cases v) auto

lemma list_keeps:
  "keeps R m \<Longrightarrow> (\<And>x xs. keeps R (f x xs)) \<Longrightarrow>
   keeps R (case l of [] \<Rightarrow> m | x # xs \<Rightarrow> f x xs)"
  by (cases l) auto

lemma prod_keeps:
  "(\<And>x y. keeps R (f x y)) \<Longrightarrow> keeps R (case p of (x, y) \<Rightarrow> f x y)"
  by (cases p) auto

lemma prod_apply_keeps:
  "(\<And>x y. keeps R (f x y a)) \<Longrightarrow> keeps R ((case p of (x, y) \<Rightarrow> f x y) a)"
  by (cases p) auto

lemma foldE_keeps: "(\<And>x a. keeps R (f x a)) \<Longrightarrow> keeps R (foldE f xs a)"
  by (induction xs arbitrary: a) (simp_all add: foldE.simps pure_keeps bindE_keeps)

lemma for_each_keeps: "(\<And>x. keeps R (f x)) \<Longrightarrow> keeps R (for_each f xs)"
  by (simp add: for_each_def foldE_keeps)

lemmas keeps_rules =
  pure_keeps bindE_keeps thenE_keeps whenE_keeps if_keeps option_keeps
  list_keeps prod_keeps prod_apply_keeps foldE_keeps for_each_keeps

text \<open>A step from a state related to an earlier one ends in a state related to it.\<close>

lemma from_earlier: "keeps R m \<Longrightarrow> R s t \<Longrightarrow> wp m (\<lambda>_. R s) t"
  by (rule wp_keeps [of R]) (auto intro: trans)

end

section \<open>Introduction rules\<close>

lemma wpI_bindE [wp_intro]: "wp m (\<lambda>x. wp (f x) Q) s \<Longrightarrow> wp (bindE m f) Q s"
  by (simp add: wp_rules)
lemma wpI_thenE [wp_intro]: "wp m (\<lambda>_. wp k Q) s \<Longrightarrow> wp (thenE m k) Q s"
  by (simp add: wp_rules)
lemma wpI_return [wp_intro]: "Q x s \<Longrightarrow> wp (return x) Q s"
  by (simp add: wp_rules)
lemma wpI_throw [wp_intro]: "wp (throw e) Q s"
  by (simp add: wp_rules)
lemma wpI_gets [wp_intro]: "(\<And>x. x = f s \<Longrightarrow> Q x s) \<Longrightarrow> wp (gets f) Q s"
  by (simp add: wp_rules)
lemma wpI_ensure [wp_intro]: "(b \<Longrightarrow> Q () s) \<Longrightarrow> wp (ensure b e) Q s"
  by (simp add: wp_rules)
lemma wpI_host_check [wp_intro]: "(b \<Longrightarrow> Q () s) \<Longrightarrow> wp (host_check b) Q s"
  by (simp add: wp_rules)
lemma wpI_ok_or [wp_intro]: "(\<And>x. v = Some x \<Longrightarrow> Q x s) \<Longrightarrow> wp (ok_or v e) Q s"
  by (simp add: wp_rules)
lemma wpI_unwrap [wp_intro]: "(\<And>x. v = Some x \<Longrightarrow> Q x s) \<Longrightarrow> wp (unwrap v) Q s"
  by (simp add: wp_rules)
lemma wpI_whenE [wp_intro]: "(b \<Longrightarrow> wp m Q s) \<Longrightarrow> (\<not> b \<Longrightarrow> Q () s) \<Longrightarrow> wp (whenE b m) Q s"
  by (simp add: wp_rules)
lemma wpI_if [wp_intro]:
  "(b \<Longrightarrow> wp m Q s) \<Longrightarrow> (\<not> b \<Longrightarrow> wp k Q s) \<Longrightarrow> wp (if b then m else k) Q s"
  by simp
lemma wpI_option [wp_intro]:
  "(v = None \<Longrightarrow> wp m Q s) \<Longrightarrow> (\<And>x. v = Some x \<Longrightarrow> wp (f x) Q s) \<Longrightarrow>
   wp (case v of None \<Rightarrow> m | Some x \<Rightarrow> f x) Q s"
  by (cases v) auto
lemma wpI_list [wp_intro]:
  "(l = [] \<Longrightarrow> wp m Q s) \<Longrightarrow> (\<And>x xs. l = x # xs \<Longrightarrow> wp (f x xs) Q s) \<Longrightarrow>
   wp (case l of [] \<Rightarrow> m | x # xs \<Rightarrow> f x xs) Q s"
  by (cases l) auto
lemma wpI_prod [wp_intro]:
  "(\<And>x y. p = (x, y) \<Longrightarrow> wp (f x y) Q s) \<Longrightarrow> wp (case p of (x, y) \<Rightarrow> f x y) Q s"
  by (cases p) auto
lemma wpI_i128 [wp_intro]:
  "(i128_min \<le> x \<Longrightarrow> x \<le> i128_max \<Longrightarrow> Q x s) \<Longrightarrow> wp (i128 x) Q s"
  by (simp add: wp_rules)
lemma wpI_u32 [wp_intro]: "(n \<le> u32_max \<Longrightarrow> Q n s) \<Longrightarrow> wp (u32 n) Q s"
  by (simp add: wp_rules)
lemma wpI_u64 [wp_intro]: "(n \<le> u64_max \<Longrightarrow> Q n s) \<Longrightarrow> wp (u64 n) Q s"
  by (simp add: wp_rules)
lemma wpI_sub_u [wp_intro]: "(k \<le> n \<Longrightarrow> Q (n - k) s) \<Longrightarrow> wp (sub_u n k) Q s"
  by (simp add: wp_rules)
lemma wpI_mul_bps [wp_intro]: "(\<And>x. x = a * int b sdiv 10000 \<Longrightarrow> Q x s) \<Longrightarrow> wp (mul_bps a b) Q s"
  by (simp add: wp_rules)

end
