(* ===== verification/Payments_Ledger.thy ===== *)
theory Payments_Ledger
  imports Payments_Config Payments_Refunds Payments_Settlement Payments_Splits Payments_Market
    Payments_Disputes Frames
begin

text \<open>
  The escrow accounting of the payments contract.  For an event and a token, \<open>escrow\<close> is what the
  running totals say the contract still owes: volume less refunds less withdrawals.  A step is
  \<open>covered\<close> when it changes the escrow of one event only, and by no more than it changes the
  contract's token balance.  Every entry point is covered, except the legacy migration, which
  writes the totals anew.
\<close>

section \<open>Escrow and balance\<close>

definition escrow :: "'w payments_state \<Rightarrow> symbol \<Rightarrow> address \<Rightarrow> int" where
  "escrow s event_id token = get_total_token_volume s event_id token
     - get_total_token_refunds s event_id token - get_total_token_withdrawn s event_id token"

definition same_ledger :: "'w payments_state \<Rightarrow> 'w payments_state \<Rightarrow> bool" where
  "same_ledger s s' \<longleftrightarrow> escrow s' = escrow s \<and> pk_world s' = pk_world s"

definition covered :: "'w env \<Rightarrow> symbol \<Rightarrow> 'w payments_state \<Rightarrow> 'w payments_state \<Rightarrow> bool" where
  "covered env e s s' \<longleftrightarrow>
     (\<forall>e'. e' \<noteq> e \<longrightarrow> escrow s' e' = escrow s e') \<and>
     (\<forall>t. escrow s' e t - escrow s e t \<le> balance env s' t - balance env s t)"

interpretation ledger: history same_ledger
  by unfold_locales (simp_all add: same_ledger_def)

lemma covered_trans:
  assumes "covered env e s t" and "covered env e t u"
  shows "covered env e s u"
proof -
  have "escrow u e k - escrow s e k \<le> balance env u k - balance env s k" for k
  proof -
    have "escrow t e k - escrow s e k \<le> balance env t k - balance env s k"
      and "escrow u e k - escrow t e k \<le> balance env u k - balance env t k"
      using assms by (simp_all add: covered_def)
    then show ?thesis by linarith
  qed
  then show ?thesis using assms by (simp add: covered_def)
qed

interpretation cover: history "covered env e" for env e
  by unfold_locales (simp add: covered_def, rule covered_trans)

lemma same_ledger_covered: "same_ledger s s' \<Longrightarrow> covered env e s s'"
  by (simp add: same_ledger_def covered_def balance_def)

lemma covered_trans_same: "covered env e s t \<Longrightarrow> same_ledger t u \<Longrightarrow> covered env e s u"
  by (rule cover.trans) (auto intro: same_ledger_covered)

section \<open>The steps that leave the ledger alone\<close>

text \<open>All storage operations except the transfers and the three token totals.\<close>

lemma storage_same_ledger:
  "keeps same_ledger (put_event_status e st)" "keeps same_ledger (set_postpone_deadline e n)"
  "keeps same_ledger (remove_postpone_deadline e)" "keeps same_ledger get_admin"
  "keeps same_ledger (set_admin a)" "keeps same_ledger (put_paused b)"
  "keeps same_ledger get_accepted_token" "keeps same_ledger (set_accepted_token a)"
  "keeps same_ledger (put_supported_token a)" "keeps same_ledger get_event_contract"
  "keeps same_ledger (set_event_contract a)" "keeps same_ledger get_ticket_contract"
  "keeps same_ledger (put_ticket_contract a)" "keeps same_ledger (set_platform_fee_bps n)"
  "keeps same_ledger get_platform_wallet" "keeps same_ledger (set_platform_wallet a)"
  "keeps same_ledger (set_contract_version n)" "keeps same_ledger (put_event_privacy e pr)"
  "keeps same_ledger (set_event_config e c)" "keeps same_ledger (get_event_organizer e)"
  "keeps same_ledger (get_event_payout_token e)" "keeps same_ledger (set_emission_privacy e l)"
  "keeps same_ledger (set_escrow_meta e m)" "keeps same_ledger (get_escrow_meta e)"
  "keeps same_ledger get_next_payment_id" "keeps same_ledger get_next_ticket_id"
  "keeps same_ledger (save_payment p)" "keeps same_ledger (update_payment p)"
  "keeps same_ledger (get_payment n)" "keeps same_ledger (save_ticket k)"
  "keeps same_ledger (get_ticket n)" "keeps same_ledger (add_owner_ticket_map a n)"
  "keeps same_ledger (modify (remove_owner_ticket_map a n))"
  "keeps same_ledger (add_event_payment e n)" "keeps same_ledger (add_payer_payment a n)"
  "keeps same_ledger (add_withdrawal_record e r)" "keeps same_ledger (add_event_token e a)"
  "keeps same_ledger (get_event_revenue e)" "keeps same_ledger (set_event_revenue e x)"
  "keeps same_ledger (add_event_revenue e x)" "keeps same_ledger (set_event_token_revenue e a x)"
  "keeps same_ledger (add_event_token_revenue e a x)" "keeps same_ledger (add_platform_revenue e x)"
  "keeps same_ledger (reset_platform_revenue e)" "keeps same_ledger (add_total_payments e x)"
  "keeps same_ledger (add_total_refunds e x)" "keeps same_ledger (add_total_withdrawn e x)"
  "keeps same_ledger (set_nonce a n)" "keeps same_ledger (set_nonce_hash h n)"
  "keeps same_ledger (mark_nullifier_spent h)" "keeps same_ledger (increment_user_event_tickets e a)"
  "keeps same_ledger (increment_user_event_tickets_hash e h)"
  "keeps same_ledger (increment_event_sold_count e)" "keeps same_ledger (set_splits e l2)"
  "keeps same_ledger (set_split_settlement e se)" "keeps same_ledger (set_split_withdrawn e a x)"
  "keeps same_ledger (set_split_flagged e a b)" "keeps same_ledger (save_resale_listing n li)"
  "keeps same_ledger (remove_resale_listing n)" "keeps same_ledger (set_dispute n d)"
  "keeps same_ledger (remove_dispute n)" "keeps same_ledger (set_event_disputes e ns)"
  "keeps same_ledger (publish ev)" "keeps same_ledger (emit_revenue_withdrawn env e a x a2 a3)"
  "keeps same_ledger (emit_payment_refunded env p x)"
  unfolding storage_call_defs storage_put_defs Let_def
  by (intro ledger.keeps_rules keeps_modify;
      simp add: same_ledger_def escrow_def fun_eq_iff get_total_token_volume_def get_total_token_refunds_def
        get_total_token_withdrawn_def split: option.split)+

text \<open>Case distinctions on the contract's enumerations.\<close>

lemma event_status_keeps:
  assumes "keeps R m1" and "keeps R m2" and "keeps R m3" and "keeps R m4" and "keeps R m5"
  shows "keeps R (case st of Upcoming \<Rightarrow> m1 | Active \<Rightarrow> m2 | Completed \<Rightarrow> m3 | Cancelled \<Rightarrow> m4
           | Postponed \<Rightarrow> m5)"
  using assms by (cases st) auto

lemma payment_privacy_keeps:
  assumes "keeps R m1" and "keeps R m2" and "keeps R m3"
  shows "keeps R (case l of P_Anonymous \<Rightarrow> m1 | P_Private \<Rightarrow> m2 | P_Standard \<Rightarrow> m3)"
  using assms by (cases l) auto

lemma wpI_flag_resolution:
  assumes "r = ReleaseToRecipient \<Longrightarrow> wp m Q s" and "r = ReassignToPrimary \<Longrightarrow> wp k Q s"
  shows "wp (case r of ReleaseToRecipient \<Rightarrow> m | ReassignToPrimary \<Rightarrow> k) Q s"
  using assms by (cases r) auto

text \<open>The internal functions that only read, or write other entries.\<close>

lemma guards_same_ledger:
  "keeps same_ledger (require_auth env a)" "keeps same_ledger require_not_paused"
  "keeps same_ledger (ensure_no_splits e)" "keeps same_ledger (require_no_disputes e)"
  "keeps same_ledger (require_completed e)" "keeps same_ledger (require_admin env a)"
  "keeps same_ledger (require_auth_admin env a)" "keeps same_ledger (require_event_contract env a)"
  "keeps same_ledger (validate_payment_privacy e b1 b2)" "keeps same_ledger (check_event_open e)"
  "keeps same_ledger (check_ticket_limits env pp)" "keeps same_ledger (refund_ratio c)"
  "keeps same_ledger (settlement_ratio env e co)" "keeps same_ledger (recipient_share sp a x)"
  "keeps same_ledger (collect_cancellation_organizer_pool e a n)"
  "keeps same_ledger (settlement_amount e a n)" "keeps same_ledger (withdrawable_total e a n)"
  "keeps same_ledger (max_refund p c st)" "keeps same_ledger (authorize_dispute env n k pf)"
  unfolding require_auth_def require_not_paused_def ensure_no_splits_def require_no_disputes_def
    require_completed_def require_admin_def require_auth_admin_def require_event_contract_def
    validate_payment_privacy_def check_event_open_def check_ticket_limits_def refund_ratio_def
    settlement_ratio_def recipient_share_def calculate_recipient_share_def
    collect_cancellation_organizer_pool_def disputed_amount_def settlement_amount_def
    withdrawable_total_def max_refund_def authorize_dispute_def
  by (intro ledger.keeps_rules storage_same_ledger event_status_keeps payment_privacy_keeps)+

lemma disputes_same_ledger:
  "keeps same_ledger (time_out_dispute env e d)"
  "keeps same_ledger (process_timed_out_disputes env e)"
  "keeps same_ledger (validate_revenue_invariant env e)" "keeps same_ledger (close_dispute n d)"
  unfolding time_out_dispute_def time_out_step_def process_timed_out_disputes_def
    validate_revenue_invariant_def check_token_balance_def close_dispute_def
  by (intro ledger.keeps_rules storage_same_ledger)+

lemma accounting_same_ledger:
  "keeps same_ledger (collect_platform_fee env e x y a)"
  "keeps same_ledger (subtract_event_revenue e x)"
  "keeps same_ledger (subtract_event_token_revenue e a x)"
  "keeps same_ledger (withdrawal_log env e a x)" "keeps same_ledger (ensure_split_settled env e)"
  "keeps same_ledger (check_payment env pp)" "keeps same_ledger (build_payment_record env pp n k)"
  "keeps same_ledger (issue_ticket env pp p)" "keeps same_ledger (emit_payment_received p)"
  "keeps same_ledger (emit_payment_receipt_requested env n e h)"
  unfolding collect_platform_fee_def subtract_event_revenue_def subtract_event_token_revenue_def
    withdrawal_log_def ensure_split_settled_def check_payment_def build_payment_record_def
    issue_ticket_def count_user_ticket_def emit_ticket_issued_def emit_payment_received_def
    emit_payment_receipt_requested_def Let_def
  by (intro ledger.keeps_rules storage_same_ledger guards_same_ledger disputes_same_ledger
      payment_privacy_keeps)+

lemma payment_records_same_ledger:
  "keeps same_ledger (spend_nullifier p)" "keeps same_ledger (record_nonce env pp p)"
  unfolding spend_nullifier_def record_nonce_def
  by (intro ledger.keeps_rules storage_same_ledger payment_privacy_keeps)+

lemmas ledger_frames =
  storage_same_ledger guards_same_ledger disputes_same_ledger accounting_same_ledger
  payment_records_same_ledger

section \<open>The steps that move tokens or totals\<close>

lemma wpI_transfer:
  assumes "token_laws env"
    and "\<And>s'. escrow s' = escrow s \<Longrightarrow> 0 \<le> amt \<Longrightarrow>
           (\<forall>t. balance env s' t = balance env s t
              + (if t = tok \<and> dst = current_contract_address env then amt else 0)
              - (if t = tok \<and> src = current_contract_address env then amt else 0)) \<Longrightarrow> Q () s'"
  shows "wp (transfer env tok src dst amt) Q s"
    and "wp (try_transfer env tok src dst amt) Q s"
proof -
  have "Q () (s\<lparr>pk_world := w'\<rparr>)" if w': "token_transfer env tok src dst amt (pk_world s) = Some w'" for w'
  proof (rule assms(2))
    show "escrow (s\<lparr>pk_world := w'\<rparr>) = escrow s"
      by (simp add: escrow_def fun_eq_iff get_total_token_volume_def get_total_token_refunds_def
          get_total_token_withdrawn_def)
    show "0 \<le> amt" by (rule token_lawsD(1) [OF assms(1) w'])
  qed (use token_lawsD(2) [OF assms(1) w'] in \<open>auto simp: balance_def\<close>)
  then show "wp (transfer env tok src dst amt) Q s" and "wp (try_transfer env tok src dst amt) Q s"
    by (auto simp: transfer_def try_transfer_def wp_rules)
qed

lemma wpI_token_totals:
  assumes "\<And>s'. pk_world s' = pk_world s \<Longrightarrow>
       (\<forall>e' t'. escrow s' e' t' = escrow s e' t' + (if e' = e \<and> t' = t then d else 0)) \<Longrightarrow> Q () s'"
  shows "d = a \<Longrightarrow> wp (add_total_token_volume e t a) Q s"
    and "d = - a \<Longrightarrow> wp (add_total_token_refunds e t a) Q s"
    and "d = - a \<Longrightarrow> wp (add_total_token_withdrawn e t a) Q s"
  unfolding add_total_token_volume_def add_total_token_refunds_def add_total_token_withdrawn_def
  by (auto simp: wp_rules escrow_def get_total_token_volume_def get_total_token_refunds_def
      get_total_token_withdrawn_def intro!: assms)

end
