(* ===== verification/Payments_Solvency.thy ===== *)
theory Payments_Solvency
  imports Payments_Ledger
begin

text \<open>Every entry point but the legacy migration is covered.\<close>

lemmas ledger_skip = ledger_frames [THEN wp_keeps]

lemmas ledger_arith = covered_def same_ledger_def balance_def

section \<open>Paying out and recording it\<close>

text \<open>At most \<open>x\<close> of a token has left the contract since \<open>s\<close>, and the totals are as in \<open>s\<close>.\<close>

definition paid :: "'w env \<Rightarrow> address \<Rightarrow> int \<Rightarrow> 'w payments_state \<Rightarrow> 'w payments_state \<Rightarrow> bool" where
  "paid env tok x s s' \<longleftrightarrow> escrow s' = escrow s \<and>
     (\<forall>t. balance env s t - (if t = tok then x else 0) \<le> balance env s' t)"

lemma paid_covered:
  assumes "paid env tok x r s" and "pk_world s' = pk_world s"
    and "\<forall>e' t'. escrow s' e' t' = escrow s e' t' + (if e' = e \<and> t' = tok then - x else 0)"
  shows "covered env e r s'"
  unfolding covered_def
proof (intro conjI allI impI)
  fix t
  have "balance env r t - (if t = tok then x else 0) \<le> balance env s' t"
    using assms(1,2) by (simp add: paid_def balance_def)
  moreover have "escrow s' e t - escrow r e t = (if t = tok then - x else 0)"
    using assms(1,3) by (simp add: paid_def)
  ultimately show "escrow s' e t - escrow r e t \<le> balance env s' t - balance env r t"
    by (simp split: if_splits)
qed (use assms in \<open>auto simp: paid_def fun_eq_iff\<close>)

lemma wpI_record_paid:
  assumes "paid env tok x r s" and "\<And>s'. covered env e r s' \<Longrightarrow> Q () s'"
  shows "wp (add_total_token_refunds e tok x) Q s"
    and "wp (add_total_token_withdrawn e tok x) Q s"
  by (rule wpI_token_totals(2) [where d = "- x"] wpI_token_totals(3) [where d = "- x"];
      simp add: paid_covered [OF assms(1)] assms(2))+

lemma covered_same: "covered env e s t \<Longrightarrow> same_ledger t u \<Longrightarrow> covered env e s u"
  by (rule covered_trans_same)

lemma wpI_pay_out:
  assumes "token_laws env" and "same_ledger r s"
    and "\<And>s'. paid env tok x r s' \<Longrightarrow> Q () s'"
  shows "wp (transfer env tok (current_contract_address env) dst x) Q s"
  by (rule wpI_transfer(1) [OF assms(1)], rule assms(3))
    (use assms(2) in \<open>simp add: paid_def same_ledger_def balance_def\<close>)

lemma paid_same: "paid env tok x s t \<Longrightarrow> same_ledger t u \<Longrightarrow> paid env tok x s u"
  by (simp add: paid_def same_ledger_def balance_def)

section \<open>Refunds\<close>

lemma wpI_record_refund:
  assumes "paid env (p_token p) x r s"
    and "\<And>u s'. covered env (p_event_id p) r s' \<Longrightarrow> Q u s'"
  shows "wp (record_refund env p x) Q s"
  unfolding record_refund_def
  by (intro wp_intro ledger_skip wpI_record_paid [where env = env and r = r];
      insert assms(1); (rule assms(2))?; simp add: ledger_arith paid_def)

lemma refunds_covered:
  assumes "token_laws env"
  shows "wp (refund env a n amt) (\<lambda>_ s'. \<exists>e. covered env e s s') s"
    and "wp (claim_refund env a n) (\<lambda>_ s'. \<exists>e. covered env e s s') s"
    and "wp (request_postponement_refund env a n) (\<lambda>_ s'. \<exists>e. covered env e s s') s"
  unfolding refund_def claim_refund_def request_postponement_refund_def Let_def
  by (intro wp_intro ledger_skip wpI_pay_out [OF assms, where r = s]
      wpI_record_refund [where env = env and r = s]; (erule exI)?; simp add: ledger_arith paid_def)+

section \<open>Payments\<close>

lemma wpI_check_payment:
  assumes "\<And>u s'. same_ledger s s' \<Longrightarrow> authorized env (pp_payer pp) \<Longrightarrow> Q u s'"
  shows "wp (check_payment env pp) Q s"
proof -
  have "authorized env (pp_payer pp)" if "check_payment env pp s = Inr (x, s')" for x s'
    using that by (simp add: check_payment_def exec split: if_splits)
  moreover have "same_ledger s s'" if "check_payment env pp s = Inr (x, s')" for x s'
    by (rule keepsD [OF accounting_same_ledger(6) that])
  ultimately show ?thesis by (intro wpI assms)
qed

lemma wpI_receive:
  assumes "token_laws env" and "not_self_authorized env" and "authorized env src"
    and "same_ledger r s" and "\<And>s'. paid env tok (- x) r s' \<Longrightarrow> Q () s'"
  shows "wp (try_transfer env tok src (current_contract_address env) x) Q s"
    and "wp (transfer env tok src (current_contract_address env) x) Q s"
proof -
  have "src \<noteq> current_contract_address env" using assms(2,3) by (auto simp: not_self_authorized_def)
  then have paid: "escrow s' = escrow s \<Longrightarrow>
      \<forall>t. balance env s' t = balance env s t
        + (if t = tok \<and> current_contract_address env = current_contract_address env then x else 0)
        - (if t = tok \<and> src = current_contract_address env then x else 0) \<Longrightarrow>
      paid env tok (- x) r s'" for s'
    using assms(4) by (simp add: paid_def same_ledger_def balance_def)
  show "wp (try_transfer env tok src (current_contract_address env) x) Q s"
    by (rule wpI_transfer(2) [OF assms(1)], rule assms(5), rule paid)
  show "wp (transfer env tok src (current_contract_address env) x) Q s"
    by (rule wpI_transfer(1) [OF assms(1)], rule assms(5), rule paid)
qed

lemma wpI_record_volume:
  assumes "paid env tok (- x) r s" and "\<And>s'. covered env e r s' \<Longrightarrow> Q () s'"
  shows "wp (add_total_token_volume e tok x) Q s"
  by (rule wpI_token_totals(1) [where d = x];
      simp add: paid_covered [OF assms(1)] assms(2))

lemma wpI_record_payment:
  assumes "paid env (pp_token_address pp) (- pp_amount pp) r s"
    and "\<And>u s'. covered env (pp_event_id pp) r s' \<Longrightarrow> Q u s'"
  shows "wp (record_payment env pp p) Q s"
  unfolding record_payment_def
  by (intro wp_intro ledger_skip wpI_record_volume [where env = env and r = r];
      insert assms(1); (rule assms(2))?; simp add: ledger_arith paid_def)

lemma create_payment_covered:
  assumes "token_laws env" and "not_self_authorized env"
  shows "wp (create_payment env pp) (\<lambda>_. covered env (pp_event_id pp) s) s"
  unfolding create_payment_def
  by (intro wp_intro wpI_check_payment;
      intro wp_intro wpI_receive(1) [OF assms, where r = s] wpI_record_payment [where r = s]
        ledger_skip; assumption?; simp add: ledger_arith paid_def)

section \<open>Withdrawals\<close>

lemma token_release_covered:
  assumes "token_laws env"
  shows "keeps (covered env e) (release_token env e a tok x)"
    and "keeps (covered env e) (drain_token env e a tok b)"
proof -
  have "wp (release_token env e a tok x) (\<lambda>_. covered env e s) s" for s
    unfolding release_token_def
    by (intro wp_intro ledger_skip wpI_pay_out [OF assms, where r = s]
        wpI_record_paid(2) [where env = env and r = s]; simp add: ledger_arith paid_def)
  then show "keeps (covered env e) (release_token env e a tok x)" by (rule keepsI)
  have "wp (drain_token env e a tok b) (\<lambda>_. covered env e s) s" for s
    unfolding drain_token_def
    by (intro wp_intro ledger_skip wpI_pay_out [OF assms, where r = s]
        wpI_record_paid(2) [where env = env and r = s]; simp add: ledger_arith paid_def)
  then show "keeps (covered env e) (drain_token env e a tok b)" by (rule keepsI)
qed

lemma withdrawals_covered:
  assumes "token_laws env"
  shows "wp (withdraw env a e) (\<lambda>_. covered env e s) s"
    and "wp (withdraw_revenue env e a) (\<lambda>_. covered env e s) s"
    and "wp (withdraw_platform_revenue env e) (\<lambda>_. covered env e s) s"
    and "wp (withdraw_token env a e tok) (\<lambda>_. covered env e s) s"
    and "wp (withdraw_split env a e) (\<lambda>_. covered env e s) s"
    and "wp (resolve_flagged_share env e a fr) (\<lambda>_. covered env e s) s"
  unfolding withdraw_def withdraw_revenue_def withdraw_platform_revenue_def withdraw_token_def
    withdraw_split_def resolve_flagged_share_def pay_share_def Let_def
  by (intro wp_intro wpI_flag_resolution ledger_skip wpI_pay_out [OF assms, where r = s]
      wpI_record_paid(2) [where env = env and r = s]; simp add: ledger_arith paid_def)+

lemma releases_covered:
  assumes "token_laws env"
  shows "wp (release_if_expired env e) (\<lambda>_. covered env e s) s"
    and "wp (withdraw_all_tokens env a e) (\<lambda>_. covered env e s) s"
  unfolding release_if_expired_def withdraw_all_tokens_def
  by (intro wp_intro ledger_skip cover.foldE_keeps [OF token_release_covered(1) [OF assms], THEN wp_keeps]
      cover.foldE_keeps [OF token_release_covered(2) [OF assms], THEN wp_keeps];
      simp add: ledger_arith)+

section \<open>Resale and disputes\<close>

lemma wpI_call_contract:
  assumes "invoke_keeps_tokens env"
    and "\<And>s'. escrow s' = escrow s \<Longrightarrow> \<forall>t. balance env s' t = balance env s t \<Longrightarrow> Q () s'"
  shows "wp (call_contract env c fn args) Q s"
  unfolding call_contract_def
  by (intro wp_intro, simp add: wp_rules, rule assms(2))
    (auto simp: escrow_def fun_eq_iff get_total_token_volume_def get_total_token_refunds_def
      get_total_token_withdrawn_def balance_def dest: invoke_keeps_tokensD [OF assms(1)])

lemma wpI_pay_more:
  assumes "token_laws env" and "paid env tok y r s"
    and "\<And>u s'. paid env tok (y + x) r s' \<Longrightarrow> Q u s'"
  shows "wp (transfer env tok (current_contract_address env) dst x) Q s"
proof (rule wpI_transfer(1) [OF assms(1)], rule assms(3))
  fix s'
  assume "escrow s' = escrow s" and "0 \<le> x"
    and bal: "\<forall>t. balance env s' t = balance env s t
        + (if t = tok \<and> dst = current_contract_address env then x else 0)
        - (if t = tok \<and> current_contract_address env = current_contract_address env then x else 0)"
  moreover have "balance env r t - (if t = tok then y + x else 0) \<le> balance env s' t" for t
  proof -
    have "balance env r t - (if t = tok then y else 0) \<le> balance env s t"
      using assms(2) by (simp add: paid_def)
    then show ?thesis using bal \<open>0 \<le> x\<close> by (simp split: if_splits)
  qed
  ultimately show "paid env tok (y + x) r s'" using assms(2) by (simp add: paid_def)
qed

lemma paid_less: "paid env tok x r s \<Longrightarrow> x \<le> y \<Longrightarrow> paid env tok y r s"
  unfolding paid_def by (auto intro: order_trans [rotated])

text \<open>
  A sale pays the seller at most the price it received, since fee and royalty are not negative.
\<close>

lemma wpI_settle_sale:
  assumes "token_laws env" and "not_self_authorized env" and "authorized env buyer"
    and "same_ledger r s" and "0 < rl_price li"
    and "\<And>u s'. paid env (ec_payout_token c) 0 r s' \<Longrightarrow> Q u s'"
  shows "wp (settle_sale env buyer e c li) Q s"
proof -
  let ?price = "rl_price li"
  have fee: "0 \<le> ?price * int b sdiv 10000" for b
    using assms(5) by (intro sdiv_bps_nonneg) simp
  have finish: "wp (thenE (whenE (f > 0) (add_platform_revenue e f)) (
       whenE (roy > 0) (thenE (add_event_revenue e roy)
         (add_event_token_revenue e (ec_payout_token c) roy)))) Q t"
    if "paid env (ec_payout_token c) 0 r t" for f roy t
    using that by (intro wp_intro ledger_skip; intro assms(6); auto simp: ledger_arith paid_def)
  have pay: "wp (thenE (whenE (x > 0)
       (transfer env (ec_payout_token c) (current_contract_address env) (rl_seller li) x)) k) Q t"
    if "paid env (ec_payout_token c) (- ?price) r t" and "x \<le> ?price"
      and k: "\<And>t. paid env (ec_payout_token c) 0 r t \<Longrightarrow> wp k Q t" for x k t
    by (intro wp_intro wpI_pay_more [OF assms(1) that(1)]; rule k)
      (use that assms(5) in \<open>auto elim: paid_less\<close>)
  show ?thesis
    unfolding settle_sale_def
    apply (rule wpI_bindE wpI_gets wpI_mul_bps wpI_i128)+
    apply (rule wpI_thenE, rule wpI_receive(2) [OF assms(1-4)])
    apply (rule pay, assumption)
    subgoal for f_bps _ fee_amt roy using fee [of f_bps] fee [of "ec_resale_royalty_bps c"] by simp
    apply (rule finish, assumption)
    done
qed

lemma ticket_entry_same_ledger: "keeps same_ledger (modify (\<lambda>s. s\<lparr>pk_Ticket := f s\<rparr>))"
  by (rule keeps_modify) (simp add: same_ledger_def escrow_def fun_eq_iff get_total_token_volume_def
      get_total_token_refunds_def get_total_token_withdrawn_def)

lemma buy_resale_ticket_covered:
  assumes "token_laws env" and "not_self_authorized env" and "invoke_keeps_tokens env"
  shows "wp (buy_resale_ticket env a n) (\<lambda>_. covered env e s) s"
  unfolding buy_resale_ticket_def require_auth_def
  by (intro wp_intro ledger_skip wpI_settle_sale [OF assms(1,2), where r = s]
      wpI_call_contract [OF assms(3)] ticket_entry_same_ledger [THEN wp_keeps];
      assumption?; simp add: ledger_arith paid_def)

lemma approve_refund_covered:
  assumes "token_laws env"
  shows "wp (approve_refund env n) (\<lambda>_ s'. \<exists>e. covered env e s s') s"
  unfolding approve_refund_def
  by (intro wp_intro ledger_skip wpI_pay_out [OF assms, where r = s]
      wpI_record_paid(1) [where env = env and r = s]; (rule exI, erule covered_same)?;
      simp add: ledger_arith paid_def)

section \<open>The entry points that leave the ledger alone\<close>

lemma config_same_ledger:
  "keeps same_ledger (initialize a1 a2 n1 a3 a4)" "keeps same_ledger (add_supported_token env a1 a2)"
  "keeps same_ledger (set_paused env a1 b)" "keeps same_ledger (set_event_status env a1 e st)"
  "keeps same_ledger (set_platform_fee env n1 a1)" "keeps same_ledger (set_event_privacy env a1 e l)"
  "keeps same_ledger (set_ticket_contract env a1 a2)"
  "keeps same_ledger (set_event_end_time env a1 e a2 n1)"
  "keeps same_ledger (extend_withdrawal_delay env a1 e n1)"
  "keeps same_ledger (sync_event_privacy env a1 e b b2)"
  "keeps same_ledger (sync_event_config env a1 e c)" "keeps same_ledger (cancel_event env e a1)"
  "keeps same_ledger (postpone_event env e a1 n1)" "keeps same_ledger (resume_event env e a1)"
  "keeps same_ledger (migrate env a1)"
  unfolding initialize_def add_supported_token_def set_paused_def set_event_status_def
    set_platform_fee_def set_event_privacy_def set_ticket_contract_def set_event_end_time_def
    extend_withdrawal_delay_def sync_event_privacy_def sync_event_config_def cancel_event_def
    postpone_event_def resume_event_def migrate_def
  by (intro ledger.keeps_rules ledger_frames)+

lemma splits_keeps:
  "keeps same_ledger (normalize_splits before n norm sp)"
  by (induction before n norm sp rule: normalize_splits.induct)
    (auto intro!: ledger.keeps_rules)

lemma other_same_ledger:
  "keeps same_ledger (sync_revenue_splits env a1 e sp)" "keeps same_ledger (flag_cohost env a1 e a2)"
  "keeps same_ledger (bind_email_commitment env a1 n1 h)"
  "keeps same_ledger (list_ticket_for_resale env a1 n1 x)" "keeps same_ledger (delist_ticket env a1 n1)"
  "keeps same_ledger (raise_dispute env n1 n2 pf)" "keeps same_ledger (reject_dispute env n1)"
  "keeps same_ledger (process_dispute_timeouts env e)"
  unfolding sync_revenue_splits_def flag_cohost_def bind_email_commitment_def
    list_ticket_for_resale_def delist_ticket_def raise_dispute_def reject_dispute_def
    process_dispute_timeouts_def Let_def
  by (intro ledger.keeps_rules ledger_frames splits_keeps)+

end
