(* ===== verification/Payments_History.thy ===== *)
theory Payments_History
  imports Payments_Ledger
begin

text \<open>
  What the payments contract never takes back.  \<open>evolves\<close> relates the storage before and after a
  call: a payment keeps its identity, its amount and its token, its refunds only grow and never
  exceed it, and once refunded it stays refunded; an event keeps its organizer and payout token,
  and a settled event stays settled; a revenue split, a settlement and a paid share are final; a
  used nonce or nullifier stays used; the initial configuration stays.
\<close>

section \<open>The preorder\<close>

definition payment_ok :: "nat \<Rightarrow> payment_record \<Rightarrow> bool" where
  "payment_ok i p \<longleftrightarrow> p_payment_id p = i \<and> 0 < p_amount p \<and>
     0 \<le> p_refunded_amount p \<and> p_refunded_amount p \<le> p_amount p"

definition payments_ok :: "'w payments_state \<Rightarrow> bool" where
  "payments_ok s \<longleftrightarrow> (\<forall>i p. pk_Payment s i = Some p \<longrightarrow> payment_ok i p)"

definition payment_evolves :: "payment_record \<Rightarrow> payment_record \<Rightarrow> bool" where
  "payment_evolves p p' \<longleftrightarrow>
     p_event_id p' = p_event_id p \<and> p_payer p' = p_payer p \<and>
     p_hashed_wallet p' = p_hashed_wallet p \<and>
     p_stealth_delivery_key p' = p_stealth_delivery_key p \<and>
     p_nullifier_commitment p' = p_nullifier_commitment p \<and>
     p_amount p' = p_amount p \<and> p_token p' = p_token p \<and>
     p_paid_at p' = p_paid_at p \<and> p_privacy_level p' = p_privacy_level p \<and>
     p_refunded_amount p \<le> p_refunded_amount p' \<and>
     (p_status p = Refunded \<longrightarrow> p_status p' = Refunded) \<and>
     (p_zk_email_commitment p \<noteq> None \<longrightarrow> p_zk_email_commitment p' = p_zk_email_commitment p)"

definition config_evolves :: "event_config \<Rightarrow> event_config \<Rightarrow> bool" where
  "config_evolves c c' \<longleftrightarrow>
     ec_organizer c' = ec_organizer c \<and> ec_payout_token c' = ec_payout_token c \<and>
     ec_sold_count c \<le> ec_sold_count c' \<and>
     ec_admin_delay_extension_ledgers c \<le> ec_admin_delay_extension_ledgers c' \<and>
     (ec_organizer_withdrawn c \<longrightarrow> ec_organizer_withdrawn c') \<and>
     (ec_cancel_ledger c \<noteq> None \<longrightarrow> ec_cancel_ledger c' \<noteq> None)"

text \<open>Every entry of a map is kept, up to a relation on the values.\<close>

definition entries_keep :: "('v \<Rightarrow> 'v \<Rightarrow> bool) \<Rightarrow> ('k \<Rightarrow> 'v option) \<Rightarrow> ('k \<Rightarrow> 'v option) \<Rightarrow> bool" where
  "entries_keep r m m' \<longleftrightarrow> (\<forall>k v. m k = Some v \<longrightarrow> (\<exists>v'. m' k = Some v' \<and> r v v'))"

definition share_kept :: "int \<Rightarrow> int \<Rightarrow> bool" where
  "share_kept x x' \<longleftrightarrow> (0 < x \<longrightarrow> x' = x)"

definition mark_kept :: "bool \<Rightarrow> bool \<Rightarrow> bool" where
  "mark_kept b b' \<longleftrightarrow> (b \<longrightarrow> b')"

definition evolves :: "'w payments_state \<Rightarrow> 'w payments_state \<Rightarrow> bool" where
  "evolves s s' \<longleftrightarrow> (payments_ok s \<longrightarrow>
     payments_ok s' \<and>
     entries_keep payment_evolves (pk_Payment s) (pk_Payment s') \<and>
     entries_keep config_evolves (pk_EventConfig s) (pk_EventConfig s') \<and>
     entries_keep (=) (pk_EventSplits s) (pk_EventSplits s') \<and>
     entries_keep (=) (pk_SplitSettlement s) (pk_SplitSettlement s') \<and>
     entries_keep share_kept (pk_SplitWithdrawn s) (pk_SplitWithdrawn s') \<and>
     entries_keep mark_kept (pk_ProcessedNonce s) (pk_ProcessedNonce s') \<and>
     entries_keep mark_kept (pk_ProcessedNonceHash s) (pk_ProcessedNonceHash s') \<and>
     entries_keep mark_kept (pk_SpentNullifier s) (pk_SpentNullifier s') \<and>
     (is_initialized s \<longrightarrow> pk_Admin s' = pk_Admin s \<and> pk_AcceptedToken s' = pk_AcceptedToken s \<and>
        pk_EventContract s' = pk_EventContract s) \<and>
     (\<forall>e. pk_EventPayments s e = None \<longrightarrow> pk_EventPayments s' e = None))"

lemma entries_keep_refl: "(\<And>v. r v v) \<Longrightarrow> entries_keep r m m"
  by (simp add: entries_keep_def)

lemma entries_keep_trans:
  "entries_keep r m m' \<Longrightarrow> entries_keep r m' m'' \<Longrightarrow> (\<And>u v w. r u v \<Longrightarrow> r v w \<Longrightarrow> r u w) \<Longrightarrow>
   entries_keep r m m''"
  unfolding entries_keep_def by (metis (no_types))

lemma entries_keep_upd:
  "(\<And>u. r u u) \<Longrightarrow> (\<And>u. m k = Some u \<Longrightarrow> r u v) \<Longrightarrow> entries_keep r m (m(k \<mapsto> v))"
  by (simp add: entries_keep_def)

lemma entries_keepD: "entries_keep r m m' \<Longrightarrow> m k = Some v \<Longrightarrow> \<exists>v'. m' k = Some v' \<and> r v v'"
  by (simp add: entries_keep_def)

lemma evolution_refl [simp]:
  "payment_evolves p p" "config_evolves c c" "share_kept x x" "mark_kept b b"
  by (simp_all add: payment_evolves_def config_evolves_def share_kept_def mark_kept_def)

lemma payment_evolves_trans: "payment_evolves p q \<Longrightarrow> payment_evolves q r \<Longrightarrow> payment_evolves p r"
  unfolding payment_evolves_def by auto

lemma config_evolves_trans: "config_evolves p q \<Longrightarrow> config_evolves q r \<Longrightarrow> config_evolves p r"
  unfolding config_evolves_def by auto

lemma evolves_refl: "evolves s s"
  by (simp add: evolves_def entries_keep_refl)

lemma evolves_trans:
  assumes "evolves s t" and "evolves t u"
  shows "evolves s u"
  unfolding evolves_def
proof (intro impI)
  assume ok: "payments_ok s"
  then have ok': "payments_ok t" using assms(1) by (simp add: evolves_def)
  note one = assms(1) [unfolded evolves_def, THEN mp, OF ok]
  note two = assms(2) [unfolded evolves_def, THEN mp, OF ok']
  have marks: "mark_kept a b \<Longrightarrow> mark_kept b c \<Longrightarrow> mark_kept a c" for a b c
    by (simp add: mark_kept_def)
  have shares: "share_kept a b \<Longrightarrow> share_kept b c \<Longrightarrow> share_kept a c" for a b c
    by (simp add: share_kept_def)
  show "payments_ok u \<and>
     entries_keep payment_evolves (pk_Payment s) (pk_Payment u) \<and>
     entries_keep config_evolves (pk_EventConfig s) (pk_EventConfig u) \<and>
     entries_keep (=) (pk_EventSplits s) (pk_EventSplits u) \<and>
     entries_keep (=) (pk_SplitSettlement s) (pk_SplitSettlement u) \<and>
     entries_keep share_kept (pk_SplitWithdrawn s) (pk_SplitWithdrawn u) \<and>
     entries_keep mark_kept (pk_ProcessedNonce s) (pk_ProcessedNonce u) \<and>
     entries_keep mark_kept (pk_ProcessedNonceHash s) (pk_ProcessedNonceHash u) \<and>
     entries_keep mark_kept (pk_SpentNullifier s) (pk_SpentNullifier u) \<and>
     (is_initialized s \<longrightarrow> pk_Admin u = pk_Admin s \<and> pk_AcceptedToken u = pk_AcceptedToken s \<and>
        pk_EventContract u = pk_EventContract s) \<and>
     (\<forall>e. pk_EventPayments s e = None \<longrightarrow> pk_EventPayments u e = None)"
    using one two
    by (auto simp: is_initialized_def
        intro: entries_keep_trans [OF _ _ payment_evolves_trans]
          entries_keep_trans [OF _ _ config_evolves_trans] entries_keep_trans [OF _ _ marks]
          entries_keep_trans [OF _ _ shares] entries_keep_trans [of "(=)"])
qed

interpretation evolution: history evolves
  by unfold_locales (rule evolves_refl, rule evolves_trans)

section \<open>Frames\<close>

text \<open>The entries that \<open>evolves\<close> speaks of are unchanged.\<close>

definition same_core :: "'w payments_state \<Rightarrow> 'w payments_state \<Rightarrow> bool" where
  "same_core s s' \<longleftrightarrow>
     pk_Payment s' = pk_Payment s \<and> pk_EventConfig s' = pk_EventConfig s \<and>
     pk_EventSplits s' = pk_EventSplits s \<and> pk_SplitSettlement s' = pk_SplitSettlement s \<and>
     pk_SplitWithdrawn s' = pk_SplitWithdrawn s \<and> pk_ProcessedNonce s' = pk_ProcessedNonce s \<and>
     pk_ProcessedNonceHash s' = pk_ProcessedNonceHash s \<and>
     pk_SpentNullifier s' = pk_SpentNullifier s \<and> pk_Admin s' = pk_Admin s \<and>
     pk_AcceptedToken s' = pk_AcceptedToken s \<and> pk_EventContract s' = pk_EventContract s \<and>
     pk_EventPayments s' = pk_EventPayments s"

interpretation core: history same_core
  by unfold_locales (simp_all add: same_core_def)

lemma same_core_evolves: "same_core s s' \<Longrightarrow> evolves s s'"
  by (simp add: same_core_def evolves_def entries_keep_refl payments_ok_def)

lemma keeps_mono: "keeps R m \<Longrightarrow> (\<And>s s'. R s s' \<Longrightarrow> R' s s') \<Longrightarrow> keeps R' m"
  by (rule keepsI, erule wp_keeps)

lemma evolves_by_core: "keeps same_core m \<Longrightarrow> keeps evolves m"
  by (erule keeps_mono, rule same_core_evolves)

lemma storage_same_core:
  "keeps same_core (put_event_status e st)" "keeps same_core (set_postpone_deadline e n)"
  "keeps same_core (remove_postpone_deadline e)" "keeps same_core get_admin"
  "keeps same_core (put_paused b)" "keeps same_core get_accepted_token"
  "keeps same_core (put_supported_token a)" "keeps same_core get_event_contract"
  "keeps same_core get_ticket_contract" "keeps same_core (put_ticket_contract a)"
  "keeps same_core (set_platform_fee_bps n)" "keeps same_core get_platform_wallet"
  "keeps same_core (set_platform_wallet a)" "keeps same_core (set_contract_version n)"
  "keeps same_core (put_event_privacy e pr)" "keeps same_core (get_event_organizer e)"
  "keeps same_core (get_event_payout_token e)" "keeps same_core (set_emission_privacy e l)"
  "keeps same_core (set_escrow_meta e m)" "keeps same_core (get_escrow_meta e)"
  "keeps same_core get_next_payment_id" "keeps same_core get_next_ticket_id"
  "keeps same_core (get_payment n)" "keeps same_core (save_ticket k)"
  "keeps same_core (get_ticket n)" "keeps same_core (add_owner_ticket_map a n)"
  "keeps same_core (modify (remove_owner_ticket_map a n))"
  "keeps same_core (add_event_payment e n)" "keeps same_core (add_payer_payment a n)"
  "keeps same_core (add_withdrawal_record e r)" "keeps same_core (add_event_token e a)"
  "keeps same_core (get_event_revenue e)" "keeps same_core (set_event_revenue e x)"
  "keeps same_core (add_event_revenue e x)" "keeps same_core (set_event_token_revenue e a x)"
  "keeps same_core (add_event_token_revenue e a x)" "keeps same_core (add_platform_revenue e x)"
  "keeps same_core (reset_platform_revenue e)" "keeps same_core (add_total_payments e x)"
  "keeps same_core (add_total_refunds e x)" "keeps same_core (add_total_withdrawn e x)"
  "keeps same_core (add_total_token_volume e a x)" "keeps same_core (add_total_token_refunds e a x)"
  "keeps same_core (add_total_token_withdrawn e a x)"
  "keeps same_core (increment_user_event_tickets e a)"
  "keeps same_core (increment_user_event_tickets_hash e h)"
  "keeps same_core (set_split_flagged e a b)" "keeps same_core (save_resale_listing n li)"
  "keeps same_core (remove_resale_listing n)" "keeps same_core (set_dispute n d)"
  "keeps same_core (remove_dispute n)" "keeps same_core (set_event_disputes e ns)"
  "keeps same_core (publish ev)" "keeps same_core (emit_revenue_withdrawn env e a x a2 a3)"
  "keeps same_core (emit_payment_refunded env p x)" "keeps same_core (transfer env a a2 a3 x)"
  "keeps same_core (try_transfer env a a2 a3 x)"
  unfolding storage_call_defs storage_put_defs Let_def
  by (intro core.keeps_rules keeps_modify; simp add: same_core_def split: option.split)+

lemma guards_same_core:
  "keeps same_core (require_auth env a)" "keeps same_core require_not_paused"
  "keeps same_core (ensure_no_splits e)" "keeps same_core (require_no_disputes e)"
  "keeps same_core (require_completed e)" "keeps same_core (require_admin env a)"
  "keeps same_core (require_auth_admin env a)" "keeps same_core (require_event_contract env a)"
  "keeps same_core (validate_payment_privacy e b1 b2)" "keeps same_core (check_event_open e)"
  "keeps same_core (check_ticket_limits env pp)" "keeps same_core (refund_ratio c)"
  "keeps same_core (settlement_ratio env e co)" "keeps same_core (recipient_share sp a x)"
  "keeps same_core (collect_cancellation_organizer_pool e a n)"
  "keeps same_core (settlement_amount e a n)" "keeps same_core (withdrawable_total e a n)"
  "keeps same_core (max_refund p c st)" "keeps same_core (authorize_dispute env n k pf)"
  "keeps same_core (check_payment env pp)" "keeps same_core (build_payment_record env pp n1 n2)"
  unfolding require_auth_def require_not_paused_def ensure_no_splits_def require_no_disputes_def
    require_completed_def require_admin_def require_auth_admin_def require_event_contract_def
    validate_payment_privacy_def check_event_open_def check_ticket_limits_def refund_ratio_def
    settlement_ratio_def recipient_share_def calculate_recipient_share_def
    collect_cancellation_organizer_pool_def disputed_amount_def settlement_amount_def
    withdrawable_total_def max_refund_def authorize_dispute_def check_payment_def
    build_payment_record_def
  by (intro core.keeps_rules storage_same_core event_status_keeps payment_privacy_keeps)+

lemma accounting_same_core:
  "keeps same_core (collect_platform_fee env e x y a)"
  "keeps same_core (subtract_event_revenue e x)"
  "keeps same_core (subtract_event_token_revenue e a x)"
  "keeps same_core (withdrawal_log env e a x)" "keeps same_core (close_dispute n d)"
  "keeps same_core (count_user_ticket env pp)" "keeps same_core (emit_payment_received p)"
  "keeps same_core (emit_payment_receipt_requested env n e h)"
  "keeps same_core (emit_ticket_issued env k)" "keeps same_core (pay_share env e se a x)"
  "keeps same_core (release_token env e a tok x)" "keeps same_core (drain_token env e a tok b)"
  "keeps same_core (call_contract env a2 fn args)" "keeps same_core (settle_sale env a e c li)"
  "keeps same_core (normalize_splits bf m nm sps)"
  "keeps same_core (modify (\<lambda>s. s\<lparr>pk_Ticket := tk s\<rparr>))"
  unfolding collect_platform_fee_def subtract_event_revenue_def subtract_event_token_revenue_def
    withdrawal_log_def close_dispute_def count_user_ticket_def emit_payment_received_def
    emit_payment_receipt_requested_def emit_ticket_issued_def pay_share_def release_token_def
    drain_token_def call_contract_def settle_sale_def
                 apply (intro core.keeps_rules storage_same_core payment_privacy_keeps
                   keeps_modify; simp add: same_core_def)+
   apply (induction bf m nm sps rule: normalize_splits.induct; auto intro!: core.keeps_rules)
  apply (rule keeps_modify, simp add: same_core_def)
  done

lemmas core_frames = storage_same_core guards_same_core accounting_same_core

lemmas core_evolves = core_frames [THEN evolves_by_core]

end
