(* ===== verification/Payments_Evolution.thy ===== *)
theory Payments_Evolution
  imports Payments_History
begin

text \<open>
  Every entry point keeps \<open>evolves\<close>.  Most of them write no entry that it speaks of; those that do
  write an entry they have read, and the steps in between leave that entry alone.
\<close>

section \<open>Writing an entry that evolves\<close>

lemma update_payment_evolves:
  assumes "pk_Payment s i = Some p" and "payments_ok s \<Longrightarrow> payment_evolves p p' \<and> payment_ok i p'"
  shows "evolves s (s\<lparr>pk_Payment := (pk_Payment s)(i \<mapsto> p')\<rparr>)"
  using assms
  by (auto simp: evolves_def payments_ok_def entries_keep_refl intro: entries_keep_upd)

lemma set_config_evolves:
  assumes "\<And>c. pk_EventConfig s e = Some c \<Longrightarrow> config_evolves c c'"
  shows "evolves s (s\<lparr>pk_EventConfig := (pk_EventConfig s)(e \<mapsto> c')\<rparr>)"
  using assms
  by (auto simp: evolves_def payments_ok_def is_initialized_def entries_keep_refl
      intro: entries_keep_upd)

lemma wpI_write_payment:
  assumes "pk_Payment r i = Some p" and "same_core r s"
    and "payment_ok i p \<Longrightarrow> p_payment_id p' = i \<and> payment_evolves p p' \<and> payment_ok i p'"
    and "keeps evolves k"
  shows "wp (thenE (update_payment p') k) (\<lambda>_. evolves r) s"
proof -
  have "evolves r (s\<lparr>pk_Payment := (pk_Payment s)(p_payment_id p' \<mapsto> p')\<rparr>)"
  proof (cases "payments_ok r")
    case True
    then have "payment_ok i p" using assms(1) by (simp add: payments_ok_def)
    note p' = assms(3) [OF this]
    show ?thesis
      by (rule evolves_trans [OF same_core_evolves [OF assms(2)]], rule update_payment_evolves)
        (use assms(1,2) p' in \<open>auto simp: same_core_def\<close>)
  qed (simp add: evolves_def)
  from evolution.from_earlier [OF assms(4) this] show ?thesis
    by (simp add: update_payment_def wp_rules)
qed

lemma wpI_get_payment:
  "(\<And>p. pk_Payment s i = Some p \<Longrightarrow> Q p s) \<Longrightarrow> wp (get_payment i) Q s"
  by (simp add: get_payment_def wp_rules)

lemma wpI_write_config:
  assumes "evolves r s" and "\<And>c. pk_EventConfig s e = Some c \<Longrightarrow> config_evolves c c'"
  shows "wp (set_event_config e c') (\<lambda>_. evolves r) s"
  using evolves_trans [OF assms(1) set_config_evolves [OF assms(2)]]
  by (simp add: set_event_config_def wp_rules)

lemma wpI_write_config_then:
  assumes "evolves r s" and "\<And>c. pk_EventConfig s e = Some c \<Longrightarrow> config_evolves c c'"
    and "keeps evolves k"
  shows "wp (thenE (set_event_config e c') k) (\<lambda>_. evolves r) s"
  by (rule wpI_thenE, rule wp_mono [OF wpI_write_config [OF assms(1,2)]], assumption,
      rule evolution.from_earlier [OF assms(3)])

section \<open>The writers of single entries\<close>

lemma marks_evolve:
  "keeps evolves (set_nonce a n)" "keeps evolves (set_nonce_hash h n)"
  "keeps evolves (mark_nullifier_spent h)"
  unfolding set_nonce_def set_nonce_hash_def mark_nullifier_spent_def
  by (rule keeps_modify, auto simp: evolves_def payments_ok_def is_initialized_def mark_kept_def
      entries_keep_refl intro: entries_keep_upd)+

lemma save_payment_evolves:
  "wp (save_payment p) (\<lambda>_. evolves s) s" if "payment_ok (p_payment_id p) p"
  using that
  by (auto simp: save_payment_def wp_rules evolves_def payments_ok_def is_initialized_def
      entries_keep_refl intro: entries_keep_upd)

lemma sold_count_evolves: "keeps evolves (increment_event_sold_count e)"
  by (rule keepsI, unfold increment_event_sold_count_def,
      intro wp_intro wpI_write_config evolves_refl)
    (auto simp: config_evolves_def checked_add_u32_def get_event_config_def split: if_splits)

lemma disputed_payment_held:
  assumes "pk_Payment s i = Some p" and "p_status p = Disputed" and "keeps evolves k"
  shows "wp (thenE (update_payment (p\<lparr>p_status := Held\<rparr>)) k) (\<lambda>_. evolves s) s"
  by (rule wpI_write_payment [OF assms(1) core.refl _ assms(3)])
    (use assms(2) in \<open>auto simp: payment_ok_def payment_evolves_def\<close>)

lemma dispute_timeouts_evolve:
  "keeps evolves (time_out_dispute env e d)" "keeps evolves (time_out_step env e n acc)"
  "keeps evolves (process_timed_out_disputes env e)"
  "keeps evolves (validate_revenue_invariant env e)"
proof -
  show one: "keeps evolves (time_out_dispute env e d)" for d
    by (rule keepsI, unfold time_out_dispute_def,
        (rule wpI_bindE wpI_gets wpI_option wpI_return evolves_refl wpI_whenE disputed_payment_held
          | (intro evolution.keeps_rules core_evolves) [1] | simp)+)
  show two: "keeps evolves (time_out_step env e n acc)" for n acc
    unfolding time_out_step_def by (intro evolution.keeps_rules core_evolves one)
  show three: "keeps evolves (process_timed_out_disputes env e)"
    unfolding process_timed_out_disputes_def by (intro evolution.keeps_rules core_evolves two)
  show "keeps evolves (validate_revenue_invariant env e)"
    unfolding validate_revenue_invariant_def check_token_balance_def
    by (intro evolution.keeps_rules core_evolves three)
qed

section \<open>Payments and refunds\<close>

lemma record_payment_evolves:
  assumes "payment_ok (p_payment_id p) p"
  shows "keeps evolves (record_payment env pp p)"
  unfolding record_payment_def spend_nullifier_def record_nonce_def
  by (intro evolution.keeps_rules payment_privacy_keeps core_evolves marks_evolve
      keepsI [OF save_payment_evolves [OF assms]])

lemma wpI_check_payment_amount:
  assumes "\<And>u s'. same_core s s' \<Longrightarrow> 0 < pp_amount pp \<Longrightarrow> Q u s'"
  shows "wp (check_payment env pp) Q s"
proof -
  have "wp (check_payment env pp) (\<lambda>_ s'. same_core s s' \<and> 0 < pp_amount pp) s"
    unfolding check_payment_def
    by (intro wp_intro core_frames [THEN wp_keeps]; simp add: same_core_def)
  then show ?thesis by (rule wp_mono) (auto intro: assms)
qed

lemma wpI_build_payment_record:
  assumes "\<And>p. p_payment_id p = i \<Longrightarrow> p_amount p = pp_amount pp \<Longrightarrow> p_refunded_amount p = 0 \<Longrightarrow>
      p_status p = Held \<Longrightarrow> p_event_id p = pp_event_id pp \<Longrightarrow> p_token p = pp_token_address pp \<Longrightarrow>
      p_privacy_level p = pp_privacy_level pp \<Longrightarrow> Q p s"
  shows "wp (build_payment_record env pp i n) Q s"
  unfolding build_payment_record_def
  by (auto simp: wp_rules intro!: assms split: payment_privacy.split)

lemma issue_ticket_evolves: "keeps evolves (issue_ticket env pp p)"
  unfolding issue_ticket_def Let_def
  by (intro evolution.keeps_rules core_evolves sold_count_evolves)

lemma create_payment_evolves: "keeps evolves (create_payment env pp)"
proof (rule keepsI)
  fix s
  have tail: "wp (thenE (record_payment env pp p) (thenE (emit_payment_received p)
      (thenE (case pp_email_hash pp of None \<Rightarrow> return ()
        | Some h \<Rightarrow> emit_payment_receipt_requested env i (pp_event_id pp) (Some h))
      (thenE (issue_ticket env pp p) (return i))))) (\<lambda>_. evolves s) t"
    if "payment_ok (p_payment_id p) p" and "evolves s t" for p i t
    by (rule evolution.from_earlier [OF _ that(2)])
      (intro evolution.keeps_rules core_evolves issue_ticket_evolves record_payment_evolves that(1))
  show "wp (create_payment env pp) (\<lambda>_. evolves s) s"
    unfolding create_payment_def
    by (intro wpI_thenE wpI_bindE wpI_check_payment_amount wpI_build_payment_record tail
        core_frames [THEN wp_keeps]; simp add: payment_ok_def same_core_evolves same_core_def)
qed

lemma payments_evolve:
  "keeps evolves (pay_for_ticket env n p e x em tok l nc sk)"
  "keeps evolves (pay_for_ticket_with_commitment env n p e x em tok l zk)"
  "keeps evolves (pay_for_ticket_with_options env n p e x tok anon ver)"
  unfolding pay_for_ticket_def pay_for_ticket_with_commitment_def pay_for_ticket_with_options_def
  by (rule create_payment_evolves)+

text \<open>A refund of part of what is left of a held payment.\<close>

lemma wpI_record_refund_evolves:
  assumes "pk_Payment r i = Some p" and "same_core r s"
    and "payment_ok i p \<Longrightarrow> p_payment_id p' = i \<and> payment_evolves p p' \<and> payment_ok i p'"
  shows "wp (record_refund env p' x) (\<lambda>_. evolves r) s"
  unfolding record_refund_def
  by (rule wpI_write_payment [OF assms(1,2)], rule assms(3), assumption,
      intro evolution.keeps_rules core_evolves)

lemma wpI_refund_ratio:
  "(\<And>n. n \<le> 10000 \<Longrightarrow> Q n s) \<Longrightarrow> wp (refund_ratio c) Q s"
  by (simp add: refund_ratio_def wp_rules)

lemma wpI_max_refund:
  assumes "\<And>x. (0 \<le> p_amount p \<Longrightarrow> x \<le> p_amount p - p_refunded_amount p) \<Longrightarrow> Q x s"
  shows "wp (max_refund p c st) Q s"
  unfolding max_refund_def
  by (intro wp_intro wpI_refund_ratio assms) (auto dest: sdiv_bps_le)

lemma core_step:
  assumes "keeps same_core m" and "same_core r s" and "\<And>x s'. same_core r s' \<Longrightarrow> Q x s'"
  shows "wp m Q s"
  by (rule wp_keeps [OF assms(1)]) (rule assms(3), rule core.trans [OF assms(2)])

lemmas core_skip = core_frames [THEN core_step]

lemma core_get_payment:
  assumes "same_core r s" and "\<And>p. pk_Payment r i = Some p \<Longrightarrow> Q p s"
  shows "wp (get_payment i) Q s"
  using assms by (simp add: get_payment_def wp_rules same_core_def)

lemma wpI_refund_payment:
  assumes "pk_Payment r i = Some p" and "same_core r s" and "p_status p = Held"
    and "payment_ok i p \<Longrightarrow> 0 < x \<and> x \<le> p_amount p - p_refunded_amount p"
  shows "wp (record_refund env (p\<lparr>p_refunded_amount := p_refunded_amount p + x, p_status := st\<rparr>) x)
    (\<lambda>_. evolves r) s"
  by (rule wpI_record_refund_evolves [OF assms(1,2)], frule assms(4))
    (use assms(3) in \<open>auto simp: payment_ok_def payment_evolves_def\<close>)

lemma refunds_evolve:
  "keeps evolves (refund env a i amt)" "keeps evolves (claim_refund env a i)"
  "keeps evolves (request_postponement_refund env a k)"
proof (safe intro!: keepsI)
  fix s
  show "wp (refund env a i amt) (\<lambda>_. evolves s) s"
    unfolding refund_def Let_def
    by (intro wp_intro core_get_payment [where r = s] wpI_max_refund wpI_refund_payment [where i = i]
        core_skip [where r = s]; (assumption | rule core.refl)?; auto simp: payment_ok_def)
  show "wp (claim_refund env a i) (\<lambda>_. evolves s) s"
    unfolding claim_refund_def
    by (intro wp_intro core_get_payment [where r = s] wpI_refund_ratio wpI_refund_payment [where i = i]
        core_skip [where r = s]; (assumption | rule core.refl)?;
        auto simp: payment_ok_def intro: sdiv_bps_le)
  show "wp (request_postponement_refund env a k) (\<lambda>_. evolves s) s"
    unfolding request_postponement_refund_def
    by (intro wp_intro core_get_payment [where r = s] wpI_refund_payment
        core_skip [where r = s]; (assumption | rule core.refl)?; auto simp: payment_ok_def)
qed


section \<open>Disputes and receipts\<close>

lemma disputes_evolve:
  fixes env :: "'w env"
  shows "keeps evolves (bind_email_commitment env a i h)" "keeps evolves (raise_dispute env k n pf)"
  "keeps evolves (approve_refund env k)" "keeps evolves (reject_dispute env k)"
  "keeps evolves (process_dispute_timeouts env e)"
proof (safe intro!: keepsI)
  fix s :: "'w payments_state"
  have tail: "wp (thenE (update_payment p') k) (\<lambda>_. evolves s) t"
    if "pk_Payment s j = Some p" and "same_core s t"
      and "payment_ok j p \<Longrightarrow> p_payment_id p' = j \<and> payment_evolves p p' \<and> payment_ok j p'"
      and "keeps same_core k" for p p' k t j
    by (rule wpI_write_payment [OF that(1,2)], erule that(3), rule evolves_by_core, rule that(4))
  note steps = wp_intro core_get_payment [where r = s]
  show "wp (bind_email_commitment env a i h) (\<lambda>_. evolves s) s"
    unfolding bind_email_commitment_def
    by (intro tail steps core_skip [where r = s]; (assumption | rule core.refl)?;
      (intro core.keeps_rules core_frames)?; auto simp: payment_ok_def payment_evolves_def)
  show "wp (raise_dispute env k n pf) (\<lambda>_. evolves s) s"
    unfolding raise_dispute_def
    by (intro tail steps core_skip [where r = s]; (assumption | rule core.refl)?;
      (intro core.keeps_rules core_frames)?; auto simp: payment_ok_def payment_evolves_def)
  show "wp (approve_refund env k) (\<lambda>_. evolves s) s"
    unfolding approve_refund_def
    by (intro tail steps core_skip [where r = s]; (assumption | rule core.refl)?;
      (intro core.keeps_rules core_frames)?; auto simp: payment_ok_def payment_evolves_def)
  show "wp (reject_dispute env k) (\<lambda>_. evolves s) s"
    unfolding reject_dispute_def
    by (intro tail steps core_skip [where r = s]; (assumption | rule core.refl)?;
      (intro core.keeps_rules core_frames)?; auto simp: payment_ok_def payment_evolves_def)
  show "wp (process_dispute_timeouts env e) (\<lambda>_. evolves s) s"
    unfolding process_dispute_timeouts_def
    by (rule wp_keeps [OF dispute_timeouts_evolve(3)])
qed

section \<open>The event configuration\<close>

definition same_settings :: "'w payments_state \<Rightarrow> 'w payments_state \<Rightarrow> bool" where
  "same_settings s s' \<longleftrightarrow> pk_EventConfig s' = pk_EventConfig s \<and>
     pk_SplitSettlement s' = pk_SplitSettlement s \<and> pk_SplitWithdrawn s' = pk_SplitWithdrawn s"

interpretation settings: history same_settings
  by unfold_locales (auto simp: same_settings_def)

lemma same_core_settings: "same_core s s' \<Longrightarrow> same_settings s s'"
  by (simp add: same_core_def same_settings_def)

lemma settings_by_core: "keeps same_core m \<Longrightarrow> keeps same_settings m"
  by (erule keeps_mono, rule same_core_settings)

lemmas core_settings = core_frames [THEN settings_by_core]

lemma timeouts_same_settings:
  "keeps same_settings (process_timed_out_disputes env e)"
  "keeps same_settings (validate_revenue_invariant env e)"
proof -
  have upd: "keeps same_settings (update_payment p)" for p
    unfolding update_payment_def
    by (intro settings.keeps_rules keeps_modify) (simp add: same_settings_def)
  show "keeps same_settings (process_timed_out_disputes env e)"
    unfolding process_timed_out_disputes_def time_out_step_def time_out_dispute_def
    by (intro settings.keeps_rules core_settings upd)
  then show "keeps same_settings (validate_revenue_invariant env e)"
    unfolding validate_revenue_invariant_def check_token_balance_def
    by (intro settings.keeps_rules core_settings)
qed

text \<open>Both relations to an earlier state are carried along.\<close>

lemma settings_step:
  assumes "keeps evolves m" and "keeps same_settings m" and "evolves r s \<and> same_settings r s"
    and "\<And>x s'. evolves r s' \<and> same_settings r s' \<Longrightarrow> Q x s'"
  shows "wp m Q s"
proof -
  have "evolves r t \<and> same_settings r t" if "m s = Inr (x, t)" for x t
    using assms(3) keepsD [OF assms(1) that] keepsD [OF assms(2) that]
    by (auto intro: evolves_trans settings.trans)
  then show ?thesis by (auto intro: wpI assms(4))
qed

lemma settings_step_core:
  assumes "keeps same_core m" and "evolves r s \<and> same_settings r s"
    and "\<And>x s'. evolves r s' \<and> same_settings r s' \<Longrightarrow> Q x s'"
  shows "wp m Q s"
  using settings_step [OF evolves_by_core [OF assms(1)] settings_by_core [OF assms(1)]
      assms(2,3)] .

lemmas settings_skip =
  settings_step [OF dispute_timeouts_evolve(4) timeouts_same_settings(2)]
  core_frames [THEN settings_step_core]

lemma settings_refl: "evolves s s \<and> same_settings s s"
  by (simp add: evolves_refl settings.refl)

lemma wpI_update_config:
  assumes "evolves r s \<and> same_settings r s" and "\<And>c. pk_EventConfig r e = Some c \<Longrightarrow> config_evolves c c'"
  shows "wp (set_event_config e c') (\<lambda>_. evolves r) s"
    and "keeps same_core k \<Longrightarrow> wp (thenE (set_event_config e c') k) (\<lambda>_. evolves r) s"
  using assms by (auto intro!: wpI_write_config wpI_write_config_then evolves_by_core
      simp: same_settings_def)

lemma wpI_update_config_option:
  assumes "evolves r s \<and> same_settings r s"
    and "\<And>c c'. v = Some c \<Longrightarrow> pk_EventConfig r e = Some c' \<Longrightarrow> config_evolves c' (f c)"
    and "keeps same_core k"
  shows "wp (thenE (case v of None \<Rightarrow> return () | Some c \<Rightarrow> set_event_config e (f c)) k)
    (\<lambda>_. evolves r) s"
proof (cases v)
  case None
  then show ?thesis
    using evolution.from_earlier [OF evolves_by_core [OF assms(3)]] assms(1) by (simp add: wp_rules)
next
  case (Some c)
  then show ?thesis by simp (rule wpI_update_config(2) [OF assms(1) assms(2) assms(3)])
qed

lemma config_evolve:
  fixes env :: "'w env"
  shows "keeps evolves (sync_event_config env a e c)" "keeps evolves (cancel_event env e a)"
    "keeps evolves (extend_withdrawal_delay env a e n)" "keeps evolves (withdraw env a e)"
    "keeps evolves (withdraw_revenue env e a)"
proof (safe intro!: keepsI)
  fix s :: "'w payments_state"
  note steps = wpI_update_config_option wpI_update_config wp_intro settings_skip [where r = s]
  show "wp (sync_event_config env a e c) (\<lambda>_. evolves s) s"
    unfolding sync_event_config_def
    by (intro steps; (assumption | rule settings_refl)?;
      auto simp: same_settings_def get_event_config_def config_evolves_def)
  show "wp (cancel_event env e a) (\<lambda>_. evolves s) s"
    unfolding cancel_event_def
    by (intro steps; (assumption | rule settings_refl | intro core.keeps_rules core_frames)?;
      auto simp: same_settings_def get_event_config_def config_evolves_def)
  show "wp (extend_withdrawal_delay env a e n) (\<lambda>_. evolves s) s"
    unfolding extend_withdrawal_delay_def
    by (intro steps; (assumption | rule settings_refl)?;
      auto simp: same_settings_def get_event_config_def config_evolves_def)
  show "wp (withdraw env a e) (\<lambda>_. evolves s) s"
    unfolding withdraw_def
    by (intro steps; (assumption | rule settings_refl | intro core.keeps_rules core_frames)?;
      auto simp: same_settings_def get_event_config_def config_evolves_def)
  show "wp (withdraw_revenue env e a) (\<lambda>_. evolves s) s"
    unfolding withdraw_revenue_def
    by (intro steps; (assumption | rule settings_refl | intro core.keeps_rules core_frames)?;
      auto simp: same_settings_def get_event_config_def config_evolves_def)
qed


section \<open>Revenue splits\<close>

lemma new_entry_evolves:
  "evolves r s \<Longrightarrow> pk_EventSplits s e = None \<Longrightarrow>
     evolves r (s\<lparr>pk_EventSplits := (pk_EventSplits s)(e \<mapsto> sp)\<rparr>)"
  "evolves r s \<Longrightarrow> pk_SplitSettlement s e = None \<Longrightarrow>
     evolves r (s\<lparr>pk_SplitSettlement := (pk_SplitSettlement s)(e \<mapsto> se)\<rparr>)"
  "evolves r s \<Longrightarrow> \<not> get_split_withdrawn s e a > 0 \<Longrightarrow>
     evolves r (s\<lparr>pk_SplitWithdrawn := (pk_SplitWithdrawn s)((e, a) \<mapsto> x)\<rparr>)"
  by (erule evolves_trans; auto simp: evolves_def payments_ok_def is_initialized_def
      entries_keep_refl share_kept_def get_split_withdrawn_def
      intro!: entries_keep_upd split: option.splits)+

lemma sync_splits_evolves:
  fixes env :: "'w env"
  shows "keeps evolves (sync_revenue_splits env a e sp)"
proof (rule keepsI)
  fix s :: "'w payments_state"
  have "wp (set_splits e sp') (\<lambda>_. evolves s) t"
    if "same_core s t" and "pk_EventSplits s e = None" for sp' t
    using new_entry_evolves(1) [OF same_core_evolves [OF that(1)]] that
    by (simp add: set_splits_def wp_rules same_core_def)
  then show "wp (sync_revenue_splits env a e sp) (\<lambda>_. evolves s) s"
    unfolding sync_revenue_splits_def
    by (intro wp_intro core_skip [where r = s]; (assumption | rule core.refl)?;
      auto simp: has_splits_def same_core_def)
qed

text \<open>A settlement leaves the paid shares alone.\<close>

lemma settlement_evolves:
  fixes env :: "'w env"
  shows "keeps evolves (ensure_split_settled env e)"
proof (rule keepsI)
  fix s :: "'w payments_state"
  have upd: "wp (thenE (set_split_settlement e se) (return se)) (\<lambda>_. evolves s) t"
    if "evolves s t \<and> same_settings s t" and "get_split_settlement s e = None" for se t
    unfolding set_split_settlement_def
    by (simp add: wp_rules, rule new_entry_evolves(2))
      (use that in \<open>simp_all add: get_split_settlement_def same_settings_def\<close>)
  show "wp (ensure_split_settled env e) (\<lambda>_. evolves s) s"
    unfolding ensure_split_settled_def Let_def
    by (intro upd wp_intro settings_skip [where r = s]; (assumption | rule settings_refl)?;
      simp add: evolves_refl)
qed

lemma settlement_keeps_withdrawn:
  "keeps (\<lambda>s s'. pk_SplitWithdrawn s' = pk_SplitWithdrawn s) (ensure_split_settled env e)"
proof (rule keepsI)
  fix s
  show "wp (ensure_split_settled env e) (\<lambda>_ s'. pk_SplitWithdrawn s' = pk_SplitWithdrawn s) s"
    unfolding ensure_split_settled_def Let_def
    by (intro wp_intro settings_skip [where r = s]; (assumption | rule settings_refl)?;
      simp add: same_settings_def set_split_settlement_def wp_rules)
qed

text \<open>A share is paid to a recipient who has none, after the settlement.\<close>

definition share_open :: "symbol \<Rightarrow> address \<Rightarrow> 'w payments_state \<Rightarrow> 'w payments_state \<Rightarrow> bool" where
  "share_open e a r s \<longleftrightarrow> evolves r s \<and> get_split_withdrawn s e a = get_split_withdrawn r e a"

lemma share_open_step:
  assumes "keeps same_core m" and "share_open e a r s" and "\<And>x s'. share_open e a r s' \<Longrightarrow> Q x s'"
  shows "wp m Q s"
  by (rule wp_keeps [OF assms(1)], rule assms(3))
    (use assms(2) in \<open>auto simp: share_open_def same_core_def get_split_withdrawn_def
      intro: evolves_trans same_core_evolves [unfolded same_core_def]\<close>)

lemma share_open_settled:
  assumes "share_open e a r s" and "\<And>x s'. share_open e a r s' \<Longrightarrow> Q x s'"
  shows "wp (ensure_split_settled env e) Q s"
proof (rule wpI, rule assms(2))
  fix x s'
  assume run: "ensure_split_settled env e s = Inr (x, s')"
  show "share_open e a r s'"
    using assms(1) keepsD [OF settlement_evolves run] keepsD [OF settlement_keeps_withdrawn run]
    by (auto simp: share_open_def get_split_withdrawn_def intro: evolves_trans)
qed

lemma wpI_pay_split:
  assumes "share_open e a r s" and "\<not> get_split_withdrawn r e a > 0" and "keeps same_core k"
  shows "wp (thenE (set_split_withdrawn e a x) k) (\<lambda>_. evolves r) s"
proof -
  have "evolves r (s\<lparr>pk_SplitWithdrawn := (pk_SplitWithdrawn s)((e, a) \<mapsto> x)\<rparr>)"
    by (rule new_entry_evolves(3)) (use assms(1,2) in \<open>simp_all add: share_open_def\<close>)
  then show ?thesis
    using evolution.from_earlier [OF evolves_by_core [OF assms(3)]]
    by (simp add: set_split_withdrawn_def wp_rules)
qed

lemma splits_evolve:
  fixes env :: "'w env"
  shows "keeps evolves (withdraw_split env a e)" "keeps evolves (resolve_flagged_share env e a fr)"
proof (safe intro!: keepsI)
  fix s :: "'w payments_state"
  have start: "share_open e a s s" by (simp add: share_open_def evolves_refl)
  note steps = wpI_pay_split wp_intro share_open_settled [where e = e and a = a and r = s]
    core_frames [THEN share_open_step [where e = e and a = a and r = s]]
  show "wp (withdraw_split env a e) (\<lambda>_. evolves s) s"
    unfolding withdraw_split_def
    by (intro steps; (assumption | rule start | intro core.keeps_rules core_frames)?;
      simp add: share_open_def)
  show "wp (resolve_flagged_share env e a fr) (\<lambda>_. evolves s) s"
    unfolding resolve_flagged_share_def Let_def
    by (intro wpI_flag_resolution steps; (assumption | rule start | intro core.keeps_rules core_frames)?;
      simp add: share_open_def)
qed

section \<open>The other entry points\<close>

lemma initialize_evolves: "keeps evolves (initialize a1 a2 n a3 a4)"
proof (rule keepsI)
  fix s
  have "evolves s (s\<lparr>pk_Admin := x, pk_AcceptedToken := y, pk_PlatformFeeBps := z,
      pk_PlatformWallet := v, pk_EventContract := u\<rparr>)" if "\<not> is_initialized s" for x y z u v
    using that by (simp add: evolves_def payments_ok_def entries_keep_refl)
  then show "wp (initialize a1 a2 n a3 a4) (\<lambda>_. evolves s) s"
    by (simp add: initialize_def wp_rules storage_call_defs evolves_refl)
qed

lemma legacy_evolves:
  "keeps evolves (modify (\<lambda>s. s\<lparr>pk_EventPaymentIndex := f1 s\<rparr>))"
  "keeps evolves (modify (\<lambda>s. s\<lparr>pk_EventPaymentsCount := f2 s\<rparr>))"
  "keeps evolves (modify (\<lambda>s. s\<lparr>pk_TotalPayments := f3 s\<rparr>))"
  "keeps evolves (modify (\<lambda>s. s\<lparr>pk_TotalRefunds := f4 s\<rparr>))"
  "keeps evolves (modify (\<lambda>s. s\<lparr>pk_TotalWithdrawn := f5 s\<rparr>))"
  "keeps evolves (modify (\<lambda>s. s\<lparr>pk_EventPayments := (pk_EventPayments s)(e := None)\<rparr>))"
  by (rule keeps_modify, simp add: evolves_def payments_ok_def is_initialized_def entries_keep_refl)+

lemma migrations_evolve:
  "keeps evolves (migrate env a)" "keeps evolves (migrate_event env a e)"
proof -
  show "keeps evolves (migrate env a)"
    unfolding migrate_def by (intro evolution.keeps_rules core_evolves)
  have one: "keeps evolves (migrate_payment e x t)" for x t
    unfolding migrate_payment_def
    by (cases x; cases t; simp; intro evolution.keeps_rules core_evolves legacy_evolves)
  show "keeps evolves (migrate_event env a e)"
    unfolding migrate_event_def migrate_totals_def
    by (intro evolution.keeps_rules core_evolves legacy_evolves dispute_timeouts_evolve one)
qed

lemma others_evolve:
  "keeps evolves (add_supported_token env a1 a2)" "keeps evolves (set_paused env a1 b)"
  "keeps evolves (set_event_status env a1 e st)" "keeps evolves (set_platform_fee env n1 a1)"
  "keeps evolves (set_event_privacy env a1 e l)" "keeps evolves (set_ticket_contract env a1 a2)"
  "keeps evolves (set_event_end_time env a1 e a2 n1)"
  "keeps evolves (sync_event_privacy env a1 e b b2)" "keeps evolves (postpone_event env e a1 n1)"
  "keeps evolves (resume_event env e a1)" "keeps evolves (release_if_expired env e)"
  "keeps evolves (withdraw_platform_revenue env e)" "keeps evolves (withdraw_token env a e tok)"
  "keeps evolves (withdraw_all_tokens env a e)" "keeps evolves (flag_cohost env a1 e a2)"
  "keeps evolves (list_ticket_for_resale env a n x)" "keeps evolves (delist_ticket env a n)"
  "keeps evolves (buy_resale_ticket env a n)"
  unfolding add_supported_token_def set_paused_def set_event_status_def set_platform_fee_def
    set_event_privacy_def set_ticket_contract_def set_event_end_time_def sync_event_privacy_def
    postpone_event_def resume_event_def release_if_expired_def withdraw_platform_revenue_def
    withdraw_token_def withdraw_all_tokens_def flag_cohost_def list_ticket_for_resale_def
    delist_ticket_def buy_resale_ticket_def Let_def
  by (intro evolution.keeps_rules core_evolves dispute_timeouts_evolve)+

lemmas entry_points_evolve =
  initialize_evolves migrations_evolve others_evolve splits_evolve sync_splits_evolves
  config_evolve disputes_evolve refunds_evolve payments_evolve

end
