(* ===== verification/Payments_Machine.thy ===== *)
theory Payments_Machine
  imports Payments_Solvency Payments_Evolution State_Machine
begin

text \<open>
  The payments contract as a state machine: one step per entry point that changes state, and the
  steps of the outside world, which may move tokens but not take the contract's own (a token
  leaves an address only by that address's authorization).  A deployment is the set of
  environments its invocations run in; they share the contract's address and the token contracts.
\<close>

section \<open>Steps\<close>

inductive payments_call_step ::
    "'w env \<Rightarrow> 'w payments_state \<Rightarrow> 'w payments_state \<Rightarrow> bool" for env where
  call_initialize: "initialize ad tok fee wal ec s = Inr (u, s') \<Longrightarrow> payments_call_step env s s'"
| call_add_supported_token: "add_supported_token env ad tok s = Inr (u, s') \<Longrightarrow> payments_call_step env s s'"
| call_set_paused: "set_paused env ad b s = Inr (u, s') \<Longrightarrow> payments_call_step env s s'"
| call_set_event_status: "set_event_status env ad e st s = Inr (u, s') \<Longrightarrow> payments_call_step env s s'"
| call_set_platform_fee: "set_platform_fee env fee wal s = Inr (u, s') \<Longrightarrow> payments_call_step env s s'"
| call_set_event_privacy: "set_event_privacy env ad e l s = Inr (u, s') \<Longrightarrow> payments_call_step env s s'"
| call_set_ticket_contract: "set_ticket_contract env ad tc s = Inr (u, s') \<Longrightarrow> payments_call_step env s s'"
| call_set_event_end_time: "set_event_end_time env ad e org t s = Inr (u, s') \<Longrightarrow> payments_call_step env s s'"
| call_extend_withdrawal_delay:
    "extend_withdrawal_delay env ad e n s = Inr (u, s') \<Longrightarrow> payments_call_step env s s'"
| call_sync_event_privacy:
    "sync_event_privacy env ec e anon ver s = Inr (u, s') \<Longrightarrow> payments_call_step env s s'"
| call_sync_event_config: "sync_event_config env ec e c s = Inr (u, s') \<Longrightarrow> payments_call_step env s s'"
| call_sync_revenue_splits:
    "sync_revenue_splits env ec e sp s = Inr (u, s') \<Longrightarrow> payments_call_step env s s'"
| call_cancel_event: "cancel_event env e org s = Inr (u, s') \<Longrightarrow> payments_call_step env s s'"
| call_postpone_event: "postpone_event env e org n s = Inr (u, s') \<Longrightarrow> payments_call_step env s s'"
| call_resume_event: "resume_event env e org s = Inr (u, s') \<Longrightarrow> payments_call_step env s s'"
| call_migrate: "migrate env ad s = Inr (v, s') \<Longrightarrow> payments_call_step env s s'"
| call_migrate_event: "migrate_event env ad e s = Inr (u, s') \<Longrightarrow> payments_call_step env s s'"
| call_pay: "pay_for_ticket env n p e x em tok l nc sk s = Inr (i, s') \<Longrightarrow> payments_call_step env s s'"
| call_pay_with_commitment:
    "pay_for_ticket_with_commitment env n p e x em tok l zk s = Inr (i, s') \<Longrightarrow>
     payments_call_step env s s'"
| call_pay_with_options:
    "pay_for_ticket_with_options env n p e x tok anon ver s = Inr (i, s') \<Longrightarrow>
     payments_call_step env s s'"
| call_refund: "refund env ad i amt s = Inr (u, s') \<Longrightarrow> payments_call_step env s s'"
| call_claim_refund: "claim_refund env p i s = Inr (u, s') \<Longrightarrow> payments_call_step env s s'"
| call_postponement_refund:
    "request_postponement_refund env p k s = Inr (u, s') \<Longrightarrow> payments_call_step env s s'"
| call_bind_email: "bind_email_commitment env p i h s = Inr (u, s') \<Longrightarrow> payments_call_step env s s'"
| call_withdraw: "withdraw env org e s = Inr (u, s') \<Longrightarrow> payments_call_step env s s'"
| call_withdraw_revenue: "withdraw_revenue env e dst s = Inr (u, s') \<Longrightarrow> payments_call_step env s s'"
| call_release: "release_if_expired env e s = Inr (u, s') \<Longrightarrow> payments_call_step env s s'"
| call_withdraw_platform_revenue:
    "withdraw_platform_revenue env e s = Inr (u, s') \<Longrightarrow> payments_call_step env s s'"
| call_withdraw_token: "withdraw_token env org e tok s = Inr (u, s') \<Longrightarrow> payments_call_step env s s'"
| call_withdraw_all_tokens:
    "withdraw_all_tokens env org e s = Inr (u, s') \<Longrightarrow> payments_call_step env s s'"
| call_withdraw_split: "withdraw_split env r e s = Inr (u, s') \<Longrightarrow> payments_call_step env s s'"
| call_flag_cohost: "flag_cohost env org e r s = Inr (u, s') \<Longrightarrow> payments_call_step env s s'"
| call_resolve_flagged_share:
    "resolve_flagged_share env e r fr s = Inr (u, s') \<Longrightarrow> payments_call_step env s s'"
| call_list_ticket: "list_ticket_for_resale env p k x s = Inr (u, s') \<Longrightarrow> payments_call_step env s s'"
| call_delist_ticket: "delist_ticket env p k s = Inr (u, s') \<Longrightarrow> payments_call_step env s s'"
| call_buy_ticket: "buy_resale_ticket env p k s = Inr (u, s') \<Longrightarrow> payments_call_step env s s'"
| call_raise_dispute: "raise_dispute env k n pf s = Inr (u, s') \<Longrightarrow> payments_call_step env s s'"
| call_approve_refund: "approve_refund env k s = Inr (u, s') \<Longrightarrow> payments_call_step env s s'"
| call_reject_dispute: "reject_dispute env k s = Inr (u, s') \<Longrightarrow> payments_call_step env s s'"
| call_dispute_timeouts:
    "process_dispute_timeouts env e s = Inr (u, s') \<Longrightarrow> payments_call_step env s s'"

inductive payments_step ::
    "'w env set \<Rightarrow> 'w payments_state \<Rightarrow> 'w payments_state \<Rightarrow> bool" for E where
  invocation: "env \<in> E \<Longrightarrow> payments_call_step env s s' \<Longrightarrow> payments_step E s s'"
| outside:
    "(\<And>env t. env \<in> E \<Longrightarrow>
        token_balance env t (current_contract_address env) (pk_world s)
          \<le> token_balance env t (current_contract_address env) w) \<Longrightarrow>
     payments_step E s (s\<lparr>pk_world := w\<rparr>)"

definition deployment :: "'w env set \<Rightarrow> bool" where
  "deployment E \<longleftrightarrow>
     (\<forall>env\<in>E. token_laws env \<and> invoke_keeps_tokens env \<and> not_self_authorized env) \<and>
     (\<forall>env\<in>E. \<forall>env'\<in>E. token_balance env' = token_balance env \<and>
        current_contract_address env' = current_contract_address env)"

text \<open>A freshly deployed contract: no storage, and balances that are not negative.\<close>

definition payments_init :: "'w env set \<Rightarrow> 'w payments_state \<Rightarrow> bool" where
  "payments_init E s \<longleftrightarrow> s = empty_payments_state (pk_world s) \<and>
     (\<forall>env\<in>E. \<forall>t. 0 \<le> balance env s t)"

abbreviation payments_execution :: "'w env set \<Rightarrow> 'w payments_state \<Rightarrow> bool" where
  "payments_execution E \<equiv> reachable (payments_init E) (payments_step E)"

section \<open>Every step evolves and is covered\<close>

lemma call_step_evolves: "payments_call_step env s s' \<Longrightarrow> evolves s s'"
  by (cases rule: payments_call_step.cases, assumption) (erule entry_points_evolve [THEN keepsD])+

lemma payments_step_evolves: "payments_step E s s' \<Longrightarrow> evolves s s'"
  by (cases rule: payments_step.cases, assumption)
    (auto intro: call_step_evolves same_core_evolves simp: same_core_def)

lemma legacy_total_covered: "x > 0 \<Longrightarrow> keeps (covered env e) (add_total_token_withdrawn e tok x)"
  by (rule keepsI, rule wpI_token_totals(3) [where d = "- x"])
    (auto simp: covered_def balance_def fun_eq_iff)

text \<open>
  Without legacy data the event migration only adds to the withdrawn total, which lowers the
  escrow of the event.
\<close>

lemma modify_same_ledger:
  "keeps same_ledger (modify (\<lambda>s. s\<lparr>pk_EventPaymentsCount := f2 s\<rparr>))"
  "keeps same_ledger (modify (\<lambda>s. s\<lparr>pk_TotalPayments := f3 s\<rparr>))"
  "keeps same_ledger (modify (\<lambda>s. s\<lparr>pk_TotalRefunds := f4 s\<rparr>))"
  "keeps same_ledger (modify (\<lambda>s. s\<lparr>pk_TotalWithdrawn := f5 s\<rparr>))"
  "keeps same_ledger (modify (\<lambda>s. s\<lparr>pk_EventPayments := f6 s\<rparr>))"
  by (rule keeps_modify, simp add: same_ledger_def escrow_def fun_eq_iff get_total_token_volume_def
      get_total_token_refunds_def get_total_token_withdrawn_def)+

lemma covered_by_ledger: "keeps same_ledger m \<Longrightarrow> keeps (covered env e) m"
  by (erule keeps_mono, rule same_ledger_covered)

lemmas covered_frames = ledger_frames [THEN covered_by_ledger] modify_same_ledger [THEN covered_by_ledger]

interpretation reader: history "(=)"
  by unfold_locales auto

lemma admin_guard_reads:
  "keeps (=) require_not_paused" "keeps (=) (require_auth_admin env a)"
  unfolding require_not_paused_def require_auth_admin_def require_auth_def get_admin_def
  by (intro reader.keeps_rules)+

lemma migrate_totals_covered: "keeps (covered env e) (migrate_totals env e n x y)"
proof -
  have when_pos: "keeps (covered env e) (whenE (x > 0) m)"
    if "x > 0 \<Longrightarrow> keeps (covered env e) m" for x :: int and m
    using that by (cases "x > 0") (simp_all add: whenE_def cover.pure_keeps)
  show ?thesis
    unfolding migrate_totals_def
    by (intro when_pos legacy_total_covered cover.keeps_rules covered_frames; assumption)
qed

lemma migrate_event_covered:
  assumes "pk_EventPayments s e = None"
  shows "wp (migrate_event env a e) (\<lambda>_. covered env e s) s"
  unfolding migrate_event_def
  by (rule wpI_thenE, rule wp_keeps [OF admin_guard_reads(1)],
      rule wpI_thenE, rule wp_keeps [OF admin_guard_reads(2)])
    (use assms migrate_totals_covered [of env e, unfolded keeps_def] in
      \<open>simp add: foldE.simps wp_rules\<close>)

lemma call_step_covered:
  assumes "payments_call_step env s s'" and "deployment E" and "env \<in> E"
    and "\<And>e. pk_EventPayments s e = None"
  shows "\<exists>e. covered env e s s'"
proof -
  have token: "token_laws env" and self: "not_self_authorized env" and invoke: "invoke_keeps_tokens env"
    using assms(2,3) by (simp_all add: deployment_def)
  have same: "m s = Inr (x, s') \<Longrightarrow> \<exists>e. covered env e s s'" if "keeps same_ledger m"
    for m :: "('a, 'b) payment_call" and x
    using keepsD [OF that] same_ledger_covered by blast
  have one: "m s = Inr (x, s') \<Longrightarrow> \<exists>e. covered env e s s'" if "wp m (\<lambda>_. covered env e s) s"
    for m :: "('a, 'b) payment_call" and x e
    using wpD [OF that] by blast
  have any: "m s = Inr (x, s') \<Longrightarrow> \<exists>e. covered env e s s'"
    if "wp m (\<lambda>_ s'. \<exists>e. covered env e s s') s" for m :: "('a, 'b) payment_call" and x
    using wpD [OF that] .
  note rules = config_same_ledger [THEN same] other_same_ledger [THEN same]
    refunds_covered [OF token, THEN any] approve_refund_covered [OF token, THEN any]
    withdrawals_covered [OF token, THEN one] releases_covered [OF token, THEN one]
    buy_resale_ticket_covered [OF token self invoke, THEN one]
    create_payment_covered [OF token self, THEN one] migrate_event_covered [OF assms(4), THEN one]
  show ?thesis
    using assms(1)
    by (cases rule: payments_call_step.cases)
      (unfold pay_for_ticket_def pay_for_ticket_with_commitment_def
        pay_for_ticket_with_options_def, (erule rules)+)
qed

section \<open>Solvency\<close>

text \<open>
  The escrow of all events together is backed by the contract's balance, token by token; only
  finitely many events have any.
\<close>

definition solvent :: "'w env \<Rightarrow> 'w payments_state \<Rightarrow> bool" where
  "solvent env s \<longleftrightarrow> (\<exists>F. finite F \<and> (\<forall>e t. e \<notin> F \<longrightarrow> escrow s e t = 0) \<and>
     (\<forall>t. (\<Sum>e\<in>F. escrow s e t) \<le> balance env s t))"

lemma covered_solvent:
  assumes "solvent env s" and cov: "covered env x s s'"
  shows "solvent env s'"
proof -
  obtain F where F: "finite F" "\<And>e t. e \<notin> F \<Longrightarrow> escrow s e t = 0"
    "\<And>t. (\<Sum>e\<in>F. escrow s e t) \<le> balance env s t"
    using assms(1) unfolding solvent_def by blast
  have "(\<Sum>e\<in>insert x F. escrow s' e t) \<le> balance env s' t" for t
  proof -
    have split: "(\<Sum>e\<in>insert x F. f e) = f x + (\<Sum>e\<in>F - {x}. f e)" for f :: "symbol \<Rightarrow> int"
      using F(1) by (simp add: sum.insert_remove)
    have "(\<Sum>e\<in>F - {x}. escrow s' e t) = (\<Sum>e\<in>F - {x}. escrow s e t)"
      by (rule sum.cong) (use cov in \<open>auto simp: covered_def\<close>)
    moreover have "(\<Sum>e\<in>insert x F. escrow s e t) = (\<Sum>e\<in>F. escrow s e t)"
      using F(1,2) by (cases "x \<in> F") (simp_all add: insert_absorb)
    moreover have "escrow s' x t - escrow s x t \<le> balance env s' t - balance env s t"
      using cov by (simp add: covered_def)
    ultimately show ?thesis
      using F(3) [of t] split [of "\<lambda>e. escrow s e t"] split [of "\<lambda>e. escrow s' e t"] by linarith
  qed
  moreover have "escrow s' e t = 0" if "e \<notin> insert x F" for e t
    using cov that F(2) by (auto simp: covered_def)
  ultimately show ?thesis
    unfolding solvent_def using F(1) by (intro exI [of _ "insert x F"]) auto
qed

lemma solvent_sum:
  assumes "solvent env s"
  shows "finite {e. escrow s e t \<noteq> 0}" and "(\<Sum>e | escrow s e t \<noteq> 0. escrow s e t) \<le> balance env s t"
proof -
  obtain F where F: "finite F" "\<And>e t. e \<notin> F \<Longrightarrow> escrow s e t = 0"
    "\<And>t. (\<Sum>e\<in>F. escrow s e t) \<le> balance env s t"
    using assms unfolding solvent_def by blast
  have sub: "{e. escrow s e t \<noteq> 0} \<subseteq> F" using F(2) by blast
  then show "finite {e. escrow s e t \<noteq> 0}" using F(1) by (rule finite_subset)
  have "(\<Sum>e | escrow s e t \<noteq> 0. escrow s e t) = (\<Sum>e\<in>F. escrow s e t)"
    by (rule sum.mono_neutral_left) (use F(1) sub in auto)
  then show "(\<Sum>e | escrow s e t \<noteq> 0. escrow s e t) \<le> balance env s t" using F(3) by simp
qed

section \<open>The invariant\<close>

definition payments_inv :: "'w env set \<Rightarrow> 'w payments_state \<Rightarrow> bool" where
  "payments_inv E s \<longleftrightarrow> payments_ok s \<and> (\<forall>e. pk_EventPayments s e = None) \<and>
     (deployment E \<longrightarrow> (\<forall>env\<in>E. solvent env s))"

lemma payments_init_inv: "payments_init E s \<Longrightarrow> payments_inv E s"
  unfolding payments_init_def payments_inv_def payments_ok_def solvent_def
  by (erule conjE, erule ssubst)
    (auto simp: empty_payments_state_def escrow_def get_total_token_volume_def
      get_total_token_refunds_def get_total_token_withdrawn_def balance_def intro!: exI [of _ "{}"])

lemma payments_step_inv:
  assumes "payments_step E s s'" and "payments_inv E s"
  shows "payments_inv E s'"
proof -
  have ok: "payments_ok s" "\<And>e. pk_EventPayments s e = None"
    and solvent: "deployment E \<Longrightarrow> env \<in> E \<Longrightarrow> solvent env s" for env
    using assms(2) by (simp_all add: payments_inv_def)
  have "payments_ok s' \<and> (\<forall>e. pk_EventPayments s' e = None)"
    using payments_step_evolves [OF assms(1)] ok by (simp add: evolves_def)
  moreover have "solvent env s'" if dep: "deployment E" and "env \<in> E" for env
    using assms(1)
  proof cases
    case (invocation env')
    obtain x where "covered env' x s s'" using call_step_covered [OF invocation(2) dep invocation(1) ok(2)] ..
    moreover have "balance env' = balance env"
      using dep invocation(1) \<open>env \<in> E\<close> unfolding balance_def deployment_def by metis
    ultimately have "covered env x s s'" by (simp add: covered_def)
    then show ?thesis by (rule covered_solvent [OF solvent [OF that]])
  next
    case (outside w)
    have "covered env [] s s'"
      using outside(2) [OF \<open>env \<in> E\<close>] unfolding outside(1)
      by (simp add: covered_def balance_def escrow_def get_total_token_volume_def
          get_total_token_refunds_def get_total_token_withdrawn_def fun_eq_iff)
    then show ?thesis by (rule covered_solvent [OF solvent [OF that]])
  qed
  ultimately show ?thesis by (simp add: payments_inv_def)
qed

interpretation payments_machine: state_machine "payments_init E" "payments_step E" "payments_inv E"
  for E
  by unfold_locales (erule payments_init_inv, erule (1) payments_step_inv)

text \<open>Any two states of an execution.\<close>

lemma execution_evolves:
  assumes "payments_execution E s" and "(payments_step E)\<^sup>*\<^sup>* s s'"
  shows "payments_ok s" and "evolves s s'"
proof -
  show "payments_ok s"
    using payments_machine.reachable_inv [OF assms(1)] by (simp add: payments_inv_def)
  show "evolves s s'"
    by (rule payments_machine.execution_preserves [OF assms(2) payments_machine.reachable_inv [OF assms(1)]
          _ evolves_refl evolves_trans]) (rule payments_step_evolves)
qed

lemma execution_continues:
  "payments_execution E s \<Longrightarrow> (payments_step E)\<^sup>*\<^sup>* s s' \<Longrightarrow> payments_execution E s'"
  by (erule rtranclp_induct [where P = "payments_execution E"]) (assumption, rule reachable_step)

end
