(* ===== verification/Payments_Sample.thy ===== *)
theory Payments_Sample
  imports Payments_Machine
begin

text \<open>
  A concrete deployment: one token, two buyers, an event that sells a Standard and an Anonymous
  ticket.  The theorems are applied to the states it reaches.
\<close>

section \<open>The deployment\<close>

text \<open>Every address but the contract's own may authorize.\<close>

definition desk :: "nat \<Rightarrow> ledger env" where
  "desk n = sample_env n (5 * n) (Addr 100) (\<lambda>a. a \<noteq> Addr 100)"

definition desks :: "ledger env set" where "desks = range desk"

lemma desk_in_desks [simp]: "desk n \<in> desks"
  by (simp add: desks_def)

lemma desk_laws [simp]:
  "token_laws (desk n)" "invoke_keeps_tokens (desk n)" "not_self_authorized (desk n)"
  by (simp_all add: desk_def not_self_authorized_def)

lemma deployment_desks [simp]: "deployment desks"
  by (auto simp: deployment_def desks_def) (simp_all add: desk_def sample_env_def)

definition sample_config :: event_config where
  "sample_config = \<lparr>ec_organizer = Addr 7, ec_payout_token = Addr 1, ec_allow_anonymous = True,
     ec_requires_verification = False, ec_max_tickets_per_user = 3, ec_max_supply = 10,
     ec_sold_count = 0, ec_event_start_ledger = 100, ec_event_end_ledger = 200,
     ec_withdrawal_delay_ledgers = 20, ec_admin_delay_extension_ledgers = 0,
     ec_cancel_ledger = None, ec_withdrawable_ratio_bps = None, ec_organizer_withdrawn = False,
     ec_resale_royalty_bps = 500, ec_max_resale_price = None,
     ec_allow_free_ticket_transfer = True\<rparr>"

definition sample_wallets :: ledger where
  "sample_wallets = (\<lambda>t a. if t = Addr 1 \<and> a \<in> {Addr 11, Addr 12} then 1000 else 0)"

section \<open>A sale\<close>

definition sample_sale :: "(ledger, nat) payment_call" where
  "sample_sale =
     thenE (initialize (Addr 5) (Addr 1) 200 (Addr 6) (Addr 50)) (
     thenE (sync_event_config (desk 10) (Addr 50) ''ev'' sample_config) (
     thenE (pay_for_ticket (desk 20) 1 (Addr 11) ''ev'' 300 None (Addr 1) P_Standard None None) (
     pay_for_ticket (desk 30) 1 (Addr 12) ''ev'' 200 None (Addr 1) P_Anonymous (Some [9]) None)))"

definition standard_payment :: payment_record where
  "standard_payment = \<lparr>p_payment_id = 1, p_event_id = ''ev'', p_payer = Some (Addr 11),
     p_hashed_wallet = None, p_stealth_delivery_key = None, p_nullifier_commitment = None,
     p_amount = 300, p_token = Addr 1, p_status = Held, p_paid_at = 100,
     p_privacy_level = P_Standard, p_refunded_amount = 0, p_zk_email_commitment = None\<rparr>"

definition anonymous_payment :: payment_record where
  "anonymous_payment = \<lparr>p_payment_id = 2, p_event_id = ''ev'', p_payer = None,
     p_hashed_wallet = None, p_stealth_delivery_key = None, p_nullifier_commitment = Some [9],
     p_amount = 200, p_token = Addr 1, p_status = Held, p_paid_at = 150,
     p_privacy_level = P_Anonymous, p_refunded_amount = 0, p_zk_email_commitment = None\<rparr>"

text \<open>The state after the sale, entry by entry.\<close>

definition sold :: "ledger payments_state" where
  "sold = (empty_payments_state (sample_wallets(Addr 1 := (\<lambda>a. if a \<in> {Addr 11, Addr 12} then 1000 else 0)
        (Addr 11 := 700, Addr 12 := 800, Addr 100 := 500))))\<lparr>
     pk_Admin := Some (Addr 5), pk_AcceptedToken := Some (Addr 1),
     pk_EventContract := Some (Addr 50),
     pk_EventConfig := [''ev'' \<mapsto> sample_config\<lparr>ec_sold_count := 2\<rparr>],
     pk_Payment := [1 \<mapsto> standard_payment, 2 \<mapsto> anonymous_payment],
     pk_Ticket := [1 \<mapsto> build_ticket standard_payment 1, 2 \<mapsto> build_ticket anonymous_payment 2],
     pk_EventRevenue := [''ev'' \<mapsto> 500], pk_EventTokenRevenue := [(''ev'', Addr 1) \<mapsto> 500],
     pk_EventPayment := [(''ev'', 1) \<mapsto> True, (''ev'', 2) \<mapsto> True],
     pk_OwnerTicket := [(Addr 11, 1) \<mapsto> 0], pk_PayerPayment := [(Addr 11, 1) \<mapsto> True],
     pk_EventToken := [(''ev'', Addr 1) \<mapsto> True], pk_EventTokenIndex := [(''ev'', 0) \<mapsto> Addr 1],
     pk_EventTokenCount := [''ev'' \<mapsto> 1],
     pk_NextPaymentId := Some 2, pk_NextTicketId := Some 2,
     pk_PlatformFeeBps := Some 200, pk_PlatformWallet := Some (Addr 6),
     pk_ProcessedNonce := [(Addr 11, 1) \<mapsto> True],
     pk_UserEventTickets := [(''ev'', Addr 11) \<mapsto> 1],
     pk_ProcessedNonceHash := [([9], 1) \<mapsto> True], pk_SpentNullifier := [[9] \<mapsto> True],
     pk_TotalPayments := [''ev'' \<mapsto> 500],
     pk_EventPaymentIndex := [(''ev'', 0) \<mapsto> 1, (''ev'', 1) \<mapsto> 2],
     pk_EventPaymentsCount := [''ev'' \<mapsto> 2],
     pk_PayerPaymentIndex := [(Addr 11, 0) \<mapsto> 1], pk_PayerPaymentsCount := [Addr 11 \<mapsto> 1],
     pk_EventTokenVolume := [(''ev'', Addr 1) \<mapsto> 500],
     pk_OwnerTicketIndex := [(Addr 11, 0) \<mapsto> 1], pk_OwnerTicketsCount := [Addr 11 \<mapsto> 1],
     pk_emitted :=
       [PaymentReceived 1 ''ev'' (Full (Addr 11)) 300 (Addr 1) 100,
        TicketIssued 1 ''ev'' (Full (Addr 11)) 1 100,
        PaymentReceived 2 ''ev'' (Hashed [9]) 200 (Addr 1) 150,
        TicketIssued 2 ''ev'' (Hashed [9]) 2 150]\<rparr>"

lemma ex_true [simp]: "\<exists>x. x"
  by auto

lemmas sample_defs =
  sold_def standard_payment_def anonymous_payment_def sample_config_def sample_wallets_def
  empty_payments_state_def desk_def ledger_transfer_def

lemmas state_eval =
  storage_call_defs storage_getter_defs storage_put_defs Let_def exec checked_add_u32_def
  u64_max_def u32_max_def i128_min_def i128_max_def

lemmas payment_eval =
  pay_for_ticket_def create_payment_def check_payment_def require_not_paused_def
  nonce_already_used_def validate_payment_privacy_def check_ticket_limits_def check_event_open_def
  build_payment_record_def record_payment_def spend_nullifier_def record_nonce_def
  emit_payment_received_def emit_ticket_issued_def issue_ticket_def count_user_ticket_def
  build_ticket_def masked_payment_identity_def masked_ticket_identity_def

lemma sample_sale_runs:
  "sample_sale (empty_payments_state sample_wallets) = Inr (2, sold)"
  unfolding sample_sale_def
  by (simp add: numeral_2_eq_2 [symmetric] payment_eval initialize_def sync_event_config_def require_event_contract_def
      require_auth_def state_eval sample_defs)


lemma sample_init: "payments_init desks (empty_payments_state sample_wallets)"
  by (auto simp: payments_init_def desks_def empty_payments_state_def balance_def desk_def
      sample_wallets_def)

lemma sold_reachable: "payments_execution desks sold"
proof -
  note run = sample_sale_runs [unfolded sample_sale_def]
  have step: "payments_call_step (desk n) s s' \<Longrightarrow> payments_step desks s s'" for n s s'
    by (rule invocation [of "desk n"]) simp
  show ?thesis
    by (rule reachable_thenE [OF reachable_init [where init = "payments_init desks", OF sample_init] run],
        rule step, erule call_initialize,
        erule (1) reachable_thenE, rule step, erule call_sync_event_config,
        erule (1) reachable_thenE, rule step, erule call_pay,
        erule reachable_step, rule step, erule call_pay)
qed


section \<open>The event completed, and its organizer paid\<close>

lemma sample_step:
  "payments_execution desks s \<Longrightarrow> payments_call_step (desk n) s s' \<Longrightarrow> payments_execution desks s'"
  by (erule reachable_step, rule invocation [of "desk n"]) simp_all

definition completed :: "ledger payments_state" where
  "completed = sold\<lparr>pk_EventStatus := [''ev'' \<mapsto> Completed]\<rparr>"

lemma completed_runs: "set_event_status (desk 220) (Addr 5) ''ev'' Completed sold = Inr ((), completed)"
  by (simp add: set_event_status_def require_not_paused_def require_admin_def require_auth_def
      state_eval completed_def sample_defs)

lemma completed_reachable: "payments_execution desks completed"
  by (rule sample_step [OF sold_reachable call_set_event_status], rule completed_runs)

definition paid_out :: "ledger payments_state" where
  "paid_out = completed\<lparr>
     pk_world := (pk_world sold)(Addr 1 := ((pk_world sold) (Addr 1))(Addr 100 := 10, Addr 7 := 490)),
     pk_PlatformRevenue := [''ev'' \<mapsto> 10], pk_EventTokenRevenue := [(''ev'', Addr 1) \<mapsto> 0],
     pk_TotalWithdrawn := [''ev'' \<mapsto> 490],
     pk_TotalTokenWithdrawn := [(''ev'', Addr 1) \<mapsto> 490],
     pk_EventConfig := [''ev'' \<mapsto> sample_config\<lparr>ec_sold_count := 2, ec_organizer_withdrawn := True\<rparr>],
     pk_WithdrawalRecord := [(''ev'', 0) \<mapsto>
       \<lparr>wr_amount = 490, wr_timestamp = 1500, wr_organizer = Addr 7\<rparr>],
     pk_WithdrawalCount := [''ev'' \<mapsto> 1],
     pk_emitted := pk_emitted sold @
       [PlatformFeeCollected ''ev'' 10 490 (Addr 1) 1500,
        RevenueWithdrawn ''ev'' (Full (Addr 7)) 490 (Addr 1) (Addr 7) 1500]\<rparr>"

lemma sdiv_eval: "(0::int) \<le> a \<Longrightarrow> a sdiv 10000 = a div 10000"
  by (rule int_sdiv_nonneg) simp_all

lemma foldE_eval: "foldE f [] a = return a" "foldE f (x # xs) a = bindE (f x a) (foldE f xs)"
  by (simp_all add: foldE.simps fun_eq_iff exec)

lemmas settlement_eval =
  ensure_no_splits_def require_auth_def require_not_paused_def settlement_ratio_def
  validate_revenue_invariant_def process_timed_out_disputes_def check_token_balance_def
  require_no_disputes_def withdrawable_total_def collect_platform_fee_def withdrawal_log_def
  subtract_event_revenue_def mask_address_def sdiv_eval foldE_eval for_each_def mul_bps_def

lemma paid_out_runs: "withdraw (desk 300) (Addr 7) ''ev'' completed = Inr ((), paid_out)"
  by (simp add: withdraw_def settlement_eval state_eval paid_out_def completed_def sample_defs)

lemma paid_out_reachable: "payments_execution desks paid_out"
  by (rule sample_step [OF completed_reachable call_withdraw], rule paid_out_runs)

end
