(* ===== verification/Payments_Safety.thy ===== *)
theory Payments_Safety
  imports Payments_Sample
begin

text \<open>
  The global properties of the payments contract: its escrow is backed in every reachable state,
  and what has been settled, used or registered stays so in every later one.
\<close>

section \<open>Solvency\<close>

text \<open>C1: In every reachable state of a deployment whose token contracts obey the token laws, only
  finitely many events have escrow in a token, and the contract's balance of that token covers
  the escrow of all events together: whatever the running totals say is still owed to payers,
  organizers and the platform can be paid.\<close>
theorem escrow_backed:
  assumes "deployment E" and "payments_execution E s" and "env \<in> E"
  shows "finite {e. escrow s e tok \<noteq> 0} \<and>
    (\<Sum>e | escrow s e tok \<noteq> 0. escrow s e tok) \<le> balance env s tok"
proof -
  have "solvent env s"
    using payments_machine.reachable_inv [OF assms(2)] assms(1,3) by (simp add: payments_inv_def)
  then show ?thesis using solvent_sum by blast
qed

lemma sold_escrow: "escrow sold e t = (if e = ''ev'' \<and> t = Addr 1 then 500 else 0)"
  by (simp add: escrow_def get_total_token_volume_def get_total_token_refunds_def
      get_total_token_withdrawn_def sample_defs)

lemma sold_balance [simp]: "balance (desk n) sold (Addr 1) = 500"
  by (simp add: balance_def sample_defs)

theorem escrow_backed_witness:
  "(\<Sum>e | escrow sold e (Addr 1) \<noteq> 0. escrow sold e (Addr 1)) \<le> 500 \<and>
   escrow sold ''ev'' (Addr 1) = 500"
  using escrow_backed [OF deployment_desks sold_reachable desk_in_desks [of 0], of "Addr 1"]
  by (simp add: sold_escrow)

section \<open>One settlement per event\<close>

definition never_returns :: "('s, 'e, 'a) call \<Rightarrow> 's \<Rightarrow> bool" where
  "never_returns m s \<longleftrightarrow> (\<forall>x s'. m s \<noteq> Inr (x, s'))"

lemma never_returnsI: "wp m (\<lambda>_ _. False) s \<Longrightarrow> never_returns m s"
  by (auto simp: never_returns_def wp_def split: sum.splits)

definition settled :: "'w payments_state \<Rightarrow> symbol \<Rightarrow> bool" where
  "settled s e \<longleftrightarrow> (\<exists>c. get_event_config s e = Some c \<and> ec_organizer_withdrawn c)"

lemma settled_evolves: "settled s e \<Longrightarrow> payments_ok s \<Longrightarrow> evolves s s' \<Longrightarrow> settled s' e"
  by (fastforce simp: settled_def get_event_config_def evolves_def config_evolves_def entries_keep_def)

lemma wpI_settle:
  assumes "keeps same_core k"
  shows "wp (thenE (set_event_config e (c\<lparr>ec_organizer_withdrawn := True\<rparr>)) k) (\<lambda>_ t. settled t e) s"
  by (simp add: set_event_config_def wp_rules, rule wp_keeps [OF assms])
    (simp add: settled_def get_event_config_def same_core_def)

lemma wpI_settle_option:
  assumes "v \<noteq> None" and "keeps same_core k"
  shows "wp (thenE (case v of None \<Rightarrow> return ()
    | Some c \<Rightarrow> set_event_config e (c\<lparr>ec_organizer_withdrawn := True\<rparr>)) k) (\<lambda>_ t. settled t e) s"
  using assms(1) wpI_settle [OF assms(2)] by auto

lemma wp_skip: "(\<And>x s'. Q x s') \<Longrightarrow> wp m Q s"
  by (auto simp: wp_def split: sum.splits)

lemma withdrawals_settle:
  fixes s :: "'w payments_state"
  shows "wp (withdraw env a e) (\<lambda>_ t. settled t e) s"
    and "get_event_config s e \<noteq> None \<Longrightarrow> wp (withdraw_revenue env e a) (\<lambda>_ t. settled t e) s"
proof -
  show "wp (withdraw env a e) (\<lambda>_ t. settled t e) s"
    unfolding withdraw_def
    by (intro wpI_settle wpI_thenE wpI_bindE wp_skip) (intro core.keeps_rules core_frames)
  assume config: "get_event_config s e \<noteq> None"
  show "wp (withdraw_revenue env e a) (\<lambda>_ t. settled t e) s"
    unfolding withdraw_revenue_def
    by (intro wpI_settle_option wp_intro settings_skip [where r = s];
      (assumption | rule settings_refl | intro core.keeps_rules core_frames)?;
      use config in \<open>simp add: same_settings_def get_event_config_def\<close>)
qed

text \<open>C3: The organizer's withdrawal and the administrator's share one latch: once either has
  settled an event with a configuration, neither returns in any later state, whoever calls it and
  whatever happens in between; the escrow of an event is paid out by these two paths at most once.\<close>
theorem settled_once:
  assumes "payments_execution E s" and "env \<in> E" and "get_event_config s e \<noteq> None"
    and "withdraw env a e s = Inr (u, t) \<or> withdraw_revenue env e a s = Inr (u, t)"
    and "(payments_step E)\<^sup>*\<^sup>* t s'"
  shows "never_returns (withdraw env' b e) s' \<and> never_returns (withdraw_revenue env' e b) s'"
proof -
  have reach: "payments_execution E t"
    using assms(1,2,4) by (auto intro: reachable_step invocation call_withdraw call_withdraw_revenue)
  have "settled t e"
    using assms(3,4) wpD [OF withdrawals_settle(1)] wpD [OF withdrawals_settle(2)] by metis
  then have "settled s' e"
    by (rule settled_evolves) (rule execution_evolves [OF reach assms(5)])+
  then obtain c where c: "get_event_config s' e = Some c" "ec_organizer_withdrawn c"
    by (auto simp: settled_def)
  have "wp (withdraw env' b e) (\<lambda>_ _. False) s'"
    unfolding withdraw_def
    by (intro wp_intro core_skip [where r = s']; (assumption | rule core.refl)?;
      use c in \<open>simp add: same_core_def get_event_config_def\<close>)
  moreover have "wp (withdraw_revenue env' e b) (\<lambda>_ _. False) s'"
    unfolding withdraw_revenue_def
    by (intro wp_intro core_skip [where r = s']; (assumption | rule core.refl)?;
      use c in \<open>simp add: same_core_def get_event_config_def\<close>)
  ultimately show ?thesis by (simp add: never_returnsI)
qed

theorem settled_once_witness:
  "never_returns (withdraw (desk 400) (Addr 7) ''ev'') paid_out \<and>
   never_returns (withdraw_revenue (desk 400) ''ev'' (Addr 7)) paid_out"
  using settled_once [OF completed_reachable desk_in_desks _ disjI1 [OF paid_out_runs] rtranclp.rtrancl_refl,
    of "desk 400" "Addr 7"]
  by (simp add: completed_def sold_def get_event_config_def)

section \<open>Replay protection\<close>

text \<open>What identifies a purchase for replay protection: the payer and the nonce, the hash of the
  payer and the nonce, or the nullifier commitment alone.\<close>

fun same_purchase :: "'w env \<Rightarrow> payment_params \<Rightarrow> 'w env \<Rightarrow> payment_params \<Rightarrow> bool" where
  "same_purchase env pp env' pp' \<longleftrightarrow> pp_privacy_level pp' = pp_privacy_level pp \<and>
     (case pp_privacy_level pp of
        P_Standard \<Rightarrow> pp_payer pp' = pp_payer pp \<and> pp_nonce pp' = pp_nonce pp
      | P_Private \<Rightarrow> private_wallet_hash env' (pp_payer pp') = private_wallet_hash env (pp_payer pp)
          \<and> pp_nonce pp' = pp_nonce pp
      | P_Anonymous \<Rightarrow> pp_nullifier_commitment pp' = pp_nullifier_commitment pp)"

definition purchase_spent :: "'w env \<Rightarrow> payment_params \<Rightarrow> 'w payments_state \<Rightarrow> bool" where
  "purchase_spent env pp s \<longleftrightarrow>
     (case pp_privacy_level pp of
        P_Standard \<Rightarrow> has_nonce s (pp_payer pp) (pp_nonce pp)
      | P_Private \<Rightarrow> has_nonce_hash s (private_wallet_hash env (pp_payer pp)) (pp_nonce pp)
      | P_Anonymous \<Rightarrow> (case pp_nullifier_commitment pp of None \<Rightarrow> False | Some h \<Rightarrow> has_nullifier s h))"

lemma marked_iff:
  "has_nonce s a n \<longleftrightarrow> pk_ProcessedNonce s (a, n) = Some True"
  "has_nonce_hash s h n \<longleftrightarrow> pk_ProcessedNonceHash s (h, n) = Some True"
  "has_nullifier s h \<longleftrightarrow> pk_SpentNullifier s h = Some True"
  by (simp_all add: has_nonce_def has_nonce_hash_def has_nullifier_def split: option.split)

lemma mark_stays: "entries_keep mark_kept m m' \<Longrightarrow> m k = Some True \<Longrightarrow> m' k = Some True"
  by (auto simp: mark_kept_def dest: entries_keepD)

lemma purchase_spent_evolves:
  assumes "purchase_spent env pp s" and "payments_ok s" and "evolves s s'"
  shows "purchase_spent env pp s'"
proof -
  note marks = assms(3) [unfolded evolves_def, THEN mp, OF assms(2)]
  show ?thesis
    using assms(1) marks unfolding purchase_spent_def marked_iff
    by (cases "pp_privacy_level pp"; cases "pp_nullifier_commitment pp"; auto intro: mark_stays)
qed

lemma build_keeps_commitment:
  "wp (build_payment_record env pp i n) (\<lambda>p _. p_nullifier_commitment p = (case pp_privacy_level pp of
     P_Anonymous \<Rightarrow> pp_nullifier_commitment pp | _ \<Rightarrow> None) \<and>
     (pp_privacy_level pp = P_Anonymous \<longrightarrow> pp_nullifier_commitment pp \<noteq> None)) s"
  by (simp add: build_payment_record_def wp_rules split: payment_privacy.split)


text \<open>No step of a payment takes a mark back.\<close>

definition marks_grow :: "'w payments_state \<Rightarrow> 'w payments_state \<Rightarrow> bool" where
  "marks_grow s s' \<longleftrightarrow> entries_keep mark_kept (pk_ProcessedNonce s) (pk_ProcessedNonce s') \<and>
     entries_keep mark_kept (pk_ProcessedNonceHash s) (pk_ProcessedNonceHash s') \<and>
     entries_keep mark_kept (pk_SpentNullifier s) (pk_SpentNullifier s')"

interpretation marks: history marks_grow
  by unfold_locales (auto simp: marks_grow_def mark_kept_def intro: entries_keep_refl entries_keep_trans)

lemma marks_by_core: "keeps same_core m \<Longrightarrow> keeps marks_grow m"
  by (erule keeps_mono) (simp add: same_core_def marks_grow_def entries_keep_refl)

lemma writers_marks:
  "keeps marks_grow (save_payment p)" "keeps marks_grow (set_nonce a n)"
  "keeps marks_grow (set_nonce_hash h n)" "keeps marks_grow (set_event_config e c)"
  unfolding save_payment_def set_nonce_def set_nonce_hash_def set_event_config_def
  by (intro marks.keeps_rules keeps_modify;
      auto simp: marks_grow_def mark_kept_def entries_keep_refl intro: entries_keep_upd)+

lemmas marks_frames = core_frames [THEN marks_by_core] writers_marks

lemma spent_stays: "purchase_spent env pp s \<Longrightarrow> marks_grow s s' \<Longrightarrow> purchase_spent env pp s'"
  unfolding purchase_spent_def marked_iff marks_grow_def
  by (cases "pp_privacy_level pp"; cases "pp_nullifier_commitment pp"; auto intro: mark_stays)

lemma wpI_spent_stays:
  "purchase_spent env pp s \<Longrightarrow> keeps marks_grow m \<Longrightarrow> wp m (\<lambda>_. purchase_spent env pp) s"
  by (rule wp_keeps, assumption, rule spent_stays)

definition commitment_matches :: "payment_params \<Rightarrow> payment_record \<Rightarrow> bool" where
  "commitment_matches pp p \<longleftrightarrow>
     (pp_privacy_level pp = P_Anonymous \<longrightarrow> pp_nullifier_commitment pp \<noteq> None \<and>
        p_nullifier_commitment p = pp_nullifier_commitment pp)"

lemma wpI_spend:
  assumes "commitment_matches pp p"
  shows "pp_privacy_level pp = P_Anonymous \<Longrightarrow> wp (spend_nullifier p) (\<lambda>_. purchase_spent env pp) s"
    and "pp_privacy_level pp \<noteq> P_Anonymous \<Longrightarrow> wp (record_nonce env pp p) (\<lambda>_. purchase_spent env pp) s"
  using assms
  by (cases "pp_privacy_level pp"; auto simp: commitment_matches_def spend_nullifier_def record_nonce_def
      wp_rules set_nonce_def set_nonce_hash_def mark_nullifier_spent_def purchase_spent_def marked_iff)+

lemma record_payment_spends:
  assumes "commitment_matches pp p"
  shows "wp (record_payment env pp p) (\<lambda>_. purchase_spent env pp) s"
proof (cases "pp_privacy_level pp = P_Anonymous")
  case True
  show ?thesis
    unfolding record_payment_def record_nonce_def
    by (rule wpI_thenE, rule wp_mono [OF wpI_spend(1) [OF assms True]], rule wpI_spent_stays,
        assumption, intro marks.keeps_rules payment_privacy_keeps marks_frames)
next
  case False
  have tail: "wp (thenE (record_nonce env pp p) k) (\<lambda>_. purchase_spent env pp) t"
    if "keeps marks_grow k" for k t
    by (rule wpI_thenE, rule wp_mono [OF wpI_spend(2) [OF assms False]])
      (rule wpI_spent_stays [OF _ that])
  show ?thesis
    unfolding record_payment_def
    by (intro tail wpI_thenE wp_skip) (intro marks.keeps_rules marks_frames)
qed

lemma create_payment_spends:
  "wp (create_payment env pp) (\<lambda>_. purchase_spent env pp) s"
proof -
  have tail: "wp (thenE (record_payment env pp p) k) (\<lambda>_. purchase_spent env pp) t"
    if "commitment_matches pp p" and "keeps marks_grow k" for p k t
    by (rule wpI_thenE, rule wp_mono [OF record_payment_spends [OF that(1)]])
      (rule wpI_spent_stays [OF _ that(2)])
  have built: "wp (build_payment_record env pp i n) (\<lambda>p _. commitment_matches pp p) t" for i n t
    by (simp add: build_payment_record_def commitment_matches_def wp_rules split: payment_privacy.split)
  show ?thesis
    unfolding create_payment_def
    by (rule wpI_thenE, rule wp_skip, rule wpI_thenE, rule wp_skip, rule wpI_bindE, rule wp_skip,
        rule wpI_bindE, rule wp_mono [OF built], rule tail, assumption,
        unfold issue_ticket_def increment_event_sold_count_def Let_def,
        intro marks.keeps_rules marks_frames)
qed

lemma spent_rejected:
  assumes "purchase_spent env pp s"
  shows "wp (create_payment env pp) (\<lambda>_ _. False) s"
proof (cases "pp_privacy_level pp = P_Anonymous")
  case False
  then have used: "nonce_already_used env pp t" if "same_core s t" for t
    using assms that by (cases "pp_privacy_level pp")
      (simp_all add: purchase_spent_def nonce_already_used_def same_core_def marked_iff)
  show ?thesis
    unfolding create_payment_def check_payment_def
    by (intro wp_intro core_skip [where r = s]; (assumption | rule core.refl)?; simp add: used core.refl)
next
  case True
  then obtain h where h: "pp_nullifier_commitment pp = Some h" "pk_SpentNullifier s h = Some True"
    using assms by (auto simp: purchase_spent_def marked_iff split: option.splits)
  have built: "wp (build_payment_record env pp i n) Q t"
    if "\<And>p. p_nullifier_commitment p = Some h \<Longrightarrow> Q p t" for i n Q t
    using True h that by (simp add: build_payment_record_def wp_rules)
  have spent: "wp (thenE (record_payment env pp p) k) (\<lambda>_ _. False) t"
    if "p_nullifier_commitment p = Some h" and "same_core s t" for p k t
    using that h by (simp add: record_payment_def spend_nullifier_def wp_rules marked_iff same_core_def)
  show ?thesis
    unfolding create_payment_def
    by (intro spent built wpI_thenE wpI_bindE core_skip [where r = s]; (assumption | rule core.refl)?)
qed


text \<open>C4: A purchase is accepted at most once.  After a payment has returned, a second one with the
  same payer and nonce (Standard), the same payer hash and nonce (Private) or the same nullifier
  commitment (Anonymous) never returns, in any later state, for any event, amount or token.\<close>
theorem purchase_once:
  assumes "payments_execution E s" and "env \<in> E" and "pay_for_ticket env n p e x em tok l nc sk s = Inr (i, t)"
    and "(payments_step E)\<^sup>*\<^sup>* t s'"
    and "case l of P_Standard \<Rightarrow> p' = p \<and> n' = n
       | P_Private \<Rightarrow> private_wallet_hash env' p' = private_wallet_hash env p \<and> n' = n
       | P_Anonymous \<Rightarrow> nc' = nc"
  shows "never_returns (pay_for_ticket env' n' p' e' x' em' tok' l nc' sk') s'"
proof -
  have reach: "payments_execution E t"
    using assms(1,2,3) by (auto intro: reachable_step invocation call_pay)
  let ?pp = "\<lambda>n p e x tok l em nc sk. \<lparr>pp_nonce = n, pp_payer = p, pp_event_id = e, pp_amount = x,
     pp_token_address = tok, pp_is_anonymous = False, pp_is_verified = False, pp_privacy_level = l,
     pp_email_hash = em, pp_zk_email_commitment = None, pp_nullifier_commitment = nc,
     pp_stealth_delivery_key = sk\<rparr>"
  have "purchase_spent env (?pp n p e x tok l em nc sk) t"
    using wpD [OF create_payment_spends assms(3) [unfolded pay_for_ticket_def]] .
  then have "purchase_spent env (?pp n p e x tok l em nc sk) s'"
    by (rule purchase_spent_evolves) (rule execution_evolves [OF reach assms(4)])+
  then have "purchase_spent env' (?pp n' p' e' x' tok' l em' nc' sk') s'"
    using assms(5) by (cases l) (simp_all add: purchase_spent_def)
  then show ?thesis
    unfolding pay_for_ticket_def by (rule never_returnsI [OF spent_rejected])
qed

theorem purchase_once_witness:
  "\<exists>t. pay_for_ticket (desk 40) 2 (Addr 12) ''ev'' 100 None (Addr 1) P_Standard None None sold
       = Inr (3, t) \<and>
     never_returns (pay_for_ticket (desk 90) 2 (Addr 12) ''ev'' 70 None (Addr 1) P_Standard None None) t"
proof -
  obtain t where
    run: "pay_for_ticket (desk 40) 2 (Addr 12) ''ev'' 100 None (Addr 1) P_Standard None None sold
       = Inr (3, t)"
    by (simp add: payment_eval require_auth_def state_eval sample_defs)
  show ?thesis
    using run purchase_once [OF sold_reachable desk_in_desks run rtranclp.rtrancl_refl] by simp
qed


section \<open>Payments, configurations and splits\<close>

text \<open>C12: A payment is never deleted or rewritten: along every execution it keeps its event, payer
  or masked identity, amount, token, time and privacy level; what has been refunded of it only
  grows and stays between zero and its amount; once Refunded it stays Refunded, and a bound
  receipt commitment is never replaced.\<close>
theorem payment_immutable:
  assumes "payments_execution E s" and "(payments_step E)\<^sup>*\<^sup>* s s'"
    and "pk_Payment s i = Some p"
  shows "\<exists>p'. pk_Payment s' i = Some p' \<and> payment_evolves p p' \<and> payment_ok i p'"
proof -
  have ok: "payments_ok s" and ev: "evolves s s'" by (rule execution_evolves [OF assms(1,2)])+
  then have "entries_keep payment_evolves (pk_Payment s) (pk_Payment s')" and "payments_ok s'"
    by (simp_all add: evolves_def)
  then show ?thesis using assms(3) entries_keepD unfolding payments_ok_def by metis
qed

theorem payment_immutable_witness:
  "\<exists>t p'. refund (desk 40) (Addr 5) 1 (Some 120) sold = Inr ((), t) \<and> pk_Payment t 1 = Some p' \<and>
     p_refunded_amount p' = 120 \<and> p_payer p' = Some (Addr 11) \<and> p_amount p' = 300"
proof -
  obtain t where run: "refund (desk 40) (Addr 5) 1 (Some 120) sold = Inr ((), t)"
    and t: "map_option p_refunded_amount (pk_Payment t 1) = Some 120"
    by (simp add: refund_def max_refund_def record_refund_def foldE_eval require_auth_def
        require_not_paused_def masked_payment_identity_def state_eval sample_defs)
  have "(payments_step desks)\<^sup>*\<^sup>* sold t"
    by (rule r_into_rtranclp, rule invocation [OF desk_in_desks], rule call_refund, rule run)
  from payment_immutable [OF sold_reachable this, of 1] obtain p' where
    "pk_Payment t 1 = Some p'" "payment_evolves standard_payment p'"
    by (auto simp: sold_def)
  then show ?thesis using run t by (auto simp: payment_evolves_def standard_payment_def)
qed

text \<open>The roles are fixed: after initialization the administrator, the accepted token and the
  linked event contract never change, whoever calls initialize again; and an event keeps its
  organizer and payout token, never loses a recorded sale, and never loses the settlement latch
  or the cancellation.\<close>
theorem roles_fixed:
  assumes "payments_execution E s" and "(payments_step E)\<^sup>*\<^sup>* s s'"
  shows "(is_initialized s \<longrightarrow> pk_Admin s' = pk_Admin s \<and> pk_AcceptedToken s' = pk_AcceptedToken s \<and>
      pk_EventContract s' = pk_EventContract s) \<and>
    (get_event_config s e = Some c \<longrightarrow> (\<exists>c'. get_event_config s' e = Some c' \<and> config_evolves c c'))"
proof -
  have "payments_ok s" and ev: "evolves s s'" by (rule execution_evolves [OF assms])+
  note kept = ev [unfolded evolves_def, THEN mp, OF this(1)]
  have "entries_keep config_evolves (pk_EventConfig s) (pk_EventConfig s')"
    using kept by (elim conjE)
  moreover have "is_initialized s \<longrightarrow> pk_Admin s' = pk_Admin s \<and> pk_AcceptedToken s' = pk_AcceptedToken s \<and>
      pk_EventContract s' = pk_EventContract s"
    using kept by (elim conjE)
  ultimately show ?thesis by (simp add: entries_keepD get_event_config_def)
qed

theorem roles_fixed_witness:
  "pk_Admin paid_out = Some (Addr 5) \<and>
   (\<exists>c'. get_event_config paid_out ''ev'' = Some c' \<and> ec_organizer c' = Addr 7)"
proof -
  have "(payments_step desks)\<^sup>*\<^sup>* completed paid_out"
    by (rule r_into_rtranclp, rule invocation [OF desk_in_desks], rule call_withdraw, rule paid_out_runs)
  note fixed = roles_fixed [OF completed_reachable this, of "''ev''" "sample_config\<lparr>ec_sold_count := 2\<rparr>"]
  have "is_initialized completed" and "pk_Admin completed = Some (Addr 5)"
    and "get_event_config completed ''ev'' = Some (sample_config\<lparr>ec_sold_count := 2\<rparr>)"
    by (simp_all add: completed_def sold_def is_initialized_def get_event_config_def)
  then show ?thesis using fixed by (fastforce simp: config_evolves_def sample_config_def)
qed

end
