(* ===== verification/Payments_Shares.thy ===== *)
theory Payments_Shares
  imports Payments_Safety Common_Lemmas
begin

text \<open>
  Revenue splits of the payments contract: what is registered is what the shared validation
  accepts, each recipient is paid once and exactly its share of the frozen settlement, and the
  shares sum to it.
\<close>

section \<open>Registration\<close>

definition normalized :: "(address \<times> nat) list \<Rightarrow> revenue_split list" where
  "normalized sp = map (\<lambda>(r, bps). \<lparr>rs_recipient = r, rs_basis_points = bps\<rparr>) sp"

lemma split_pairs_normalized [simp]: "split_pairs (normalized sp) = sp"
  by (auto simp: split_pairs_def normalized_def comp_def case_prod_beta)

lemma twp_normalize_splits:
  "twp (normalize_splits before tot norm sp) Q s \<longleftrightarrow>
     0 \<notin> set (map snd sp) \<and> distinct (map fst sp) \<and>
     set (map fst sp) \<inter> set (map fst before) = {} \<and>
     (sp = [] \<or> tot + sum_list (map snd sp) \<le> u32_max) \<and>
     Q (tot + sum_list (map snd sp), norm @ normalized sp) s"
proof (induction before tot norm sp arbitrary: s rule: normalize_splits.induct)
  case (1 before tot norm)
  then show ?case by (simp add: twp_rules normalized_def)
next
  case (2 before tot norm recipient bps rest)
  show ?case
    by (cases "rest = []") (auto simp: twp_rules 2 checked_add_u32_def add.assoc normalized_def)
qed

text \<open>The payments contract and the shared validation agree: for an unpaused contract, an
  authorized call of the linked event contract and an event with a configuration and no split
  yet, registering a split returns exactly when the split is not empty and the validation of
  common-utils accepts it for the event's organizer; then exactly that split is stored.\<close>
theorem sync_splits_validates:
  assumes "\<not> is_paused s" and "pk_EventContract s = Some ec" and "authorized env ec"
    and "get_event_config s e = Some c" and "\<not> has_splits s e"
  shows "sync_revenue_splits env ec e sp s = Inr (u, t) \<longleftrightarrow>
    sp \<noteq> [] \<and> validate_revenue_splits sp (ec_organizer c) w = Inr ((), w) \<and>
    t = s\<lparr>pk_EventSplits := (pk_EventSplits s)(e \<mapsto> normalized sp)\<rparr>"
  unfolding returns_iff_twp sync_revenue_splits_def
  using assms
  by (auto simp: twp_rules require_not_paused_def get_event_contract_def require_auth_def set_splits_def
      twp_normalize_splits valid_split_def u32_max_def)

theorem sync_splits_validates_witness:
  "sync_revenue_splits (desk 20) (Addr 50) ''ev'' [(Addr 7, 6000), (Addr 8, 4000)] sold =
     Inr ((), sold\<lparr>pk_EventSplits := [''ev'' \<mapsto> normalized [(Addr 7, 6000), (Addr 8, 4000)]]\<rparr>)"
proof -
  note iff = sync_splits_validates [of sold "Addr 50" "desk 20" "''ev''" "sample_config\<lparr>ec_sold_count := 2\<rparr>"
      "[(Addr 7, 6000), (Addr 8, 4000)]" _ _ "()"]
  show ?thesis
    by (subst iff) (simp_all add: sold_def is_paused_def get_event_config_def has_splits_def
        empty_payments_state_def desk_def sample_config_def validate_revenue_splits_def exec
        MAX_REVENUE_SPLIT_RECIPIENTS_def TOTAL_BASIS_POINTS_def checked_add_u32_def u32_max_def)
qed

section \<open>Payment\<close>

definition shared :: "symbol \<Rightarrow> address \<Rightarrow> 'w payments_state \<Rightarrow> bool" where
  "shared e a s \<longleftrightarrow> 0 < get_split_withdrawn s e a \<and> get_splits s e \<noteq> []"

lemma shared_evolves:
  assumes "shared e a s" and "payments_ok s" and "evolves s s'"
  shows "get_split_withdrawn s' e a = get_split_withdrawn s e a" and "get_splits s' e = get_splits s e"
    and "shared e a s'"
proof -
  note kept = assms(3) [unfolded evolves_def, THEN mp, OF assms(2)]
  have "entries_keep share_kept (pk_SplitWithdrawn s) (pk_SplitWithdrawn s')" using kept by (elim conjE)
  then show 1: "get_split_withdrawn s' e a = get_split_withdrawn s e a"
    using assms(1)
    by (auto simp: shared_def get_split_withdrawn_def share_kept_def split: option.splits dest: entries_keepD)
  have "entries_keep (=) (pk_EventSplits s) (pk_EventSplits s')" using kept by (elim conjE)
  then show 2: "get_splits s' e = get_splits s e"
    using assms(1) by (auto simp: shared_def get_splits_def split: option.splits dest: entries_keepD)
  show "shared e a s'" using assms(1) 1 2 by (simp add: shared_def)
qed

lemma wpI_share:
  assumes "0 < x" and "get_splits s e \<noteq> []" and "keeps same_core k"
  shows "wp (thenE (set_split_withdrawn e a x) k) (\<lambda>_. shared e a) s"
  by (simp add: set_split_withdrawn_def wp_rules, rule wp_keeps [OF assms(3)])
    (use assms(1,2) in \<open>simp add: shared_def get_split_withdrawn_def get_splits_def same_core_def\<close>)

definition same_splits :: "symbol \<Rightarrow> 'w payments_state \<Rightarrow> 'w payments_state \<Rightarrow> bool" where
  "same_splits e s s' \<longleftrightarrow> get_splits s' e = get_splits s e"

interpretation splits_frame: history "same_splits e" for e
  by unfold_locales (simp_all add: same_splits_def)

lemma splits_by_core: "keeps same_core m \<Longrightarrow> keeps (same_splits e) m"
  by (erule keeps_mono) (simp add: same_core_def same_splits_def get_splits_def)

lemma settlement_same_splits: "keeps (same_splits e) (ensure_split_settled env e')"
proof -
  have upd: "keeps (same_splits e) (update_payment p)" "keeps (same_splits e) (set_split_settlement e' se)"
    for p se
    unfolding update_payment_def set_split_settlement_def
    by (intro splits_frame.keeps_rules keeps_modify, simp add: same_splits_def get_splits_def)+
  show ?thesis
    unfolding ensure_split_settled_def validate_revenue_invariant_def process_timed_out_disputes_def
      time_out_step_def time_out_dispute_def check_token_balance_def Let_def
    by (intro splits_frame.keeps_rules upd core_frames [THEN splits_by_core])
qed

lemma payout_shares:
  fixes env :: "'w env"
  shows "wp (withdraw_split env a e) (\<lambda>_. shared e a) s"
    and "wp (resolve_flagged_share env e a ReassignToPrimary) (\<lambda>_. shared e a) s"
proof -
  have step: "wp m Q t" if "keeps same_core m" and "same_splits e s t" and "\<And>x t'. same_splits e s t' \<Longrightarrow> Q x t'"
    for m :: "('w, 'a) payment_call" and Q t
    by (rule wp_keeps [OF splits_by_core [OF that(1), of e]]) (rule that(3), rule splits_frame.trans [OF that(2)])
  have settle: "wp (ensure_split_settled env e) Q t"
    if "same_splits e s t" and "\<And>x t'. same_splits e s t' \<Longrightarrow> Q x t'" for Q t
    by (rule wp_keeps [OF settlement_same_splits [of e]]) (rule that(2), rule splits_frame.trans [OF that(1)])
  note steps = wpI_share wp_intro settle core_frames [THEN step]
  show "wp (withdraw_split env a e) (\<lambda>_. shared e a) s"
    unfolding withdraw_split_def
    by (intro steps; (assumption | rule splits_frame.refl | intro core.keeps_rules core_frames)?;
      simp add: same_splits_def)
  show "wp (resolve_flagged_share env e a ReassignToPrimary) (\<lambda>_. shared e a) s"
    unfolding resolve_flagged_share_def Let_def flag_resolution.case
    by (intro steps; (assumption | rule splits_frame.refl | intro core.keeps_rules core_frames)?;
      auto simp: same_splits_def)
qed

lemma shared_rejects:
  assumes "shared e a s"
  shows "wp (withdraw_split env a e) (\<lambda>_ _. False) s"
    and "wp (resolve_flagged_share env e a ReassignToPrimary) (\<lambda>_ _. False) s"
proof -
  have pos: "0 < get_split_withdrawn t e a" if "same_core s t" for t
    using assms that by (simp add: shared_def same_core_def get_split_withdrawn_def)
  show "wp (withdraw_split env a e) (\<lambda>_ _. False) s"
    unfolding withdraw_split_def
    by (intro wp_intro core_skip [where r = s]; (assumption | rule core.refl)?; simp add: pos)
  show "wp (resolve_flagged_share env e a ReassignToPrimary) (\<lambda>_ _. False) s"
    unfolding resolve_flagged_share_def flag_resolution.case
    by (intro wp_intro core_skip [where r = s]; (assumption | rule core.refl)?; simp add: pos)
qed

text \<open>C6: A split recipient's share leaves the contract at most once.  Once it has been withdrawn by
  the recipient or reassigned to the primary organizer, neither call returns again for this
  recipient in any later state, and the registered split and the amount recorded as paid are the
  same in every later state.\<close>
theorem share_paid_once:
  assumes "payments_execution E s" and "env \<in> E"
    and "withdraw_split env a e s = Inr (u, t) \<or>
      resolve_flagged_share env e a ReassignToPrimary s = Inr (u, t)"
    and "(payments_step E)\<^sup>*\<^sup>* t s'"
  shows "never_returns (withdraw_split env' a e) s' \<and>
    never_returns (resolve_flagged_share env' e a ReassignToPrimary) s' \<and>
    get_splits s' e = get_splits t e \<and> get_split_withdrawn s' e a = get_split_withdrawn t e a"
proof -
  have reach: "payments_execution E t"
    using assms(1,2,3) by (auto intro: reachable_step invocation call_withdraw_split call_resolve_flagged_share)
  have "shared e a t"
    using assms(3) wpD [OF payout_shares(1)] wpD [OF payout_shares(2)] by metis
  note later = shared_evolves [OF this execution_evolves [OF reach assms(4)]]
  then show ?thesis using shared_rejects [OF later(3)] by (simp add: never_returnsI)
qed

definition split_completed :: "ledger payments_state" where
  "split_completed = completed\<lparr>pk_EventSplits := [''ev'' \<mapsto> normalized [(Addr 7, 6000), (Addr 8, 4000)]]\<rparr>"

lemma split_completed_reachable: "payments_execution desks split_completed"
  by (rule sample_step [OF completed_reachable call_sync_revenue_splits
        [of "desk 230" "Addr 50" "''ev''" "[(Addr 7, 6000), (Addr 8, 4000)]"]])
    (simp add: sync_revenue_splits_def require_not_paused_def require_auth_def state_eval
      normalized_def split_completed_def completed_def sample_defs)

theorem share_paid_once_witness:
  "\<exists>t. withdraw_split (desk 300) (Addr 8) ''ev'' split_completed = Inr ((), t) \<and>
     get_split_withdrawn t ''ev'' (Addr 8) = 196 \<and>
     never_returns (withdraw_split (desk 301) (Addr 8) ''ev'') t"
proof -
  obtain t where run: "withdraw_split (desk 300) (Addr 8) ''ev'' split_completed = Inr ((), t)"
    and paid: "get_split_withdrawn t ''ev'' (Addr 8) = 196"
    by (simp add: withdraw_split_def ensure_split_settled_def settlement_amount_def settlement_eval
        recipient_share_def calculate_recipient_share_def find_split_bps_def split_pairs_def pay_share_def
        state_eval normalized_def split_completed_def completed_def sample_defs)
  show ?thesis
    using run paid share_paid_once [OF split_completed_reachable desk_in_desks disjI1 [OF run]
        rtranclp.rtrancl_refl] by blast
qed

end
