(* ===== verification/Payments_Exact.thy ===== *)
theory Payments_Exact
  imports Payments_Shares
begin

text \<open>
  What the payments contract's operations do when they return, amount by amount: who is paid, what
  is recorded, and what is left.
\<close>

lemma wp_if_twp: "twp m Q s \<Longrightarrow> wp m Q s"
  by (auto simp: twp_def wp_def split: sum.splits)

section \<open>Shares\<close>

lemma wp_recipient_share:
  assumes "sp \<noteq> []" and "sum_list (map snd sp) \<le> 10000" and "splittable net"
    and "Q (split_share sp a net) s"
  shows "wp (recipient_share (normalized sp) a net) Q s"
proof -
  obtain p ps where n: "normalized sp = p # ps"
    using assms(1) by (cases "normalized sp") (auto simp: normalized_def)
  then have "split_pairs (p # ps) = sp" by (metis split_pairs_normalized)
  then show ?thesis
    by (simp add: recipient_share_def n)
      (rule wp_if_twp, rule twp_calculate_recipient_share [THEN iffD2], rule assms, rule assms,
        rule assms, rule assms)
qed

text \<open>C7: For a valid split and a frozen settlement, a returning withdrawal pays the recipient
  exactly its share of the settlement - the rounded-down proportion, or for the primary organizer
  what the others leave - and records that amount; the shares of all recipients are together
  exactly the settlement.\<close>
theorem split_payout_exact:
  assumes "token_laws env" and "sp \<noteq> []" and "validate_revenue_splits sp (fst (hd sp)) w = Inr ((), w)"
    and "get_splits s e = normalized sp" and "get_split_settlement s e = Some se"
    and "splittable (ss_net_distributable se)" and "a \<noteq> current_contract_address env"
    and "withdraw_split env a e s = Inr (u, t)"
  shows "let share = split_share sp a (ss_net_distributable se) in
      0 < share \<and> get_split_withdrawn t e a = share \<and>
      balance env t (ss_token se) = balance env s (ss_token se) - share \<and>
      token_balance env (ss_token se) a (pk_world t) =
        token_balance env (ss_token se) a (pk_world s) + share \<and>
      (\<Sum>(r, _)\<leftarrow>sp. split_share sp r (ss_net_distributable se)) = ss_net_distributable se"
proof -
  have valid: "distinct (map fst sp)" "sum_list (map snd sp) = 10000"
    using assms(2,3) unfolding returns_iff_twp by (auto simp: twp_rules valid_split_def)
  let ?share = "split_share sp a (ss_net_distributable se)"
  let ?Q = "\<lambda>t. 0 < ?share \<and> get_split_withdrawn t e a = ?share \<and>
      balance env t (ss_token se) = balance env s (ss_token se) - ?share \<and>
      token_balance env (ss_token se) a (pk_world t) =
        token_balance env (ss_token se) a (pk_world s) + ?share"
  have "wp (withdraw_split env a e) (\<lambda>_. ?Q) s"
    unfolding withdraw_split_def ensure_split_settled_def
    apply (simp add: wp_rules require_not_paused_def assms(4,5) pay_share_def transfer_def)
    apply (intro impI, rule wp_recipient_share [OF assms(2) _ assms(6)], simp add: valid)
    apply (auto simp: wp_rules set_split_withdrawn_def add_withdrawal_record_def put_withdrawal_record_def
        add_total_withdrawn_def add_total_token_withdrawn_def emit_revenue_withdrawn_def publish_def
        get_split_withdrawn_def balance_def Let_def token_lawsD(2) [OF assms(1)] assms(7))
    done
  from wpD [OF this assms(8)] show ?thesis
    using sum_split_shares [OF valid(1) assms(2)] by (simp add: Let_def)
qed


theorem split_payout_exact_witness:
  "\<exists>t. withdraw_split (desk 310) (Addr 7) ''ev''
       (split_completed\<lparr>pk_SplitSettlement := [''ev'' \<mapsto> \<lparr>ss_token = Addr 1, ss_net_distributable = 490\<rparr>]\<rparr>)
       = Inr ((), t) \<and> balance (desk 310) t (Addr 1) = 206"
proof -
  let ?s = "split_completed\<lparr>pk_SplitSettlement := [''ev'' \<mapsto> \<lparr>ss_token = Addr 1, ss_net_distributable = 490\<rparr>]\<rparr>"
  obtain t where run: "withdraw_split (desk 310) (Addr 7) ''ev'' ?s = Inr ((), t)"
    by (simp add: withdraw_split_def ensure_split_settled_def settlement_eval
        recipient_share_def calculate_recipient_share_def find_split_bps_def split_pairs_def pay_share_def
        state_eval normalized_def split_completed_def completed_def sample_defs)
  have "balance (desk 310) ?s (Addr 1) = 500"
    by (simp add: balance_def split_completed_def completed_def sample_defs)
  then show ?thesis
    using run split_payout_exact [OF desk_laws(1) _ _ _ _ _ _ run,
        of "[(Addr 7, 6000), (Addr 8, 4000)]" "()" "\<lparr>ss_token = Addr 1, ss_net_distributable = 490\<rparr>"]
    by (simp add: split_completed_def get_splits_def get_split_settlement_def desk_def splittable_def
        validate_revenue_splits_def exec MAX_REVENUE_SPLIT_RECIPIENTS_def TOTAL_BASIS_POINTS_def
        checked_add_u32_def u32_max_def i128_max_def floor_share_def sdiv_eval Let_def)
qed

section \<open>Anonymous payments\<close>

text \<open>Code that neither reads nor writes the world of the token contracts.\<close>

definition blind :: "('w payments_state, 'e, 'a) call \<Rightarrow> bool" where
  "blind m \<longleftrightarrow> (\<forall>s w. m (s\<lparr>pk_world := w\<rparr>) =
     (case m s of Inl e \<Rightarrow> Inl e | Inr (x, t) \<Rightarrow> Inr (x, t\<lparr>pk_world := w\<rparr>)))"

lemma blindD: "blind m \<Longrightarrow> m s = Inr (x, t) \<Longrightarrow> m (s\<lparr>pk_world := w\<rparr>) = Inr (x, t\<lparr>pk_world := w\<rparr>)"
  by (simp add: blind_def)

lemma blind_pure:
  "blind (return x)" "blind (throw e)" "blind trap" "blind (ensure b e)" "blind (ok_or v e)"
  "blind (i128 i)" "blind (u32 n)" "blind (u64 n)"
  by (auto simp: blind_def exec split: option.split)

lemma blind_gets: "(\<And>s w. f (s\<lparr>pk_world := w\<rparr>) = f s) \<Longrightarrow> blind (gets f)"
  by (simp add: blind_def exec)

lemma blind_modify: "(\<And>s w. f (s\<lparr>pk_world := w\<rparr>) = (f s)\<lparr>pk_world := w\<rparr>) \<Longrightarrow> blind (modify f)"
  by (simp add: blind_def exec)

lemma blind_bindE: "blind m \<Longrightarrow> (\<And>x. blind (f x)) \<Longrightarrow> blind (bindE m f)"
  by (auto simp: blind_def exec split: sum.split)

lemma blind_thenE: "blind m \<Longrightarrow> blind k \<Longrightarrow> blind (thenE m k)"
  by (simp add: thenE_def blind_bindE)

lemma blind_whenE: "blind m \<Longrightarrow> blind (whenE b m)"
  by (simp add: whenE_def blind_pure)

lemma blind_option: "blind m \<Longrightarrow> (\<And>x. blind (f x)) \<Longrightarrow> blind (case v of None \<Rightarrow> m | Some x \<Rightarrow> f x)"
  by (cases v) auto

lemma blind_foldE: "(\<And>x a. blind (f x a)) \<Longrightarrow> blind (foldE f xs a)"
  by (induction xs arbitrary: a) (simp_all add: foldE.simps blind_pure blind_bindE)

lemmas blind_rules =
  blind_pure blind_bindE blind_thenE blind_whenE blind_option blind_foldE

lemma storage_blind:
  "blind get_next_payment_id" "blind get_next_ticket_id" "blind (save_payment p)"
  "blind (add_event_payment e n)" "blind (add_payer_payment a n)" "blind (set_nonce a n)"
  "blind (set_nonce_hash h n)" "blind (mark_nullifier_spent h)" "blind (add_event_revenue e x)"
  "blind (add_event_token_revenue e a x)" "blind (add_event_token e a)"
  "blind (add_total_payments e x)" "blind (add_total_token_volume e a x)" "blind (publish ev)"
  "blind (save_ticket k)" "blind (add_owner_ticket_map a n)"
  "blind (increment_user_event_tickets e a)" "blind (increment_user_event_tickets_hash e h)"
  "blind (increment_event_sold_count e)"
  unfolding storage_call_defs storage_put_defs Let_def
  by (intro blind_rules blind_gets blind_modify; simp add: storage_getter_defs)+

lemma blind_privacy:
  "blind m1 \<Longrightarrow> blind m2 \<Longrightarrow> blind m3 \<Longrightarrow>
   blind (case l of P_Anonymous \<Rightarrow> m1 | P_Private \<Rightarrow> m2 | P_Standard \<Rightarrow> m3)"
  by (cases l) auto

text \<open>Everything that follows the token transfer of a payment.\<close>

definition after_transfer :: "'w env \<Rightarrow> payment_params \<Rightarrow> ('w, nat) payment_call" where
  "after_transfer env params =
     bindE get_next_payment_id (\<lambda>payment_id.
     bindE (build_payment_record env params payment_id (ledger_timestamp env)) (\<lambda>payment.
     thenE (record_payment env params payment) (
     thenE (emit_payment_received payment) (
     thenE (case pp_email_hash params of
              None \<Rightarrow> return ()
            | Some hash \<Rightarrow> emit_payment_receipt_requested env payment_id (pp_event_id params)
                              (Some hash)) (
     thenE (issue_ticket env params payment) (
     return payment_id))))))"

lemma after_transfer_blind: "blind (after_transfer env pp)"
  unfolding after_transfer_def build_payment_record_def record_payment_def spend_nullifier_def
    record_nonce_def emit_payment_received_def emit_payment_receipt_requested_def issue_ticket_def
    count_user_ticket_def emit_ticket_issued_def Let_def
  by (intro blind_rules blind_privacy storage_blind blind_gets; simp add: has_nullifier_def get_event_config_def)

lemma after_transfer_payer:
  assumes "pp_privacy_level pp = P_Anonymous"
  shows "after_transfer env (pp\<lparr>pp_payer := a\<rparr>) = after_transfer env pp"
proof -
  have built: "build_payment_record env (pp\<lparr>pp_payer := a\<rparr>) i n = build_payment_record env pp i n" for i n
    using assms by (simp add: build_payment_record_def)
  have same: "bindE (build_payment_record env pp i n) f s = bindE (build_payment_record env pp i n) g s"
    if "\<And>p. p_privacy_level p = P_Anonymous \<Longrightarrow> f p = g p" for i n f g s
    using assms that by (simp add: build_payment_record_def exec split: option.split)
  have "record_payment env (pp\<lparr>pp_payer := a\<rparr>) p = record_payment env pp p"
    and "issue_ticket env (pp\<lparr>pp_payer := a\<rparr>) p = issue_ticket env pp p"
    if "p_privacy_level p = P_Anonymous" for p
    using assms that by (simp_all add: record_payment_def record_nonce_def issue_ticket_def
        count_user_ticket_def whenE_def cong: option.case_cong)
  then show ?thesis
    unfolding after_transfer_def built
    by (intro arg_cong [where f = "bindE get_next_payment_id"] ext)
      (rule same, simp cong: option.case_cong)
qed

lemma create_payment_splits:
  assumes "create_payment env pp s = Inr (i, t)"
  shows "\<exists>w. after_transfer env pp (s\<lparr>pk_world := w\<rparr>) = Inr (i, t)"
proof -
  have reads: "keeps (=) (check_payment env pp)"
    unfolding check_payment_def require_auth_def require_not_paused_def validate_payment_privacy_def
      check_ticket_limits_def check_event_open_def
    by (intro reader.keeps_rules)
  have "wp (thenE (check_payment env pp) (thenE (try_transfer env (pp_token_address pp) (pp_payer pp)
      (current_contract_address env) (pp_amount pp)) (after_transfer env pp)))
      (\<lambda>i t. \<exists>w. after_transfer env pp (s\<lparr>pk_world := w\<rparr>) = Inr (i, t)) s"
    by (rule wpI_thenE, rule wp_keeps [OF reads])
      (auto simp: wp_rules try_transfer_def intro!: wpI)
  then show ?thesis
    using assms unfolding create_payment_def after_transfer_def by (rule wpD)
qed

text \<open>C13: An anonymous payment reveals nothing of its payer to the contract's storage and events:
  if the same anonymous purchase succeeds for two payers, the two results are equal in every
  storage entry and every emitted event; they differ at most in the token contracts' world.\<close>
theorem anonymous_payer_hidden:
  assumes "pp_privacy_level pp = P_Anonymous"
    and "create_payment env (pp\<lparr>pp_payer := a\<rparr>) s = Inr (i, t)"
    and "create_payment env (pp\<lparr>pp_payer := b\<rparr>) s = Inr (j, u)"
  shows "j = i \<and> u = t\<lparr>pk_world := pk_world u\<rparr>"
proof -
  obtain w v where a: "after_transfer env pp (s\<lparr>pk_world := w\<rparr>) = Inr (i, t)"
    and b: "after_transfer env pp (s\<lparr>pk_world := v\<rparr>) = Inr (j, u)"
    using create_payment_splits [OF assms(2)] create_payment_splits [OF assms(3)]
    unfolding after_transfer_payer [OF assms(1)] by blast
  have "after_transfer env pp (s\<lparr>pk_world := v\<rparr>) = Inr (i, t\<lparr>pk_world := v\<rparr>)"
    using blindD [OF after_transfer_blind a, of v] by simp
  then show ?thesis using b by auto
qed

theorem anonymous_payer_hidden_witness:
  "\<exists>t u. pay_for_ticket (desk 40) 5 (Addr 11) ''ev'' 100 None (Addr 1) P_Anonymous (Some [3]) None sold = Inr (3, t) \<and>
     pay_for_ticket (desk 40) 5 (Addr 12) ''ev'' 100 None (Addr 1) P_Anonymous (Some [3]) None sold = Inr (3, u) \<and>
     u = t\<lparr>pk_world := pk_world u\<rparr>"
proof -
  let ?pp = "\<lparr>pp_nonce = 5, pp_payer = Addr 11, pp_event_id = ''ev'', pp_amount = 100,
     pp_token_address = Addr 1, pp_is_anonymous = False, pp_is_verified = False,
     pp_privacy_level = P_Anonymous, pp_email_hash = None, pp_zk_email_commitment = None,
     pp_nullifier_commitment = Some [3], pp_stealth_delivery_key = None\<rparr>"
  obtain t where t: "create_payment (desk 40) (?pp\<lparr>pp_payer := Addr 11\<rparr>) sold = Inr (3, t)"
    by (simp add: payment_eval require_auth_def state_eval sample_defs)
  obtain u where u: "create_payment (desk 40) (?pp\<lparr>pp_payer := Addr 12\<rparr>) sold = Inr (3, u)"
    by (simp add: payment_eval require_auth_def state_eval sample_defs)
  show ?thesis
    using t u anonymous_payer_hidden [OF _ t u] by (simp add: pay_for_ticket_def)
qed


section \<open>Caps\<close>

definition same_caps :: "'w payments_state \<Rightarrow> 'w payments_state \<Rightarrow> bool" where
  "same_caps s s' \<longleftrightarrow> pk_EventConfig s' = pk_EventConfig s \<and>
     pk_UserEventTickets s' = pk_UserEventTickets s"

interpretation caps: history same_caps
  by unfold_locales (simp_all add: same_caps_def)

lemma recording_same_caps:
  "keeps same_caps (try_transfer env a a2 a3 x)" "keeps same_caps get_next_payment_id"
  "keeps same_caps (record_payment env pp p)" "keeps same_caps (emit_payment_received p)"
  "keeps same_caps (emit_payment_receipt_requested env n e h)"
  unfolding record_payment_def spend_nullifier_def record_nonce_def emit_payment_received_def
    emit_payment_receipt_requested_def storage_call_defs storage_put_defs Let_def
  by (intro caps.keeps_rules payment_privacy_keeps keeps_modify; simp add: same_caps_def)+

lemma wp_check_payment_limits:
  assumes "get_event_config s (pp_event_id pp) = Some c"
  shows "wp (check_payment env pp) (\<lambda>_ t. t = s \<and>
    (0 < ec_max_supply c \<longrightarrow> ec_sold_count c < ec_max_supply c) \<and>
    (pp_privacy_level pp = P_Standard \<longrightarrow> 0 < ec_max_tickets_per_user c \<longrightarrow>
       get_user_event_tickets s (pp_event_id pp) (pp_payer pp) < ec_max_tickets_per_user c)) s"
  by (auto simp: check_payment_def check_ticket_limits_def require_not_paused_def require_auth_def
      validate_payment_privacy_def check_event_open_def wp_rules assms)

lemma wp_issue_ticket_caps:
  assumes "get_event_config s (pp_event_id pp) = Some c"
  shows "wp (issue_ticket env pp p) (\<lambda>_ t.
    get_event_config t (pp_event_id pp) = Some (c\<lparr>ec_sold_count := ec_sold_count c + 1\<rparr>) \<and>
    (pp_privacy_level pp = P_Standard \<longrightarrow>
       get_user_event_tickets t (pp_event_id pp) (pp_payer pp) =
         get_user_event_tickets s (pp_event_id pp) (pp_payer pp) + 1)) s"
  using assms
  by (cases "pp_privacy_level pp")
    (auto simp: issue_ticket_def count_user_ticket_def emit_ticket_issued_def wp_rules storage_call_defs
      storage_put_defs get_event_config_def get_user_event_tickets_def checked_add_u32_def Let_def
      split: if_splits)

lemma wpI_build: "(\<And>p. Q p s) \<Longrightarrow> wp (build_payment_record env pp i n) Q s"
  by (auto simp: build_payment_record_def wp_rules split: payment_privacy.split)

text \<open>C14: No sale exceeds the caps.  If a payment for a configured event returns, the sold count in
  the stored configuration goes up by exactly one and stays within the maximum supply when there
  is one, and for a Standard payment the payer's ticket count for the event goes up by one and
  stays within the per-user maximum when there is one.\<close>
theorem sales_capped:
  assumes "create_payment env pp s = Inr (i, t)" and "get_event_config s (pp_event_id pp) = Some c"
  shows "get_event_config t (pp_event_id pp) = Some (c\<lparr>ec_sold_count := ec_sold_count c + 1\<rparr>) \<and>
    (0 < ec_max_supply c \<longrightarrow> ec_sold_count c + 1 \<le> ec_max_supply c) \<and>
    (pp_privacy_level pp = P_Standard \<longrightarrow>
       get_user_event_tickets t (pp_event_id pp) (pp_payer pp) =
         get_user_event_tickets s (pp_event_id pp) (pp_payer pp) + 1 \<and>
       (0 < ec_max_tickets_per_user c \<longrightarrow>
          get_user_event_tickets t (pp_event_id pp) (pp_payer pp) \<le> ec_max_tickets_per_user c))"
    (is "?Q t")
proof -
  have step: "wp m Q t" if "keeps same_caps m" and "same_caps s t" and "\<And>x t'. same_caps s t' \<Longrightarrow> Q x t'"
    for m :: "('a, 'c) payment_call" and Q t
    by (rule wp_keeps [OF that(1)]) (rule that(3), rule caps.trans [OF that(2)])
  have pure: "keeps same_caps (return x :: ('a, 'c) payment_call)" for x by (rule caps.pure_keeps)
  have issue: "wp (thenE (issue_ticket env pp p) (return i)) (\<lambda>_. ?Q) t"
    if "same_caps s t" and "(0 < ec_max_supply c \<longrightarrow> ec_sold_count c < ec_max_supply c) \<and>
      (pp_privacy_level pp = P_Standard \<longrightarrow> 0 < ec_max_tickets_per_user c \<longrightarrow>
        get_user_event_tickets s (pp_event_id pp) (pp_payer pp) < ec_max_tickets_per_user c)" for p i t
  proof -
    have "get_event_config t (pp_event_id pp) = Some c"
      and "get_user_event_tickets t (pp_event_id pp) (pp_payer pp) =
         get_user_event_tickets s (pp_event_id pp) (pp_payer pp)"
      using that(1) assms(2) by (simp_all add: same_caps_def get_event_config_def get_user_event_tickets_def)
    then show ?thesis
      by (intro wpI_thenE wp_mono [OF wp_issue_ticket_caps]) (use that(2) in \<open>auto simp: wp_rules\<close>)
  qed
  have "wp (create_payment env pp) (\<lambda>_. ?Q) s"
    unfolding create_payment_def
    by (rule wpI_thenE, rule wp_mono [OF wp_check_payment_limits [OF assms(2)]])
      (intro issue wpI_thenE wpI_bindE wpI_option wpI_return wpI_build
        recording_same_caps [THEN step]; (assumption | blast | simp add: caps.refl)?)
  from wpD [OF this assms(1)] show ?thesis .
qed


theorem sales_capped_witness:
  "\<exists>t. create_payment (desk 40) \<lparr>pp_nonce = 2, pp_payer = Addr 12, pp_event_id = ''ev'', pp_amount = 100,
     pp_token_address = Addr 1, pp_is_anonymous = False, pp_is_verified = False,
     pp_privacy_level = P_Standard, pp_email_hash = None, pp_zk_email_commitment = None,
     pp_nullifier_commitment = None, pp_stealth_delivery_key = None\<rparr> sold = Inr (3, t) \<and>
     map_option ec_sold_count (get_event_config t ''ev'') = Some 3"
proof -
  let ?pp = "\<lparr>pp_nonce = 2, pp_payer = Addr 12, pp_event_id = ''ev'', pp_amount = 100,
     pp_token_address = Addr 1, pp_is_anonymous = False, pp_is_verified = False,
     pp_privacy_level = P_Standard, pp_email_hash = None, pp_zk_email_commitment = None,
     pp_nullifier_commitment = None, pp_stealth_delivery_key = None\<rparr>"
  obtain t where run: "create_payment (desk 40) ?pp sold = Inr (3, t)"
    by (simp add: payment_eval require_auth_def state_eval sample_defs)
  have "get_event_config sold (pp_event_id ?pp) = Some (sample_config\<lparr>ec_sold_count := 2\<rparr>)"
    by (simp add: sold_def get_event_config_def)
  from sales_capped [OF run this] show ?thesis using run by simp
qed

end
