(* ===== verification/Payments_Payable.thy ===== *)
theory Payments_Payable
  imports Payments_Exact
begin

text \<open>
  The balance check that every withdrawal makes before it pays.  A call \<^emph>\<open>avoids\<close> an error on the
  states of a predicate when no run from such a state fails with it; this composes along the
  combinators, and the guards in front of the check keep the ledger, so the states the check runs
  in are backed by the balance whenever the first state is.
\<close>

section \<open>Calls that avoid an error\<close>

definition avoids :: "'e \<Rightarrow> ('s \<Rightarrow> bool) \<Rightarrow> ('s, 'e, 'a) call \<Rightarrow> bool" where
  "avoids e P m \<longleftrightarrow> (\<forall>s. P s \<longrightarrow> m s \<noteq> Inl (Err e))"

lemma avoidsI: "(\<And>s. P s \<Longrightarrow> m s \<noteq> Inl (Err e)) \<Longrightarrow> avoids e P m"
  by (simp add: avoids_def)

lemma avoidsD: "avoids e P m \<Longrightarrow> P s \<Longrightarrow> m s \<noteq> Inl (Err e)"
  by (simp add: avoids_def)

lemma avoids_pure:
  "avoids e P (return x)" "avoids e P trap" "avoids e P (gets f)" "avoids e P (modify g)"
  "avoids e P (host_check b)" "avoids e P (unwrap v)" "avoids e P (i128 i)" "avoids e P (u32 n)"
  "avoids e P (u64 n)" "avoids e P (sub_u n k)" "avoids e P (mul_bps i n)"
  by (auto simp: avoids_def exec split: option.split)

lemma avoids_other:
  "e' \<noteq> e \<Longrightarrow> avoids e P (throw e')" "e' \<noteq> e \<Longrightarrow> avoids e P (ensure b e')"
  "e' \<noteq> e \<Longrightarrow> avoids e P (ok_or v e')"
  by (auto simp: avoids_def exec split: option.split)

text \<open>After a call that avoids the error anywhere the rest only has to avoid it anywhere.\<close>

abbreviation anywhere :: "'s \<Rightarrow> bool" where "anywhere s \<equiv> True"

lemma avoids_bindE: "avoids e P m \<Longrightarrow> (\<And>x. avoids e anywhere (f x)) \<Longrightarrow> avoids e P (bindE m f)"
  by (auto simp: avoids_def exec split: sum.split)

lemma avoids_thenE: "avoids e P m \<Longrightarrow> avoids e anywhere k \<Longrightarrow> avoids e P (thenE m k)"
  by (simp add: thenE_def avoids_bindE)

lemma avoids_whenE: "avoids e P m \<Longrightarrow> avoids e P (whenE b m)"
  by (simp add: whenE_def avoids_pure)

lemma avoids_if: "(b \<Longrightarrow> avoids e P m) \<Longrightarrow> (\<not> b \<Longrightarrow> avoids e P k) \<Longrightarrow> avoids e P (if b then m else k)"
  by simp

lemma avoids_option:
  "avoids e P m \<Longrightarrow> (\<And>x. avoids e P (f x)) \<Longrightarrow> avoids e P (case v of None \<Rightarrow> m | Some x \<Rightarrow> f x)"
  by (cases v) auto

lemma avoids_list:
  "avoids e P m \<Longrightarrow> (\<And>x xs. avoids e P (f x xs)) \<Longrightarrow>
   avoids e P (case l of [] \<Rightarrow> m | x # xs \<Rightarrow> f x xs)"
  by (cases l) auto

lemma avoids_prod: "(\<And>x y. avoids e P (f x y)) \<Longrightarrow> avoids e P (case p of (x, y) \<Rightarrow> f x y)"
  by (cases p) auto

lemma avoids_prod_apply:
  "(\<And>x y. avoids e P (f x y a)) \<Longrightarrow> avoids e P ((case p of (x, y) \<Rightarrow> f x y) a)"
  by (cases p) auto

lemma avoids_foldE:
  assumes "\<And>x a. avoids e anywhere (f x a)"
  shows "avoids e anywhere (foldE f xs a)"
  by (induction xs arbitrary: a) (simp_all add: foldE.simps avoids_pure avoids_bindE assms)

lemma avoids_event_status:
  "avoids e P m1 \<Longrightarrow> avoids e P m2 \<Longrightarrow> avoids e P m3 \<Longrightarrow> avoids e P m4 \<Longrightarrow> avoids e P m5 \<Longrightarrow>
   avoids e P (case st of Upcoming \<Rightarrow> m1 | Active \<Rightarrow> m2 | Completed \<Rightarrow> m3 | Cancelled \<Rightarrow> m4 | Postponed \<Rightarrow> m5)"
  by (cases st) auto

lemmas avoids_rules =
  avoids_pure avoids_other avoids_bindE avoids_thenE avoids_whenE avoids_if avoids_option
  avoids_list avoids_prod avoids_prod_apply avoids_foldE avoids_event_status

section \<open>Everything around the check\<close>

abbreviation never_blocks :: "('w, 'a) payment_call \<Rightarrow> bool" where
  "never_blocks \<equiv> avoids RevenueInvariantViolated anywhere"

lemma storage_avoids:
  "never_blocks get_admin" "never_blocks (get_event_organizer e)" "never_blocks get_accepted_token"
  "never_blocks (get_event_payout_token e)" "never_blocks (get_escrow_meta e)"
  "never_blocks (update_payment p)" "never_blocks (get_event_revenue e)"
  "never_blocks (set_event_revenue e x)" "never_blocks (set_event_token_revenue e a x)"
  "never_blocks (add_platform_revenue e x)" "never_blocks (add_total_withdrawn e x)"
  "never_blocks (add_total_token_withdrawn e a x)" "never_blocks (set_event_config e c)"
  "never_blocks (add_withdrawal_record e r)" "never_blocks (set_escrow_meta e m)"
  "never_blocks (set_split_settlement e se)" "never_blocks (set_split_withdrawn e a x)"
  "never_blocks (remove_dispute n)" "never_blocks (set_event_disputes e ns)"
  "never_blocks (publish ev)" "never_blocks (emit_revenue_withdrawn env e a x a2 a3)"
  "never_blocks (transfer env a b a2 x)"
  unfolding storage_call_defs storage_put_defs Let_def
  by (intro avoids_rules; simp)+

lemma guards_avoid:
  "never_blocks (require_auth env a)" "never_blocks require_not_paused"
  "never_blocks (ensure_no_splits e)" "never_blocks (require_no_disputes e)"
  "never_blocks (require_completed e)" "never_blocks (settlement_ratio env e co)"
  "never_blocks (recipient_share sp a x)" "never_blocks (collect_cancellation_organizer_pool e a n)"
  "never_blocks (settlement_amount e a n)" "never_blocks (withdrawable_total e a n)"
  "never_blocks (process_timed_out_disputes env e)" "never_blocks (collect_platform_fee env e x y a)"
  "never_blocks (subtract_event_revenue e x)" "never_blocks (subtract_event_token_revenue e a x)"
  "never_blocks (withdrawal_log env e a x)"
  unfolding require_auth_def require_not_paused_def ensure_no_splits_def require_no_disputes_def
    require_completed_def settlement_ratio_def recipient_share_def calculate_recipient_share_def
    collect_cancellation_organizer_pool_def disputed_amount_def settlement_amount_def
    withdrawable_total_def process_timed_out_disputes_def time_out_step_def time_out_dispute_def
    collect_platform_fee_def subtract_event_revenue_def subtract_event_token_revenue_def
    withdrawal_log_def
  by (intro avoids_rules storage_avoids; simp)+

section \<open>The check\<close>

definition backed :: "'w env \<Rightarrow> 'w payments_state \<Rightarrow> bool" where
  "backed env s \<longleftrightarrow> (\<forall>e tok. escrow s e tok \<le> balance env s tok)"

abbreviation pays :: "'w env \<Rightarrow> ('w, 'a) payment_call \<Rightarrow> bool" where
  "pays env \<equiv> avoids RevenueInvariantViolated (backed env)"

text \<open>A step that keeps the ledger leads from a backed state to one.\<close>

lemma pays_bindE:
  assumes "keeps same_ledger m" and "never_blocks m" and "\<And>x. pays env (f x)"
  shows "pays env (bindE m f)"
proof (rule avoidsI)
  fix s assume "backed env s"
  then have "backed env t" if "m s = Inr (x, t)" for x t
    using keepsD [OF assms(1) that] by (simp add: backed_def same_ledger_def balance_def)
  then show "bindE m f s \<noteq> Inl (Err RevenueInvariantViolated)"
    using avoidsD [OF assms(2)] avoidsD [OF assms(3)]
    by (auto simp: exec split: sum.split)
qed

lemma pays_thenE:
  "keeps same_ledger m \<Longrightarrow> never_blocks m \<Longrightarrow> pays env k \<Longrightarrow> pays env (thenE m k)"
  by (simp add: thenE_def pays_bindE)

lemma pays_foldE:
  assumes "\<And>x a. keeps same_ledger (f x a)" and "\<And>x a. pays env (f x a)"
  shows "pays env (foldE f xs a)"
proof (induction xs arbitrary: a)
  case (Cons x xs)
  have "pays env (bindE (f x a) (foldE f xs))"
  proof (rule avoidsI)
    fix s assume s: "backed env s"
    then have "backed env t" if "f x a s = Inr (b, t)" for b t
      using keepsD [OF assms(1) that] by (simp add: backed_def same_ledger_def balance_def)
    then show "bindE (f x a) (foldE f xs) s \<noteq> Inl (Err RevenueInvariantViolated)"
      using avoidsD [OF assms(2) s] avoidsD [OF Cons] by (auto simp: exec split: sum.split)
  qed
  then show ?case by (simp add: foldE.simps)
qed (simp add: foldE.simps avoids_pure)

lemma check_pays: "pays env (check_token_balance env e tok)"
  by (rule avoidsI) (auto simp: check_token_balance_def exec backed_def escrow_def not_less)

lemma validate_pays: "pays env (validate_revenue_invariant env e)"
  unfolding validate_revenue_invariant_def for_each_def
  by (intro pays_thenE pays_bindE pays_foldE check_pays guards_avoid avoids_pure
      disputes_same_ledger ledger.keeps_rules)
    (simp_all add: check_token_balance_def, intro ledger.keeps_rules)

lemma after_check: "never_blocks k \<Longrightarrow> pays env (thenE (validate_revenue_invariant env e) k)"
  by (rule avoids_thenE [OF validate_pays])

lemmas around_check = avoids_rules storage_avoids guards_avoid

lemmas pays_rules =
  after_check pays_thenE pays_bindE ledger.keeps_rules ledger_frames around_check

lemma settlement_pays: "pays env (ensure_split_settled env e)"
  unfolding ensure_split_settled_def Let_def
  by (intro pays_rules; simp)

lemma settled_pays: "(\<And>x. never_blocks (f x)) \<Longrightarrow> pays env (bindE (ensure_split_settled env e) f)"
  by (rule avoids_bindE [OF settlement_pays])

text \<open>The six calls that pay revenue out.\<close>

lemma withdrawals_pay:
  "pays env (withdraw env a e)" "pays env (withdraw_revenue env e a)"
  "pays env (release_if_expired env e)" "pays env (withdraw_token env a e tok)"
  "pays env (withdraw_all_tokens env a e)" "pays env (withdraw_split env a e)"
  unfolding withdraw_def withdraw_revenue_def release_if_expired_def withdraw_token_def
    withdraw_all_tokens_def withdraw_split_def release_token_def drain_token_def pay_share_def
  by (intro settled_pays pays_rules; simp)+

section \<open>The property\<close>

text \<open>C2: As long as no event is overdrawn, no withdrawal is blocked by its balance check: in every
  reachable state in which every event's escrow is non-negative in every token, none of the calls
  that pay revenue out fails with RevenueInvariantViolated, whoever calls it, for whatever event,
  and although the check runs over all tokens of the event and after the timed-out disputes.\<close>
theorem balance_check_passes:
  assumes "deployment E" and "payments_execution E s" and "env \<in> E"
    and "\<And>e' tok. 0 \<le> escrow s e' tok"
  shows "\<forall>m \<in> {withdraw env a e, withdraw_revenue env e a, release_if_expired env e,
      withdraw_token env a e tok, withdraw_all_tokens env a e, withdraw_split env a e}.
    m s \<noteq> Inl (Err RevenueInvariantViolated)"
proof -
  have "solvent env s"
    using payments_machine.reachable_inv [OF assms(2)] assms(1,3) by (simp add: payments_inv_def)
  note sum = solvent_sum [OF this]
  have "escrow s e tok \<le> balance env s tok" for e tok
  proof -
    have "escrow s e tok \<le> (\<Sum>e | escrow s e tok \<noteq> 0. escrow s e tok)"
    proof (cases "escrow s e tok = 0")
      case False
      then show ?thesis using sum(1) assms(4) by (intro member_le_sum) auto
    qed (use assms(4) in \<open>simp add: sum_nonneg\<close>)
    also have "\<dots> \<le> balance env s tok" by (rule sum(2))
    finally show ?thesis .
  qed
  then have "backed env s" by (simp add: backed_def)
  from withdrawals_pay [THEN avoidsD, OF this] show ?thesis by simp
qed

lemma completed_escrow: "escrow completed e tok = (if e = ''ev'' \<and> tok = Addr 1 then 500 else 0)"
  by (simp add: escrow_def completed_def sold_def empty_payments_state_def get_total_token_volume_def
      get_total_token_refunds_def get_total_token_withdrawn_def)

theorem balance_check_passes_witness:
  "withdraw (desk 300) (Addr 7) ''ev'' completed \<noteq> Inl (Err RevenueInvariantViolated) \<and>
   withdraw_split (desk 300) (Addr 7) ''ev'' completed \<noteq> Inl (Err RevenueInvariantViolated)"
  using balance_check_passes [OF deployment_desks completed_reachable desk_in_desks]
  by (simp add: completed_escrow)

end
