(* ===== verification/Payments_Settled.thy ===== *)
theory Payments_Settled
  imports Payments_Exact
begin

text \<open>
  The exact effect of an organizer's withdrawal, and the calls that a postponed event or a paused contract refuses.
\<close>

section \<open>The organizer's withdrawal\<close>

text \<open>A call that changes nothing.\<close>

lemma wpI_reads: "keeps (=) m \<Longrightarrow> (\<And>x. Q x s) \<Longrightarrow> wp m Q s"
  by (erule wp_keeps) auto

lemma event_revenue_reads: "keeps (=) (get_event_revenue e)"
  unfolding get_event_revenue_def by (intro reader.keeps_rules)

lemmas wpI_event_revenue = wpI_reads [OF event_revenue_reads]

text \<open>Without disputes the balance check reads only.\<close>

lemma wpI_balance_check:
  assumes "get_event_disputes s e = []" and "Q () s"
  shows "wp (validate_revenue_invariant env e) Q s"
proof -
  have check: "keeps (=) (check_token_balance env e tok)" for tok
    unfolding check_token_balance_def by (intro reader.keeps_rules)
  have "keeps (=) (for_each (check_token_balance env e) toks)" for toks
    by (intro reader.keeps_rules check)
  from wpI_reads [OF this] show ?thesis
    unfolding validate_revenue_invariant_def process_timed_out_disputes_def
    using assms by (simp add: wp_rules)
qed

lemma history_push:
  "get_withdrawal_history (put_withdrawal_record e r s) e = get_withdrawal_history s e @ [r]"
  using withdrawals.items_push [of e r s e] by (simp add: withdrawals.items_def get_withdrawal_history_def)

lemma history_frames:
  "get_withdrawal_history (s\<lparr>pk_emitted := em\<rparr>) e = get_withdrawal_history s e"
  "get_withdrawal_history (s\<lparr>pk_world := w\<rparr>) e = get_withdrawal_history s e"
  "get_withdrawal_history (s\<lparr>pk_PlatformRevenue := pr\<rparr>) e = get_withdrawal_history s e"
  "get_withdrawal_history (s\<lparr>pk_EventTokenRevenue := tr\<rparr>) e = get_withdrawal_history s e"
  "get_withdrawal_history (s\<lparr>pk_TotalWithdrawn := tw\<rparr>) e = get_withdrawal_history s e"
  "get_withdrawal_history (s\<lparr>pk_TotalTokenWithdrawn := ttw\<rparr>) e = get_withdrawal_history s e"
  "get_withdrawal_history (s\<lparr>pk_EventConfig := ec\<rparr>) e = get_withdrawal_history s e"
  by (simp_all add: get_withdrawal_history_def get_withdrawal_count_def)

lemma put_withdrawal_fields:
  "pk_world (put_withdrawal_record e r s) = pk_world s"
  "pk_PlatformRevenue (put_withdrawal_record e r s) = pk_PlatformRevenue s"
  "pk_EventTokenRevenue (put_withdrawal_record e r s) = pk_EventTokenRevenue s"
  by (simp_all add: put_withdrawal_record_def Let_def)

lemmas withdrawal_effects =
  history_push history_frames put_withdrawal_fields add_platform_revenue_def
  set_event_token_revenue_def add_total_withdrawn_def add_total_token_withdrawn_def
  set_event_config_def add_withdrawal_record_def emit_revenue_withdrawn_def publish_def
  get_platform_revenue_def get_event_token_revenue_def balance_def

text \<open>C5: A completed event without disputes: when the organizer's withdrawal returns, the event's
  whole revenue in its payout token is split into the rounded-down platform fee, which is credited
  to the platform, and the rest, which moves from the contract to the organizer; the revenue is
  zero afterwards, the withdrawal is in the event's history, and the delay had passed.\<close>
theorem withdraw_exact:
  assumes "token_laws env" and "a \<noteq> current_contract_address env"
    and "get_event_disputes s e = []" and "get_event_status s e = Some Completed"
    and "get_event_config s e = Some c" and "withdraw env a e s = Inr (u, t)"
  defines "revenue \<equiv> get_event_token_revenue s e (ec_payout_token c)"
  defines "fee \<equiv> revenue * int (get_platform_fee_bps s) div 10000"
  shows "0 < revenue \<and> a = ec_organizer c \<and>
    ec_event_end_ledger c + ec_withdrawal_delay_ledgers c + ec_admin_delay_extension_ledgers c
      \<le> ledger_sequence env \<and>
    balance env t (ec_payout_token c) = balance env s (ec_payout_token c) - (revenue - fee) \<and>
    token_balance env (ec_payout_token c) a (pk_world t) =
      token_balance env (ec_payout_token c) a (pk_world s) + (revenue - fee) \<and>
    get_platform_revenue t e = get_platform_revenue s e + fee \<and>
    get_event_token_revenue t e (ec_payout_token c) = 0 \<and>
    get_withdrawal_history t e = get_withdrawal_history s e @
      [\<lparr>wr_amount = revenue - fee, wr_timestamp = ledger_timestamp env, wr_organizer = a\<rparr>]"
    (is "?Q t")
proof -
  note paid = token_lawsD(2) [OF assms(1), where ?a = "current_contract_address env"
      and t = "ec_payout_token c"]
    and received = token_lawsD(2) [OF assms(1), where ?a = "ec_organizer c"
      and t = "ec_payout_token c"]
  have fee: "0 < revenue \<Longrightarrow> 0 \<le> fee" by (simp add: fee_def pos_imp_zdiv_nonneg_iff)
  have "wp (withdraw env a e) (\<lambda>_. ?Q) s"
    unfolding withdraw_def settlement_ratio_def require_no_disputes_def withdrawable_total_def
      collect_platform_fee_def withdrawal_log_def transfer_def
    apply (simp add: wp_rules require_not_paused_def require_auth_def ensure_no_splits_def get_event_organizer_def assms(3-5))
    apply (intro impI, rule wpI_balance_check [OF assms(3)])
    apply (simp add: wp_rules get_event_payout_token_def assms(3-5) flip: revenue_def)
    apply (intro impI allI)
    apply (simp add: wp_rules whenE_def sdiv_eval withdrawal_effects flip: fee_def)
    apply (intro conjI impI)
    apply ((frule received, drule paid)?, use assms(2) fee in simp)+
    done
  from wpD [OF this assms(6)] show ?thesis .
qed

theorem withdraw_exact_witness:
  "balance (desk 300) paid_out (Addr 1) = balance (desk 300) completed (Addr 1) - 490 \<and>
   get_platform_revenue paid_out ''ev'' = 10 \<and>
   get_event_token_revenue paid_out ''ev'' (Addr 1) = 0"
  using withdraw_exact [OF desk_laws(1) _ _ _ _ paid_out_runs, where c = sample_config]
  by (simp add: paid_out_def completed_def sample_defs state_eval)

section \<open>A postponed event\<close>

lemma payment_checks_read:
  "keeps (=) (validate_payment_privacy e anon ver)" "keeps (=) (check_ticket_limits env pp)"
  unfolding validate_payment_privacy_def check_ticket_limits_def
  by (intro reader.keeps_rules)+

text \<open>C10: While an event is postponed none of its escrow leaves by the unsplit payout paths, and
  no ticket is sold: the organizer's withdrawal, the administrator's, the automatic release, both
  token withdrawals and every payment fail, whoever calls them, and the state is left as it was.\<close>
theorem frozen_while_postponed:
  assumes "get_event_status s e = Some Postponed"
  shows "never_returns (withdraw env a e) s \<and> never_returns (withdraw_revenue env e a) s \<and>
    never_returns (release_if_expired env e) s \<and> never_returns (withdraw_token env a e tok) s \<and>
    never_returns (withdraw_all_tokens env a e) s \<and>
    (pp_event_id pp = e \<longrightarrow> never_returns (create_payment env pp) s)"
proof -
  note frozen = assms [unfolded get_event_status_def]
  have "wp (withdraw env a e) (\<lambda>_ _. False) s"
    unfolding withdraw_def settlement_ratio_def
    by (simp add: wp_rules require_not_paused_def require_auth_def ensure_no_splits_def
        get_event_organizer_def assms)
  moreover have "wp (withdraw_revenue env e a) (\<lambda>_ _. False) s"
    unfolding withdraw_revenue_def
    by (simp add: wp_rules require_not_paused_def require_auth_def ensure_no_splits_def
        get_admin_def assms)
  moreover have "wp (release_if_expired env e) (\<lambda>_ _. False) s"
    unfolding release_if_expired_def
    by (simp add: wp_rules require_not_paused_def ensure_no_splits_def get_escrow_meta_def assms)
  moreover have "wp (withdraw_token env a e tok) (\<lambda>_ _. False) s"
    and "wp (withdraw_all_tokens env a e) (\<lambda>_ _. False) s"
    unfolding withdraw_token_def withdraw_all_tokens_def require_completed_def
    by (simp_all add: wp_rules require_not_paused_def require_auth_def ensure_no_splits_def assms)
  moreover have "wp (create_payment env pp) (\<lambda>_ _. False) s" if "pp_event_id pp = e"
    unfolding create_payment_def check_payment_def check_event_open_def require_auth_def
      require_not_paused_def
    by (intro wp_intro wpI_reads [OF payment_checks_read(1)]
      wpI_reads [OF payment_checks_read(2)])
      (use assms that in simp_all)
  ultimately show ?thesis by (simp add: never_returnsI)
qed

theorem frozen_while_postponed_witness:
  "never_returns (withdraw (desk 300) (Addr 7) ''ev'')
     (completed\<lparr>pk_EventStatus := [''ev'' \<mapsto> Postponed]\<rparr>)"
  using frozen_while_postponed [of "completed\<lparr>pk_EventStatus := [''ev'' \<mapsto> Postponed]\<rparr>" "''ev''"]
  by (simp add: get_event_status_def)

end
