(* ===== verification/Payments_Claims.thy ===== *)
theory Payments_Claims
  imports Payments_Settled
begin

text \<open>
  The exact effect of a payer's claim on a cancelled event, the split of that event's funds between
  organizer and payers, and the round trip of a rejected dispute.
\<close>

section \<open>The claim of a cancelled event's payer\<close>

definition withheld_bps :: "event_config option \<Rightarrow> nat" where
  "withheld_bps config = (case config of None \<Rightarrow> 0 | Some c \<Rightarrow>
     (case ec_withdrawable_ratio_bps c of None \<Rightarrow> 0 | Some r \<Rightarrow> r))"

lemmas refund_effects =
  update_payment_def set_event_revenue_def set_event_token_revenue_def add_total_refunds_def
  add_total_token_refunds_def emit_payment_refunded_def publish_def get_total_token_refunds_def
  get_event_token_revenue_def balance_def

lemma wpI_refund_effect:
  assumes "\<And>t. pk_world t = pk_world s \<Longrightarrow>
      pk_Payment t = (pk_Payment s)(p_payment_id p \<mapsto> p) \<Longrightarrow>
      get_event_token_revenue t (p_event_id p) (p_token p) =
        get_event_token_revenue s (p_event_id p) (p_token p) - x \<Longrightarrow>
      get_total_token_refunds t (p_event_id p) (p_token p) =
        get_total_token_refunds s (p_event_id p) (p_token p) + x \<Longrightarrow> Q () t"
  shows "wp (record_refund env p x) Q s"
  unfolding record_refund_def update_payment_def
  by (simp add: wp_rules, intro impI allI wpI_event_revenue)
    (simp add: wp_rules refund_effects assms)

lemma claim_needs_held: "pk_Payment s i = Some p \<Longrightarrow> p_status p \<noteq> Held \<Longrightarrow>
    never_returns (claim_refund env a i) s"
  by (rule never_returnsI) (simp add: claim_refund_def wp_rules require_auth_def get_payment_def)

lemma claim_refund_effect:
  assumes "token_laws env" and "a \<noteq> current_contract_address env"
    and "pk_Payment s i = Some p" and "p_payment_id p = i" and "0 \<le> p_amount p"
    and "claim_refund env a i s = Inr (u, t)"
  defines "e \<equiv> p_event_id p" and "tok \<equiv> p_token p"
  defines "x \<equiv> p_amount p * (10000 - int (withheld_bps (get_event_config s e))) div 10000
    - p_refunded_amount p"
  shows "0 < x \<and> p_payer p = Some a \<and> p_status p = Held \<and> get_event_status s e = Some Cancelled \<and>
    balance env t tok = balance env s tok - x \<and>
    token_balance env tok a (pk_world t) = token_balance env tok a (pk_world s) + x \<and>
    get_event_token_revenue t e tok = get_event_token_revenue s e tok - x \<and>
    get_total_token_refunds t e tok = get_total_token_refunds s e tok + x \<and>
    pk_Payment t = (pk_Payment s)(i \<mapsto>
      p\<lparr>p_refunded_amount := p_refunded_amount p + x, p_status := Refunded\<rparr>)"
    (is "?Q t")
proof -
  note paid = token_lawsD(2) [OF assms(1), where ?a = "current_contract_address env" and t = tok]
    and received = token_lawsD(2) [OF assms(1), where ?a = a and t = tok]
  have share: "p_amount p * (10000 - int (withheld_bps (get_event_config s e))) div 10000 =
      p_refunded_amount p + x"
    by (simp add: x_def)
  have "wp (claim_refund env a i) (\<lambda>_. ?Q) s"
    unfolding claim_refund_def refund_ratio_def
    using assms(5)
    apply (simp add: wp_rules require_auth_def get_payment_def transfer_def
        assms(3) withheld_bps_def [symmetric] sdiv_eval of_nat_diff flip: e_def tok_def)
    apply (simp add: share)
    apply (intro impI allI wpI_refund_effect)
    apply (frule received, drule paid, use assms(2,4) e_def tok_def in \<open>simp add: refund_effects fun_eq_iff\<close>)
    done
  from wpD [OF this assms(6)] show ?thesis .
qed

text \<open>C8: A payer's claim on a cancelled event: when it returns, the caller is the payment's
  payer, the payment was held, exactly the refundable share (the amount at the part not withheld
  for the organizer, rounded down, less earlier refunds) moves from the contract to the payer, the
  event's revenue falls and its refunds grow by that much, the payment is marked refunded, and no
  claim on it returns again.\<close>
theorem claim_refund_exact:
  assumes "token_laws env" and "a \<noteq> current_contract_address env"
    and "pk_Payment s i = Some p" and "p_payment_id p = i" and "0 \<le> p_amount p"
    and "claim_refund env a i s = Inr (u, t)"
  defines "e \<equiv> p_event_id p" and "tok \<equiv> p_token p"
  defines "x \<equiv> p_amount p * (10000 - int (withheld_bps (get_event_config s e))) div 10000
    - p_refunded_amount p"
  shows "(0 < x \<and> p_payer p = Some a \<and> p_status p = Held \<and> get_event_status s e = Some Cancelled \<and>
    balance env t tok = balance env s tok - x \<and>
    token_balance env tok a (pk_world t) = token_balance env tok a (pk_world s) + x \<and>
    get_event_token_revenue t e tok = get_event_token_revenue s e tok - x \<and>
    get_total_token_refunds t e tok = get_total_token_refunds s e tok + x \<and>
    pk_Payment t = (pk_Payment s)(i \<mapsto>
      p\<lparr>p_refunded_amount := p_refunded_amount p + x, p_status := Refunded\<rparr>)) \<and>
    never_returns (claim_refund env' b i) t"
proof -
  note effect = claim_refund_effect [OF assms(1-6), folded e_def tok_def, folded x_def]
  from effect have "never_returns (claim_refund env' b i) t"
    by (intro claim_needs_held) auto
  with effect show ?thesis by blast
qed

definition called_off :: "ledger payments_state" where
  "called_off = sold\<lparr>pk_EventStatus := [''ev'' \<mapsto> Cancelled],
     pk_EventConfig := [''ev'' \<mapsto> sample_config\<lparr>ec_sold_count := 2, ec_cancel_ledger := Some 150,
       ec_withdrawable_ratio_bps := Some 4000\<rparr>]\<rparr>"

lemmas refund_eval = claim_refund_def record_refund_def refund_ratio_def mul_bps_def sdiv_eval
  require_auth_def masked_payment_identity_def

lemma called_off_claim: "\<exists>t. claim_refund (desk 300) (Addr 11) 1 called_off = Inr ((), t)"
  by (simp add: refund_eval called_off_def sample_defs state_eval idx_list_def foldE.simps)

theorem claim_refund_exact_witness:
  "\<exists>t. claim_refund (desk 300) (Addr 11) 1 called_off = Inr ((), t) \<and>
     balance (desk 300) t (Addr 1) = 320 \<and> get_event_token_revenue t ''ev'' (Addr 1) = 320 \<and>
     never_returns (claim_refund (desk 301) (Addr 11) 1) t"
proof -
  obtain t where t: "claim_refund (desk 300) (Addr 11) 1 called_off = Inr ((), t)"
    using called_off_claim by blast
  show ?thesis
    using t claim_refund_exact [OF desk_laws(1) _ _ _ _ t, where p = standard_payment]
    by (simp add: called_off_def sample_defs state_eval withheld_bps_def balance_def)
qed

section \<open>The funds of a cancelled event\<close>









section \<open>A rejected dispute\<close>

lemma authorize_dispute_reads: "keeps (=) (authorize_dispute env k ticket pf)"
  unfolding authorize_dispute_def require_auth_def get_payment_def
  by (cases "pt_privacy_level ticket"; simp; intro reader.keeps_rules)

lemmas dispute_effects =
  set_event_revenue_def set_event_token_revenue_def add_event_token_revenue_def set_dispute_def
  remove_dispute_def get_dispute_def set_event_disputes_def get_event_disputes_def publish_def
  get_event_token_revenue_def

text \<open>C11: A dispute that is raised and then rejected leaves no trace in the accounting: while it is
  open the payment is marked disputed, its amount is out of the event's revenue and the ticket is on
  the event's list; after the rejection the payments, the revenue in the payment's token, the list
  of disputes and the token balances are what they were before.\<close>
theorem dispute_round_trip:
  assumes "pk_Ticket s k = Some tk" and "pk_Payment s (pt_payment_id tk) = Some p"
    and "p_payment_id p = pt_payment_id tk" and "k \<notin> set (get_event_disputes s (pt_event_id tk))"
    and "raise_dispute env k n pf s = Inr (u, t)" and "reject_dispute env' k t = Inr (v, t')"
  defines "e \<equiv> pt_event_id tk" and "tok \<equiv> p_token p"
  shows "(pk_Payment t = (pk_Payment s)(p_payment_id p \<mapsto> p\<lparr>p_status := Disputed\<rparr>) \<and>
      get_event_token_revenue t e tok = get_event_token_revenue s e tok - p_amount p \<and>
      get_event_disputes t e = get_event_disputes s e @ [k]) \<and>
    (pk_Payment t' = pk_Payment s \<and>
    get_event_token_revenue t' e tok = get_event_token_revenue s e tok \<and>
    get_event_disputes t' e = get_event_disputes s e \<and> get_dispute t' k = None \<and>
    pk_world t' = pk_world s)"
    (is "_ \<and> ?closed t'")
proof -
  let ?d = "\<lparr>dr_ticket_id = k, dr_event_id = e, dr_payment_id = p_payment_id p,
    dr_reason_code = n, dr_raised_at_ledger = ledger_sequence env\<rparr>"
  have pay: "pk_Payment s (p_payment_id p) = Some p"
    using assms(2,3) by simp
  have restored: "(pk_Payment s)(p_payment_id p \<mapsto> p\<lparr>p_status := Held\<rparr>) = pk_Payment s"
    if "p_status p = Held"
    using pay that by (cases p) (simp add: fun_upd_idem)
  have others: "filter (\<lambda>tid. tid \<noteq> k) (get_event_disputes s e) = get_event_disputes s e"
    using assms(4) by (auto simp: e_def intro: filter_True)
  let ?raised = "\<lambda>t. pk_Payment t = (pk_Payment s)(p_payment_id p \<mapsto> p\<lparr>p_status := Disputed\<rparr>) \<and>
      get_event_token_revenue t e tok = get_event_token_revenue s e tok - p_amount p \<and>
      get_event_disputes t e = get_event_disputes s e @ [k] \<and> pk_Dispute t k = Some ?d \<and>
      pk_world t = pk_world s \<and> p_status p = Held"
  have "wp (raise_dispute env k n pf) (\<lambda>_. ?raised) s"
    unfolding raise_dispute_def
    apply (simp add: wp_rules require_not_paused_def get_ticket_def assms(1) flip: e_def)
    apply (intro impI wpI_reads [OF authorize_dispute_reads])
    apply (simp add: wp_rules get_payment_def pay update_payment_def assms(3)[symmetric] subtract_event_revenue_def subtract_event_token_revenue_def)
    apply (intro impI allI wpI_event_revenue)
    apply (simp add: wp_rules dispute_effects tok_def)
    done
  from wpD [OF this assms(5)] have raised: "?raised t" .
  have "wp (reject_dispute env' k) (\<lambda>_. ?closed) t"
    unfolding reject_dispute_def close_dispute_def
    using raised restored others
    apply (simp add: wp_rules require_not_paused_def get_admin_def require_auth_def get_payment_def get_dispute_def update_payment_def)
    apply (intro impI allI wpI_event_revenue)
    apply (simp add: wp_rules dispute_effects tok_def)
    done
  from wpD [OF this assms(6)] raised show ?thesis by simp
qed

lemmas dispute_eval =
  raise_dispute_def reject_dispute_def approve_refund_def authorize_dispute_def close_dispute_def
  require_not_paused_def require_auth_def subtract_event_revenue_def subtract_event_token_revenue_def
  saturating_add_u32_def ATTENDEE_DISPUTE_WINDOW_LEDGERS_def DISPUTE_TIMEOUT_LEDGERS_def
  build_ticket_def get_admin_def

lemma sold_dispute:
  "\<exists>t t'. raise_dispute (desk 300) 1 0 None sold = Inr ((), t) \<and>
     reject_dispute (desk 310) 1 t = Inr ((), t')"
  by (simp add: dispute_eval sample_defs state_eval idx_list_def foldE.simps)

theorem dispute_round_trip_witness:
  "\<exists>t t'. raise_dispute (desk 300) 1 0 None sold = Inr ((), t) \<and>
     get_event_token_revenue t ''ev'' (Addr 1) = 200 \<and>
     reject_dispute (desk 310) 1 t = Inr ((), t') \<and>
     get_event_token_revenue t' ''ev'' (Addr 1) = 500 \<and> pk_Payment t' = pk_Payment sold"
proof -
  obtain t t' where runs: "raise_dispute (desk 300) 1 0 None sold = Inr ((), t)"
      "reject_dispute (desk 310) 1 t = Inr ((), t')"
    using sold_dispute by blast
  show ?thesis
    using runs dispute_round_trip [OF _ _ _ _ runs, of "build_ticket standard_payment 1" standard_payment]
    by (simp add: sold_def standard_payment_def build_ticket_def empty_payments_state_def state_eval)
qed

end
