(* ===== verification/Payments_Gaps.thy ===== *)
theory Payments_Gaps
  imports Payments_Claims
begin

text \<open>
  Calls that the guards let through although the accounting, or the role of the caller, speaks
  against them: a refund of a dispute after the settlement, a withdrawal by token, and the event
  migration.
\<close>

section \<open>A dispute after the settlement\<close>








section \<open>A withdrawal by token\<close>

text \<open>What follows the transfer of a withdrawal by token.\<close>

definition after_token_transfer ::
    "'w env \<Rightarrow> address \<Rightarrow> symbol \<Rightarrow> address \<Rightarrow> int \<Rightarrow> ('w, unit) payment_call" where
  "after_token_transfer env organizer event_id token_address revenue =
     thenE (set_event_token_revenue event_id token_address 0) (
     thenE (subtract_event_revenue event_id revenue) (
     thenE (add_total_withdrawn event_id revenue) (
     thenE (add_total_token_withdrawn event_id token_address revenue) (
     thenE (withdrawal_log env event_id organizer revenue) (
     emit_revenue_withdrawn env event_id organizer revenue token_address organizer)))))"

text \<open>Whether it returns depends neither on the caller nor on the tokens.\<close>

lemma after_token_transfer_blind: "blind (after_token_transfer env a e tok x)"
  unfolding after_token_transfer_def subtract_event_revenue_def withdrawal_log_def storage_call_defs
    storage_put_defs Let_def
  by (intro blind_rules blind_gets blind_modify; simp add: storage_getter_defs)

lemma after_token_transfer_caller:
  assumes "after_token_transfer env a e tok x s = Inr (u, t)"
  shows "\<exists>t'. after_token_transfer env b e tok x s = Inr ((), t')"
  using assms
  by (auto simp: after_token_transfer_def exec add_total_withdrawn_def add_total_token_withdrawn_def
      set_event_token_revenue_def withdrawal_log_def add_withdrawal_record_def emit_revenue_withdrawn_def
      publish_def split: sum.splits if_splits)

lemma after_token_transfer_effect:
  "wp (after_token_transfer env a e tok x) (\<lambda>_ t. pk_world t = pk_world s \<and>
     get_event_token_revenue t e tok = 0 \<and> get_event_disputes t e = get_event_disputes s e \<and>
     get_event_config t e = get_event_config s e) s"
  unfolding after_token_transfer_def subtract_event_revenue_def
  by (simp add: wp_rules set_event_token_revenue_def, intro wpI_event_revenue)
    (simp add: wp_rules set_event_revenue_def add_total_withdrawn_def add_total_token_withdrawn_def
      withdrawal_log_def add_withdrawal_record_def emit_revenue_withdrawn_def publish_def put_withdrawal_record_def
      get_event_token_revenue_def get_event_disputes_def get_event_config_def Let_def)

text \<open>With no dispute open, a withdrawal by token is its guards, the transfer, and the rest.\<close>

lemma withdraw_token_Inr:
  assumes "get_event_disputes s e = []"
  shows "withdraw_token env a e tok s = Inr (u, t) \<longleftrightarrow>
    \<not> is_paused s \<and> authorized env a \<and> \<not> has_splits s e \<and> get_event_status s e = Some Completed \<and>
    validate_revenue_invariant env e s = Inr ((), s) \<and> 0 < get_event_token_revenue s e tok \<and>
    (\<exists>w. token_transfer env tok (current_contract_address env) a (get_event_token_revenue s e tok)
        (pk_world s) = Some w \<and>
      after_token_transfer env a e tok (get_event_token_revenue s e tok) (s\<lparr>pk_world := w\<rparr>) = Inr (u, t))"
proof -
  have "t' = s" if "validate_revenue_invariant env e s = Inr (v, t')" for v t'
    using wpD [OF wpI_balance_check [OF assms, of "\<lambda>_ t'. t' = s"] that] by simp
  then show ?thesis
    unfolding withdraw_token_def after_token_transfer_def [symmetric]
    by (auto simp: require_not_paused_def require_auth_def ensure_no_splits_def
        require_completed_def transfer_def exec split: sum.splits option.splits if_splits)
qed

lemma withdraw_needs_revenue:
  assumes "get_event_disputes s e = []" "get_event_config s e = Some c"
    and "get_event_token_revenue s e (ec_payout_token c) \<le> 0"
  shows "never_returns (withdraw env a e) s"
proof (rule never_returnsI)
  have "keeps (=) (settlement_ratio env e c)"
    unfolding settlement_ratio_def by (intro reader.keeps_rules event_status_keeps)
  then show "wp (withdraw env a e) (\<lambda>_ _. False) s"
    unfolding withdraw_def using assms
    by (simp add: wp_rules require_not_paused_def require_auth_def ensure_no_splits_def get_event_organizer_def)
      (intro impI wpI_reads [of "settlement_ratio env e c"] wpI_thenE wpI_balance_check;
        simp add: wp_rules require_no_disputes_def get_event_payout_token_def withdrawable_total_def)
qed

text \<open>C16: Withdrawing by token is open to everybody.  In any state with no dispute open on the event, if
  the withdrawal by token of one address returns, then it returns for every other address that
  authorizes itself and can receive the amount, in the same state: the event's whole revenue in
  the token is paid to that address, whatever its role.  If the token is the event's payout
  token, no withdrawal of the organizer returns afterwards, as long as no new revenue comes in.\<close>
theorem withdraw_token_pays_anyone:
  assumes "token_laws env" and "get_event_disputes s e = []"
    and "withdraw_token env organizer e tok s = Inr (u, t)"
    and "authorized env a" and "a \<noteq> current_contract_address env"
  defines "x \<equiv> get_event_token_revenue s e tok"
  assumes "token_transfer env tok (current_contract_address env) a x (pk_world s) \<noteq> None"
  shows "\<exists>t'. withdraw_token env a e tok s = Inr ((), t') \<and> 0 < x \<and>
    token_balance env tok a (pk_world t') = token_balance env tok a (pk_world s) + x \<and>
    get_event_token_revenue t' e tok = 0 \<and>
    (\<forall>c env' b. get_event_config s e = Some c \<and> ec_payout_token c = tok \<longrightarrow>
       never_returns (withdraw env' b e) t')"
proof -
  obtain w v where run: "\<not> is_paused s" "\<not> has_splits s e" "get_event_status s e = Some Completed"
      "validate_revenue_invariant env e s = Inr ((), s)" "0 < x"
      "after_token_transfer env organizer e tok x (s\<lparr>pk_world := v\<rparr>) = Inr (u, t)"
    and w: "token_transfer env tok (current_contract_address env) a x (pk_world s) = Some w"
    using assms(3,7) unfolding withdraw_token_Inr [OF assms(2)] x_def by blast
  obtain t' where t': "after_token_transfer env a e tok x (s\<lparr>pk_world := w\<rparr>) = Inr ((), t')"
    using after_token_transfer_caller blindD [OF after_token_transfer_blind run(6), of w] by fastforce
  then have "withdraw_token env a e tok s = Inr ((), t')"
    using run w assms(4) unfolding withdraw_token_Inr [OF assms(2)] x_def by blast
  moreover note effect = wpD [OF after_token_transfer_effect t']
  moreover have "token_balance env tok a w = token_balance env tok a (pk_world s) + x"
    using token_lawsD(2) [OF assms(1) w] assms(5) by simp
  moreover have "get_event_disputes t' e = []" "get_event_config t' e = get_event_config s e"
    using effect assms(2) by (simp_all add: get_event_disputes_def get_event_config_def)
  ultimately show ?thesis
    using run(5) withdraw_needs_revenue [of t' e] by auto
qed

theorem withdraw_token_pays_anyone_witness:
  "\<exists>t'. withdraw_token (desk 230) (Addr 66) ''ev'' (Addr 1) completed = Inr ((), t') \<and>
     token_balance (desk 230) (Addr 1) (Addr 66) (pk_world t') = 500 \<and>
     never_returns (withdraw (desk 240) (Addr 7) ''ev'') t'"
proof -
  have "\<exists>t. withdraw_token (desk 230) (Addr 7) ''ev'' (Addr 1) completed = Inr ((), t)"
    by (simp add: withdraw_token_def require_completed_def settlement_eval state_eval completed_def sample_defs)
  then obtain t where t: "withdraw_token (desk 230) (Addr 7) ''ev'' (Addr 1) completed = Inr ((), t)" ..
  show ?thesis
    using withdraw_token_pays_anyone [OF desk_laws(1) _ t, of "Addr 66"]
    by (simp add: completed_def sample_defs state_eval) blast
qed

section \<open>The event migration\<close>

text \<open>The event migration is not safe to run on an event that has no legacy data: it succeeds,
  resets the event's payment count, and the event's payments can no longer be listed.\<close>
theorem migrate_event_forgets:
  "\<exists>t. migrate_event (desk 220) (Addr 5) ''ev'' sold = Inr ((), t) \<and>
     length (get_event_payments sold ''ev'') = 2 \<and> get_event_payments t ''ev'' = []"
  by (simp add: migrate_event_def migrate_totals_def require_not_paused_def require_auth_admin_def
      require_auth_def get_admin_def sample_defs state_eval foldE.simps
      validate_revenue_invariant_def process_timed_out_disputes_def check_token_balance_def
      for_each_def)

end
