(* ===== verification/Event_Types.thy ===== *)
theory Event_Types
  imports Ticket_Contract Payments_Config Payments_Refunds Payments_Settlement Payments_Splits
begin

text \<open>
  The event contract's data: \<^verbatim>\<open>types.rs\<close>, the error enumeration of \<^verbatim>\<open>errors.rs\<close> with its
  discriminants, and the emitted events of \<^verbatim>\<open>events.rs\<close>.  Names that the ticket or the payments
  contract also uses carry the prefix \<open>S_\<close> (statuses), \<open>E_\<close> (errors) or a prefix per struct.
\<close>

section \<open>Types\<close>

datatype zk_claim_type = Z_Any | Z_Age | Z_Location | Z_Citizenship

record zk_passport_claim =
  zc_claim_type :: zk_claim_type
  zc_proof :: bytes
  zc_nullifier :: bytes32
  zc_expiry_ledger :: nat

record anonymous_ticket_claim =
  ac_proof :: bytes
  ac_nullifier :: bytes32
  ac_ticket_commitment :: bytes32
  ac_expiry_ledger :: nat

record zk_verification_config =
  zv_required_claim_type :: zk_claim_type
  zv_enabled :: bool

datatype event_status_ev = S_Upcoming | S_Active | S_Completed | S_Cancelled | S_Postponed

record ticket_tier =
  tt_tier_id :: nat
  tt_name :: string
  tt_price :: int
  tt_capacity :: nat
  tt_sold :: nat
  tt_reserved :: nat

record ticket_tier_params =
  tp_name :: string
  tp_price :: int
  tp_capacity :: nat

record event =
  ev_event_id :: symbol
  ev_organizer :: address
  ev_payout_token :: address
  ev_name :: string
  ev_description :: string
  ev_venue :: string
  ev_event_date :: nat
  ev_allow_anonymous :: bool
  ev_requires_verification :: bool
  ev_tiers :: "ticket_tier list"
  ev_status :: event_status_ev
  ev_created_at :: nat
  ev_privacy_level :: privacy_level
  ev_max_tickets_per_user :: nat
  ev_max_supply :: nat
  ev_sold_count :: nat
  ev_event_start_ledger :: nat
  ev_event_end_ledger :: nat
  ev_withdrawal_delay_ledgers :: nat
  ev_revenue_splits :: "(address \<times> nat) list"
  ev_resale_royalty_bps :: nat
  ev_max_resale_price :: "int option"
  ev_allow_free_ticket_transfer :: bool

record create_event_params =
  cp_organizer :: address
  cp_payout_token :: address
  cp_event_id :: symbol
  cp_name :: string
  cp_description :: string
  cp_venue :: string
  cp_event_date :: nat
  cp_initial_tiers :: "ticket_tier_params list"
  cp_allow_anonymous :: bool
  cp_requires_verification :: bool
  cp_privacy_level :: privacy_level
  cp_max_tickets_per_user :: nat
  cp_event_start_ledger :: nat
  cp_event_end_ledger :: nat
  cp_withdrawal_delay_ledgers :: nat
  cp_revenue_splits :: "(address \<times> nat) list"
  cp_resale_royalty_bps :: nat
  cp_max_resale_price :: "int option"
  cp_allow_free_ticket_transfer :: bool

record update_event_params =
  up_organizer :: address
  up_event_id :: symbol
  up_name :: "string option"
  up_description :: "string option"
  up_venue :: "string option"
  up_event_date :: "nat option"
  up_allow_anonymous :: "bool option"
  up_requires_verification :: "bool option"
  up_max_tickets_per_user :: "nat option"
  up_resale_royalty_bps :: "nat option"
  up_max_resale_price :: "int option"
  up_allow_free_ticket_transfer :: "bool option"

record reservation =
  rv_tier_id :: nat
  rv_expires_at :: nat

record postponement_info =
  po_new_date_ledger :: nat
  po_choice_deadline_ledger :: nat

record claim_settings =
  cs_max_free_claims :: nat
  cs_cooldown_secs :: nat

record anon_claim_settings =
  as_max_anon_claims_per_window :: nat
  as_anon_window_size :: nat

record anon_window_state =
  aw_window_index :: nat
  aw_count :: nat

section \<open>Errors\<close>

datatype event_error =
    E_EventNotFound | E_EventAlreadyExists | E_InvalidStatusTransition | E_Unauthorized
  | E_InvalidInput | E_EventNotActive | E_InvalidEventDate | E_InvalidTicketCount
  | E_InvalidPrice | E_EventNotUpdatable | E_EventSoldOut | E_AlreadyRegistered
  | E_TierNotFound | E_TierSoldOut | E_ContractLinksNotConfigured | E_RefundFailed
  | E_ReservationNotFound | E_ReservationExpired | E_InvalidOrganizer | E_InvalidPayoutToken
  | E_MigrationFailed | E_UnsupportedVersion | E_UnauthorizedPrivateAccess | E_PrivacyViolation
  | E_ClaimLimitExceeded | E_ClaimCooldownActive | E_AnonCommitmentReused | E_AnonClaimWindowFull
  | E_AnonymousClaimsNotEnabled | E_PostponementWindowTooShort | E_InvalidPostponementDate
  | E_MaxPostponementsReached | E_PostponementWindowOpen | E_EventNotPostponed
  | E_NoRefundableTicket | E_InvalidRevenueSplit | E_ZkProofExpired | E_ZkNullifierReused
  | E_ZkVerificationRequired | E_ZkProofInvalid | E_ZkClaimTypeMismatch
  | E_PaymentPrivacyUnsupported | E_AnonymousProofExpired | E_AnonymousProofInvalid
  | E_AnonymousClaimVerifierNotConfigured | E_AnonymousNullifierReused
  | E_AnonymousClaimVerifierAlreadyConfigured | E_AnonymousProofExpiryTooFar

definition event_error_codes :: "(event_error \<times> nat) list" where
  "event_error_codes =
    [(E_EventNotFound, 1), (E_EventAlreadyExists, 2), (E_InvalidStatusTransition, 23),
     (E_Unauthorized, 11), (E_InvalidInput, 21), (E_EventNotActive, 41),
     (E_InvalidEventDate, 200), (E_InvalidTicketCount, 201), (E_InvalidPrice, 22),
     (E_EventNotUpdatable, 202), (E_EventSoldOut, 83), (E_AlreadyRegistered, 43),
     (E_TierNotFound, 203), (E_TierSoldOut, 81), (E_ContractLinksNotConfigured, 62),
     (E_RefundFailed, 204), (E_ReservationNotFound, 205), (E_ReservationExpired, 206),
     (E_InvalidOrganizer, 207), (E_InvalidPayoutToken, 208), (E_MigrationFailed, 121),
     (E_UnsupportedVersion, 122), (E_UnauthorizedPrivateAccess, 12), (E_PrivacyViolation, 209),
     (E_ClaimLimitExceeded, 82), (E_ClaimCooldownActive, 210), (E_AnonCommitmentReused, 211),
     (E_AnonClaimWindowFull, 84), (E_AnonymousClaimsNotEnabled, 212),
     (E_PostponementWindowTooShort, 213), (E_InvalidPostponementDate, 214),
     (E_MaxPostponementsReached, 85), (E_PostponementWindowOpen, 215),
     (E_EventNotPostponed, 216), (E_NoRefundableTicket, 217), (E_InvalidRevenueSplit, 24),
     (E_ZkProofExpired, 218), (E_ZkNullifierReused, 219), (E_ZkVerificationRequired, 220),
     (E_ZkProofInvalid, 221), (E_ZkClaimTypeMismatch, 222), (E_PaymentPrivacyUnsupported, 223),
     (E_AnonymousProofExpired, 224), (E_AnonymousProofInvalid, 225),
     (E_AnonymousClaimVerifierNotConfigured, 226), (E_AnonymousNullifierReused, 227),
     (E_AnonymousClaimVerifierAlreadyConfigured, 228), (E_AnonymousProofExpiryTooFar, 229)]"

section \<open>Events\<close>

text \<open>The last field of each event is the ledger time of the emission.\<close>

datatype event_event =
    EventCreated symbol masked_address string string nat nat nat
  | EventUpdated symbol string string string nat nat
  | EventStatusChanged symbol event_status_ev event_status_ev nat
  | EventCancelled symbol masked_address nat
  | EventPostponed symbol nat nat nat nat
  | EventResumed symbol nat nat nat
  | EventRegistration symbol masked_address nat nat nat
  | AnonEventRegistration symbol nat nat nat
  | ZkVerifiedAttendance symbol zk_claim_type nat nat nat

end
