(* ===== verification/Event_State.thy ===== *)
theory Event_State
  imports Event_Types
begin

text \<open>
  The event contract's persistent storage (\<^verbatim>\<open>storage.rs\<close>): one record field per constructor of
  \<^verbatim>\<open>DataKey\<close>, with the state of the two contracts it is linked to and calls into, the ticket
  contract and the payments contract, and the log of emitted events.  The constructor
  \<^verbatim>\<open>EventAttendees\<close> of the source is never read or written and has no field.
\<close>

section \<open>Storage\<close>

record 'w event_state =
  ek_Event :: "symbol \<Rightarrow> event option"
  ek_Registration :: "symbol \<times> address \<Rightarrow> bool option"
  ek_Reservation :: "symbol \<times> address \<Rightarrow> reservation option"
  ek_Admin :: "address option"
  ek_TicketContract :: "address option"
  ek_PaymentsContract :: "address option"
  ek_EventPrivacy :: "symbol \<Rightarrow> privacy_level option"
  ek_ContractVersion :: "nat option"
  ek_FreeClaimCount :: "symbol \<times> address \<Rightarrow> nat option"
  ek_LastFreeClaim :: "symbol \<times> address \<Rightarrow> nat option"
  ek_EventClaimSettings :: "symbol \<Rightarrow> claim_settings option"
  ek_Postponement :: "symbol \<Rightarrow> postponement_info option"
  ek_PostponeCount :: "symbol \<Rightarrow> nat option"
  ek_AnonCommitment :: "symbol \<times> address \<times> bytes32 \<Rightarrow> bool option"
  ek_LegacyAnonCommitment :: "symbol \<times> bytes32 \<Rightarrow> bool option"
  ek_EventAnonWindow :: "symbol \<Rightarrow> anon_window_state option"
  ek_EventAnonSettings :: "symbol \<Rightarrow> anon_claim_settings option"
  ek_AnonymousClaimVerifier :: "address option"
  ek_AnonymousNullifier :: "symbol \<times> bytes32 \<Rightarrow> bytes32 option"
  ek_ZkNullifier :: "symbol \<times> bytes32 \<Rightarrow> bool option"
  ek_ZkVerificationConfig :: "symbol \<Rightarrow> zk_verification_config option"
  ek_EventAttendeeIndex :: "symbol \<times> nat \<Rightarrow> address option"
  ek_EventAttendeesCount :: "symbol \<Rightarrow> nat option"
  ek_ticket :: ticket_state
  ek_payments :: "'w payments_state"
  ek_emitted :: "event_event list"

type_synonym ('w, 'a) event_call = "('w event_state, event_error, 'a) call"

definition empty_event_state :: "'w \<Rightarrow> 'w event_state" where
  "empty_event_state w =
     \<lparr>ek_Event = Map.empty, ek_Registration = Map.empty, ek_Reservation = Map.empty,
      ek_Admin = None, ek_TicketContract = None, ek_PaymentsContract = None,
      ek_EventPrivacy = Map.empty, ek_ContractVersion = None, ek_FreeClaimCount = Map.empty,
      ek_LastFreeClaim = Map.empty, ek_EventClaimSettings = Map.empty,
      ek_Postponement = Map.empty, ek_PostponeCount = Map.empty,
      ek_AnonCommitment = Map.empty, ek_LegacyAnonCommitment = Map.empty,
      ek_EventAnonWindow = Map.empty, ek_EventAnonSettings = Map.empty,
      ek_AnonymousClaimVerifier = None, ek_AnonymousNullifier = Map.empty,
      ek_ZkNullifier = Map.empty, ek_ZkVerificationConfig = Map.empty,
      ek_EventAttendeeIndex = Map.empty, ek_EventAttendeesCount = Map.empty,
      ek_ticket = empty_ticket_state, ek_payments = empty_payments_state w, ek_emitted = []\<rparr>"

definition emit_ev :: "event_event \<Rightarrow> ('w, unit) event_call" where
  "emit_ev e = modify (\<lambda>s. s\<lparr>ek_emitted := ek_emitted s @ [e]\<rparr>)"

section \<open>Events\<close>

definition event_exists :: "'w event_state \<Rightarrow> symbol \<Rightarrow> bool" where
  "event_exists s event_id = (ek_Event s event_id \<noteq> None)"

definition get_event :: "symbol \<Rightarrow> ('w, event) event_call" where
  "get_event event_id = bindE (gets ek_Event) (\<lambda>m. ok_or (m event_id) E_EventNotFound)"

definition save_event :: "symbol \<Rightarrow> event \<Rightarrow> ('w, unit) event_call" where
  "save_event event_id event =
     modify (\<lambda>s. s\<lparr>ek_Event := (ek_Event s)(event_id \<mapsto> event)\<rparr>)"

definition update_event :: "symbol \<Rightarrow> event \<Rightarrow> ('w, unit) event_call" where
  "update_event event_id event =
     bindE (gets (\<lambda>s. event_exists s event_id)) (\<lambda>exists.
     thenE (ensure exists E_EventNotFound) (save_event event_id event))"

section \<open>Registrations\<close>

definition is_registered :: "'w event_state \<Rightarrow> symbol \<Rightarrow> address \<Rightarrow> bool" where
  "is_registered s event_id attendee = (ek_Registration s (event_id, attendee) \<noteq> None)"

definition get_attendees_count :: "'w event_state \<Rightarrow> symbol \<Rightarrow> nat" where
  "get_attendees_count s event_id =
     (case ek_EventAttendeesCount s event_id of None \<Rightarrow> 0 | Some n \<Rightarrow> n)"

definition put_registration :: "symbol \<Rightarrow> address \<Rightarrow> 'w event_state \<Rightarrow> 'w event_state" where
  "put_registration event_id attendee s =
     (let count = get_attendees_count s event_id in
      s\<lparr>ek_Registration := (ek_Registration s)((event_id, attendee) \<mapsto> True),
        ek_EventAttendeeIndex := (ek_EventAttendeeIndex s)((event_id, count) \<mapsto> attendee),
        ek_EventAttendeesCount := (ek_EventAttendeesCount s)(event_id \<mapsto> count + 1)\<rparr>)"

definition save_registration :: "symbol \<Rightarrow> address \<Rightarrow> ('w, unit) event_call" where
  "save_registration event_id attendee =
     bindE (gets (\<lambda>s. get_attendees_count s event_id)) (\<lambda>count.
     thenE (u64 (count + 1)) (modify (put_registration event_id attendee)))"

definition get_attendees :: "'w event_state \<Rightarrow> symbol \<Rightarrow> address list" where
  "get_attendees s event_id =
     idx_list (\<lambda>i. ek_EventAttendeeIndex s (event_id, i)) (get_attendees_count s event_id)"

definition get_attendees_paginated ::
    "'w event_state \<Rightarrow> symbol \<Rightarrow> nat \<Rightarrow> nat \<Rightarrow> address list" where
  "get_attendees_paginated s event_id start limit =
     (let count = get_attendees_count s event_id; actual_limit = min limit 100;
          end' = min count (saturating_add_u64 start actual_limit)
      in List.map_filter (\<lambda>i. ek_EventAttendeeIndex s (event_id, i)) [start..<end'])"

text \<open>The index of an attendee, by the linear search of the source.\<close>

definition attendee_index :: "'w event_state \<Rightarrow> symbol \<Rightarrow> address \<Rightarrow> nat option" where
  "attendee_index s event_id attendee =
     List.find (\<lambda>i. ek_EventAttendeeIndex s (event_id, i) = Some attendee)
       [0..<get_attendees_count s event_id]"

definition drop_attendee :: "symbol \<Rightarrow> address \<Rightarrow> 'w event_state \<Rightarrow> 'w event_state" where
  "drop_attendee event_id attendee s =
     (case attendee_index s event_id attendee of
        None \<Rightarrow> s
      | Some idx \<Rightarrow>
          let last_idx = get_attendees_count s event_id - 1;
              s = (if idx \<noteq> last_idx then
                     (case ek_EventAttendeeIndex s (event_id, last_idx) of
                        None \<Rightarrow> s
                      | Some last_attendee \<Rightarrow> s\<lparr>ek_EventAttendeeIndex :=
                          (ek_EventAttendeeIndex s)((event_id, idx) \<mapsto> last_attendee)\<rparr>)
                   else s)
          in s\<lparr>ek_EventAttendeeIndex := (ek_EventAttendeeIndex s)((event_id, last_idx) := None),
               ek_EventAttendeesCount := (ek_EventAttendeesCount s)(event_id \<mapsto> last_idx)\<rparr>)"

definition remove_registration :: "symbol \<Rightarrow> address \<Rightarrow> 'w event_state \<Rightarrow> 'w event_state" where
  "remove_registration event_id attendee s =
     (let s = s\<lparr>ek_Registration := (ek_Registration s)((event_id, attendee) := None)\<rparr>
      in if get_attendees_count s event_id = 0 then s else drop_attendee event_id attendee s)"

section \<open>Links and version\<close>

definition set_admin_ev :: "address \<Rightarrow> ('w, unit) event_call" where
  "set_admin_ev admin = modify (\<lambda>s. s\<lparr>ek_Admin := Some admin\<rparr>)"

definition get_admin_ev :: "('w, address) event_call" where
  "get_admin_ev = bindE (gets ek_Admin) (\<lambda>a. ok_or a E_ContractLinksNotConfigured)"

definition put_ticket_contract_ev :: "address \<Rightarrow> ('w, unit) event_call" where
  "put_ticket_contract_ev ticket_contract =
     modify (\<lambda>s. s\<lparr>ek_TicketContract := Some ticket_contract\<rparr>)"

definition put_payments_contract_ev :: "address \<Rightarrow> ('w, unit) event_call" where
  "put_payments_contract_ev payments_contract =
     modify (\<lambda>s. s\<lparr>ek_PaymentsContract := Some payments_contract\<rparr>)"

definition get_ticket_contract_ev :: "('w, address) event_call" where
  "get_ticket_contract_ev =
     bindE (gets ek_TicketContract) (\<lambda>a. ok_or a E_ContractLinksNotConfigured)"

definition get_payments_contract_ev :: "('w, address) event_call" where
  "get_payments_contract_ev =
     bindE (gets ek_PaymentsContract) (\<lambda>a. ok_or a E_ContractLinksNotConfigured)"

definition has_linked_contracts :: "'w event_state \<Rightarrow> bool" where
  "has_linked_contracts s \<longleftrightarrow> ek_TicketContract s \<noteq> None \<and> ek_PaymentsContract s \<noteq> None"

definition get_contract_version_ev :: "'w event_state \<Rightarrow> nat" where
  "get_contract_version_ev s = (case ek_ContractVersion s of None \<Rightarrow> 1 | Some v \<Rightarrow> v)"

definition set_contract_version_ev :: "nat \<Rightarrow> ('w, unit) event_call" where
  "set_contract_version_ev version = modify (\<lambda>s. s\<lparr>ek_ContractVersion := Some version\<rparr>)"

definition verify_version_ev :: "('w, unit) event_call" where
  "verify_version_ev =
     bindE (gets get_contract_version_ev) (\<lambda>v. ensure (\<not> v > 1) E_UnsupportedVersion)"

section \<open>Reservations\<close>

definition save_reservation :: "symbol \<Rightarrow> address \<Rightarrow> reservation \<Rightarrow> ('w, unit) event_call" where
  "save_reservation event_id attendee r =
     modify (\<lambda>s. s\<lparr>ek_Reservation := (ek_Reservation s)((event_id, attendee) \<mapsto> r)\<rparr>)"

definition get_reservation :: "symbol \<Rightarrow> address \<Rightarrow> ('w, reservation) event_call" where
  "get_reservation event_id attendee =
     bindE (gets ek_Reservation) (\<lambda>m. ok_or (m (event_id, attendee)) E_ReservationNotFound)"

definition remove_reservation :: "symbol \<Rightarrow> address \<Rightarrow> ('w, unit) event_call" where
  "remove_reservation event_id attendee =
     modify (\<lambda>s. s\<lparr>ek_Reservation := (ek_Reservation s)((event_id, attendee) := None)\<rparr>)"

definition has_reservation :: "'w event_state \<Rightarrow> symbol \<Rightarrow> address \<Rightarrow> bool" where
  "has_reservation s event_id attendee = (ek_Reservation s (event_id, attendee) \<noteq> None)"

section \<open>Privacy, postponement\<close>

definition put_event_privacy_ev :: "symbol \<Rightarrow> privacy_level \<Rightarrow> ('w, unit) event_call" where
  "put_event_privacy_ev event_id level =
     modify (\<lambda>s. s\<lparr>ek_EventPrivacy := (ek_EventPrivacy s)(event_id \<mapsto> level)\<rparr>)"

definition get_event_privacy_ev :: "'w event_state \<Rightarrow> symbol \<Rightarrow> privacy_level" where
  "get_event_privacy_ev s event_id =
     (case ek_EventPrivacy s event_id of None \<Rightarrow> Standard | Some l \<Rightarrow> l)"

definition set_postponement :: "symbol \<Rightarrow> postponement_info \<Rightarrow> ('w, unit) event_call" where
  "set_postponement event_id info =
     modify (\<lambda>s. s\<lparr>ek_Postponement := (ek_Postponement s)(event_id \<mapsto> info)\<rparr>)"

definition remove_postponement :: "symbol \<Rightarrow> ('w, unit) event_call" where
  "remove_postponement event_id =
     modify (\<lambda>s. s\<lparr>ek_Postponement := (ek_Postponement s)(event_id := None)\<rparr>)"

definition get_postpone_count :: "'w event_state \<Rightarrow> symbol \<Rightarrow> nat" where
  "get_postpone_count s event_id =
     (case ek_PostponeCount s event_id of None \<Rightarrow> 0 | Some n \<Rightarrow> n)"

definition set_postpone_count :: "symbol \<Rightarrow> nat \<Rightarrow> ('w, unit) event_call" where
  "set_postpone_count event_id count =
     modify (\<lambda>s. s\<lparr>ek_PostponeCount := (ek_PostponeCount s)(event_id \<mapsto> count)\<rparr>)"

section \<open>Free and anonymous claims\<close>

definition get_claim_settings :: "'w event_state \<Rightarrow> symbol \<Rightarrow> claim_settings" where
  "get_claim_settings s event_id =
     (case ek_EventClaimSettings s event_id of
        None \<Rightarrow> \<lparr>cs_max_free_claims = 0, cs_cooldown_secs = 0\<rparr> | Some c \<Rightarrow> c)"

definition put_claim_settings :: "symbol \<Rightarrow> claim_settings \<Rightarrow> ('w, unit) event_call" where
  "put_claim_settings event_id settings =
     modify (\<lambda>s. s\<lparr>ek_EventClaimSettings := (ek_EventClaimSettings s)(event_id \<mapsto> settings)\<rparr>)"

definition get_free_claim_count :: "'w event_state \<Rightarrow> symbol \<Rightarrow> address \<Rightarrow> nat" where
  "get_free_claim_count s event_id attendee =
     (case ek_FreeClaimCount s (event_id, attendee) of None \<Rightarrow> 0 | Some n \<Rightarrow> n)"

definition increment_free_claim_count :: "symbol \<Rightarrow> address \<Rightarrow> ('w, unit) event_call" where
  "increment_free_claim_count event_id attendee =
     bindE (gets (\<lambda>s. get_free_claim_count s event_id attendee)) (\<lambda>count.
     bindE (u32 (count + 1)) (\<lambda>n.
     modify (\<lambda>s. s\<lparr>ek_FreeClaimCount := (ek_FreeClaimCount s)((event_id, attendee) \<mapsto> n)\<rparr>)))"

definition get_last_free_claim :: "'w event_state \<Rightarrow> symbol \<Rightarrow> address \<Rightarrow> nat" where
  "get_last_free_claim s event_id attendee =
     (case ek_LastFreeClaim s (event_id, attendee) of None \<Rightarrow> 0 | Some t \<Rightarrow> t)"

definition set_last_free_claim :: "symbol \<Rightarrow> address \<Rightarrow> nat \<Rightarrow> ('w, unit) event_call" where
  "set_last_free_claim event_id attendee timestamp =
     modify (\<lambda>s. s\<lparr>ek_LastFreeClaim := (ek_LastFreeClaim s)((event_id, attendee) \<mapsto> timestamp)\<rparr>)"

definition has_anon_commitment ::
    "'w event_state \<Rightarrow> symbol \<Rightarrow> address \<Rightarrow> bytes32 \<Rightarrow> bool" where
  "has_anon_commitment s event_id claimant commitment =
     (if ek_AnonCommitment s (event_id, claimant, commitment) \<noteq> None then True
      else ek_LegacyAnonCommitment s (event_id, commitment) \<noteq> None)"

definition save_anon_commitment ::
    "symbol \<Rightarrow> address \<Rightarrow> bytes32 \<Rightarrow> ('w, unit) event_call" where
  "save_anon_commitment event_id claimant commitment =
     modify (\<lambda>s. s\<lparr>ek_AnonCommitment :=
       (ek_AnonCommitment s)((event_id, claimant, commitment) \<mapsto> True)\<rparr>)"

definition put_anonymous_claim_verifier :: "address \<Rightarrow> ('w, unit) event_call" where
  "put_anonymous_claim_verifier verifier =
     modify (\<lambda>s. s\<lparr>ek_AnonymousClaimVerifier := Some verifier\<rparr>)"

definition get_anonymous_claim_verifier :: "('w, address) event_call" where
  "get_anonymous_claim_verifier =
     bindE (gets ek_AnonymousClaimVerifier) (\<lambda>a. ok_or a E_AnonymousClaimVerifierNotConfigured)"

definition get_anonymous_ticket_commitment ::
    "'w event_state \<Rightarrow> symbol \<Rightarrow> bytes32 \<Rightarrow> bytes32 option" where
  "get_anonymous_ticket_commitment s event_id nullifier =
     ek_AnonymousNullifier s (event_id, nullifier)"

definition save_anonymous_ticket_commitment ::
    "symbol \<Rightarrow> bytes32 \<Rightarrow> bytes32 \<Rightarrow> ('w, unit) event_call" where
  "save_anonymous_ticket_commitment event_id nullifier commitment =
     modify (\<lambda>s. s\<lparr>ek_AnonymousNullifier :=
       (ek_AnonymousNullifier s)((event_id, nullifier) \<mapsto> commitment)\<rparr>)"

definition get_anon_claim_settings :: "'w event_state \<Rightarrow> symbol \<Rightarrow> anon_claim_settings" where
  "get_anon_claim_settings s event_id =
     (case ek_EventAnonSettings s event_id of
        Some c \<Rightarrow> c
      | None \<Rightarrow> \<lparr>as_max_anon_claims_per_window = 0, as_anon_window_size = 0\<rparr>)"

definition put_anon_claim_settings :: "symbol \<Rightarrow> anon_claim_settings \<Rightarrow> ('w, unit) event_call" where
  "put_anon_claim_settings event_id settings =
     modify (\<lambda>s. s\<lparr>ek_EventAnonSettings := (ek_EventAnonSettings s)(event_id \<mapsto> settings)\<rparr>)"

definition get_anon_window_state :: "'w event_state \<Rightarrow> symbol \<Rightarrow> anon_window_state" where
  "get_anon_window_state s event_id =
     (case ek_EventAnonWindow s event_id of
        Some w \<Rightarrow> w | None \<Rightarrow> \<lparr>aw_window_index = 0, aw_count = 0\<rparr>)"

definition set_anon_window_state :: "symbol \<Rightarrow> anon_window_state \<Rightarrow> ('w, unit) event_call" where
  "set_anon_window_state event_id w =
     modify (\<lambda>s. s\<lparr>ek_EventAnonWindow := (ek_EventAnonWindow s)(event_id \<mapsto> w)\<rparr>)"

definition has_zk_nullifier :: "'w event_state \<Rightarrow> symbol \<Rightarrow> bytes32 \<Rightarrow> bool" where
  "has_zk_nullifier s event_id nullifier = (ek_ZkNullifier s (event_id, nullifier) \<noteq> None)"

definition save_zk_nullifier :: "symbol \<Rightarrow> bytes32 \<Rightarrow> ('w, unit) event_call" where
  "save_zk_nullifier event_id nullifier =
     modify (\<lambda>s. s\<lparr>ek_ZkNullifier := (ek_ZkNullifier s)((event_id, nullifier) \<mapsto> True)\<rparr>)"

definition get_zk_verification_config :: "'w event_state \<Rightarrow> symbol \<Rightarrow> zk_verification_config" where
  "get_zk_verification_config s event_id =
     (case ek_ZkVerificationConfig s event_id of
        Some c \<Rightarrow> c | None \<Rightarrow> \<lparr>zv_required_claim_type = Z_Any, zv_enabled = False\<rparr>)"

definition set_zk_verification_config ::
    "symbol \<Rightarrow> zk_verification_config \<Rightarrow> ('w, unit) event_call" where
  "set_zk_verification_config event_id config =
     modify (\<lambda>s. s\<lparr>ek_ZkVerificationConfig := (ek_ZkVerificationConfig s)(event_id \<mapsto> config)\<rparr>)"

section \<open>Calls into the linked contracts\<close>

text \<open>
  A client call into another contract runs that contract's entry point on its own storage; any
  failure of it traps in the caller (the generated client panics), and a \<^verbatim>\<open>try_\<close> call leaves the
  callee's storage as it was.  In the callee the calling contract counts as authorized, and so
  does every address that authorized the caller's invocation with its sub-invocations.
\<close>

definition callee :: "'w env \<Rightarrow> address \<Rightarrow> 'w env" where
  "callee env contract =
     env\<lparr>current_contract_address := contract,
         authorized := (\<lambda>a. a = current_contract_address env \<or> authorized env a)\<rparr>"

lemma callee_simps [simp]:
  "ledger_sequence (callee env c) = ledger_sequence env"
  "ledger_timestamp (callee env c) = ledger_timestamp env"
  "current_contract_address (callee env c) = c"
  "authorized (callee env c) a \<longleftrightarrow> a = current_contract_address env \<or> authorized env a"
  "token_transfer (callee env c) = token_transfer env"
  "token_balance (callee env c) = token_balance env"
  "invoke_contract (callee env c) = invoke_contract env"
  "to_xdr (callee env c) = to_xdr env"
  "sha256 (callee env c) = sha256 env"
  "ed25519_verify (callee env c) = ed25519_verify env"
  by (simp_all add: callee_def)

definition call_payments :: "('w, 'a) payment_call \<Rightarrow> ('w, 'a) event_call" where
  "call_payments m = (\<lambda>s.
     case m (ek_payments s) of
       Inl _ \<Rightarrow> Inl Trap
     | Inr (x, p) \<Rightarrow> Inr (x, s\<lparr>ek_payments := p\<rparr>))"

definition call_ticket :: "'a ticket_call \<Rightarrow> ('w, 'a) event_call" where
  "call_ticket m = (\<lambda>s.
     case m (ek_ticket s) of
       Inl _ \<Rightarrow> Inl Trap
     | Inr (x, t) \<Rightarrow> Inr (x, s\<lparr>ek_ticket := t\<rparr>))"

definition try_call_ticket :: "'a ticket_call \<Rightarrow> ('w, unit) event_call" where
  "try_call_ticket m =
     modify (\<lambda>s. case m (ek_ticket s) of Inl _ \<Rightarrow> s | Inr (_, t) \<Rightarrow> s\<lparr>ek_ticket := t\<rparr>)"

text \<open>\<^verbatim>\<open>if has_linked_contracts { ... get_payments_contract()? ... }\<close>\<close>

definition when_linked :: "(address \<Rightarrow> ('w, unit) event_call) \<Rightarrow> ('w, unit) event_call" where
  "when_linked f =
     bindE (gets has_linked_contracts) (\<lambda>linked.
     whenE linked (bindE get_payments_contract_ev f))"

end
