(* ===== verification/Event_Contract.thy ===== *)
theory Event_Contract
  imports Event_State
begin

text \<open>
  The event contract's management entry points (\<^verbatim>\<open>lib.rs\<close>): creation, the organizer's updates,
  the status machine with cancellation and postponement, and the configuration setters, each with
  its guards, writes, emitted events and calls into the payments contract in the source's order.
\<close>

definition MIN_WITHDRAWAL_DELAY_LEDGERS :: nat where "MIN_WITHDRAWAL_DELAY_LEDGERS = 100"
definition MIN_POSTPONEMENT_CHOICE_WINDOW_LEDGERS :: nat where
  "MIN_POSTPONEMENT_CHOICE_WINDOW_LEDGERS = 51840"
definition MAX_POSTPONEMENT_CHOICE_WINDOW_LEDGERS :: nat where
  "MAX_POSTPONEMENT_CHOICE_WINDOW_LEDGERS = 518400"
definition MAX_POSTPONEMENTS :: nat where "MAX_POSTPONEMENTS = 3"
definition MAX_ANONYMOUS_PROOF_TTL_LEDGERS :: nat where
  "MAX_ANONYMOUS_PROOF_TTL_LEDGERS = 17280"

section \<open>Shared steps\<close>

definition map_err :: "('e \<Rightarrow> 'f) \<Rightarrow> ('s, 'e, 'a) call \<Rightarrow> ('s, 'f, 'a) call" where
  "map_err f m = (\<lambda>s. case m s of
     Inl (Err e) \<Rightarrow> Inl (Err (f e)) | Inl Trap \<Rightarrow> Inl Trap | Inr r \<Rightarrow> Inr r)"

definition validate_revenue_splits_ev ::
    "(address \<times> nat) list \<Rightarrow> address \<Rightarrow> ('w, unit) event_call" where
  "validate_revenue_splits_ev splits organizer =
     map_err (\<lambda>_. E_InvalidRevenueSplit) (validate_revenue_splits splits organizer)"

text \<open>The event of an organizer's call, after the ownership check.\<close>

definition organizer_event :: "'w env \<Rightarrow> address \<Rightarrow> symbol \<Rightarrow> ('w, event) event_call" where
  "organizer_event env organizer event_id =
     thenE (require_auth env organizer) (
     bindE (get_event event_id) (\<lambda>event.
     thenE (ensure (ev_organizer event = organizer) E_Unauthorized) (
     return event)))"

text \<open>
  The arguments of the payments contract's \<^verbatim>\<open>sync_event_config\<close>; the fields that the call does
  not carry have the values of a new configuration.
\<close>

definition config_of :: "event \<Rightarrow> event_config" where
  "config_of event =
     \<lparr>ec_organizer = ev_organizer event, ec_payout_token = ev_payout_token event,
      ec_allow_anonymous = ev_allow_anonymous event,
      ec_requires_verification = ev_requires_verification event,
      ec_max_tickets_per_user = ev_max_tickets_per_user event,
      ec_max_supply = ev_max_supply event, ec_sold_count = 0,
      ec_event_start_ledger = ev_event_start_ledger event,
      ec_event_end_ledger = ev_event_end_ledger event,
      ec_withdrawal_delay_ledgers = ev_withdrawal_delay_ledgers event,
      ec_admin_delay_extension_ledgers = 0, ec_cancel_ledger = None,
      ec_withdrawable_ratio_bps = None, ec_organizer_withdrawn = False,
      ec_resale_royalty_bps = ev_resale_royalty_bps event,
      ec_max_resale_price = ev_max_resale_price event,
      ec_allow_free_ticket_transfer = ev_allow_free_ticket_transfer event\<rparr>"

definition sync_config :: "'w env \<Rightarrow> address \<Rightarrow> symbol \<Rightarrow> event \<Rightarrow> ('w, unit) event_call" where
  "sync_config env payments_contract event_id event =
     call_payments (sync_event_config (callee env payments_contract)
       (current_contract_address env) event_id (config_of event))"

section \<open>Creation\<close>

definition initialize_ev ::
    "'w env \<Rightarrow> address \<Rightarrow> address \<Rightarrow> address \<Rightarrow> ('w, unit) event_call" where
  "initialize_ev env admin ticket_contract payments_contract =
     thenE (require_auth env admin) (
     thenE (set_admin_ev admin) (
     thenE (put_ticket_contract_ev ticket_contract) (
     thenE (put_payments_contract_ev payments_contract) (
     try_call_ticket (set_event_contract_tk (callee env ticket_contract) admin
       (current_contract_address env))))))"

fun build_tiers ::
    "nat \<Rightarrow> nat \<Rightarrow> ticket_tier_params list \<Rightarrow> ('w, ticket_tier list \<times> nat) event_call" where
  "build_tiers tier_id max_supply [] = return ([], max_supply)"
| "build_tiers tier_id max_supply (tier_param # params) =
     thenE (ensure (tp_name tier_param \<noteq> []) E_InvalidInput) (
     thenE (ensure (\<not> (tp_capacity tier_param = 0 \<or> tp_capacity tier_param \<ge> 100000))
              E_InvalidTicketCount) (
     thenE (ensure (\<not> tp_price tier_param < 0) E_InvalidPrice) (
     bindE (ok_or (checked_add_u32 max_supply (tp_capacity tier_param)) E_InvalidTicketCount)
       (\<lambda>max_supply'.
     bindE (build_tiers (tier_id + 1) max_supply' params) (\<lambda>(tiers, supply).
     return (\<lparr>tt_tier_id = tier_id, tt_name = tp_name tier_param, tt_price = tp_price tier_param,
       tt_capacity = tp_capacity tier_param, tt_sold = 0, tt_reserved = 0\<rparr> # tiers, supply))))))"

definition check_event_params :: "'w env \<Rightarrow> create_event_params \<Rightarrow> ('w, unit) event_call" where
  "check_event_params env params =
     thenE (require_auth env (cp_organizer params)) (
     thenE (ensure (cp_name params \<noteq> []) E_InvalidInput) (
     thenE (ensure (cp_venue params \<noteq> []) E_InvalidInput) (
     bindE (u64 (ledger_timestamp env + 86400)) (\<lambda>min_date.
     thenE (ensure (\<not> cp_event_date params \<le> min_date) E_InvalidEventDate) (
     thenE (ensure (\<not> cp_event_start_ledger params > cp_event_end_ledger params) E_InvalidInput) (
     thenE (ensure (\<not> cp_withdrawal_delay_ledgers params < MIN_WITHDRAWAL_DELAY_LEDGERS)
              E_InvalidInput) (
     thenE (ensure (\<not> cp_resale_royalty_bps params > 2000) E_InvalidInput) (
     thenE (ensure (cp_initial_tiers params \<noteq> []) E_InvalidInput) (
     validate_revenue_splits_ev (cp_revenue_splits params) (cp_organizer params))))))))))"

definition new_event :: "'w env \<Rightarrow> create_event_params \<Rightarrow> ticket_tier list \<Rightarrow> nat \<Rightarrow> event" where
  "new_event env params tiers max_supply =
     \<lparr>ev_event_id = cp_event_id params, ev_organizer = cp_organizer params,
      ev_payout_token = cp_payout_token params, ev_name = cp_name params,
      ev_description = cp_description params, ev_venue = cp_venue params,
      ev_event_date = cp_event_date params, ev_allow_anonymous = cp_allow_anonymous params,
      ev_requires_verification = cp_requires_verification params, ev_tiers = tiers,
      ev_status = S_Upcoming, ev_created_at = ledger_timestamp env,
      ev_privacy_level = cp_privacy_level params,
      ev_max_tickets_per_user = cp_max_tickets_per_user params, ev_max_supply = max_supply,
      ev_sold_count = 0, ev_event_start_ledger = cp_event_start_ledger params,
      ev_event_end_ledger = cp_event_end_ledger params,
      ev_withdrawal_delay_ledgers = cp_withdrawal_delay_ledgers params,
      ev_revenue_splits = cp_revenue_splits params,
      ev_resale_royalty_bps = cp_resale_royalty_bps params,
      ev_max_resale_price = cp_max_resale_price params,
      ev_allow_free_ticket_transfer = cp_allow_free_ticket_transfer params\<rparr>"

definition create_event :: "'w env \<Rightarrow> create_event_params \<Rightarrow> ('w, event) event_call" where
  "create_event env params =
     thenE (check_event_params env params) (
     bindE (build_tiers 0 0 (cp_initial_tiers params)) (\<lambda>(tiers, max_supply).
     bindE (gets (\<lambda>s. event_exists s (cp_event_id params))) (\<lambda>exists.
     thenE (ensure (\<not> exists) E_EventAlreadyExists) (
     thenE (when_linked (\<lambda>_.
              bindE (call_payments get_accepted_token) (\<lambda>accepted_token.
              ensure (cp_payout_token params = accepted_token) E_InvalidPayoutToken))) (
     let event = new_event env params tiers max_supply in
     thenE (save_event (cp_event_id params) event) (
     thenE (put_event_privacy_ev (cp_event_id params) (cp_privacy_level params)) (
     thenE (when_linked (\<lambda>payments_contract.
              thenE (sync_config env payments_contract (cp_event_id params) event) (
              whenE (cp_revenue_splits params \<noteq> []) (
                call_payments (sync_revenue_splits (callee env payments_contract)
                  (current_contract_address env) (cp_event_id params)
                  (cp_revenue_splits params)))))) (
     bindE (gets (\<lambda>s. get_event_privacy_ev s (cp_event_id params))) (\<lambda>privacy.
     thenE (emit_ev (EventCreated (cp_event_id params)
              (mask_address env (cp_organizer params) privacy) (cp_name params) (cp_venue params)
              (cp_event_date params) (length (cp_initial_tiers params)) (ledger_timestamp env))) (
     return event))))))))))"

section \<open>The organizer's updates\<close>

text \<open>\<^verbatim>\<open>if let Some(x) = field { ... }\<close> on the event under update.\<close>

definition upd :: "'x option \<Rightarrow> ('x \<Rightarrow> event \<Rightarrow> ('w, event) event_call) \<Rightarrow> event \<Rightarrow>
    ('w, event) event_call" where
  "upd field f event = (case field of None \<Rightarrow> return event | Some x \<Rightarrow> f x event)"

definition update_texts :: "'w env \<Rightarrow> update_event_params \<Rightarrow> event \<Rightarrow> ('w, event) event_call" where
  "update_texts env params event0 =
     bindE (upd (up_name params) (\<lambda>n event.
       thenE (ensure (n \<noteq> []) E_InvalidInput) (return (event\<lparr>ev_name := n\<rparr>))) event0) (\<lambda>event.
     bindE (upd (up_description params) (\<lambda>d event.
       return (event\<lparr>ev_description := d\<rparr>)) event) (\<lambda>event.
     bindE (upd (up_venue params) (\<lambda>v event.
       thenE (ensure (v \<noteq> []) E_InvalidInput) (return (event\<lparr>ev_venue := v\<rparr>))) event) (\<lambda>event.
     upd (up_event_date params) (\<lambda>date event.
       bindE (u64 (ledger_timestamp env + 86400)) (\<lambda>min_date.
       thenE (ensure (\<not> date \<le> min_date) E_InvalidEventDate) (
       return (event\<lparr>ev_event_date := date\<rparr>)))) event)))"

definition update_terms :: "update_event_params \<Rightarrow> event \<Rightarrow> ('w, event) event_call" where
  "update_terms params event0 =
     bindE (upd (up_allow_anonymous params) (\<lambda>b event.
       return (event\<lparr>ev_allow_anonymous := b\<rparr>)) event0) (\<lambda>event.
     bindE (upd (up_requires_verification params) (\<lambda>b event.
       return (event\<lparr>ev_requires_verification := b\<rparr>)) event) (\<lambda>event.
     bindE (upd (up_max_tickets_per_user params) (\<lambda>n event.
       return (event\<lparr>ev_max_tickets_per_user := n\<rparr>)) event) (\<lambda>event.
     bindE (upd (up_resale_royalty_bps params) (\<lambda>bps event.
       thenE (ensure (\<not> ev_sold_count event > 0) E_EventNotUpdatable) (
       thenE (ensure (\<not> bps > 2000) E_InvalidInput) (
       return (event\<lparr>ev_resale_royalty_bps := bps\<rparr>)))) event) (\<lambda>event.
     bindE (upd (up_max_resale_price params) (\<lambda>cap_opt event.
       thenE (ensure (\<not> ev_sold_count event > 0) E_EventNotUpdatable) (
       thenE (ensure (\<not> (cap_opt < 0 \<and> cap_opt \<noteq> - 1)) E_InvalidInput) (
       return (event\<lparr>ev_max_resale_price := (if cap_opt = - 1 then None else Some cap_opt)\<rparr>)))) event)
       (\<lambda>event.
     upd (up_allow_free_ticket_transfer params) (\<lambda>b event.
       return (event\<lparr>ev_allow_free_ticket_transfer := b\<rparr>)) event)))))"

definition update_event_details ::
    "'w env \<Rightarrow> update_event_params \<Rightarrow> ('w, event) event_call" where
  "update_event_details env params =
     bindE (organizer_event env (up_organizer params) (up_event_id params)) (\<lambda>event0.
     thenE (ensure (ev_status event0 = S_Upcoming) E_EventNotUpdatable) (
     bindE (update_texts env params event0) (\<lambda>event1.
     bindE (update_terms params event1) (\<lambda>event.
     thenE (save_event (up_event_id params) event) (
     thenE (when_linked (\<lambda>payments_contract.
              sync_config env payments_contract (up_event_id params) event)) (
     thenE (emit_ev (EventUpdated (ev_event_id event) (ev_name event) (ev_description event)
              (ev_venue event) (ev_event_date event) (ledger_timestamp env))) (
     return event)))))))"

definition add_ticket_tier ::
    "'w env \<Rightarrow> address \<Rightarrow> symbol \<Rightarrow> string \<Rightarrow> int \<Rightarrow> nat \<Rightarrow> ('w, ticket_tier) event_call" where
  "add_ticket_tier env organizer event_id name price capacity =
     bindE (organizer_event env organizer event_id) (\<lambda>event.
     thenE (ensure (ev_status event = S_Upcoming) E_EventNotUpdatable) (
     thenE (ensure (name \<noteq> []) E_InvalidInput) (
     thenE (ensure (\<not> (capacity = 0 \<or> capacity \<ge> 100000)) E_InvalidTicketCount) (
     thenE (ensure (\<not> price < 0) E_InvalidPrice) (
     bindE (ok_or (checked_add_u32 (ev_max_supply event) capacity) E_InvalidTicketCount) (\<lambda>supply.
     let new_tier = \<lparr>tt_tier_id = length (ev_tiers event), tt_name = name, tt_price = price,
           tt_capacity = capacity, tt_sold = 0, tt_reserved = 0\<rparr> in
     thenE (save_event event_id
              (event\<lparr>ev_max_supply := supply, ev_tiers := ev_tiers event @ [new_tier]\<rparr>)) (
     return new_tier)))))))"

text \<open>The first tier with an identifier.\<close>

fun find_tier :: "ticket_tier list \<Rightarrow> nat \<Rightarrow> nat option" where
  "find_tier [] tier_id = None"
| "find_tier (tier # tiers) tier_id =
     (if tt_tier_id tier = tier_id then Some 0 else map_option Suc (find_tier tiers tier_id))"

definition require_tier :: "event \<Rightarrow> nat \<Rightarrow> ('w, nat \<times> ticket_tier) event_call" where
  "require_tier event tier_id =
     bindE (ok_or (find_tier (ev_tiers event) tier_id) E_TierNotFound) (\<lambda>index.
     return (index, ev_tiers event ! index))"

definition resize_tier ::
    "nat \<Rightarrow> ticket_tier \<times> event \<Rightarrow> ('w, ticket_tier \<times> event) event_call" where
  "resize_tier c = (\<lambda>(tier, event).
     thenE (ensure (\<not> (c = 0 \<or> c \<ge> 100000)) E_InvalidTicketCount) (
     thenE (ensure (\<not> c < tt_sold tier) E_InvalidTicketCount) (
     bindE (ok_or (case checked_sub_u32 (ev_max_supply event) (tt_capacity tier) of
                     None \<Rightarrow> None | Some supply \<Rightarrow> checked_add_u32 supply c) E_InvalidTicketCount)
       (\<lambda>new_max_supply.
     thenE (ensure (\<not> new_max_supply < ev_sold_count event) E_InvalidTicketCount) (
     return (tier\<lparr>tt_capacity := c\<rparr>, event\<lparr>ev_max_supply := new_max_supply\<rparr>))))))"

definition update_tier ::
    "'w env \<Rightarrow> address \<Rightarrow> symbol \<Rightarrow> nat \<Rightarrow> string option \<Rightarrow> int option \<Rightarrow> nat option \<Rightarrow>
     ('w, unit) event_call" where
  "update_tier env organizer event_id tier_id name price capacity =
     bindE (organizer_event env organizer event_id) (\<lambda>event0.
     thenE (ensure (ev_status event0 = S_Upcoming) E_EventNotUpdatable) (
     bindE (require_tier event0 tier_id) (\<lambda>(i, tier0).
     bindE (case name of
              None \<Rightarrow> return tier0
            | Some n \<Rightarrow> thenE (ensure (n \<noteq> []) E_InvalidInput) (return (tier0\<lparr>tt_name := n\<rparr>)))
       (\<lambda>tier1.
     bindE (case price of
              None \<Rightarrow> return tier1
            | Some p \<Rightarrow> thenE (ensure (\<not> p < 0) E_InvalidPrice) (return (tier1\<lparr>tt_price := p\<rparr>)))
       (\<lambda>tier2.
     bindE (case capacity of
              None \<Rightarrow> return (tier2, event0)
            | Some c \<Rightarrow> resize_tier c (tier2, event0))
       (\<lambda>(tier, event).
     save_event event_id (event\<lparr>ev_tiers := (ev_tiers event)[i := tier]\<rparr>)))))))"

section \<open>The status machine\<close>

definition emit_status_changed ::
    "'w env \<Rightarrow> symbol \<Rightarrow> event_status_ev \<Rightarrow> event_status_ev \<Rightarrow> ('w, unit) event_call" where
  "emit_status_changed env event_id old_status new_status =
     emit_ev (EventStatusChanged event_id old_status new_status (ledger_timestamp env))"

definition update_event_status ::
    "'w env \<Rightarrow> address \<Rightarrow> symbol \<Rightarrow> event_status_ev \<Rightarrow> ('w, unit) event_call" where
  "update_event_status env organizer event_id new_status =
     bindE (organizer_event env organizer event_id) (\<lambda>event.
     thenE (ensure ((ev_status event, new_status) \<in> {(S_Upcoming, S_Active), (S_Active, S_Completed)})
              E_InvalidStatusTransition) (
     thenE (update_event event_id (event\<lparr>ev_status := new_status\<rparr>)) (
     emit_status_changed env event_id (ev_status event) new_status)))"

definition cancel_event_ev :: "'w env \<Rightarrow> address \<Rightarrow> symbol \<Rightarrow> ('w, unit) event_call" where
  "cancel_event_ev env organizer event_id =
     bindE (organizer_event env organizer event_id) (\<lambda>event.
     thenE (ensure (ev_status event \<notin> {S_Completed, S_Cancelled}) E_InvalidStatusTransition) (
     thenE (update_event event_id (event\<lparr>ev_status := S_Cancelled\<rparr>)) (
     thenE (emit_status_changed env event_id (ev_status event) S_Cancelled) (
     bindE (gets (\<lambda>s. get_event_privacy_ev s event_id)) (\<lambda>privacy.
     thenE (emit_ev (EventCancelled event_id (mask_address env organizer privacy)
              (ledger_timestamp env))) (
     when_linked (\<lambda>payments_contract.
       call_payments (cancel_event (callee env payments_contract) event_id organizer))))))))"

definition postpone_event_ev ::
    "'w env \<Rightarrow> address \<Rightarrow> symbol \<Rightarrow> nat \<Rightarrow> nat \<Rightarrow> ('w, unit) event_call" where
  "postpone_event_ev env organizer event_id new_date_ledger choice_window_ledgers =
     bindE (organizer_event env organizer event_id) (\<lambda>event.
     thenE (ensure (ev_status event = S_Active) E_InvalidStatusTransition) (
     bindE (gets (\<lambda>s. get_postpone_count s event_id)) (\<lambda>count.
     thenE (ensure (\<not> count \<ge> MAX_POSTPONEMENTS) E_MaxPostponementsReached) (
     thenE (ensure (\<not> choice_window_ledgers < MIN_POSTPONEMENT_CHOICE_WINDOW_LEDGERS)
              E_PostponementWindowTooShort) (
     thenE (ensure (\<not> choice_window_ledgers > MAX_POSTPONEMENT_CHOICE_WINDOW_LEDGERS)
              E_InvalidPostponementDate) (
     thenE (ensure (\<not> new_date_ledger > u32_max) E_InvalidPostponementDate) (
     bindE (ok_or (checked_add_u32 (ledger_sequence env) choice_window_ledgers)
              E_InvalidPostponementDate) (\<lambda>choice_deadline_ledger.
     thenE (ensure (\<not> new_date_ledger \<le> choice_deadline_ledger) E_InvalidPostponementDate) (
     thenE (update_event event_id (event\<lparr>ev_status := S_Postponed\<rparr>)) (
     bindE (u32 (count + 1)) (\<lambda>postpone_count.
     thenE (set_postpone_count event_id postpone_count) (
     thenE (set_postponement event_id \<lparr>po_new_date_ledger = new_date_ledger,
              po_choice_deadline_ledger = choice_deadline_ledger\<rparr>) (
     thenE (emit_status_changed env event_id (ev_status event) S_Postponed) (
     thenE (emit_ev (EventPostponed event_id new_date_ledger choice_deadline_ledger postpone_count
              (ledger_timestamp env))) (
     when_linked (\<lambda>payments_contract.
       call_payments (postpone_event (callee env payments_contract) event_id organizer
         choice_deadline_ledger)))))))))))))))))"

definition finalize_postponement :: "'w env \<Rightarrow> address \<Rightarrow> symbol \<Rightarrow> ('w, unit) event_call" where
  "finalize_postponement env organizer event_id =
     bindE (organizer_event env organizer event_id) (\<lambda>event0.
     thenE (ensure (ev_status event0 = S_Postponed) E_EventNotPostponed) (
     bindE (gets (\<lambda>s. ek_Postponement s event_id)) (\<lambda>p.
     bindE (ok_or p E_EventNotPostponed) (\<lambda>info.
     thenE (ensure (\<not> ledger_sequence env \<le> po_choice_deadline_ledger info)
              E_PostponementWindowOpen) (
     let duration = ev_event_end_ledger event0 - ev_event_start_ledger event0;
         new_start_ledger = po_new_date_ledger info in
     thenE (ensure (new_start_ledger \<le> u32_max) E_InvalidPostponementDate) (
     bindE (ok_or (checked_add_u32 new_start_ledger duration) E_InvalidPostponementDate)
       (\<lambda>new_end_ledger.
     let event = event0\<lparr>ev_event_start_ledger := new_start_ledger,
           ev_event_end_ledger := new_end_ledger, ev_status := S_Active\<rparr> in
     thenE (update_event event_id event) (
     thenE (remove_postponement event_id) (
     thenE (emit_status_changed env event_id S_Postponed S_Active) (
     thenE (emit_ev (EventResumed event_id new_start_ledger new_end_ledger
              (ledger_timestamp env))) (
     when_linked (\<lambda>payments_contract.
       thenE (sync_config env payments_contract event_id event) (
       call_payments (resume_event (callee env payments_contract) event_id
         (ev_organizer event)))))))))))))))"

definition get_postponement :: "symbol \<Rightarrow> ('w, postponement_info) event_call" where
  "get_postponement event_id =
     thenE (get_event event_id) (
     bindE (gets (\<lambda>s. ek_Postponement s event_id)) (\<lambda>p. ok_or p E_EventNotPostponed))"

section \<open>Configuration\<close>

definition set_event_privacy_ev ::
    "'w env \<Rightarrow> address \<Rightarrow> symbol \<Rightarrow> privacy_level \<Rightarrow> ('w, unit) event_call" where
  "set_event_privacy_ev env organizer event_id level =
     thenE (organizer_event env organizer event_id) (put_event_privacy_ev event_id level)"

definition set_claim_settings ::
    "'w env \<Rightarrow> address \<Rightarrow> symbol \<Rightarrow> nat \<Rightarrow> nat \<Rightarrow> ('w, unit) event_call" where
  "set_claim_settings env organizer event_id max_free_claims cooldown_secs =
     thenE (organizer_event env organizer event_id) (
     put_claim_settings event_id
       \<lparr>cs_max_free_claims = max_free_claims, cs_cooldown_secs = cooldown_secs\<rparr>)"

definition set_anonymous_claim_verifier ::
    "'w env \<Rightarrow> address \<Rightarrow> address \<Rightarrow> ('w, unit) event_call" where
  "set_anonymous_claim_verifier env admin verifier =
     thenE (require_auth env admin) (
     bindE get_admin_ev (\<lambda>stored.
     thenE (ensure (stored = admin) E_Unauthorized) (
     bindE (gets ek_AnonymousClaimVerifier) (\<lambda>configured.
     thenE (ensure (configured = None) E_AnonymousClaimVerifierAlreadyConfigured) (
     put_anonymous_claim_verifier verifier)))))"

definition set_anon_claim_settings ::
    "'w env \<Rightarrow> address \<Rightarrow> symbol \<Rightarrow> nat \<Rightarrow> nat \<Rightarrow> ('w, unit) event_call" where
  "set_anon_claim_settings env organizer event_id max_anon_claims_per_window anon_window_size =
     thenE (organizer_event env organizer event_id) (
     put_anon_claim_settings event_id
       \<lparr>as_max_anon_claims_per_window = max_anon_claims_per_window,
        as_anon_window_size = anon_window_size\<rparr>)"

definition set_zk_config ::
    "'w env \<Rightarrow> address \<Rightarrow> symbol \<Rightarrow> zk_verification_config \<Rightarrow> ('w, unit) event_call" where
  "set_zk_config env organizer event_id config =
     thenE (organizer_event env organizer event_id) (set_zk_verification_config event_id config)"

definition migrate_ev :: "'w env \<Rightarrow> address \<Rightarrow> ('w, nat) event_call" where
  "migrate_ev env admin =
     thenE (require_auth env admin) (
     bindE get_admin_ev (\<lambda>current_admin.
     thenE (ensure (current_admin = admin) E_Unauthorized) (
     bindE (gets get_contract_version_ev) (\<lambda>current_version.
     bindE (u32 (current_version + 1)) (\<lambda>new_version.
     thenE (if current_version = 0 then set_contract_version_ev 1
            else if current_version = 1 then set_contract_version_ev 2
            else if current_version = 2 then set_contract_version_ev 3
            else throw E_UnsupportedVersion) (
     return new_version))))))"

section \<open>Revenue\<close>

definition withdraw_revenue_ev :: "'w env \<Rightarrow> address \<Rightarrow> symbol \<Rightarrow> ('w, unit) event_call" where
  "withdraw_revenue_ev env organizer event_id =
     bindE (organizer_event env organizer event_id) (\<lambda>event.
     thenE (ensure (ev_status event = S_Completed) E_InvalidStatusTransition) (
     bindE get_payments_contract_ev (\<lambda>payments_contract.
     call_payments (withdraw_revenue (callee env payments_contract) event_id organizer))))"

definition withdraw_split_ev :: "'w env \<Rightarrow> address \<Rightarrow> symbol \<Rightarrow> ('w, unit) event_call" where
  "withdraw_split_ev env recipient event_id =
     thenE (require_auth env recipient) (
     thenE (get_event event_id) (
     bindE get_payments_contract_ev (\<lambda>payments_contract.
     call_payments (withdraw_split (callee env payments_contract) recipient event_id))))"

definition flag_cohost_ev ::
    "'w env \<Rightarrow> address \<Rightarrow> symbol \<Rightarrow> address \<Rightarrow> ('w, unit) event_call" where
  "flag_cohost_ev env primary_organizer event_id recipient =
     thenE (organizer_event env primary_organizer event_id) (
     bindE get_payments_contract_ev (\<lambda>payments_contract.
     call_payments (flag_cohost (callee env payments_contract) primary_organizer event_id
       recipient)))"

end
