(* ===== verification/Event_Tickets.thy ===== *)
theory Event_Tickets
  imports Event_Contract
begin

text \<open>
  The event contract's entry points around tickets (\<^verbatim>\<open>lib.rs\<close>): reservations, single and batch
  registration with payment and minting, refunds of a postponed event, anonymous claims behind a
  proof verifier, and zkPassport attendance.
\<close>

section \<open>Reservations\<close>

text \<open>Give back the seat that a reservation holds in its tier.\<close>

definition release_seat :: "reservation \<Rightarrow> event \<Rightarrow> ('w, event) event_call" where
  "release_seat reservation event =
     bindE (require_tier event (rv_tier_id reservation)) (\<lambda>(i, tier).
     return (event\<lparr>ev_tiers := (ev_tiers event)[i := tier\<lparr>tt_reserved := tt_reserved tier - 1\<rparr>]\<rparr>))"

definition reserve_seat ::
    "'w env \<Rightarrow> address \<Rightarrow> symbol \<Rightarrow> nat \<Rightarrow> event \<Rightarrow> ('w, unit) event_call" where
  "reserve_seat env attendee event_id tier_id event =
     bindE (require_tier event tier_id) (\<lambda>(index, tier).
     bindE (u32 (tt_sold tier + tt_reserved tier)) (\<lambda>taken.
     thenE (ensure (\<not> taken \<ge> tt_capacity tier) E_TierSoldOut) (
     bindE (u64 (ledger_timestamp env + 900)) (\<lambda>expires_at.
     thenE (save_reservation event_id attendee
              \<lparr>rv_tier_id = tier_id, rv_expires_at = expires_at\<rparr>) (
     bindE (u32 (tt_reserved tier + 1)) (\<lambda>reserved.
     save_event event_id
       (event\<lparr>ev_tiers := (ev_tiers event)[index := tier\<lparr>tt_reserved := reserved\<rparr>]\<rparr>)))))))"

definition reserve_ticket ::
    "'w env \<Rightarrow> address \<Rightarrow> symbol \<Rightarrow> nat \<Rightarrow> bytes32 option \<Rightarrow> ('w, unit) event_call" where
  "reserve_ticket env attendee event_id tier_id email_hash =
     thenE (require_auth env attendee) (
     bindE (get_event event_id) (\<lambda>event.
     thenE (ensure (ev_status event = S_Active) E_EventNotActive) (
     bindE (gets (\<lambda>s. is_registered s event_id attendee)) (\<lambda>registered.
     thenE (ensure (\<not> registered) E_AlreadyRegistered) (
     bindE (gets (\<lambda>s. has_reservation s event_id attendee)) (\<lambda>has_res.
     if has_res then
       bindE (get_reservation event_id attendee) (\<lambda>reservation.
       if rv_expires_at reservation > ledger_timestamp env then return ()
       else bindE (release_seat reservation event) (reserve_seat env attendee event_id tier_id))
     else reserve_seat env attendee event_id tier_id event))))))"

definition release_expired_reservation ::
    "'w env \<Rightarrow> symbol \<Rightarrow> address \<Rightarrow> ('w, unit) event_call" where
  "release_expired_reservation env event_id attendee =
     bindE (get_reservation event_id attendee) (\<lambda>reservation.
     thenE (ensure (\<not> rv_expires_at reservation > ledger_timestamp env) E_InvalidInput) (
     bindE (get_event event_id) (\<lambda>event0.
     bindE (release_seat reservation event0) (\<lambda>event.
     thenE (remove_reservation event_id attendee) (
     save_event event_id event)))))"

section \<open>Registration\<close>

definition require_settleable_privacy :: "symbol \<Rightarrow> ('w, unit) event_call" where
  "require_settleable_privacy event_id =
     bindE (gets (\<lambda>s. get_event_privacy_ev s event_id)) (\<lambda>level.
     ensure (level = Standard) E_PaymentPrivacyUnsupported)"

text \<open>The limits on free tickets, for \<open>count\<close> further claims.\<close>

definition check_free_claims ::
    "'w env \<Rightarrow> symbol \<Rightarrow> address \<Rightarrow> (nat \<Rightarrow> nat \<Rightarrow> ('w, bool) event_call) \<Rightarrow>
     ('w, unit) event_call" where
  "check_free_claims env event_id attendee over =
     bindE (gets (\<lambda>s. get_claim_settings s event_id)) (\<lambda>settings.
     thenE (whenE (cs_max_free_claims settings > 0) (
              bindE (gets (\<lambda>s. get_free_claim_count s event_id attendee)) (\<lambda>count.
              bindE (over count (cs_max_free_claims settings)) (\<lambda>exceeded.
              ensure (\<not> exceeded) E_ClaimLimitExceeded)))) (
     whenE (cs_cooldown_secs settings > 0) (
       bindE (gets (\<lambda>s. get_last_free_claim s event_id attendee)) (\<lambda>last_claim.
       whenE (last_claim > 0) (
         bindE (u64 (last_claim + cs_cooldown_secs settings)) (\<lambda>until.
         ensure (\<not> ledger_timestamp env < until) E_ClaimCooldownActive))))))"

text \<open>A reservation held by the caller must be for the tier and unexpired.\<close>

definition check_reservation ::
    "'w env \<Rightarrow> symbol \<Rightarrow> address \<Rightarrow> nat \<Rightarrow> bool \<Rightarrow> ('w, unit) event_call" where
  "check_reservation env event_id attendee tier_id has_res =
     whenE has_res (
       bindE (get_reservation event_id attendee) (\<lambda>reservation.
       thenE (ensure (\<not> rv_expires_at reservation < ledger_timestamp env) E_ReservationExpired) (
       ensure (rv_tier_id reservation = tier_id) E_InvalidInput)))"

definition charge ::
    "'w env \<Rightarrow> address \<Rightarrow> nat \<Rightarrow> address \<Rightarrow> symbol \<Rightarrow> int \<Rightarrow> bytes32 option \<Rightarrow>
     ('w, nat) event_call" where
  "charge env payments_contract nonce payer event_id amount email_hash =
     bindE (call_payments get_accepted_token) (\<lambda>token.
     call_payments (pay_for_ticket (callee env payments_contract) nonce payer event_id amount
       email_hash token P_Standard None None))"

definition emit_registration ::
    "'w env \<Rightarrow> symbol \<Rightarrow> address \<Rightarrow> nat \<Rightarrow> nat \<Rightarrow> ('w, unit) event_call" where
  "emit_registration env event_id attendee tier_id tickets_sold =
     bindE (gets (\<lambda>s. get_event_privacy_ev s event_id)) (\<lambda>privacy.
     emit_ev (EventRegistration event_id (mask_address env attendee privacy) tier_id tickets_sold
       (ledger_timestamp env)))"

text \<open>
  The checks of a registration before any write: the result is the index of the tier, the tier,
  and whether the caller holds a reservation.
\<close>

definition check_registration ::
    "'w env \<Rightarrow> address \<Rightarrow> symbol \<Rightarrow> nat \<Rightarrow> event \<Rightarrow>
     ('w, nat \<times> ticket_tier \<times> bool) event_call" where
  "check_registration env attendee event_id tier_id event =
     thenE (ensure (ev_status event = S_Active) E_EventNotActive) (
     thenE (require_settleable_privacy event_id) (
     thenE (case find_tier (ev_tiers event) tier_id of
              None \<Rightarrow> return ()
            | Some i \<Rightarrow> whenE (tt_price (ev_tiers event ! i) = 0)
                (check_free_claims env event_id attendee (\<lambda>count limit. return (count \<ge> limit)))) (
     bindE (gets (\<lambda>s. is_registered s event_id attendee)) (\<lambda>registered.
     thenE (ensure (\<not> registered) E_AlreadyRegistered) (
     bindE (gets (\<lambda>s. has_reservation s event_id attendee)) (\<lambda>has_res.
     thenE (check_reservation env event_id attendee tier_id has_res) (
     bindE (require_tier event tier_id) (\<lambda>(index, tier).
     thenE (ensure (\<not> ev_sold_count event \<ge> ev_max_supply event) E_EventSoldOut) (
     thenE (whenE (\<not> has_res) (
              bindE (u32 (tt_sold tier + tt_reserved tier)) (\<lambda>taken.
              ensure (\<not> taken \<ge> tt_capacity tier) E_TierSoldOut))) (
     return (index, tier, has_res)))))))))))"

definition register_for_event ::
    "'w env \<Rightarrow> nat \<Rightarrow> address \<Rightarrow> symbol \<Rightarrow> nat \<Rightarrow> bool \<Rightarrow> bytes32 option \<Rightarrow>
     ('w, unit) event_call" where
  "register_for_event env nonce attendee event_id tier_id is_verified email_hash =
     thenE (require_auth env attendee) (
     bindE (get_event event_id) (\<lambda>event.
     bindE (check_registration env attendee event_id tier_id event) (\<lambda>(index, tier0, has_res).
     bindE get_payments_contract_ev (\<lambda>payments_contract.
     bindE get_ticket_contract_ev (\<lambda>ticket_contract.
     thenE (whenE (tt_price tier0 > 0) (
              thenE (charge env payments_contract nonce attendee event_id (tt_price tier0)
                email_hash) (return ()))) (
     thenE (call_ticket (mint_ticket (callee env ticket_contract) (ev_event_id event)
              (ev_organizer event) attendee)) (
     thenE (save_registration event_id attendee) (
     bindE (if has_res then
              thenE (remove_reservation event_id attendee) (
              return (tier0\<lparr>tt_reserved := tt_reserved tier0 - 1\<rparr>))
            else return tier0) (\<lambda>tier1.
     thenE (whenE (tt_price tier1 = 0) (
              thenE (increment_free_claim_count event_id attendee) (
              set_last_free_claim event_id attendee (ledger_timestamp env)))) (
     bindE (u32 (tt_sold tier1 + 1)) (\<lambda>sold.
     bindE (u32 (ev_sold_count event + 1)) (\<lambda>sold_count.
     let tier = tier1\<lparr>tt_sold := sold\<rparr> in
     thenE (update_event event_id (event\<lparr>ev_sold_count := sold_count,
              ev_tiers := (ev_tiers event)[index := tier]\<rparr>)) (
     emit_registration env event_id attendee tier_id (tt_sold tier))))))))))))))"

text \<open>The number of tickets of the event that an address holds, by one call per ticket.\<close>

fun count_event_tickets :: "nat list \<Rightarrow> symbol \<Rightarrow> nat \<Rightarrow> ('w, nat) event_call" where
  "count_event_tickets [] event_id count = return count"
| "count_event_tickets (tid # tids) event_id count =
     bindE (call_ticket (get_ticket_tk tid)) (\<lambda>minted.
     if t_event_id minted = event_id then
       bindE (u32 (count + 1)) (count_event_tickets tids event_id)
     else count_event_tickets tids event_id count)"

definition count_user_event_tickets :: "address \<Rightarrow> symbol \<Rightarrow> ('w, nat) event_call" where
  "count_user_event_tickets attendee event_id =
     bindE (call_ticket (gets (\<lambda>s. get_tickets_by_owner s attendee))) (\<lambda>tids.
     count_event_tickets tids event_id 0)"

definition check_batch ::
    "'w env \<Rightarrow> address \<Rightarrow> symbol \<Rightarrow> nat \<Rightarrow> nat \<Rightarrow> event \<Rightarrow>
     ('w, nat \<times> ticket_tier \<times> bool) event_call" where
  "check_batch env attendee event_id tier_id count event =
     thenE (ensure (ev_status event = S_Active) E_EventNotActive) (
     thenE (require_settleable_privacy event_id) (
     bindE (require_tier event tier_id) (\<lambda>(index, tier).
     bindE (gets (\<lambda>s. has_reservation s event_id attendee)) (\<lambda>has_res.
     thenE (check_reservation env event_id attendee tier_id has_res) (
     thenE get_ticket_contract_ev (
     thenE (whenE (ev_max_tickets_per_user event > 0) (
              bindE (count_user_event_tickets attendee event_id) (\<lambda>existing_tickets.
              bindE (u32 (existing_tickets + count)) (\<lambda>held.
              ensure (\<not> held > ev_max_tickets_per_user event) E_InvalidInput)))) (
     bindE (u32 (ev_sold_count event + count)) (\<lambda>total_sold.
     thenE (ensure (\<not> total_sold > ev_max_supply event) E_EventSoldOut) (
     let reserved = (if has_res then tt_reserved tier - 1 else tt_reserved tier) in
     bindE (u32 (tt_sold tier + reserved)) (\<lambda>taken.
     bindE (u32 (taken + count)) (\<lambda>wanted.
     thenE (ensure (\<not> wanted > tt_capacity tier) E_TierSoldOut) (
     thenE (whenE (tt_price tier = 0) (check_free_claims env event_id attendee
              (\<lambda>existing limit. bindE (u32 (existing + count)) (\<lambda>n. return (n > limit))))) (
     return (index, tier, has_res))))))))))))))"

definition batch_register_for_event ::
    "'w env \<Rightarrow> nat \<Rightarrow> address \<Rightarrow> symbol \<Rightarrow> nat \<Rightarrow> nat \<Rightarrow> bool \<Rightarrow> bytes32 option \<Rightarrow>
     ('w, unit) event_call" where
  "batch_register_for_event env nonce attendee event_id tier_id count is_verified email_hash =
     thenE (require_auth env attendee) (
     thenE (ensure (\<not> (count = 0 \<or> count > 100)) E_InvalidInput) (
     bindE (get_event event_id) (\<lambda>event.
     bindE (check_batch env attendee event_id tier_id count event) (\<lambda>(index, tier, has_res).
     bindE get_payments_contract_ev (\<lambda>payments_contract.
     thenE (whenE (tt_price tier > 0) (
              bindE (i128 (tt_price tier * int count)) (\<lambda>amount.
              thenE (charge env payments_contract nonce attendee event_id amount email_hash) (
              return ())))) (
     bindE get_ticket_contract_ev (\<lambda>ticket_contract.
     thenE (call_ticket (batch_mint_ticket (callee env ticket_contract) (ev_event_id event)
              (ev_organizer event) attendee count)) (
     bindE (gets (\<lambda>s. is_registered s event_id attendee)) (\<lambda>registered.
     thenE (whenE (\<not> registered) (save_registration event_id attendee)) (
     thenE (whenE (tt_price tier = 0) (
              thenE (for_each (\<lambda>_. increment_free_claim_count event_id attendee) [0..<count]) (
              set_last_free_claim event_id attendee (ledger_timestamp env)))) (
     thenE (whenE has_res (remove_reservation event_id attendee)) (
     bindE (u32 (tt_sold tier + count)) (\<lambda>sold.
     let updated_tier = tier\<lparr>tt_sold := sold,
           tt_reserved := (if has_res then tt_reserved tier - 1 else tt_reserved tier)\<rparr> in
     bindE (u32 (ev_sold_count event + count)) (\<lambda>sold_count.
     thenE (update_event event_id (event\<lparr>ev_sold_count := sold_count,
              ev_tiers := (ev_tiers event)[index := updated_tier]\<rparr>)) (
     emit_registration env event_id attendee tier_id (tt_sold updated_tier))))))))))))))))"

section \<open>Attendee lists\<close>

definition attendees_page ::
    "symbol \<Rightarrow> nat \<Rightarrow> nat \<Rightarrow> ('w, address list) event_call" where
  "attendees_page event_id start limit =
     thenE (get_event event_id) (
     bindE (gets (\<lambda>s. get_event_privacy_ev s event_id)) (\<lambda>privacy.
     case privacy of
       Standard \<Rightarrow> gets (\<lambda>s. get_attendees_paginated s event_id start limit)
     | Private \<Rightarrow> throw E_UnauthorizedPrivateAccess
     | Anonymous \<Rightarrow> return []))"

definition get_org_attendees_paginated ::
    "'w env \<Rightarrow> address \<Rightarrow> symbol \<Rightarrow> nat \<Rightarrow> nat \<Rightarrow> ('w, address list) event_call" where
  "get_org_attendees_paginated env organizer event_id start limit =
     thenE (organizer_event env organizer event_id) (
     gets (\<lambda>s. get_attendees_paginated s event_id start limit))"

section \<open>Refunds of a postponed event\<close>

text \<open>The first of the tickets that is valid, unused and for the event.\<close>

fun find_valid_ticket :: "nat list \<Rightarrow> symbol \<Rightarrow> ('w, nat option) event_call" where
  "find_valid_ticket [] event_id = return None"
| "find_valid_ticket (tid # tids) event_id =
     bindE (call_ticket (get_ticket_tk tid)) (\<lambda>minted.
     if t_event_id minted = event_id \<and> \<not> t_is_used minted \<and> t_status minted = Valid
     then return (Some tid) else find_valid_ticket tids event_id)"

definition request_postponement_refund_ev ::
    "'w env \<Rightarrow> address \<Rightarrow> nat \<Rightarrow> ('w, unit) event_call" where
  "request_postponement_refund_ev env attendee ticket_id =
     thenE (require_auth env attendee) (
     bindE get_payments_contract_ev (\<lambda>payments_contract.
     bindE (call_payments (get_ticket ticket_id)) (\<lambda>ticket.
     let event_id = pt_event_id ticket in
     bindE (get_event event_id) (\<lambda>event.
     thenE (ensure (ev_status event = S_Postponed) E_EventNotPostponed) (
     bindE get_ticket_contract_ev (\<lambda>ticket_contract.
     bindE (call_ticket (gets (\<lambda>s. get_tickets_by_owner s attendee))) (\<lambda>tids.
     bindE (find_valid_ticket tids event_id) (\<lambda>found.
     bindE (ok_or found E_NoRefundableTicket) (\<lambda>revocable.
     thenE (call_payments (request_postponement_refund (callee env payments_contract) attendee
              ticket_id)) (
     thenE (call_ticket (cancel_ticket (callee env ticket_contract) revocable attendee)) (
     bindE (call_ticket (gets (\<lambda>s. get_tickets_by_owner s attendee))) (\<lambda>left.
     bindE (find_valid_ticket left event_id) (\<lambda>other.
     whenE (other = None) (modify (remove_registration event_id attendee)))))))))))))))"

section \<open>Anonymous claims\<close>

definition ANONYMOUS_CLAIM_DOMAIN :: bytes where
  "ANONYMOUS_CLAIM_DOMAIN = map (\<lambda>c. of_nat (of_char c)) ''zicket:anonymous-ticket-claim:v1''"

definition anonymous_claim_scope :: "'w env \<Rightarrow> symbol \<Rightarrow> bytes32" where
  "anonymous_claim_scope env event_id =
     (let preimage = ANONYMOUS_CLAIM_DOMAIN @ network_id env
            @ to_xdr env (VAddress (current_contract_address env))
            @ to_xdr env (VSymbol event_id);
          digest = sha256 env preimage
      in replicate 16 0 @ drop 16 digest)"

definition u32_be_bytes :: "nat \<Rightarrow> bytes" where
  "u32_be_bytes n = map (\<lambda>k. of_nat (n div 256 ^ k)) [3, 2, 1, 0]"

definition append_u32_field :: "bytes \<Rightarrow> nat \<Rightarrow> bytes" where
  "append_u32_field bytes value = bytes @ replicate 28 0 @ u32_be_bytes value"

definition anonymous_claim_public_inputs ::
    "'w env \<Rightarrow> symbol \<Rightarrow> nat \<Rightarrow> anonymous_ticket_claim \<Rightarrow> bytes" where
  "anonymous_claim_public_inputs env event_id tier_id claim =
     append_u32_field (append_u32_field (anonymous_claim_scope env event_id) tier_id)
       (ac_expiry_ledger claim)
     @ ac_nullifier claim @ ac_ticket_commitment claim"

text \<open>One more claim in the current window, when the event limits them.\<close>

definition count_window_claim :: "'w env \<Rightarrow> symbol \<Rightarrow> ('w, unit) event_call" where
  "count_window_claim env event_id =
     bindE (gets (\<lambda>s. get_anon_claim_settings s event_id)) (\<lambda>settings.
     whenE (as_max_anon_claims_per_window settings > 0 \<and> as_anon_window_size settings > 0) (
       let current_window = ledger_sequence env div as_anon_window_size settings in
       bindE (gets (\<lambda>s. get_anon_window_state s event_id)) (\<lambda>stored.
       let state = (if aw_window_index stored \<noteq> current_window
                    then \<lparr>aw_window_index = current_window, aw_count = 0\<rparr> else stored) in
       thenE (ensure (\<not> aw_count state \<ge> as_max_anon_claims_per_window settings)
                E_AnonClaimWindowFull) (
       bindE (u32 (aw_count state + 1)) (\<lambda>n.
       set_anon_window_state event_id (state\<lparr>aw_count := n\<rparr>))))))"

text \<open>
  The verifier is whatever contract the administrator configured: \<open>verify addr proof inputs\<close> is
  the result of calling it, None when the call fails.
\<close>

type_synonym claim_verifier = "address \<Rightarrow> bytes \<Rightarrow> bytes \<Rightarrow> bool option"

definition check_anonymous_claim ::
    "'w env \<Rightarrow> claim_verifier \<Rightarrow> symbol \<Rightarrow> nat \<Rightarrow> anonymous_ticket_claim \<Rightarrow> event \<Rightarrow>
     ('w, nat \<times> ticket_tier) event_call" where
  "check_anonymous_claim env verify event_id tier_id claim event =
     thenE (ensure (ev_status event = S_Active) E_EventNotActive) (
     thenE (ensure (ev_allow_anonymous event) E_AnonymousClaimsNotEnabled) (
     thenE (ensure (\<not> ac_expiry_ledger claim < ledger_sequence env) E_AnonymousProofExpired) (
     thenE (ensure (\<not> ac_expiry_ledger claim
              > saturating_add_u32 (ledger_sequence env) MAX_ANONYMOUS_PROOF_TTL_LEDGERS)
              E_AnonymousProofExpiryTooFar) (
     bindE (require_tier event tier_id) (\<lambda>(index, tier).
     thenE (ensure (tt_price tier = 0) E_InvalidInput) (
     thenE (ensure (\<not> ev_sold_count event \<ge> ev_max_supply event) E_EventSoldOut) (
     bindE (u32 (tt_sold tier + tt_reserved tier)) (\<lambda>taken.
     thenE (ensure (\<not> taken \<ge> tt_capacity tier) E_TierSoldOut) (
     thenE (count_window_claim env event_id) (
     bindE get_anonymous_claim_verifier (\<lambda>verifier.
     thenE (ensure (verify verifier (ac_proof claim)
                (anonymous_claim_public_inputs env event_id tier_id claim) = Some True)
              E_AnonymousProofInvalid) (
     return (index, tier)))))))))))))"

definition claim_anonymous_ticket ::
    "'w env \<Rightarrow> claim_verifier \<Rightarrow> symbol \<Rightarrow> nat \<Rightarrow> anonymous_ticket_claim \<Rightarrow>
     ('w, unit) event_call" where
  "claim_anonymous_ticket env verify event_id tier_id claim =
     bindE (get_event event_id) (\<lambda>event.
     bindE (gets (\<lambda>s. get_anonymous_ticket_commitment s event_id (ac_nullifier claim))) (\<lambda>stored.
     case stored of
       Some commitment \<Rightarrow>
         ensure (commitment = ac_ticket_commitment claim) E_AnonymousNullifierReused
     | None \<Rightarrow>
         bindE (check_anonymous_claim env verify event_id tier_id claim event) (\<lambda>(index, tier0).
         thenE (save_anonymous_ticket_commitment event_id (ac_nullifier claim)
                  (ac_ticket_commitment claim)) (
         bindE (u32 (tt_sold tier0 + 1)) (\<lambda>sold.
         bindE (u32 (ev_sold_count event + 1)) (\<lambda>sold_count.
         thenE (update_event event_id (event\<lparr>ev_sold_count := sold_count,
                  ev_tiers := (ev_tiers event)[index := tier0\<lparr>tt_sold := sold\<rparr>]\<rparr>)) (
         emit_ev (AnonEventRegistration event_id tier_id sold (ledger_timestamp env))))))))) "

section \<open>zkPassport attendance\<close>

definition check_zk_claim ::
    "'w env \<Rightarrow> symbol \<Rightarrow> nat \<Rightarrow> zk_passport_claim \<Rightarrow> event \<Rightarrow>
     ('w, nat \<times> ticket_tier) event_call" where
  "check_zk_claim env event_id tier_id claim event =
     thenE (ensure (ev_status event = S_Active) E_EventNotActive) (
     thenE (require_settleable_privacy event_id) (
     thenE (ensure (ev_requires_verification event) E_ZkVerificationRequired) (
     bindE (gets (\<lambda>s. get_zk_verification_config s event_id)) (\<lambda>zk_config.
     thenE (ensure (zv_enabled zk_config) E_ZkVerificationRequired) (
     thenE (ensure (\<not> zc_expiry_ledger claim < ledger_sequence env) E_ZkProofExpired) (
     thenE (ensure (\<not> (zv_required_claim_type zk_config \<noteq> Z_Any
              \<and> zc_claim_type claim \<noteq> zv_required_claim_type zk_config)) E_ZkClaimTypeMismatch) (
     bindE (gets (\<lambda>s. has_zk_nullifier s event_id (zc_nullifier claim))) (\<lambda>reused.
     thenE (ensure (\<not> reused) E_ZkNullifierReused) (
     bindE (require_tier event tier_id) (\<lambda>(index, tier).
     thenE (ensure (\<not> ev_sold_count event \<ge> ev_max_supply event) E_EventSoldOut) (
     bindE (u32 (tt_sold tier + tt_reserved tier)) (\<lambda>taken.
     thenE (ensure (\<not> taken \<ge> tt_capacity tier) E_TierSoldOut) (
     return (index, tier))))))))))))))"

definition verify_and_attend ::
    "'w env \<Rightarrow> symbol \<Rightarrow> nat \<Rightarrow> zk_passport_claim \<Rightarrow> ('w, unit) event_call" where
  "verify_and_attend env event_id tier_id claim =
     bindE (get_event event_id) (\<lambda>event.
     bindE (check_zk_claim env event_id tier_id claim event) (\<lambda>(index, tier0).
     thenE (whenE (tt_price tier0 > 0) (
              when_linked (\<lambda>payments_contract.
                thenE (charge env payments_contract 0 (current_contract_address env) event_id
                  (tt_price tier0) None) (return ())))) (
     bindE (gets has_linked_contracts) (\<lambda>linked.
     thenE (whenE linked (
              bindE get_ticket_contract_ev (\<lambda>ticket_contract.
              thenE (call_ticket (mint_ticket (callee env ticket_contract) (ev_event_id event)
                (ev_organizer event) (current_contract_address env))) (return ())))) (
     thenE (save_zk_nullifier event_id (zc_nullifier claim)) (
     bindE (u32 (tt_sold tier0 + 1)) (\<lambda>sold.
     bindE (u32 (ev_sold_count event + 1)) (\<lambda>sold_count.
     thenE (update_event event_id (event\<lparr>ev_sold_count := sold_count,
              ev_tiers := (ev_tiers event)[index := tier0\<lparr>tt_sold := sold\<rparr>]\<rparr>)) (
     emit_ev (ZkVerifiedAttendance event_id (zc_claim_type claim) tier_id sold
       (ledger_timestamp env)))))))))))"

end
