(* ===== verification/Event_Seats.thy ===== *)
theory Event_Seats
  imports Event_Tickets Payments_Machine Ticket_Invariant
begin

text \<open>
  The seats of an event: the invariant that ties the tiers' counters, the event's totals and the
  reservations together, the edges of the event's life cycle, and that every entry point of the
  event contract keeps both.
\<close>

section \<open>The invariant and the life cycle\<close>

definition supply_ok :: "event \<Rightarrow> bool" where
  "supply_ok ev \<longleftrightarrow>
     (\<forall>i<length (ev_tiers ev). tt_tier_id (ev_tiers ev ! i) = i \<and>
        tt_sold (ev_tiers ev ! i) + tt_reserved (ev_tiers ev ! i) \<le> tt_capacity (ev_tiers ev ! i)) \<and>
     ev_sold_count ev = (\<Sum>t\<leftarrow>ev_tiers ev. tt_sold t) \<and>
     ev_max_supply ev = (\<Sum>t\<leftarrow>ev_tiers ev. tt_capacity t) \<and>
     (ev_status ev = S_Upcoming \<longrightarrow> (\<forall>t\<in>set (ev_tiers ev). tt_sold t = 0 \<and> tt_reserved t = 0))"

text \<open>The number of reservations of an event in a tier.\<close>

definition held :: "(symbol \<times> address \<Rightarrow> reservation option) \<Rightarrow> symbol \<Rightarrow> nat \<Rightarrow> nat" where
  "held R e i = card {a. \<exists>r. R (e, a) = Some r \<and> rv_tier_id r = i}"

definition seats_ok :: "'w event_state \<Rightarrow> bool" where
  "seats_ok s \<longleftrightarrow>
     (\<forall>e ev. ek_Event s e = Some ev \<longrightarrow> supply_ok ev \<and>
        (\<forall>i<length (ev_tiers ev). tt_reserved (ev_tiers ev ! i) = held (ek_Reservation s) e i)) \<and>
     (\<forall>e. finite {a. ek_Reservation s (e, a) \<noteq> None}) \<and>
     (\<forall>e a r. ek_Reservation s (e, a) = Some r \<longrightarrow>
        (\<exists>ev. ek_Event s e = Some ev \<and> rv_tier_id r < length (ev_tiers ev)))"

definition status_edge :: "event_status_ev \<Rightarrow> event_status_ev \<Rightarrow> bool" where
  "status_edge a b \<longleftrightarrow> a = b \<or>
     (a, b) \<in> {(S_Upcoming, S_Active), (S_Active, S_Completed), (S_Active, S_Postponed),
       (S_Postponed, S_Active), (S_Upcoming, S_Cancelled), (S_Active, S_Cancelled),
       (S_Postponed, S_Cancelled)}"

text \<open>What one call may change of a stored event.\<close>

definition event_edge :: "event \<Rightarrow> event \<Rightarrow> bool" where
  "event_edge ev ev' \<longleftrightarrow> status_edge (ev_status ev) (ev_status ev') \<and>
     ev_event_id ev' = ev_event_id ev \<and> ev_organizer ev' = ev_organizer ev \<and>
     ev_payout_token ev' = ev_payout_token ev \<and> ev_created_at ev' = ev_created_at ev \<and>
     ev_revenue_splits ev' = ev_revenue_splits ev \<and>
     ev_withdrawal_delay_ledgers ev' = ev_withdrawal_delay_ledgers ev \<and>
     ev_sold_count ev \<le> ev_sold_count ev' \<and> length (ev_tiers ev) \<le> length (ev_tiers ev') \<and>
     (0 < ev_sold_count ev \<longrightarrow> ev_resale_royalty_bps ev' = ev_resale_royalty_bps ev \<and>
        ev_max_resale_price ev' = ev_max_resale_price ev)"

definition events_edge :: "'w event_state \<Rightarrow> 'w event_state \<Rightarrow> bool" where
  "events_edge s s' \<longleftrightarrow> (\<forall>e ev. ek_Event s e = Some ev \<longrightarrow>
     (\<exists>ev'. ek_Event s' e = Some ev' \<and> event_edge ev ev'))"

definition seats_step :: "'w event_state \<Rightarrow> 'w event_state \<Rightarrow> bool" where
  "seats_step s s' \<longleftrightarrow> (seats_ok s \<longrightarrow> seats_ok s' \<and> events_edge s s')"

lemma event_edge_refl [simp]: "event_edge ev ev"
  by (simp add: event_edge_def status_edge_def)

section \<open>Frames\<close>

definition same_seats :: "'w event_state \<Rightarrow> 'w event_state \<Rightarrow> bool" where
  "same_seats s s' \<longleftrightarrow> ek_Event s' = ek_Event s \<and> ek_Reservation s' = ek_Reservation s"

interpretation seats: history same_seats
  by unfold_locales (simp_all add: same_seats_def)

lemma same_seats_cong:
  assumes "same_seats s t"
  shows "seats_ok t = seats_ok s" and "events_edge r t = events_edge r s"
    and "held (ek_Reservation t) = held (ek_Reservation s)"
  using assms by (simp_all add: same_seats_def seats_ok_def events_edge_def)

lemma events_edge_refl [simp]: "events_edge s s"
  by (simp add: events_edge_def)

lemma same_seats_step: "same_seats s t \<Longrightarrow> seats_step s t"
  by (simp add: seats_step_def same_seats_cong)

lemma seats_step_same: "seats_step s t \<Longrightarrow> same_seats t u \<Longrightarrow> seats_step s u"
  by (simp add: seats_step_def same_seats_cong)

lemma wp_call_payments [wp_rules]:
  "wp (call_payments m) Q s = wp m (\<lambda>x p. Q x (s\<lparr>ek_payments := p\<rparr>)) (ek_payments s)"
  by (auto simp: wp_def call_payments_def split: sum.splits)

lemma wp_call_ticket [wp_rules]:
  "wp (call_ticket m) Q s = wp m (\<lambda>x t. Q x (s\<lparr>ek_ticket := t\<rparr>)) (ek_ticket s)"
  by (auto simp: wp_def call_ticket_def split: sum.splits)

lemma keeps_calls:
  assumes "\<And>s p. R s (s\<lparr>ek_payments := p\<rparr>)" and "\<And>s t. R s (s\<lparr>ek_ticket := t\<rparr>)"
  shows "keeps R (call_payments m)" and "keeps R (call_ticket k)" and "keeps R (try_call_ticket k)"
proof -
  have "R s s" for s using assms(2) [of s "ek_ticket s"] by simp
  then show "keeps R (call_payments m)" "keeps R (call_ticket k)" "keeps R (try_call_ticket k)"
    using assms
    by (auto simp: keeps_def wp_def call_payments_def call_ticket_def try_call_ticket_def exec
        split: sum.splits)
qed

text \<open>The storage operations that touch neither events nor reservations.\<close>

lemmas event_modify_defs =
  emit_ev_def save_registration_def set_admin_ev_def put_ticket_contract_ev_def
  put_payments_contract_ev_def set_contract_version_ev_def put_event_privacy_ev_def
  set_postponement_def remove_postponement_def set_postpone_count_def put_claim_settings_def
  increment_free_claim_count_def set_last_free_claim_def save_anon_commitment_def
  put_anonymous_claim_verifier_def save_anonymous_ticket_commitment_def
  put_anon_claim_settings_def set_anon_window_state_def save_zk_nullifier_def
  set_zk_verification_config_def

lemma registration_same_seats:
  "same_seats s (put_registration e a s)" "same_seats s (remove_registration e a s)"
  by (auto simp: same_seats_def put_registration_def remove_registration_def drop_attendee_def
      Let_def split: option.split)

lemma registration_keeps_seats:
  "keeps same_seats (save_registration e a)"
  "keeps same_seats (modify (remove_registration e a))"
  unfolding save_registration_def
  by (intro seats.keeps_rules keeps_modify registration_same_seats)+

lemma storage_keeps_seats:
  "keeps same_seats (emit_ev x)" "keeps same_seats (set_admin_ev a)"
  "keeps same_seats (put_ticket_contract_ev a)" "keeps same_seats (put_payments_contract_ev a)"
  "keeps same_seats (set_contract_version_ev n)" "keeps same_seats (put_event_privacy_ev e l)"
  "keeps same_seats (set_postponement e info)" "keeps same_seats (remove_postponement e)"
  "keeps same_seats (set_postpone_count e n)" "keeps same_seats (put_claim_settings e cs)"
  "keeps same_seats (increment_free_claim_count e a)" "keeps same_seats (set_last_free_claim e a n)"
  "keeps same_seats (save_anon_commitment e a h)" "keeps same_seats (put_anonymous_claim_verifier a)"
  "keeps same_seats (save_anonymous_ticket_commitment e h k)"
  "keeps same_seats (put_anon_claim_settings e acs)" "keeps same_seats (set_anon_window_state e w)"
  "keeps same_seats (save_zk_nullifier e h)" "keeps same_seats (set_zk_verification_config e z)"
  unfolding event_modify_defs
  by (intro seats.keeps_rules keeps_modify; simp add: same_seats_def)+

lemma keeps_map_err: "keeps R m \<Longrightarrow> keeps R (map_err f m)"
  by (auto simp: keeps_def wp_def map_err_def split: sum.splits failure.splits)

lemma keeps_splits: "keeps same_seats (check_splits before n sp)"
proof (induction before n sp rule: check_splits.induct)
  case (1 before tot)
  show ?case by (simp add: seats.pure_keeps)
next
  case (2 before tot r bps rest)
  then show ?case by (simp, intro seats.keeps_rules)
qed

lemma reads_keep_seats:
  "keeps same_seats get_admin_ev" "keeps same_seats get_ticket_contract_ev"
  "keeps same_seats get_payments_contract_ev" "keeps same_seats (get_event e)"
  "keeps same_seats (get_reservation e a)" "keeps same_seats get_anonymous_claim_verifier"
  "keeps same_seats (require_auth env a)" "keeps same_seats (organizer_event env a e)"
  "keeps same_seats (require_settleable_privacy e)" "keeps same_seats (require_tier ev i)"
  "keeps same_seats (validate_revenue_splits_ev sp a)"
  unfolding get_admin_ev_def get_ticket_contract_ev_def get_payments_contract_ev_def get_event_def
    get_reservation_def get_anonymous_claim_verifier_def require_auth_def organizer_event_def
    require_settleable_privacy_def require_tier_def validate_revenue_splits_ev_def
    validate_revenue_splits_def
  by (intro seats.keeps_rules keeps_map_err keeps_splits)+

lemmas calls_keep_seats = keeps_calls [of same_seats, simplified same_seats_def, simplified,
  folded same_seats_def]

lemma linked_keeps_seats: "(\<And>a. keeps same_seats (f a)) \<Longrightarrow> keeps same_seats (when_linked f)"
  unfolding when_linked_def by (intro seats.keeps_rules reads_keep_seats)

lemma checks_keep_seats:
  "keeps same_seats (sync_config env p e ev)" "keeps same_seats (charge env p n a e x h)"
  "keeps same_seats (emit_registration env e a i n)"
  "keeps same_seats (emit_status_changed env e st st')"
  "keeps same_seats (check_reservation env e a i b)"
  "keeps same_seats (count_window_claim env e)"
  unfolding sync_config_def charge_def emit_registration_def emit_status_changed_def
    check_reservation_def count_window_claim_def Let_def
  by (intro seats.keeps_rules calls_keep_seats storage_keeps_seats reads_keep_seats)+

lemma free_claims_keep_seats:
  "(\<And>x y. keeps same_seats (over x y)) \<Longrightarrow> keeps same_seats (check_free_claims env e a over)"
  unfolding check_free_claims_def by (intro seats.keeps_rules)

lemma ticket_reads_keep_seats:
  "keeps same_seats (count_event_tickets tids e n)" "keeps same_seats (find_valid_ticket tids e)"
  "keeps same_seats (count_user_event_tickets a e)"
proof -
  show count: "keeps same_seats (count_event_tickets tids e n)" for tids n
    by (induction tids e n rule: count_event_tickets.induct)
      (simp add: seats.pure_keeps, simp, intro seats.keeps_rules calls_keep_seats, blast+)
  show "keeps same_seats (find_valid_ticket tids e)"
    by (induction tids e rule: find_valid_ticket.induct)
      (simp add: seats.pure_keeps, simp, intro seats.keeps_rules calls_keep_seats, blast+)
  show "keeps same_seats (count_user_event_tickets a e)"
    unfolding count_user_event_tickets_def by (intro seats.keeps_rules calls_keep_seats count)
qed

lemmas seats_frames =
  registration_keeps_seats storage_keeps_seats reads_keep_seats calls_keep_seats linked_keeps_seats
  checks_keep_seats free_claims_keep_seats ticket_reads_keep_seats seats.keeps_rules

section \<open>Writing an event\<close>

definition in_tier :: "reservation option \<Rightarrow> nat \<Rightarrow> nat" where
  "in_tier ro i = (case ro of None \<Rightarrow> 0 | Some r \<Rightarrow> if rv_tier_id r = i then 1 else 0)"

lemma held_split:
  assumes "finite {a. R (e, a) \<noteq> None}"
  shows "held R e i = card {b. b \<noteq> a \<and> (\<exists>r. R (e, b) = Some r \<and> rv_tier_id r = i)} + in_tier (R (e, a)) i"
proof -
  let ?A = "{b. b \<noteq> a \<and> (\<exists>r. R (e, b) = Some r \<and> rv_tier_id r = i)}"
  have fin: "finite ?A" by (rule finite_subset [OF _ assms]) auto
  have "{b. \<exists>r. R (e, b) = Some r \<and> rv_tier_id r = i} =
      (if in_tier (R (e, a)) i = 1 then insert a ?A else ?A)"
    by (auto simp: in_tier_def split: option.splits if_splits)
  then show ?thesis
    using fin by (simp add: held_def in_tier_def split: option.splits)
qed

lemma held_upd:
  assumes "finite {a. R (e, a) \<noteq> None}"
  shows "held (R((e, a) := ro)) e i + in_tier (R (e, a)) i = held R e i + in_tier ro i"
proof -
  have "{b. (R((e, a) := ro)) (e, b) \<noteq> None} \<subseteq> insert a {b. R (e, b) \<noteq> None}" by auto
  then have fin: "finite {b. (R((e, a) := ro)) (e, b) \<noteq> None}"
    by (rule finite_subset) (use assms in simp)
  show ?thesis
    by (simp add: held_split [OF assms, of i a] held_split [OF fin, of i a] cong: conj_cong)
qed

lemma held_other: "e' \<noteq> e \<Longrightarrow> held (R((e, a) := ro)) e' i = held R e' i"
  by (simp add: held_def)

lemma seats_okD:
  assumes "seats_ok s"
  shows "ek_Event s e = Some ev \<Longrightarrow> supply_ok ev"
    and "ek_Event s e = Some ev \<Longrightarrow> i < length (ev_tiers ev) \<Longrightarrow>
      tt_reserved (ev_tiers ev ! i) = held (ek_Reservation s) e i"
    and "finite {a. ek_Reservation s (e, a) \<noteq> None}"
    and "ek_Reservation s (e, a) = Some r \<Longrightarrow>
      \<exists>ev. ek_Event s e = Some ev \<and> rv_tier_id r < length (ev_tiers ev)"
  using assms unfolding seats_ok_def by blast+

text \<open>
  A write of one event together with one reservation entry: the new event's reserved counters
  move with the entry.
\<close>

lemma seats_write:
  assumes ok: "seats_ok s" and ev: "ek_Event s e = Some ev"
    and E: "ek_Event t = (ek_Event s)(e \<mapsto> ev')"
    and R: "ek_Reservation t = (ek_Reservation s)((e, a) := ro)"
    and sup: "supply_ok ev'" and len: "length (ev_tiers ev) \<le> length (ev_tiers ev')"
    and fits: "\<And>r. ro = Some r \<Longrightarrow> rv_tier_id r < length (ev_tiers ev')"
    and res: "\<And>i. i < length (ev_tiers ev') \<Longrightarrow>
      tt_reserved (ev_tiers ev' ! i) + in_tier (ek_Reservation s (e, a)) i =
        held (ek_Reservation s) e i + in_tier ro i"
  shows "seats_ok t"
proof -
  have fin: "finite {b. ek_Reservation s (e', b) \<noteq> None}" for e'
    by (rule seats_okD(3) [OF ok])
  have held: "held (ek_Reservation t) e i + in_tier (ek_Reservation s (e, a)) i =
      held (ek_Reservation s) e i + in_tier ro i" for i
    unfolding R by (rule held_upd [OF fin])
  show ?thesis
    unfolding seats_ok_def
  proof (intro conjI allI impI)
    fix e' x assume x: "ek_Event t e' = Some x"
    show "supply_ok x" using x seats_okD(1) [OF ok] sup by (auto simp: E split: if_splits)
    fix i assume i: "i < length (ev_tiers x)"
    show "tt_reserved (ev_tiers x ! i) = held (ek_Reservation t) e' i"
    proof (cases "e' = e")
      case True
      then show ?thesis using res [of i] held [of i] x i by (simp add: E)
    next
      case False
      then show ?thesis using x i seats_okD(2) [OF ok] by (simp add: E R held_other)
    qed
  next
    fix e'
    have "{b. ek_Reservation t (e', b) \<noteq> None} \<subseteq> insert a {b. ek_Reservation s (e', b) \<noteq> None}"
      by (auto simp: R)
    then show "finite {b. ek_Reservation t (e', b) \<noteq> None}"
      by (rule finite_subset) (use fin in simp)
  next
    fix e' b r assume r: "ek_Reservation t (e', b) = Some r"
    show "\<exists>x. ek_Event t e' = Some x \<and> rv_tier_id r < length (ev_tiers x)"
    proof (cases "(e', b) = (e, a)")
      case True
      then show ?thesis using r fits by (simp add: E R)
    next
      case False
      then obtain x where "ek_Event s e' = Some x" "rv_tier_id r < length (ev_tiers x)"
        using r seats_okD(4) [OF ok, of e' b r] by (auto simp: R)
      then show ?thesis using ev len by (auto simp: E)
    qed
  qed
qed

text \<open>The same with the reservations unchanged.\<close>

lemma seats_write_event:
  assumes "seats_ok s" and "ek_Event s e = Some ev" and "same_seats s r"
    and "t = r\<lparr>ek_Event := (ek_Event r)(e \<mapsto> ev')\<rparr>" and "supply_ok ev'"
    and "length (ev_tiers ev) \<le> length (ev_tiers ev')"
    and "\<And>i. i < length (ev_tiers ev') \<Longrightarrow>
      tt_reserved (ev_tiers ev' ! i) = held (ek_Reservation s) e i"
  shows "seats_ok t"
proof -
  have R: "ek_Reservation t = (ek_Reservation s)((e, a) := ek_Reservation s (e, a))" for a
    using assms(3,4) by (simp add: same_seats_def)
  have E: "ek_Event t = (ek_Event s)(e \<mapsto> ev')"
    using assms(3,4) by (simp add: same_seats_def)
  show ?thesis
  proof (rule seats_write [OF assms(1,2) E R assms(5,6)])
    fix a r assume "ek_Reservation s (e, a) = Some r"
    then show "rv_tier_id r < length (ev_tiers ev')"
      using seats_okD(4) [OF assms(1)] assms(2,6) by fastforce
  qed (simp add: assms(7))
qed

lemma events_edge_write:
  assumes "ek_Event s e = Some ev" and "same_seats s r" and "event_edge ev ev'"
  shows "events_edge s (r\<lparr>ek_Event := (ek_Event r)(e \<mapsto> ev')\<rparr>)"
  using assms by (auto simp: events_edge_def same_seats_def)

section \<open>Tiers\<close>

lemma find_tier_indexed:
  "(\<And>i. i < length ts \<Longrightarrow> tt_tier_id (ts ! i) = k + i) \<Longrightarrow>
   find_tier ts n = (if k \<le> n \<and> n < k + length ts then Some (n - k) else None)"
proof (induction ts arbitrary: k)
  case (Cons t ts)
  have "find_tier ts n = (if Suc k \<le> n \<and> n < Suc k + length ts then Some (n - Suc k) else None)"
    by (rule Cons.IH) (use Cons.prems [of "Suc _"] in simp)
  then show ?case using Cons.prems [of 0] by auto
qed simp

lemma wpI_require_tier:
  assumes "supply_ok ev" and "n < length (ev_tiers ev) \<Longrightarrow> Q (n, ev_tiers ev ! n) s"
  shows "wp (require_tier ev n) Q s"
proof -
  have "find_tier (ev_tiers ev) n = (if n < length (ev_tiers ev) then Some n else None)"
    using find_tier_indexed [of "ev_tiers ev" 0 n] assms(1) by (simp add: supply_ok_def)
  then show ?thesis using assms(2) by (simp add: require_tier_def wp_rules)
qed

text \<open>Changing one tier of an event that is on sale.\<close>

lemma sum_update:
  fixes f :: "'x \<Rightarrow> nat"
  assumes "i < length xs"
  shows "(\<Sum>x\<leftarrow>xs[i := y]. f x) + f (xs ! i) = (\<Sum>x\<leftarrow>xs. f x) + f y"
  using assms
proof (induction xs arbitrary: i)
  case (Cons x xs)
  then show ?case by (cases i) (auto simp: algebra_simps)
qed simp

lemma supply_ok_tier:
  assumes "supply_ok ev" and "i < length (ev_tiers ev)" and "ev_status ev \<noteq> S_Upcoming"
    and "tt_tier_id tier = i" and "tt_capacity tier = tt_capacity (ev_tiers ev ! i)"
    and "tt_sold tier + tt_reserved tier \<le> tt_capacity tier"
    and "tt_sold tier = tt_sold (ev_tiers ev ! i) + n" and "m = ev_sold_count ev + n"
  shows "supply_ok (ev\<lparr>ev_sold_count := m, ev_tiers := (ev_tiers ev)[i := tier]\<rparr>)"
  using assms sum_update [OF assms(2), of tt_sold tier] sum_update [OF assms(2), of tt_capacity tier]
  by (auto simp: supply_ok_def nth_list_update)

end
