(* ===== verification/Event_Life.thy ===== *)
theory Event_Life
  imports Event_Seats
begin

text \<open>
  Every entry point of the event contract keeps the seat invariant and moves each stored event
  along an edge of its life cycle.
\<close>

section \<open>Rules for the entry points\<close>

lemma seats_jump:
  assumes "keeps same_seats m" and "same_seats r s" and "\<And>x s'. same_seats r s' \<Longrightarrow> Q x s'"
  shows "wp m Q s"
  by (rule wp_keeps [OF assms(1)]) (rule assms(3), rule seats.trans [OF assms(2)])

lemmas seats_jumps =
  registration_keeps_seats [THEN seats_jump] storage_keeps_seats [THEN seats_jump]
  reads_keep_seats [THEN seats_jump] calls_keep_seats [THEN seats_jump]
  checks_keep_seats [THEN seats_jump] ticket_reads_keep_seats [THEN seats_jump]
  linked_keeps_seats [THEN seats_jump] free_claims_keep_seats [THEN seats_jump]

lemma wpI_get_event:
  "same_seats r s \<Longrightarrow> (\<And>ev. ek_Event r e = Some ev \<Longrightarrow> Q ev s) \<Longrightarrow> wp (get_event e) Q s"
  by (simp add: get_event_def wp_rules same_seats_def)

lemma wpI_organizer_event:
  "same_seats r s \<Longrightarrow> (\<And>ev. ek_Event r e = Some ev \<Longrightarrow> ev_organizer ev = a \<Longrightarrow> Q ev s) \<Longrightarrow>
   wp (organizer_event env a e) Q s"
  by (simp add: organizer_event_def get_event_def require_auth_def wp_rules same_seats_def)

text \<open>A write that leaves the reservations alone, and what follows it.\<close>

definition good_write :: "'w event_state \<Rightarrow> symbol \<Rightarrow> event \<Rightarrow> event \<Rightarrow> bool" where
  "good_write s e ev ev' \<longleftrightarrow> event_edge ev ev' \<and> supply_ok ev' \<and>
     (\<forall>i<length (ev_tiers ev'). tt_reserved (ev_tiers ev' ! i) = held (ek_Reservation s) e i)"

lemma write_step:
  assumes "ek_Event s e = Some ev" and "same_seats s t" and "seats_ok s \<Longrightarrow> good_write s e ev ev'"
  shows "seats_step s (t\<lparr>ek_Event := (ek_Event t)(e \<mapsto> ev')\<rparr>)"
  unfolding seats_step_def
proof
  assume ok: "seats_ok s"
  note good = assms(3) [OF ok, unfolded good_write_def]
  show "seats_ok (t\<lparr>ek_Event := (ek_Event t)(e \<mapsto> ev')\<rparr>) \<and>
      events_edge s (t\<lparr>ek_Event := (ek_Event t)(e \<mapsto> ev')\<rparr>)"
    using good events_edge_write [OF assms(1,2), of ev']
      seats_write_event [OF ok assms(1,2) HOL.refl, of ev'] by (simp add: event_edge_def)
qed

lemma wpI_then_frame:
  "keeps same_seats k \<Longrightarrow> wp m (\<lambda>_. seats_step s) t \<Longrightarrow> wp (thenE m k) (\<lambda>_. seats_step s) t"
  unfolding wp_thenE by (erule wp_mono, erule wp_keeps, erule seats_step_same)

lemma wpI_save:
  assumes "ek_Event s e = Some ev" and "same_seats s t" and "seats_ok s \<Longrightarrow> good_write s e ev ev'"
  shows "wp (save_event e ev') (\<lambda>_. seats_step s) t" and "wp (update_event e ev') (\<lambda>_. seats_step s) t"
  using write_step [OF assms] by (simp_all add: save_event_def update_event_def wp_rules)

lemmas wpI_writes = wpI_save [THEN wpI_then_frame [rotated]] wpI_save

lemma good_write_same_tiers:
  assumes "seats_ok s" and "ek_Event s e = Some ev" and "event_edge ev ev'"
    and "ev_tiers ev' = ev_tiers ev" and "ev_sold_count ev' = ev_sold_count ev"
    and "ev_max_supply ev' = ev_max_supply ev"
  shows "good_write s e ev ev'"
proof -
  have "ev_status ev' = S_Upcoming \<Longrightarrow> ev_status ev = S_Upcoming"
    using assms(3) by (auto simp: event_edge_def status_edge_def)
  then show ?thesis
    using seats_okD(1,2) [OF assms(1,2)] assms(3-6) by (simp add: good_write_def supply_ok_def)
qed

section \<open>Management\<close>

lemma status_edges:
  "a \<notin> {S_Completed, S_Cancelled} \<Longrightarrow> status_edge a S_Cancelled"
  "(a, b) \<in> {(S_Upcoming, S_Active), (S_Active, S_Completed)} \<Longrightarrow> status_edge a b"
  "status_edge S_Active S_Postponed" "status_edge S_Postponed S_Active" "status_edge a a"
  by (cases a; auto simp: status_edge_def)+

text \<open>Only executions from a state with the invariant matter.\<close>

lemma seats_stepI:
  assumes "\<And>s. seats_ok s \<Longrightarrow> wp m (\<lambda>_. seats_step s) s"
  shows "keeps seats_step m"
proof (rule keepsI)
  fix s
  show "wp m (\<lambda>_. seats_step s) s"
    using assms [of s] by (cases "seats_ok s") (auto simp: seats_step_def wp_def split: sum.splits)
qed

lemma status_calls_step:
  fixes env :: "'w env"
  shows "keeps seats_step (update_event_status env a e st)"
    and "keeps seats_step (cancel_event_ev env a e)"
    and "keeps seats_step (postpone_event_ev env a e n k)"
    and "keeps seats_step (finalize_postponement env a e)"
proof (safe intro!: keepsI)
  fix s :: "'w event_state"
  show "wp (update_event_status env a e st) (\<lambda>_. seats_step s) s"
    unfolding update_event_status_def
    by (intro wpI_writes wp_intro wpI_organizer_event seats_frames; (assumption | rule seats.refl)?;
      (rule good_write_same_tiers)?; (assumption)?; simp add: event_edge_def status_edges)
  show "wp (cancel_event_ev env a e) (\<lambda>_. seats_step s) s"
    unfolding cancel_event_ev_def
    by (intro wpI_writes wp_intro wpI_organizer_event seats_frames; (assumption | rule seats.refl)?;
      (rule good_write_same_tiers)?; (assumption)?; simp add: event_edge_def status_edges)
  show "wp (postpone_event_ev env a e n k) (\<lambda>_. seats_step s) s"
    unfolding postpone_event_ev_def
    by (intro wpI_writes wp_intro wpI_organizer_event seats_frames; (assumption | rule seats.refl)?;
      (rule good_write_same_tiers)?; (assumption)?; simp add: event_edge_def status_edges)
  show "wp (finalize_postponement env a e) (\<lambda>_. seats_step s) s"
    unfolding finalize_postponement_def Let_def
    by (intro wpI_writes wp_intro wpI_organizer_event seats_frames; (assumption | rule seats.refl)?;
      (rule good_write_same_tiers)?; (assumption)?; simp add: event_edge_def status_edges)
qed

text \<open>Calls that write neither events nor reservations.\<close>

lemma other_calls_same:
  "keeps same_seats (initialize_ev env a t p)" "keeps same_seats (set_event_privacy_ev env a e l)"
  "keeps same_seats (set_claim_settings env a e m n)"
  "keeps same_seats (set_anonymous_claim_verifier env a v)"
  "keeps same_seats (set_anon_claim_settings env a e m n)" "keeps same_seats (set_zk_config env a e z)"
  "keeps same_seats (migrate_ev env a)" "keeps same_seats (withdraw_revenue_ev env a e)"
  "keeps same_seats (withdraw_split_ev env a e)" "keeps same_seats (flag_cohost_ev env a e b)"
  "keeps same_seats (request_postponement_refund_ev env a k)"
  unfolding initialize_ev_def set_event_privacy_ev_def set_claim_settings_def
    set_anonymous_claim_verifier_def set_anon_claim_settings_def set_zk_config_def migrate_ev_def
    withdraw_revenue_ev_def withdraw_split_ev_def flag_cohost_ev_def
    request_postponement_refund_ev_def Let_def
  by (intro seats_frames)+

lemma same_keeps_step: "keeps same_seats m \<Longrightarrow> keeps seats_step m"
  by (erule keeps_mono, rule same_seats_step)

lemmas other_calls_step = other_calls_same [THEN same_keeps_step]

section \<open>Creation and updates\<close>

lemma wp_build_tiers:
  "wp (build_tiers k n ps) (\<lambda>x _. case x of (tiers, n') \<Rightarrow> n' = n + (\<Sum>t\<leftarrow>tiers. tt_capacity t) \<and>
     length tiers = length ps \<and> (\<forall>i<length tiers. tt_tier_id (tiers ! i) = k + i \<and>
       tt_sold (tiers ! i) = 0 \<and> tt_reserved (tiers ! i) = 0)) s"
proof (induction k n ps rule: build_tiers.induct)
  case (2 k n p ps)
  show ?case
    by (simp add: wp_rules checked_add_u32_def, intro impI, rule wp_mono, rule "2.IH" [simplified])
      (auto simp: wp_rules nth_Cons split: nat.splits)
qed (simp add: wp_rules)

lemma creation_keeps_seats:
  "keeps same_seats (check_event_params env params)" "keeps same_seats (build_tiers k n ps)"
proof -
  show "keeps same_seats (check_event_params env params)"
    unfolding check_event_params_def by (intro seats_frames)
  show "keeps same_seats (build_tiers k n ps)"
  proof (induction k n ps rule: build_tiers.induct)
    case (2 k n p ps)
    note IH = "2.IH" [simplified]
    show ?case by (simp, intro seats.keeps_rules IH)
  qed (simp add: seats.pure_keeps)
qed

lemma wpI_build_tiers:
  assumes "same_seats r s"
    and "\<And>tiers n s'. n = (\<Sum>t\<leftarrow>tiers. tt_capacity t) \<Longrightarrow> (\<forall>i<length tiers.
      tt_tier_id (tiers ! i) = i \<and> tt_sold (tiers ! i) = 0 \<and> tt_reserved (tiers ! i) = 0) \<Longrightarrow>
      same_seats r s' \<Longrightarrow> Q (tiers, n) s'"
  shows "wp (build_tiers 0 0 ps) Q s"
proof -
  have "wp (build_tiers 0 0 ps) (\<lambda>x s'. (case x of (tiers, n) \<Rightarrow> n = 0 + (\<Sum>t\<leftarrow>tiers. tt_capacity t) \<and>
     length tiers = length ps \<and> (\<forall>i<length tiers. tt_tier_id (tiers ! i) = 0 + i \<and>
       tt_sold (tiers ! i) = 0 \<and> tt_reserved (tiers ! i) = 0)) \<and> same_seats r s') s"
    unfolding wp_conj
    by (rule conjI, rule wp_build_tiers, rule seats_jump [OF creation_keeps_seats(2) assms(1)])
  then show ?thesis by (rule wp_mono) (use assms(2) in auto)
qed

lemma held_beyond:
  assumes "seats_ok s" and "\<And>ev. ek_Event s e = Some ev \<Longrightarrow> length (ev_tiers ev) \<le> i"
  shows "held (ek_Reservation s) e i = 0"
proof -
  have none: "\<not> (\<exists>r. ek_Reservation s (e, a) = Some r \<and> rv_tier_id r = i)" for a
    using seats_okD(4) [OF assms(1), of e a] assms(2) by fastforce
  show ?thesis unfolding held_def by (simp only: none) simp
qed

lemma seats_new:
  assumes "ek_Event s e = None" and "same_seats s t" and "supply_ok ev"
    and "\<forall>x\<in>set (ev_tiers ev). tt_reserved x = 0"
  shows "seats_step s (t\<lparr>ek_Event := (ek_Event t)(e \<mapsto> ev)\<rparr>)"
  unfolding seats_step_def
proof
  assume ok: "seats_ok s"
  have zero: "held (ek_Reservation s) e i = 0" for i
    by (rule held_beyond [OF ok]) (simp add: assms(1))
  have "seats_ok (t\<lparr>ek_Event := (ek_Event t)(e \<mapsto> ev)\<rparr>)"
    using assms seats_okD [OF ok] zero
    by (fastforce simp: same_seats_def seats_ok_def)
  then show "seats_ok (t\<lparr>ek_Event := (ek_Event t)(e \<mapsto> ev)\<rparr>) \<and>
      events_edge s (t\<lparr>ek_Event := (ek_Event t)(e \<mapsto> ev)\<rparr>)"
    using assms(1,2) by (auto simp: events_edge_def same_seats_def)
qed

lemma create_event_step: "keeps seats_step (create_event env params)"
proof (rule keepsI)
  fix s :: "'a event_state"
  have new: "supply_ok (new_event env params tiers n) \<and> (\<forall>x\<in>set tiers. tt_reserved x = 0)"
    if "n = (\<Sum>t\<leftarrow>tiers. tt_capacity t)" and "\<forall>i<length tiers. tt_tier_id (tiers ! i) = i \<and>
       tt_sold (tiers ! i) = 0 \<and> tt_reserved (tiers ! i) = 0" for tiers n
  proof -
    have "\<forall>x\<in>set tiers. tt_sold x = 0 \<and> tt_reserved x = 0"
      using that(2) by (simp add: all_set_conv_all_nth)
    moreover from this have "(\<Sum>t\<leftarrow>tiers. tt_sold t) = 0" by simp
    ultimately show ?thesis using that by (simp add: supply_ok_def new_event_def)
  qed
  have save: "wp (thenE (save_event e ev) k) (\<lambda>_. seats_step s) t"
    if "ek_Event s e = None" "same_seats s t" "supply_ok ev"
      "\<forall>x\<in>set (ev_tiers ev). tt_reserved x = 0" "keeps same_seats k" for e ev k t
    by (rule wpI_then_frame [OF that(5)]) (simp add: save_event_def wp_rules seats_new that(1-4))
  show "wp (create_event env params) (\<lambda>_. seats_step s) s"
    unfolding create_event_def Let_def
    apply (intro save wpI_thenE wpI_bindE seats_jump [OF creation_keeps_seats(1)] wpI_build_tiers
        wpI_prod wpI_gets wpI_ensure seats_jump [OF linked_keeps_seats] seats_frames;
      (assumption | rule seats.refl)?)
      subgoal by (simp add: event_exists_def same_seats_def)
     subgoal using new by (metis prod.inject)
    subgoal by (simp add: new_event_def, metis in_set_conv_nth)
    done
qed

lemma add_ticket_tier_step: "keeps seats_step (add_ticket_tier env a e n x c)"
proof (rule keepsI)
  fix s :: "'a event_state"
  let ?ev = "\<lambda>ev. ev\<lparr>ev_max_supply := ev_max_supply ev + c, ev_tiers := ev_tiers ev @
    [\<lparr>tt_tier_id = length (ev_tiers ev), tt_name = n, tt_price = x, tt_capacity = c, tt_sold = 0,
      tt_reserved = 0\<rparr>]\<rparr>"
  have good: "good_write s e ev (?ev ev)" if "seats_ok s" "ek_Event s e = Some ev" for ev
    using seats_okD(1,2) [OF that] held_beyond [OF that(1), of e "length (ev_tiers ev)"] that(2)
    by (auto simp: good_write_def supply_ok_def event_edge_def status_edges nth_append less_Suc_eq)
  show "wp (add_ticket_tier env a e n x c) (\<lambda>_. seats_step s) s"
    unfolding add_ticket_tier_def Let_def
    by (intro wpI_writes wp_intro wpI_organizer_event seats_frames; (assumption | rule seats.refl)?)
      (use good in \<open>simp add: checked_add_u32_def split: if_splits\<close>)
qed

lemma good_write_upcoming:
  assumes "seats_ok s" and "ek_Event s e = Some ev" and "ev_status ev = S_Upcoming"
    and "i < length (ev_tiers ev)" and "tt_tier_id tier = tt_tier_id (ev_tiers ev ! i)"
    and "tt_sold tier = tt_sold (ev_tiers ev ! i)" and "tt_reserved tier = tt_reserved (ev_tiers ev ! i)"
    and "m + tt_capacity (ev_tiers ev ! i) = ev_max_supply ev + tt_capacity tier"
  shows "good_write s e ev (ev\<lparr>ev_max_supply := m, ev_tiers := (ev_tiers ev)[i := tier]\<rparr>)"
proof -
  have "supply_ok ev" by (rule seats_okD(1) [OF assms(1,2)])
  then show ?thesis
    using assms(3-8) seats_okD(2) [OF assms(1,2)]
      sum_update [OF assms(4), of tt_sold tier] sum_update [OF assms(4), of tt_capacity tier]
    by (auto simp: good_write_def supply_ok_def event_edge_def status_edges nth_list_update
        dest!: set_update_subset_insert [THEN subsetD] intro!: in_set_conv_nth [THEN iffD2])
qed

lemma good_write_retouched:
  assumes "seats_ok s" and "ek_Event s e = Some ev" and "ev_status ev = S_Upcoming"
    and "i < length (ev_tiers ev)" and "tt_tier_id tier = tt_tier_id (ev_tiers ev ! i)"
    and "tt_sold tier = tt_sold (ev_tiers ev ! i)" and "tt_reserved tier = tt_reserved (ev_tiers ev ! i)"
    and "tt_capacity tier = tt_capacity (ev_tiers ev ! i)"
  shows "good_write s e ev (ev\<lparr>ev_tiers := (ev_tiers ev)[i := tier]\<rparr>)"
  using good_write_upcoming [OF assms(1-7), of "ev_max_supply ev"] assms(8) by simp

lemma update_tier_step: "keeps seats_step (update_tier env a e i n x c)"
proof (rule seats_stepI)
  fix s :: "'a event_state"
  assume ok: "seats_ok s"
  show "wp (update_tier env a e i n x c) (\<lambda>_. seats_step s) s"
    unfolding update_tier_def resize_tier_def
    apply (intro wpI_writes wp_intro wpI_organizer_event wpI_require_tier seats_frames;
      (assumption | rule seats.refl)?; (rule seats_okD(1) [OF ok], assumption)?; clarsimp?)
    apply ((rule good_write_same_tiers; simp; fail) | (rule good_write_retouched; simp; fail) |
      (rule good_write_upcoming; simp add: checked_sub_u32_def checked_add_u32_def split: if_splits))+
    done
qed

text \<open>The fields that the organizer's update leaves alone.\<close>

definition retouched :: "event \<Rightarrow> event \<Rightarrow> bool" where
  "retouched ev ev' \<longleftrightarrow> event_edge ev ev' \<and> ev_status ev' = ev_status ev \<and>
     ev_tiers ev' = ev_tiers ev \<and> ev_sold_count ev' = ev_sold_count ev \<and>
     ev_max_supply ev' = ev_max_supply ev"

lemma wpI_upd:
  assumes "retouched ev0 ev" and "\<And>ev'. retouched ev0 ev' \<Longrightarrow> Q ev' s"
    and "\<And>x. field = Some x \<Longrightarrow> wp (f x ev) (\<lambda>ev' t. t = s \<and> retouched ev0 ev') s"
  shows "wp (upd field f ev) Q s"
  unfolding upd_def
proof (cases field)
  case (Some x)
  then show "wp (case field of None \<Rightarrow> return ev | Some x \<Rightarrow> f x ev) Q s"
    using wp_mono [OF assms(3) [OF Some], of Q] assms(2) by simp
qed (simp add: wp_rules assms(1,2))

lemma wpI_details:
  assumes "\<And>ev'. retouched ev ev' \<Longrightarrow> wp (F ev') Q s"
  shows "wp (bindE (update_texts env params ev) (\<lambda>ev1. bindE (update_terms params ev1) F)) Q s"
proof -
  have "wp (bindE (update_texts env params ev) (\<lambda>ev1. update_terms params ev1))
      (\<lambda>ev'. wp (F ev') Q) s"
    unfolding update_texts_def update_terms_def
    by (intro wpI_bindE wpI_upd [where ?ev0.0 = ev] assms; (assumption)?)
      (simp_all add: wp_rules retouched_def event_edge_def status_edges)
  then show ?thesis unfolding wp_bindE by (rule wp_mono) (simp add: wp_bindE)
qed

lemma update_event_details_step: "keeps seats_step (update_event_details env params)"
proof (rule keepsI)
  fix s :: "'a event_state"
  show "wp (update_event_details env params) (\<lambda>_. seats_step s) s"
    unfolding update_event_details_def
    by (intro wpI_details wpI_writes wp_intro wpI_organizer_event seats_frames;
      (assumption | rule seats.refl)?; rule good_write_same_tiers; (assumption)?;
      simp add: retouched_def)
qed

section \<open>Seats\<close>

lemma good_write_sold:
  assumes "seats_ok s" and "ek_Event s e = Some ev" and "ev_status ev = S_Active"
    and "i < length (ev_tiers ev)"
    and "tt_sold (ev_tiers ev ! i) + tt_reserved (ev_tiers ev ! i) + n \<le> tt_capacity (ev_tiers ev ! i)"
  shows "good_write s e ev (ev\<lparr>ev_sold_count := ev_sold_count ev + n,
    ev_tiers := (ev_tiers ev)[i := (ev_tiers ev ! i)\<lparr>tt_sold := tt_sold (ev_tiers ev ! i) + n\<rparr>]\<rparr>)"
  using seats_okD(1,2) [OF assms(1,2)] assms(3-5)
    supply_ok_tier [of ev i "(ev_tiers ev ! i)\<lparr>tt_sold := tt_sold (ev_tiers ev ! i) + n\<rparr>" n
      "ev_sold_count ev + n"]
  by (auto simp: good_write_def event_edge_def status_edges supply_ok_def nth_list_update)

lemma claims_step:
  fixes env :: "'w env"
  shows "keeps seats_step (claim_anonymous_ticket env verify e i claim)"
    and "keeps seats_step (verify_and_attend env e i zclaim)"
proof (safe intro!: seats_stepI)
  fix s :: "'w event_state"
  assume ok: "seats_ok s"
  note sold = good_write_sold [where n = 1, simplified]
  show "wp (claim_anonymous_ticket env verify e i claim) (\<lambda>_. seats_step s) s"
    unfolding claim_anonymous_ticket_def check_anonymous_claim_def
    by (intro wpI_writes wp_intro wpI_get_event wpI_require_tier seats_jumps seats_frames;
      (assumption | rule seats.refl)?; (rule seats_okD(1) [OF ok], assumption)?; clarsimp?;
      simp add: sold same_seats_step seats.refl)
  show "wp (verify_and_attend env e i zclaim) (\<lambda>_. seats_step s) s"
    unfolding verify_and_attend_def check_zk_claim_def
    by (intro wpI_writes wp_intro wpI_get_event wpI_require_tier seats_jumps seats_frames;
      (assumption | rule seats.refl)?; (rule seats_okD(1) [OF ok], assumption)?; clarsimp?;
      simp add: sold same_seats_step seats.refl)
qed

end
