(* ===== verification/Event_Reservations.thy ===== *)
theory Event_Reservations
  imports Event_Life
begin

text \<open>
  Reserving, releasing and consuming a seat: the entry points that move a reservation entry and
  the tier's counters together keep the seat invariant.
\<close>

section \<open>An event and a reservation entry written together\<close>

text \<open>A write of an event after its reservation entry for one address was written.\<close>

definition good_exchange ::
    "'w event_state \<Rightarrow> symbol \<Rightarrow> address \<Rightarrow> reservation option \<Rightarrow> event \<Rightarrow> event \<Rightarrow> bool" where
  "good_exchange s e a ro ev ev' \<longleftrightarrow> event_edge ev ev' \<and> supply_ok ev' \<and>
     (\<forall>r. ro = Some r \<longrightarrow> rv_tier_id r < length (ev_tiers ev')) \<and>
     (\<forall>i<length (ev_tiers ev'). tt_reserved (ev_tiers ev' ! i) + in_tier (ek_Reservation s (e, a)) i =
        held (ek_Reservation s) e i + in_tier ro i)"

definition with_entry ::
    "'w event_state \<Rightarrow> symbol \<Rightarrow> address \<Rightarrow> reservation option \<Rightarrow> 'w event_state" where
  "with_entry s e a ro = s\<lparr>ek_Reservation := (ek_Reservation s)((e, a) := ro)\<rparr>"

lemma wpI_entry:
  "same_seats s t \<Longrightarrow> (\<And>u. same_seats (with_entry s e a (Some r)) u \<Longrightarrow> Q () u) \<Longrightarrow>
   wp (save_reservation e a r) Q t"
  "same_seats s t \<Longrightarrow> (\<And>u. same_seats (with_entry s e a None) u \<Longrightarrow> Q () u) \<Longrightarrow>
   wp (remove_reservation e a) Q t"
  by (simp_all add: save_reservation_def remove_reservation_def wp_rules same_seats_def with_entry_def)

lemma exchange_step:
  assumes "seats_ok s" and "ek_Event s e = Some ev" and "same_seats (with_entry s e a ro) u"
    and "good_exchange s e a ro ev ev'" and "keeps same_seats k"
  shows "wp (update_event e ev') (\<lambda>_. wp k (\<lambda>_. seats_step s)) u"
    and "wp (save_event e ev') (\<lambda>_. seats_step s) u"
proof -
  let ?t = "u\<lparr>ek_Event := (ek_Event u)(e \<mapsto> ev')\<rparr>"
  have maps: "ek_Event ?t = (ek_Event s)(e \<mapsto> ev')"
      "ek_Reservation ?t = (ek_Reservation s)((e, a) := ro)"
    using assms(3) by (simp_all add: same_seats_def with_entry_def)
  note good = assms(4) [unfolded good_exchange_def]
  have "seats_ok ?t"
    by (rule seats_write [OF assms(1,2) maps]) (use good in \<open>auto simp: event_edge_def\<close>)
  moreover have "events_edge s ?t"
    using good assms(2) maps(1) by (simp add: events_edge_def)
  ultimately have step: "seats_step s ?t" by (simp add: seats_step_def)
  then show "wp (save_event e ev') (\<lambda>_. seats_step s) u" by (simp add: save_event_def wp_rules)
  show "wp (update_event e ev') (\<lambda>_. wp k (\<lambda>_. seats_step s)) u"
    using wp_keeps [OF assms(5), where s = ?t] seats_step_same [OF step]
    by (simp add: update_event_def save_event_def wp_rules)
qed

lemmas exchange_save = exchange_step(2) [OF _ _ _ _ storage_keeps_seats(1)]

text \<open>A seat taken by an address: out of its reservation, or out of the free capacity.\<close>

definition seat_ready ::
    "'w event_state \<Rightarrow> symbol \<Rightarrow> address \<Rightarrow> event \<Rightarrow> nat \<Rightarrow> nat \<Rightarrow> bool \<Rightarrow> bool" where
  "seat_ready s e a ev i n has_res \<longleftrightarrow> ev_status ev = S_Active \<and> i < length (ev_tiers ev) \<and>
     (if has_res then \<exists>rv. ek_Reservation s (e, a) = Some rv \<and> rv_tier_id rv = i \<and>
        tt_sold (ev_tiers ev ! i) + (tt_reserved (ev_tiers ev ! i) - 1) + n \<le> tt_capacity (ev_tiers ev ! i)
      else tt_sold (ev_tiers ev ! i) + tt_reserved (ev_tiers ev ! i) + n \<le> tt_capacity (ev_tiers ev ! i))"

definition entry_after :: "'w event_state \<Rightarrow> symbol \<Rightarrow> address \<Rightarrow> bool \<Rightarrow> reservation option" where
  "entry_after s e a has_res = (if has_res then None else ek_Reservation s (e, a))"

definition seat_taken :: "event \<Rightarrow> nat \<Rightarrow> nat \<Rightarrow> bool \<Rightarrow> event" where
  "seat_taken ev i n has_res = ev\<lparr>ev_sold_count := ev_sold_count ev + n,
     ev_tiers := (ev_tiers ev)[i := (ev_tiers ev ! i)\<lparr>tt_sold := tt_sold (ev_tiers ev ! i) + n,
       tt_reserved := tt_reserved (ev_tiers ev ! i) - (if has_res then 1 else 0)\<rparr>]\<rparr>"

lemma reservation_tier:
  assumes "seats_ok s" and "ek_Reservation s (e, a) = Some r" and "ek_Event s e = Some ev"
  shows "rv_tier_id r < length (ev_tiers ev)" and "0 < tt_reserved (ev_tiers ev ! rv_tier_id r)"
proof -
  show len: "rv_tier_id r < length (ev_tiers ev)" using seats_okD(4) [OF assms(1,2)] assms(3) by simp
  have "0 < held (ek_Reservation s) e (rv_tier_id r)"
    using held_split [OF seats_okD(3) [OF assms(1)], of e "rv_tier_id r" a] assms(2)
    by (simp add: in_tier_def)
  then show "0 < tt_reserved (ev_tiers ev ! rv_tier_id r)"
    using seats_okD(2) [OF assms(1,3) len] by simp
qed

lemma good_exchange_taken:
  assumes ok: "seats_ok s" and ev: "ek_Event s e = Some ev" and ready: "seat_ready s e a ev i n has_res"
  shows "good_exchange s e a (entry_after s e a has_res) ev (seat_taken ev i n has_res)"
proof -
  have i: "i < length (ev_tiers ev)" "ev_status ev = S_Active"
    using ready by (simp_all add: seat_ready_def)
  have entry: "\<exists>rv. ek_Reservation s (e, a) = Some rv \<and> rv_tier_id rv = i" if has_res
    using ready that by (auto simp: seat_ready_def)
  have pos: "0 < tt_reserved (ev_tiers ev ! i)" if has_res
    using entry [OF that] reservation_tier(2) [OF ok _ ev] by blast
  have "supply_ok (seat_taken ev i n has_res)"
    unfolding seat_taken_def
    by (rule supply_ok_tier [where n = n])
      (use ready i seats_okD(1) [OF ok ev] in \<open>auto simp: seat_ready_def supply_ok_def split: if_splits\<close>)
  moreover have "\<forall>j<length (ev_tiers ev). tt_reserved (ev_tiers (seat_taken ev i n has_res) ! j) +
      in_tier (ek_Reservation s (e, a)) j =
      held (ek_Reservation s) e j + in_tier (entry_after s e a has_res) j"
    using seats_okD(2) [OF ok ev] pos entry
    using i(1)
    by (cases has_res) (auto simp: seat_taken_def entry_after_def in_tier_def nth_list_update)
  ultimately show ?thesis
    using i reservation_tier(1) [OF ok _ ev]
    by (auto simp: good_exchange_def seat_taken_def entry_after_def event_edge_def status_edges
        split: if_splits)
qed

lemma taken_step:
  assumes "seats_ok s" and "ek_Event s e = Some ev" and "seat_ready s e a ev i n has_res"
    and "same_seats (with_entry s e a (entry_after s e a has_res)) u" and "keeps same_seats k"
    and "ev' = seat_taken ev i n has_res"
  shows "wp (update_event e ev') (\<lambda>_. wp k (\<lambda>_. seats_step s)) u"
  using exchange_step(1) [OF assms(1,2,4) good_exchange_taken [OF assms(1-3)] assms(5)] assms(6)
  by simp

lemma wpI_get_reservation:
  "same_seats r s \<Longrightarrow> (\<And>rv. ek_Reservation r (e, a) = Some rv \<Longrightarrow> Q rv s) \<Longrightarrow>
   wp (get_reservation e a) Q s"
  by (simp add: get_reservation_def wp_rules same_seats_def)

lemma taken_simps:
  "with_entry s e a (entry_after s e a False) = s"
  "entry_after s e a True = None"
  "tier\<lparr>tt_reserved := r, tt_sold := k\<rparr> = tier\<lparr>tt_sold := k, tt_reserved := r\<rparr>"
  by (simp_all add: with_entry_def entry_after_def)

section \<open>Registration\<close>

lemma wpI_check_reservation:
  assumes "same_seats s t"
    and "\<And>t'. same_seats s t' \<Longrightarrow> (has_res \<Longrightarrow>
      \<exists>rv. ek_Reservation s (e, a) = Some rv \<and> rv_tier_id rv = i) \<Longrightarrow> Q () t'"
  shows "wp (check_reservation env e a i has_res) Q t"
  unfolding check_reservation_def
  by (intro wp_intro wpI_get_reservation [OF assms(1)]) (auto intro: assms)

lemma wpI_check_registration:
  assumes ok: "seats_ok s" and ev: "ek_Event s e = Some ev" and "same_seats s t"
    and Q: "\<And>t' has_res. same_seats s t' \<Longrightarrow> seat_ready s e a ev i 1 has_res \<Longrightarrow>
      has_res = has_reservation s e a \<Longrightarrow> Q (i, ev_tiers ev ! i, has_res) t'"
  shows "wp (check_registration env a e i ev) Q t"
proof -
  have ready: "seat_ready s e a ev i 1 has_res"
    if "ev_status ev = S_Active" "i < length (ev_tiers ev)"
      "has_res \<Longrightarrow> \<exists>rv. ek_Reservation s (e, a) = Some rv \<and> rv_tier_id rv = i"
      "\<not> has_res \<Longrightarrow>
        \<not> tt_capacity (ev_tiers ev ! i) \<le> tt_sold (ev_tiers ev ! i) + tt_reserved (ev_tiers ev ! i)"
    for has_res
    using that reservation_tier(2) [OF ok _ ev] seats_okD(1) [OF ok ev]
    by (fastforce simp: seat_ready_def supply_ok_def)
  show ?thesis
    unfolding check_registration_def
    apply (intro wp_intro wpI_check_reservation [where s = s] wpI_require_tier
        seats_jumps [where r = s] seats.keeps_rules;
        (assumption | rule assms(3) seats_okD(1) [OF ok ev])?)
    by (erule Pair_inject, hypsubst, rule Q, assumption, rule ready;
      (assumption | blast | simp add: same_seats_def has_reservation_def)?)+
qed

lemma registration_step: "keeps seats_step (register_for_event env n a e i ver h)"
proof (rule seats_stepI)
  fix s :: "'a event_state"
  assume ok: "seats_ok s"
  show "wp (register_for_event env n a e i ver h) (\<lambda>_. seats_step s) s"
    unfolding register_for_event_def Let_def
    by (intro wp_intro wpI_get_event [where r = s] wpI_check_registration [OF ok]
        wpI_entry(2) [where s = s]
        seats_jumps seats.keeps_rules; (assumption | rule seats.refl)?; clarsimp?;
      rule taken_step [OF ok], assumption, assumption;
      simp add: taken_simps seat_taken_def seats_frames)
qed

lemma count_tickets_frame: "keeps same_seats (whenE b (
    bindE (count_user_event_tickets a e) (\<lambda>k. bindE (u32 (k + n)) (\<lambda>h. ensure (p h) x))))"
  by (intro seats_frames)

lemma count_claims_frame:
  "keeps same_seats (for_each (\<lambda>_. increment_free_claim_count e a) xs)"
  by (intro seats_frames)

lemma wpI_check_batch:
  assumes ok: "seats_ok s" and ev: "ek_Event s e = Some ev" and "same_seats s t"
    and Q: "\<And>t' has_res. same_seats s t' \<Longrightarrow> seat_ready s e a ev i n has_res \<Longrightarrow>
      Q (i, ev_tiers ev ! i, has_res) t'"
  shows "wp (check_batch env a e i n ev) Q t"
proof -
  have ready: "seat_ready s e a ev i n has_res"
    if "ev_status ev = S_Active" "i < length (ev_tiers ev)"
      "has_res \<Longrightarrow> \<exists>rv. ek_Reservation s (e, a) = Some rv \<and> rv_tier_id rv = i"
      "\<not> tt_capacity (ev_tiers ev ! i) < tt_sold (ev_tiers ev ! i) +
        (if has_res then tt_reserved (ev_tiers ev ! i) - 1 else tt_reserved (ev_tiers ev ! i)) + n"
    for has_res
    using that by (simp add: seat_ready_def not_less split: if_splits)
  show ?thesis
    unfolding check_batch_def Let_def
    apply (intro wp_intro wpI_check_reservation [where s = s] wpI_require_tier
        count_tickets_frame [THEN seats_jump] seats_jumps [where r = s] seats.keeps_rules;
        (assumption | rule assms(3) seats_okD(1) [OF ok ev])?)
    by (erule Pair_inject, hypsubst, rule Q, assumption, rule ready; (assumption | blast)?)+
qed

lemma batch_step: "keeps seats_step (batch_register_for_event env n a e i k ver h)"
proof (rule seats_stepI)
  fix s :: "'a event_state"
  assume ok: "seats_ok s"
  show "wp (batch_register_for_event env n a e i k ver h) (\<lambda>_. seats_step s) s"
    unfolding batch_register_for_event_def Let_def
    by (intro wp_intro wpI_get_event [where r = s] wpI_check_batch [OF ok]
        wpI_entry(2) [where s = s]
        count_claims_frame [THEN seats_jump] seats_jumps seats.keeps_rules storage_keeps_seats;
        (assumption | rule seats.refl)?; clarsimp?;
      rule taken_step [OF ok], assumption, assumption;
      simp add: taken_simps seat_taken_def seats_frames)
qed

section \<open>Reserving and releasing\<close>

text \<open>The event once the seat held by an address is given back.\<close>

definition freed :: "'w event_state \<Rightarrow> symbol \<Rightarrow> address \<Rightarrow> event \<Rightarrow> event \<Rightarrow> bool" where
  "freed s e a ev ev1 \<longleftrightarrow> supply_ok ev1 \<and> event_edge ev ev1 \<and> ev_status ev1 = ev_status ev \<and>
     length (ev_tiers ev1) = length (ev_tiers ev) \<and>
     (\<forall>i<length (ev_tiers ev). tt_reserved (ev_tiers ev1 ! i) + in_tier (ek_Reservation s (e, a)) i =
        held (ek_Reservation s) e i)"

lemma freed_unheld:
  assumes "seats_ok s" and "ek_Event s e = Some ev" and "\<not> has_reservation s e a"
  shows "freed s e a ev ev"
  using seats_okD(1,2) [OF assms(1,2)] assms(3)
  by (simp add: freed_def has_reservation_def in_tier_def)

lemma wpI_release_seat:
  assumes ok: "seats_ok s" and ev: "ek_Event s e = Some ev" and "ek_Reservation s (e, a) = Some r"
    and Q: "\<And>ev1. freed s e a ev ev1 \<Longrightarrow> Q ev1 t"
  shows "wp (release_seat r ev) Q t"
proof -
  let ?i = "rv_tier_id r" and ?tier = "ev_tiers ev ! rv_tier_id r"
  let ?ev = "ev\<lparr>ev_tiers := (ev_tiers ev)[?i := ?tier\<lparr>tt_reserved := tt_reserved ?tier - 1\<rparr>]\<rparr>"
  note tier = reservation_tier [OF ok assms(3) ev]
  have sup: "supply_ok ev" by (rule seats_okD(1) [OF ok ev])
  have "ev_status ev \<noteq> S_Upcoming" using sup tier by (auto simp: supply_ok_def)
  then have "supply_ok (ev\<lparr>ev_sold_count := ev_sold_count ev + 0,
      ev_tiers := (ev_tiers ev)[?i := ?tier\<lparr>tt_reserved := tt_reserved ?tier - 1\<rparr>]\<rparr>)"
    using sup tier by (intro supply_ok_tier) (auto simp: supply_ok_def)
  then have "freed s e a ev ?ev"
    using tier seats_okD(2) [OF ok ev] assms(3)
    by (auto simp: freed_def event_edge_def status_edges in_tier_def nth_list_update)
  then show ?thesis
    unfolding release_seat_def by (intro wp_intro wpI_require_tier [OF sup]) (auto intro: Q)
qed

lemma wpI_reserve_seat:
  assumes ok: "seats_ok s" and ev: "ek_Event s e = Some ev" and free: "freed s e a ev ev1"
    and active: "ev_status ev = S_Active" and "same_seats s t"
  shows "wp (reserve_seat env a e i ev1) (\<lambda>_. seats_step s) t"
proof -
  let ?tier = "ev_tiers ev1 ! i"
  have sup: "supply_ok ev1" using free by (simp add: freed_def)
  have good: "good_exchange s e a (Some r) ev
      (ev1\<lparr>ev_tiers := (ev_tiers ev1)[i := ?tier\<lparr>tt_reserved := tt_reserved ?tier + 1\<rparr>]\<rparr>)"
    if "rv_tier_id r = i" and i: "i < length (ev_tiers ev1)"
      and "\<not> tt_sold ?tier + tt_reserved ?tier \<ge> tt_capacity ?tier" for r
  proof -
    have "supply_ok (ev1\<lparr>ev_sold_count := ev_sold_count ev1 + 0,
        ev_tiers := (ev_tiers ev1)[i := ?tier\<lparr>tt_reserved := tt_reserved ?tier + 1\<rparr>]\<rparr>)"
      using that free active sup by (intro supply_ok_tier) (auto simp: supply_ok_def freed_def)
    then show ?thesis
      using free that by (auto simp: good_exchange_def freed_def event_edge_def in_tier_def nth_list_update)
  qed
  show ?thesis
    unfolding reserve_seat_def
    by (intro wp_intro wpI_require_tier [OF sup] wpI_entry(1) [where s = s]
        exchange_save [OF ok ev]; (assumption | rule assms(5))?) (auto intro!: good [simplified])
qed

lemma reservation_step:
  fixes env :: "'w env"
  shows "keeps seats_step (reserve_ticket env a e i h)"
    and "keeps seats_step (release_expired_reservation env e a)"
proof (safe intro!: seats_stepI)
  fix s :: "'w event_state"
  assume ok: "seats_ok s"
  show "wp (reserve_ticket env a e i h) (\<lambda>_. seats_step s) s"
    unfolding reserve_ticket_def
    by (intro wp_intro wpI_get_event [where r = s] wpI_get_reservation [where r = s]
        wpI_release_seat [OF ok] wpI_reserve_seat [OF ok] seats_jumps [where r = s];
        (assumption | rule seats.refl)?)
      (auto intro!: same_seats_step freed_unheld [OF ok] simp: has_reservation_def same_seats_def)
  show "wp (release_expired_reservation env e a) (\<lambda>_. seats_step s) s"
    unfolding release_expired_reservation_def
    by (intro wp_intro wpI_get_event [where r = s] wpI_get_reservation [where r = s]
        wpI_release_seat [OF ok] wpI_entry(2) [where s = s] exchange_save [OF ok];
        (assumption | rule seats.refl)?; simp add: freed_def good_exchange_def in_tier_def)
qed

end
