(* ===== verification/Event_Machine.thy ===== *)
theory Event_Machine
  imports Event_Reservations
begin

text \<open>
  The linked system as a state machine.  A network fixes the addresses of the payments and ticket
  contracts that the event contract is initialized with and the environments in which invocations
  of each contract run.  A step is an entry point of the event contract, with all the calls it
  makes, or a step of one of the two linked contracts on its own.  Each step of the system is a
  sequence of the linked contracts' own steps, so what holds of their executions holds of the
  system's.
\<close>

section \<open>Steps\<close>

record 'w network =
  event_envs :: "'w env set"
  payments_envs :: "'w env set"
  ticket_envs :: "'w env set"
  payments_address :: address
  ticket_address :: address

inductive event_call_step ::
    "'w env \<Rightarrow> address \<Rightarrow> address \<Rightarrow> 'w event_state \<Rightarrow> 'w event_state \<Rightarrow> bool" for env T P where
  call_initialize_ev: "initialize_ev env a T P s = Inr (u, s') \<Longrightarrow> event_call_step env T P s s'"
| call_create_event: "create_event env params s = Inr (v, s') \<Longrightarrow> event_call_step env T P s s'"
| call_update_details:
    "update_event_details env uparams s = Inr (v, s') \<Longrightarrow> event_call_step env T P s s'"
| call_add_tier: "add_ticket_tier env a e n x c s = Inr (w, s') \<Longrightarrow> event_call_step env T P s s'"
| call_update_tier: "update_tier env a e i nm pr cp s = Inr (u, s') \<Longrightarrow> event_call_step env T P s s'"
| call_update_status:
    "update_event_status env a e st s = Inr (u, s') \<Longrightarrow> event_call_step env T P s s'"
| call_cancel_event_ev: "cancel_event_ev env a e s = Inr (u, s') \<Longrightarrow> event_call_step env T P s s'"
| call_postpone_ev: "postpone_event_ev env a e n k s = Inr (u, s') \<Longrightarrow> event_call_step env T P s s'"
| call_finalize: "finalize_postponement env a e s = Inr (u, s') \<Longrightarrow> event_call_step env T P s s'"
| call_set_privacy: "set_event_privacy_ev env a e l s = Inr (u, s') \<Longrightarrow> event_call_step env T P s s'"
| call_claim_settings: "set_claim_settings env a e m n s = Inr (u, s') \<Longrightarrow> event_call_step env T P s s'"
| call_set_verifier:
    "set_anonymous_claim_verifier env a v s = Inr (u, s') \<Longrightarrow> event_call_step env T P s s'"
| call_anon_settings:
    "set_anon_claim_settings env a e m n s = Inr (u, s') \<Longrightarrow> event_call_step env T P s s'"
| call_zk_config: "set_zk_config env a e z s = Inr (u, s') \<Longrightarrow> event_call_step env T P s s'"
| call_migrate_ev: "migrate_ev env a s = Inr (n, s') \<Longrightarrow> event_call_step env T P s s'"
| call_withdraw_revenue_ev: "withdraw_revenue_ev env a e s = Inr (u, s') \<Longrightarrow> event_call_step env T P s s'"
| call_withdraw_split_ev: "withdraw_split_ev env a e s = Inr (u, s') \<Longrightarrow> event_call_step env T P s s'"
| call_flag_cohost_ev: "flag_cohost_ev env a e b s = Inr (u, s') \<Longrightarrow> event_call_step env T P s s'"
| call_reserve: "reserve_ticket env a e i h s = Inr (u, s') \<Longrightarrow> event_call_step env T P s s'"
| call_release_expired:
    "release_expired_reservation env e a s = Inr (u, s') \<Longrightarrow> event_call_step env T P s s'"
| call_register: "register_for_event env n a e i vr h s = Inr (u, s') \<Longrightarrow> event_call_step env T P s s'"
| call_batch:
    "batch_register_for_event env n a e i k vr h s = Inr (u, s') \<Longrightarrow> event_call_step env T P s s'"
| call_postponement_refund_ev:
    "request_postponement_refund_ev env a k s = Inr (u, s') \<Longrightarrow> event_call_step env T P s s'"
| call_claim_anonymous:
    "claim_anonymous_ticket env verify e i claim s = Inr (u, s') \<Longrightarrow> event_call_step env T P s s'"
| call_attend: "verify_and_attend env e i zclaim s = Inr (u, s') \<Longrightarrow> event_call_step env T P s s'"

inductive system_step :: "'w network \<Rightarrow> 'w event_state \<Rightarrow> 'w event_state \<Rightarrow> bool" for N where
  event_invocation:
    "env \<in> event_envs N \<Longrightarrow> event_call_step env (ticket_address N) (payments_address N) s s' \<Longrightarrow>
     system_step N s s'"
| payments_invocation:
    "payments_step (payments_envs N) (ek_payments s) p \<Longrightarrow> system_step N s (s\<lparr>ek_payments := p\<rparr>)"
| ticket_invocation:
    "env \<in> ticket_envs N \<Longrightarrow> ticket_step env (ek_ticket s) t \<Longrightarrow> system_step N s (s\<lparr>ek_ticket := t\<rparr>)"

definition system_init :: "'w network \<Rightarrow> 'w event_state \<Rightarrow> bool" where
  "system_init N s \<longleftrightarrow> s = empty_event_state (pk_world (ek_payments s)) \<and>
     payments_init (payments_envs N) (ek_payments s)"

abbreviation system_execution :: "'w network \<Rightarrow> 'w event_state \<Rightarrow> bool" where
  "system_execution N \<equiv> reachable (system_init N) (system_step N)"

text \<open>
  The environments are closed under calls: an invocation of the event contract runs the contracts
  it is linked to in environments of theirs.
\<close>

definition wired :: "'w network \<Rightarrow> bool" where
  "wired N \<longleftrightarrow> (\<forall>env\<in>event_envs N. callee env (payments_address N) \<in> payments_envs N \<and>
     callee env (ticket_address N) \<in> ticket_envs N)"

section \<open>Seats\<close>

lemma event_call_seats: "event_call_step env T P s s' \<Longrightarrow> seats_step s s'"
  by (cases rule: event_call_step.cases, assumption)
    (erule status_calls_step [THEN keepsD] other_calls_step [THEN keepsD] create_event_step [THEN keepsD]
      add_ticket_tier_step [THEN keepsD] update_tier_step [THEN keepsD]
      update_event_details_step [THEN keepsD] claims_step [THEN keepsD] registration_step [THEN keepsD]
      batch_step [THEN keepsD] reservation_step [THEN keepsD])+

lemma system_step_seats: "system_step N s s' \<Longrightarrow> seats_step s s'"
  by (cases rule: system_step.cases, assumption)
    (auto intro: event_call_seats same_seats_step simp: same_seats_def)

lemma system_init_seats: "system_init N s \<Longrightarrow> seats_ok s"
  unfolding system_init_def by (erule conjE, erule ssubst) (simp add: seats_ok_def empty_event_state_def)

interpretation seats_machine: state_machine "system_init N" "system_step N" seats_ok for N
  by unfold_locales (erule system_init_seats, auto dest: system_step_seats simp: seats_step_def)

end
