(* ===== verification/Event_Refinement.thy ===== *)
theory Event_Refinement
  imports Event_Machine
begin

text \<open>
  Every call into the event contract runs the payments and the ticket contract only through their
  own entry points: the storage of each after the call is reached from its storage before by steps
  of its own state machine.
\<close>

section \<open>Sequences of callee steps\<close>

definition linked :: "'w network \<Rightarrow> 'w event_state \<Rightarrow> bool" where
  "linked N s \<longleftrightarrow> (\<forall>p. ek_PaymentsContract s = Some p \<longrightarrow> p = payments_address N) \<and>
     (\<forall>t. ek_TicketContract s = Some t \<longrightarrow> t = ticket_address N)"

definition ticket_run :: "'w network \<Rightarrow> ticket_state \<Rightarrow> ticket_state \<Rightarrow> bool" where
  "ticket_run N t t' \<longleftrightarrow> (\<exists>env\<in>ticket_envs N. ticket_step env t t')"

definition runs :: "'w network \<Rightarrow> 'w event_state \<Rightarrow> 'w event_state \<Rightarrow> bool" where
  "runs N s s' \<longleftrightarrow> (linked N s \<longrightarrow> linked N s' \<and>
     (payments_step (payments_envs N))\<^sup>*\<^sup>* (ek_payments s) (ek_payments s') \<and>
     (ticket_run N)\<^sup>*\<^sup>* (ek_ticket s) (ek_ticket s'))"

interpretation runs: history "runs N" for N
  by unfold_locales (auto simp: runs_def intro: rtranclp_trans)

definition same_links :: "'w event_state \<Rightarrow> 'w event_state \<Rightarrow> bool" where
  "same_links s s' \<longleftrightarrow> ek_PaymentsContract s' = ek_PaymentsContract s \<and>
     ek_TicketContract s' = ek_TicketContract s \<and> ek_payments s' = ek_payments s \<and>
     ek_ticket s' = ek_ticket s"

lemma same_links_runs: "same_links s s' \<Longrightarrow> runs N s s'"
  by (simp add: same_links_def runs_def linked_def)

section \<open>Frames\<close>

lemma keeps_own: "(\<And>s. same_links s (f s)) \<Longrightarrow> keeps (runs N) (modify f)"
  by (rule keeps_modify) (rule same_links_runs)

lemma registration_same_links:
  "same_links s (put_registration e a s)" "same_links s (remove_registration e a s)"
  by (auto simp: same_links_def put_registration_def remove_registration_def drop_attendee_def
      Let_def split: option.split)

lemma storage_runs:
  "keeps (runs N) (emit_ev x)" "keeps (runs N) (set_admin_ev a)"
  "keeps (runs N) (set_contract_version_ev n)" "keeps (runs N) (put_event_privacy_ev e l)"
  "keeps (runs N) (set_postponement e info)" "keeps (runs N) (remove_postponement e)"
  "keeps (runs N) (set_postpone_count e n)" "keeps (runs N) (put_claim_settings e cs)"
  "keeps (runs N) (increment_free_claim_count e a)" "keeps (runs N) (set_last_free_claim e a n)"
  "keeps (runs N) (put_anonymous_claim_verifier a)"
  "keeps (runs N) (save_anonymous_ticket_commitment e h k)"
  "keeps (runs N) (put_anon_claim_settings e acs)" "keeps (runs N) (set_anon_window_state e w)"
  "keeps (runs N) (save_zk_nullifier e h)" "keeps (runs N) (set_zk_verification_config e z)"
  "keeps (runs N) (save_event e ev)" "keeps (runs N) (update_event e ev)"
  "keeps (runs N) (save_reservation e a r)" "keeps (runs N) (remove_reservation e a)"
  "keeps (runs N) (save_registration e a)" "keeps (runs N) (modify (remove_registration e a))"
  unfolding event_modify_defs save_event_def update_event_def save_reservation_def
    remove_reservation_def
  by (intro runs.keeps_rules keeps_own registration_same_links; simp add: same_links_def)+

lemma link_runs:
  "keeps (runs N) (put_ticket_contract_ev (ticket_address N))"
  "keeps (runs N) (put_payments_contract_ev (payments_address N))"
  by (simp_all add: keeps_def put_ticket_contract_ev_def put_payments_contract_ev_def wp_rules
      runs_def linked_def)

lemma splits_runs: "keeps (runs N) (check_splits before n sp)"
proof (induction before n sp rule: check_splits.induct)
  case (1 before tot)
  show ?case by (simp add: runs.pure_keeps)
next
  case (2 before tot r bps rest)
  then show ?case by (simp, intro runs.keeps_rules)
qed

lemma reads_run:
  "keeps (runs N) get_admin_ev" "keeps (runs N) get_ticket_contract_ev" "keeps (runs N) (get_event e)"
  "keeps (runs N) (get_reservation e a)" "keeps (runs N) get_anonymous_claim_verifier"
  "keeps (runs N) (require_auth env a)" "keeps (runs N) (organizer_event env a e)"
  "keeps (runs N) (require_settleable_privacy e)" "keeps (runs N) (require_tier ev i)"
  "keeps (runs N) (validate_revenue_splits_ev sp a)"
  unfolding get_admin_ev_def get_event_def get_ticket_contract_ev_def
    get_reservation_def get_anonymous_claim_verifier_def require_auth_def organizer_event_def
    require_settleable_privacy_def require_tier_def validate_revenue_splits_ev_def
    validate_revenue_splits_def
  by (intro runs.keeps_rules keeps_map_err splits_runs)+

section \<open>Calls\<close>

lemma call_payments_runs:
  assumes "env \<in> payments_envs N" and "\<And>p x p'. m p = Inr (x, p') \<Longrightarrow> payments_call_step env p p'"
  shows "keeps (runs N) (call_payments m)"
proof (rule keepsI, rule wpI)
  fix s x s'
  assume "call_payments m s = Inr (x, s')"
  then obtain p where "m (ek_payments s) = Inr (x, p)" and s': "s' = s\<lparr>ek_payments := p\<rparr>"
    by (auto simp: call_payments_def split: sum.splits)
  then have "payments_step (payments_envs N) (ek_payments s) p"
    using invocation [OF assms(1)] assms(2) by blast
  then show "runs N s s'" by (auto simp: s' runs_def linked_def)
qed

lemma call_ticket_runs:
  assumes "env \<in> ticket_envs N" and "\<And>t x t'. m t = Inr (x, t') \<Longrightarrow> ticket_step env t t'"
  shows "keeps (runs N) (call_ticket m)" and "keeps (runs N) (try_call_ticket m)"
proof -
  have run: "runs N s (s\<lparr>ek_ticket := t\<rparr>)" if "m (ek_ticket s) = Inr (x, t)" for s x t
    using assms(1) assms(2) [OF that]
    by (auto simp: runs_def linked_def ticket_run_def intro!: r_into_rtranclp)
  show "keeps (runs N) (call_ticket m)" "keeps (runs N) (try_call_ticket m)"
    by (auto simp: keeps_def wp_def call_ticket_def try_call_ticket_def exec runs.refl
        split: sum.splits intro: run)
qed

lemma callee_reads_run:
  "keeps (=) m \<Longrightarrow> keeps (runs N) (call_payments m)"
  "keeps (=) k \<Longrightarrow> keeps (runs N) (call_ticket k)"
  by (auto simp: keeps_def wp_call_ticket wp_call_payments runs_def linked_def elim!: wp_mono)

lemma callee_reads:
  "keeps (=) get_accepted_token" "keeps (=) (get_ticket k)" "keeps (=) (get_ticket_tk k)"
  "keeps (=) (gets f)"
  unfolding get_accepted_token_def get_ticket_def get_ticket_tk_def
  by (intro reader.keeps_rules)+

text \<open>The address that a call goes to is the one stored.\<close>

lemma unlinked_runs: "\<not> linked N s \<Longrightarrow> wp m (\<lambda>_. runs N s) s"
  by (auto simp: wp_def runs_def split: sum.split)

lemma to_linked:
  "keeps (runs N) (f (payments_address N)) \<Longrightarrow> keeps (runs N) (bindE get_payments_contract_ev f)"
  "keeps (runs N) (k (ticket_address N)) \<Longrightarrow> keeps (runs N) (bindE get_ticket_contract_ev k)"
  unfolding get_payments_contract_ev_def get_ticket_contract_ev_def keeps_def
  by (simp_all add: wp_rules) (metis linked_def unlinked_runs)+

lemma when_linked_runs:
  "keeps (runs N) (f (payments_address N)) \<Longrightarrow> keeps (runs N) (when_linked f)"
  unfolding when_linked_def by (intro runs.keeps_rules to_linked)

section \<open>Entry points\<close>

text \<open>The callee's entry points that the event contract calls, in an environment of the network.\<close>

lemma callee_runs:
  assumes "wired N" and "env \<in> event_envs N"
  shows "keeps (runs N) (call_payments (sync_event_config (callee env (payments_address N)) a e c))"
    and "keeps (runs N) (call_payments (sync_revenue_splits (callee env (payments_address N)) a e sp))"
    and "keeps (runs N) (call_payments (cancel_event (callee env (payments_address N)) e a))"
    and "keeps (runs N) (call_payments (postpone_event (callee env (payments_address N)) e a n))"
    and "keeps (runs N) (call_payments (resume_event (callee env (payments_address N)) e a))"
    and "keeps (runs N) (call_payments (withdraw_revenue (callee env (payments_address N)) e a))"
    and "keeps (runs N) (call_payments (withdraw_split (callee env (payments_address N)) a e))"
    and "keeps (runs N) (call_payments (flag_cohost (callee env (payments_address N)) a e b))"
    and "keeps (runs N) (call_payments
      (pay_for_ticket (callee env (payments_address N)) n a e x em tok l nc sk))"
    and "keeps (runs N) (call_payments
      (request_postponement_refund (callee env (payments_address N)) a k))"
    and "keeps (runs N) (call_ticket (mint_ticket (callee env (ticket_address N)) e a b))"
    and "keeps (runs N) (call_ticket (batch_mint_ticket (callee env (ticket_address N)) e a b n))"
    and "keeps (runs N) (call_ticket (cancel_ticket (callee env (ticket_address N)) k a))"
    and "keeps (runs N) (try_call_ticket (set_event_contract_tk (callee env (ticket_address N)) a b))"
proof -
  have P: "callee env (payments_address N) \<in> payments_envs N"
    and T: "callee env (ticket_address N) \<in> ticket_envs N"
    using assms by (auto simp: wired_def)
  note pay = call_payments_runs [OF P]
  show "keeps (runs N) (call_payments (sync_event_config (callee env (payments_address N)) a e c))"
    by (rule pay) (rule call_sync_event_config)
  show "keeps (runs N) (call_payments (sync_revenue_splits (callee env (payments_address N)) a e sp))"
    by (rule pay) (rule call_sync_revenue_splits)
  show "keeps (runs N) (call_payments (cancel_event (callee env (payments_address N)) e a))"
    by (rule pay) (rule call_cancel_event)
  show "keeps (runs N) (call_payments (postpone_event (callee env (payments_address N)) e a n))"
    by (rule pay) (rule call_postpone_event)
  show "keeps (runs N) (call_payments (resume_event (callee env (payments_address N)) e a))"
    by (rule pay) (rule call_resume_event)
  show "keeps (runs N) (call_payments (withdraw_revenue (callee env (payments_address N)) e a))"
    by (rule pay) (rule call_withdraw_revenue)
  show "keeps (runs N) (call_payments (withdraw_split (callee env (payments_address N)) a e))"
    by (rule pay) (rule call_withdraw_split)
  show "keeps (runs N) (call_payments (flag_cohost (callee env (payments_address N)) a e b))"
    by (rule pay) (rule call_flag_cohost)
  show "keeps (runs N) (call_payments
      (pay_for_ticket (callee env (payments_address N)) n a e x em tok l nc sk))"
    by (rule pay) (rule call_pay)
  show "keeps (runs N) (call_payments
      (request_postponement_refund (callee env (payments_address N)) a k))"
    by (rule pay) (rule call_postponement_refund)
  show "keeps (runs N) (call_ticket (mint_ticket (callee env (ticket_address N)) e a b))"
    by (rule call_ticket_runs(1) [OF T]) (rule step_mint)
  show "keeps (runs N) (call_ticket (batch_mint_ticket (callee env (ticket_address N)) e a b n))"
    by (rule call_ticket_runs(1) [OF T]) (rule step_batch_mint)
  show "keeps (runs N) (call_ticket (cancel_ticket (callee env (ticket_address N)) k a))"
    by (rule call_ticket_runs(1) [OF T]) (rule step_cancel)
  show "keeps (runs N) (try_call_ticket (set_event_contract_tk (callee env (ticket_address N)) a b))"
    by (rule call_ticket_runs(2) [OF T]) (rule step_set_event)
qed

lemma ticket_reads_run:
  "keeps (runs N) (count_event_tickets tids e n)" "keeps (runs N) (find_valid_ticket tids e)"
  "keeps (runs N) (count_user_event_tickets a e)"
proof -
  show count: "keeps (runs N) (count_event_tickets tids e n)" for tids n
    by (induction tids e n rule: count_event_tickets.induct)
      (simp add: runs.pure_keeps, simp, intro runs.keeps_rules callee_reads_run callee_reads, blast+)
  show "keeps (runs N) (find_valid_ticket tids e)"
    by (induction tids e rule: find_valid_ticket.induct)
      (simp add: runs.pure_keeps, simp, intro runs.keeps_rules callee_reads_run callee_reads, blast+)
  show "keeps (runs N) (count_user_event_tickets a e)"
    unfolding count_user_event_tickets_def
    by (intro runs.keeps_rules callee_reads_run callee_reads count)
qed

lemmas runs_frames = to_linked when_linked_runs storage_runs link_runs reads_run ticket_reads_run
  callee_reads_run callee_reads runs.keeps_rules

lemma management_runs:
  assumes "wired N" and "env \<in> event_envs N"
  shows "keeps (runs N) (initialize_ev env a (ticket_address N) (payments_address N))"
    and "keeps (runs N) (update_event_status env a e st)"
    and "keeps (runs N) (cancel_event_ev env a e)"
    and "keeps (runs N) (postpone_event_ev env a e n k)"
    and "keeps (runs N) (finalize_postponement env a e)"
    and "keeps (runs N) (add_ticket_tier env a e nm x c)"
    and "keeps (runs N) (update_tier env a e i nmo pro cpo)"
    and "keeps (runs N) (set_event_privacy_ev env a e l)" and "keeps (runs N) (set_claim_settings env a e n k)"
    and "keeps (runs N) (set_anonymous_claim_verifier env a b)"
    and "keeps (runs N) (set_anon_claim_settings env a e n k)" and "keeps (runs N) (set_zk_config env a e z)"
    and "keeps (runs N) (migrate_ev env a)" and "keeps (runs N) (withdraw_revenue_ev env a e)"
    and "keeps (runs N) (withdraw_split_ev env a e)" and "keeps (runs N) (flag_cohost_ev env a e b)"
  unfolding initialize_ev_def update_event_status_def cancel_event_ev_def postpone_event_ev_def
    finalize_postponement_def set_event_privacy_ev_def set_claim_settings_def
    set_anonymous_claim_verifier_def set_anon_claim_settings_def set_zk_config_def migrate_ev_def
    withdraw_revenue_ev_def withdraw_split_ev_def flag_cohost_ev_def emit_status_changed_def
    sync_config_def add_ticket_tier_def update_tier_def resize_tier_def Let_def
  by (intro callee_runs [OF assms] runs_frames)+

lemma creation_runs:
  "keeps (runs N) (check_event_params env params)" "keeps (runs N) (build_tiers k n ps)"
  "keeps (runs N) (update_texts env uparams ev)" "keeps (runs N) (update_terms uparams ev)"
proof -
  show "keeps (runs N) (check_event_params env params)"
    unfolding check_event_params_def by (intro runs_frames)
  show "keeps (runs N) (build_tiers k n ps)"
  proof (induction k n ps rule: build_tiers.induct)
    case (2 k n p ps)
    note IH = "2.IH" [simplified]
    show ?case by (simp, intro runs.keeps_rules IH)
  qed (simp add: runs.pure_keeps)
  show "keeps (runs N) (update_texts env uparams ev)" "keeps (runs N) (update_terms uparams ev)"
    unfolding update_texts_def update_terms_def upd_def by (intro runs_frames)+
qed

lemma sales_runs:
  assumes "wired N" and "env \<in> event_envs N"
  shows "keeps (runs N) (create_event env params)" and "keeps (runs N) (update_event_details env uparams)"
    and "keeps (runs N) (reserve_ticket env a e i h)"
    and "keeps (runs N) (release_expired_reservation env e a)"
    and "keeps (runs N) (register_for_event env n a e i vr h)"
    and "keeps (runs N) (batch_register_for_event env n a e i k vr h)"
    and "keeps (runs N) (request_postponement_refund_ev env a k)"
    and "keeps (runs N) (claim_anonymous_ticket env verify e i claim)"
    and "keeps (runs N) (verify_and_attend env e i zclaim)"
  unfolding create_event_def update_event_details_def reserve_ticket_def reserve_seat_def
    release_seat_def release_expired_reservation_def register_for_event_def check_registration_def
    check_reservation_def check_free_claims_def charge_def emit_registration_def
    batch_register_for_event_def check_batch_def request_postponement_refund_ev_def
    claim_anonymous_ticket_def check_anonymous_claim_def count_window_claim_def
    verify_and_attend_def check_zk_claim_def sync_config_def Let_def
  by (intro callee_runs [OF assms] creation_runs runs_frames)+

lemma event_call_runs:
  assumes "event_call_step env (ticket_address N) (payments_address N) s s'"
    and "wired N" and "env \<in> event_envs N"
  shows "runs N s s'"
  using assms(1)
  by (cases rule: event_call_step.cases)
    (erule management_runs [OF assms(2,3), THEN keepsD] sales_runs [OF assms(2,3), THEN keepsD])+

lemma system_step_runs:
  assumes "wired N" and "system_step N s s'"
  shows "runs N s s'"
  using assms(2)
proof cases
  case (event_invocation env)
  then show ?thesis using event_call_runs assms(1) by blast
qed (auto simp: runs_def linked_def ticket_run_def intro!: r_into_rtranclp)

end
