(* ===== verification/Event_People.thy ===== *)
theory Event_People
  imports Event_Machine
begin

text \<open>
  Who attends an event: the paginated attendee list holds exactly the registered addresses, each
  once, and the nullifiers of anonymous and zkPassport claims are recorded for good.
\<close>

section \<open>The attendee list\<close>

interpretation attendees: append_log
  "\<lambda>s e i. ek_EventAttendeeIndex s (e, i)" get_attendees_count put_registration
  by unfold_locales
    (auto simp: put_registration_def get_attendees_count_def Let_def split: option.split)

text \<open>The list of an event as it is stored: the slots below the count, all filled.\<close>

definition lists_attendees :: "'w event_state \<Rightarrow> symbol \<Rightarrow> address list \<Rightarrow> bool" where
  "lists_attendees s e xs \<longleftrightarrow> get_attendees_count s e = length xs \<and>
     (\<forall>i<length xs. ek_EventAttendeeIndex s (e, i) = Some (xs ! i))"

definition attendees_ok :: "'w event_state \<Rightarrow> bool" where
  "attendees_ok s \<longleftrightarrow> (\<forall>e. \<exists>xs. lists_attendees s e xs \<and> distinct xs \<and>
     set xs = {a. is_registered s e a})"

definition nullifiers_kept :: "'w event_state \<Rightarrow> 'w event_state \<Rightarrow> bool" where
  "nullifiers_kept s s' \<longleftrightarrow> ek_AnonymousNullifier s \<subseteq>\<^sub>m ek_AnonymousNullifier s' \<and>
     (\<forall>e h. has_zk_nullifier s e h \<longrightarrow> has_zk_nullifier s' e h)"

definition people_step :: "'w event_state \<Rightarrow> 'w event_state \<Rightarrow> bool" where
  "people_step s s' \<longleftrightarrow> nullifiers_kept s s' \<and> (attendees_ok s \<longrightarrow> attendees_ok s')"

interpretation people: history people_step
  by unfold_locales (auto simp: people_step_def nullifiers_kept_def intro: map_le_trans)

lemma lists_put:
  assumes "lists_attendees s e xs"
  shows "lists_attendees (put_registration e a s) e (xs @ [a])"
  using assms by (auto simp: lists_attendees_def attendees.slot_push attendees.count_push nth_append)

lemma lists_other:
  assumes "get_attendees_count t e = get_attendees_count s e"
    and "\<And>i. ek_EventAttendeeIndex t (e, i) = ek_EventAttendeeIndex s (e, i)"
  shows "lists_attendees t e = lists_attendees s e"
  using assms by (simp add: lists_attendees_def fun_eq_iff)

lemma attendees_put:
  assumes "attendees_ok s" and "\<not> is_registered s e a"
  shows "attendees_ok (put_registration e a s)"
  unfolding attendees_ok_def
proof
  fix e'
  obtain xs where xs: "lists_attendees s e' xs" "distinct xs" "set xs = {b. is_registered s e' b}"
    using assms(1) unfolding attendees_ok_def by blast
  have reg: "is_registered (put_registration e a s) e' b \<longleftrightarrow> (e' = e \<and> b = a) \<or> is_registered s e' b" for b
    by (auto simp: is_registered_def put_registration_def Let_def)
  show "\<exists>ys. lists_attendees (put_registration e a s) e' ys \<and> distinct ys \<and>
      set ys = {b. is_registered (put_registration e a s) e' b}"
  proof (cases "e' = e")
    case True
    then show ?thesis
      using lists_put [of s e xs a] xs assms(2) reg
      by (intro exI [of _ "xs @ [a]"]) auto
  next
    case False
    then have "lists_attendees (put_registration e a s) e' = lists_attendees s e'"
      by (intro lists_other) (simp_all add: attendees.slot_push attendees.count_push)
    then show ?thesis using xs reg False by (intro exI [of _ xs]) auto
  qed
qed

text \<open>The search of the source finds the position of an attendee.\<close>

lemma find_upt_Some:
  "List.find P [0..<n] = Some i \<longleftrightarrow> i < n \<and> P i \<and> (\<forall>j<i. \<not> P j)"
  by (auto simp: find_Some_iff)

lemma attendee_index_None:
  assumes "lists_attendees s e xs" and "a \<notin> set xs"
  shows "attendee_index s e a = None"
  using assms by (auto simp: attendee_index_def find_None_iff lists_attendees_def in_set_conv_nth)

lemma attendee_index_Some:
  assumes "lists_attendees s e xs" and "distinct xs" and "i < length xs"
  shows "attendee_index s e (xs ! i) = Some i"
  using assms by (auto simp: attendee_index_def find_upt_Some lists_attendees_def nth_eq_iff_index_eq)

text \<open>Removal moves the last entry into the freed slot.\<close>

lemma drop_attendee_eq:
  assumes "lists_attendees s e (ys @ [l])" and "distinct (ys @ [l])" and "i \<le> length ys"
  shows "drop_attendee e ((ys @ [l]) ! i) s = s\<lparr>ek_EventAttendeeIndex :=
      (ek_EventAttendeeIndex s)((e, i) \<mapsto> l, (e, length ys) := None),
    ek_EventAttendeesCount := (ek_EventAttendeesCount s)(e \<mapsto> length ys)\<rparr>"
proof -
  have "attendee_index s e ((ys @ [l]) ! i) = Some i"
    using attendee_index_Some [OF assms(1,2)] assms(3) by simp
  moreover have "get_attendees_count s e = Suc (length ys)"
    and "ek_EventAttendeeIndex s (e, length ys) = Some l"
    using assms(1) by (simp_all add: lists_attendees_def)
  ultimately show ?thesis by (simp add: drop_attendee_def Let_def)
qed

lemma lists_drop:
  assumes "lists_attendees s e (ys @ [l])" and "distinct (ys @ [l])" and "i \<le> length ys"
  shows "lists_attendees (drop_attendee e ((ys @ [l]) ! i) s) e (ys[i := l])"
  using assms(1) unfolding drop_attendee_eq [OF assms]
  by (auto simp: lists_attendees_def get_attendees_count_def nth_append nth_list_update)

lemma drop_attendee_other:
  assumes "e' \<noteq> e"
  shows "lists_attendees (drop_attendee e a s) e' = lists_attendees s e'"
  using assms by (intro lists_other)
    (auto simp: drop_attendee_def get_attendees_count_def Let_def split: option.split)

lemma drop_attendee_registered [simp]:
  "is_registered (drop_attendee e a s) = is_registered s"
  by (auto simp: drop_attendee_def is_registered_def fun_eq_iff Let_def split: option.split)

lemma attendees_remove:
  assumes "attendees_ok s"
  shows "attendees_ok (remove_registration e a s)"
  unfolding attendees_ok_def
proof
  fix e'
  let ?s = "s\<lparr>ek_Registration := (ek_Registration s)((e, a) := None)\<rparr>"
  have same: "lists_attendees ?s x = lists_attendees s x" for x
    by (rule lists_other) (simp_all add: get_attendees_count_def)
  have reg: "is_registered (remove_registration e a s) x b \<longleftrightarrow> is_registered s x b \<and> \<not> (x = e \<and> b = a)" for x b
    by (auto simp: remove_registration_def is_registered_def Let_def drop_attendee_def split: option.split)
  have after: "remove_registration e a s = (if get_attendees_count s e = 0 then ?s else drop_attendee e a ?s)"
    by (simp add: remove_registration_def Let_def get_attendees_count_def)
  obtain xs where xs: "lists_attendees s e' xs" "distinct xs" "set xs = {b. is_registered s e' b}"
    using assms unfolding attendees_ok_def by blast
  show "\<exists>zs. lists_attendees (remove_registration e a s) e' zs \<and> distinct zs \<and>
      set zs = {b. is_registered (remove_registration e a s) e' b}"
  proof (cases "e' = e \<and> a \<in> set xs")
    case False
    have "lists_attendees (remove_registration e a s) e' xs"
    proof (cases "e' = e")
      case True
      then have "attendee_index ?s e a = None"
        using attendee_index_None [of ?s e xs a] xs(1) False same by simp
      then show ?thesis using xs(1) True same by (simp add: after drop_attendee_def)
    next
      case False
      then have "lists_attendees (drop_attendee e a ?s) e' xs"
        by (simp only: drop_attendee_other same xs(1) not_False_eq_True)
      then show ?thesis using xs(1) by (simp add: after same)
    qed
    then show ?thesis using xs reg False by (intro exI [of _ xs]) auto
  next
    case True
    obtain ys l where split: "xs = ys @ [l]" using True by (cases xs rule: rev_cases) auto
    obtain i where i: "i \<le> length ys" "a = (ys @ [l]) ! i"
      using True split by (metis in_set_conv_nth length_append_singleton less_Suc_eq_le)
    have "lists_attendees (drop_attendee e a ?s) e (ys[i := l])"
      using lists_drop [of ?s e ys l i] xs split i True same by simp
    moreover have "get_attendees_count s e \<noteq> 0" using xs(1) split True by (simp add: lists_attendees_def)
    moreover have "set (ys[i := l]) = set xs - {a} \<and> distinct (ys[i := l])"
    proof (cases "i = length ys")
      case True
      then show ?thesis using xs(2) i(2) by (auto simp: split list_update_beyond)
    next
      case False
      then have "i < length ys" using i(1) by simp
      then show ?thesis
        using xs(2) i(2) by (auto simp: split nth_append set_update_distinct distinct_list_update)
    qed
    ultimately show ?thesis
      using True xs(3) reg by (intro exI [of _ "ys[i := l]"]) (auto simp: after)
  qed
qed

section \<open>Frames\<close>

definition same_people :: "'w event_state \<Rightarrow> 'w event_state \<Rightarrow> bool" where
  "same_people s s' \<longleftrightarrow> ek_Registration s' = ek_Registration s \<and>
     ek_EventAttendeeIndex s' = ek_EventAttendeeIndex s \<and>
     ek_EventAttendeesCount s' = ek_EventAttendeesCount s \<and>
     ek_AnonymousNullifier s' = ek_AnonymousNullifier s \<and> ek_ZkNullifier s' = ek_ZkNullifier s"

interpretation same_people: history same_people
  by unfold_locales (simp_all add: same_people_def)

lemma same_people_step: "same_people s s' \<Longrightarrow> people_step s s'"
  by (simp add: same_people_def people_step_def nullifiers_kept_def attendees_ok_def
      lists_attendees_def get_attendees_count_def is_registered_def has_zk_nullifier_def)

lemma storage_same_people:
  "keeps same_people (emit_ev x)" "keeps same_people (set_admin_ev a)"
  "keeps same_people (put_ticket_contract_ev a)" "keeps same_people (put_payments_contract_ev a)"
  "keeps same_people (set_contract_version_ev n)" "keeps same_people (put_event_privacy_ev e l)"
  "keeps same_people (set_postponement e info)" "keeps same_people (remove_postponement e)"
  "keeps same_people (set_postpone_count e n)" "keeps same_people (put_claim_settings e cs)"
  "keeps same_people (increment_free_claim_count e a)" "keeps same_people (set_last_free_claim e a n)"
  "keeps same_people (put_anonymous_claim_verifier a)"
  "keeps same_people (put_anon_claim_settings e acs)" "keeps same_people (set_anon_window_state e w)"
  "keeps same_people (set_zk_verification_config e z)" "keeps same_people (save_event e ev)"
  "keeps same_people (update_event e ev)" "keeps same_people (save_reservation e a r)"
  "keeps same_people (remove_reservation e a)"
  unfolding event_modify_defs save_event_def update_event_def save_reservation_def
    remove_reservation_def
  by (intro same_people.keeps_rules keeps_modify; simp add: same_people_def)+

lemma splits_same_people: "keeps same_people (check_splits before n sp)"
proof (induction before n sp rule: check_splits.induct)
  case (1 before tot)
  show ?case by (simp add: same_people.pure_keeps)
next
  case (2 before tot r bps rest)
  then show ?case by (simp, intro same_people.keeps_rules)
qed

lemmas calls_same_people = keeps_calls [of same_people, simplified same_people_def, simplified,
  folded same_people_def]

lemma reads_same_people:
  "keeps same_people get_admin_ev" "keeps same_people get_ticket_contract_ev"
  "keeps same_people get_payments_contract_ev" "keeps same_people (get_event e)"
  "keeps same_people (get_reservation e a)" "keeps same_people get_anonymous_claim_verifier"
  "keeps same_people (require_auth env a)" "keeps same_people (organizer_event env a e)"
  "keeps same_people (require_settleable_privacy e)" "keeps same_people (require_tier ev i)"
  "keeps same_people (validate_revenue_splits_ev sp a)"
  unfolding get_admin_ev_def get_ticket_contract_ev_def get_payments_contract_ev_def get_event_def
    get_reservation_def get_anonymous_claim_verifier_def require_auth_def organizer_event_def
    require_settleable_privacy_def require_tier_def validate_revenue_splits_ev_def
    validate_revenue_splits_def
  by (intro same_people.keeps_rules keeps_map_err splits_same_people)+

lemma ticket_reads_same_people:
  "keeps same_people (count_event_tickets tids e n)" "keeps same_people (find_valid_ticket tids e)"
  "keeps same_people (count_user_event_tickets a e)"
proof -
  show count: "keeps same_people (count_event_tickets tids e n)" for tids n
    by (induction tids e n rule: count_event_tickets.induct)
      (simp add: same_people.pure_keeps, simp, intro same_people.keeps_rules calls_same_people, blast+)
  show "keeps same_people (find_valid_ticket tids e)"
    by (induction tids e rule: find_valid_ticket.induct)
      (simp add: same_people.pure_keeps, simp, intro same_people.keeps_rules calls_same_people, blast+)
  show "keeps same_people (count_user_event_tickets a e)"
    unfolding count_user_event_tickets_def by (intro same_people.keeps_rules calls_same_people count)
qed

lemma build_tiers_same_people: "keeps same_people (build_tiers k n ps)"
proof (induction k n ps rule: build_tiers.induct)
  case (2 k n p ps)
  note IH = "2.IH" [simplified]
  show ?case by (simp, intro same_people.keeps_rules IH)
qed (simp add: same_people.pure_keeps)

lemmas people_frames = storage_same_people calls_same_people reads_same_people
  ticket_reads_same_people build_tiers_same_people same_people.keeps_rules

lemma most_calls_same_people:
  "keeps same_people (initialize_ev env a T P)" "keeps same_people (create_event env params)"
  "keeps same_people (update_event_details env uparams)"
  "keeps same_people (add_ticket_tier env a e nm x c)"
  "keeps same_people (update_tier env a e i nmo pro cpo)"
  "keeps same_people (update_event_status env a e st)"
  "keeps same_people (cancel_event_ev env a e)" "keeps same_people (postpone_event_ev env a e n k)"
  "keeps same_people (finalize_postponement env a e)" "keeps same_people (set_event_privacy_ev env a e l)"
  "keeps same_people (set_claim_settings env a e n k)"
  "keeps same_people (set_anonymous_claim_verifier env a b)"
  "keeps same_people (set_anon_claim_settings env a e n k)" "keeps same_people (set_zk_config env a e z)"
  "keeps same_people (migrate_ev env a)" "keeps same_people (withdraw_revenue_ev env a e)"
  "keeps same_people (withdraw_split_ev env a e)" "keeps same_people (flag_cohost_ev env a e b)"
  "keeps same_people (reserve_ticket env a e i h)" "keeps same_people (release_expired_reservation env e a)"
  unfolding initialize_ev_def create_event_def check_event_params_def update_event_details_def
    update_texts_def update_terms_def upd_def when_linked_def sync_config_def
    add_ticket_tier_def update_tier_def resize_tier_def update_event_status_def
    emit_status_changed_def cancel_event_ev_def postpone_event_ev_def
    finalize_postponement_def set_event_privacy_ev_def set_claim_settings_def
    set_anonymous_claim_verifier_def set_anon_claim_settings_def set_zk_config_def migrate_ev_def
    withdraw_revenue_ev_def withdraw_split_ev_def flag_cohost_ev_def reserve_ticket_def
    release_expired_reservation_def reserve_seat_def release_seat_def Let_def
  by (intro people_frames)+

section \<open>Registrations and nullifiers\<close>

text \<open>The pieces of the entry points that leave people alone.\<close>

lemma checks_same_people:
  "keeps same_people (check_anonymous_claim env verify e i claim ev)"
  "keeps same_people (check_batch env a e i n ev)"
  "keeps same_people (check_zk_claim env e i zclaim ev)" "keeps same_people (charge env p n a e x h)"
  "keeps same_people (emit_registration env e a i n)"
  unfolding check_batch_def check_anonymous_claim_def check_zk_claim_def
    charge_def emit_registration_def check_reservation_def check_free_claims_def
    count_window_claim_def Let_def
  by (intro people_frames)+

lemma people_jump:
  assumes "keeps same_people m" and "same_people r s" and "\<And>x s'. same_people r s' \<Longrightarrow> Q x s'"
  shows "wp m Q s"
  by (rule wp_keeps [OF assms(1)]) (rule assms(3), rule same_people.trans [OF assms(2)])

lemmas people_jumps =
  storage_same_people [THEN people_jump] calls_same_people [THEN people_jump]
  reads_same_people [THEN people_jump] checks_same_people [THEN people_jump]
  ticket_reads_same_people [THEN people_jump]

lemma people_keeps: "keeps same_people m \<Longrightarrow> keeps people_step m"
  by (erule keeps_mono, rule same_people_step)

lemma wpI_check_registration_people:
  assumes "same_people r s" and "\<And>x s'. same_people r s' \<Longrightarrow> \<not> is_registered r e a \<Longrightarrow> Q x s'"
  shows "wp (check_registration env a e i ev) Q s"
proof -
  have free: "keeps same_people (case find_tier (ev_tiers ev) i of
              None \<Rightarrow> return ()
            | Some i \<Rightarrow> whenE (tt_price (ev_tiers ev ! i) = 0)
                (check_free_claims env e a (\<lambda>count limit. return (count \<ge> limit))))"
    unfolding check_free_claims_def by (intro people_frames)
  have res: "keeps same_people (check_reservation env e a i b)" for b
    unfolding check_reservation_def by (intro people_frames)
  show ?thesis
    unfolding check_registration_def
    by (rule wpI_thenE, rule wpI_ensure, rule wpI_thenE, rule people_jump [OF reads_same_people(9) assms(1)],
        rule wpI_thenE, rule people_jump [OF free], assumption,
        intro wp_intro res [THEN people_jump] people_jumps; assumption?)
      (auto intro!: assms(2) simp: same_people_def is_registered_def)
qed

text \<open>A new registration or nullifier, and what follows it.\<close>

lemma wpI_save_registration:
  assumes "same_people s t" and "\<not> is_registered t e a" and "keeps same_people k"
  shows "wp (save_registration e a) (\<lambda>_. wp k (\<lambda>_. people_step s)) t"
proof -
  have "people_step t (put_registration e a t)"
    using attendees_put [OF _ assms(2)]
    by (simp add: people_step_def nullifiers_kept_def put_registration_def has_zk_nullifier_def Let_def)
  then have "people_step s (put_registration e a t)"
    by (rule people.trans [OF same_people_step [OF assms(1)]])
  then have "wp k (\<lambda>_. people_step s) (put_registration e a t)"
    by (rule people.from_earlier [OF people_keeps [OF assms(3)]])
  then show ?thesis by (simp add: save_registration_def wp_rules)
qed

lemma wpI_save_commitment:
  assumes "same_people s t" and "ek_AnonymousNullifier s (e, h) = None" and "keeps same_people k"
  shows "wp (save_anonymous_ticket_commitment e h c) (\<lambda>_. wp k (\<lambda>_. people_step s)) t"
proof -
  let ?t = "t\<lparr>ek_AnonymousNullifier := (ek_AnonymousNullifier t)((e, h) \<mapsto> c)\<rparr>"
  have "people_step t ?t"
    using assms(1,2) by (auto simp: people_step_def nullifiers_kept_def attendees_ok_def map_le_def
        lists_attendees_def get_attendees_count_def is_registered_def has_zk_nullifier_def
        same_people_def)
  then have "people_step s ?t" by (rule people.trans [OF same_people_step [OF assms(1)]])
  then show ?thesis
    unfolding save_anonymous_ticket_commitment_def wp_modify
    by (rule people.from_earlier [OF people_keeps [OF assms(3)]])
qed

lemma remove_registration_nullifiers [simp]:
  "ek_AnonymousNullifier (remove_registration e a s) = ek_AnonymousNullifier s"
  "has_zk_nullifier (remove_registration e a s) = has_zk_nullifier s"
  by (auto simp: remove_registration_def drop_attendee_def has_zk_nullifier_def fun_eq_iff Let_def
      split: option.split)

lemma removal_step: "keeps people_step (modify (remove_registration e a))"
  by (rule keeps_modify) (simp add: people_step_def nullifiers_kept_def attendees_remove)

lemma zk_nullifier_step: "keeps people_step (save_zk_nullifier e h)"
  unfolding save_zk_nullifier_def
  by (rule keeps_modify) (auto simp: people_step_def nullifiers_kept_def has_zk_nullifier_def
      attendees_ok_def lists_attendees_def get_attendees_count_def is_registered_def)

lemmas people_step_frames = people.keeps_rules removal_step zk_nullifier_step
  storage_same_people [THEN people_keeps] calls_same_people [THEN people_keeps]
  reads_same_people [THEN people_keeps] checks_same_people [THEN people_keeps]
  ticket_reads_same_people [THEN people_keeps]

lemma refund_attend_step:
  "keeps people_step (request_postponement_refund_ev env a k)"
  "keeps people_step (verify_and_attend env e i zclaim)"
  unfolding request_postponement_refund_ev_def verify_and_attend_def when_linked_def Let_def
  by (intro people_step_frames)+

lemma claim_people_step: "keeps people_step (claim_anonymous_ticket env verify e i claim)"
proof (rule keepsI)
  fix s :: "'a event_state"
  have save: "wp (thenE (save_anonymous_ticket_commitment e (ac_nullifier claim) c) k) (\<lambda>_. people_step s) t"
    if "same_people s t" "ek_AnonymousNullifier s (e, ac_nullifier claim) = None" "keeps same_people k"
    for c t k
    unfolding wp_thenE by (rule wpI_save_commitment [OF that])
  show "wp (claim_anonymous_ticket env verify e i claim) (\<lambda>_. people_step s) s"
    unfolding claim_anonymous_ticket_def
    by (intro save wpI_bindE people_jumps wpI_gets wpI_option wpI_ensure wpI_prod people_frames;
        (assumption | rule same_people.refl)?)
      (auto simp: same_people_step get_anonymous_ticket_commitment_def same_people_def)
qed

lemma registration_people_step: "keeps people_step (register_for_event env n a e i vr h)"
proof (rule keepsI)
  fix s :: "'a event_state"
  have save: "wp (thenE (save_registration e a) k) (\<lambda>_. people_step s) t"
    if "same_people s t" "\<not> is_registered s e a" "keeps same_people k" for t k
    unfolding wp_thenE
    by (rule wpI_save_registration [OF that(1) _ that(3)]) (use that in \<open>simp add: same_people_def is_registered_def\<close>)
  show "wp (register_for_event env n a e i vr h) (\<lambda>_. people_step s) s"
    unfolding register_for_event_def Let_def
    by (intro save wp_intro wpI_check_registration_people people_jumps people_frames
        checks_same_people; (assumption | rule same_people.refl)?)
qed

lemma batch_people_step: "keeps people_step (batch_register_for_event env n a e i m vr h)"
proof (rule keepsI)
  fix s :: "'a event_state"
  have save: "wp (thenE (whenE (\<not> r) (save_registration e a)) k) (\<lambda>_. people_step s) t"
    if "same_people s t" "r = is_registered t e a" "keeps same_people k" for t k r
  proof (cases r)
    case True
    then show ?thesis
      using people.from_earlier [OF people_keeps [OF that(3)] same_people_step [OF that(1)]]
      by (simp add: wp_rules)
  next
    case False
    then show ?thesis using wpI_save_registration [OF that(1) _ that(3)] that(2) by (simp add: wp_rules)
  qed
  show "wp (batch_register_for_event env n a e i m vr h) (\<lambda>_. people_step s) s"
    unfolding batch_register_for_event_def Let_def
    by (rule wpI_thenE, rule people_jumps, rule same_people.refl)
      (intro save wp_intro people_jumps people_frames checks_same_people;
        (assumption | rule same_people.refl)?)
qed

section \<open>Executions\<close>

lemma event_call_people: "event_call_step env T P s s' \<Longrightarrow> people_step s s'"
  by (cases rule: event_call_step.cases, assumption)
    (erule most_calls_same_people [THEN people_keeps, THEN keepsD] refund_attend_step [THEN keepsD]
      claim_people_step [THEN keepsD] registration_people_step [THEN keepsD]
      batch_people_step [THEN keepsD])+

lemma system_step_people: "system_step N s s' \<Longrightarrow> people_step s s'"
  by (cases rule: system_step.cases, assumption)
    (auto intro: event_call_people same_people_step simp: same_people_def)

lemma system_init_people: "system_init N s \<Longrightarrow> attendees_ok s"
  unfolding system_init_def by (erule conjE, erule ssubst)
    (simp add: attendees_ok_def lists_attendees_def get_attendees_count_def is_registered_def
      empty_event_state_def)

interpretation people_machine: state_machine "system_init N" "system_step N" attendees_ok for N
  by unfold_locales (erule system_init_people, auto dest: system_step_people simp: people_step_def)

end
