(* ===== verification/Event_Sample.thy ===== *)
theory Event_Sample
  imports Event_Refinement Event_People Payments_Sample
begin

text \<open>
  A concrete network: the event contract at address 50 linked to the payments contract of
  \<open>Payments_Sample\<close> and a ticket contract at address 60.  An event with one paid tier of two
  seats is created and opened, one seat is reserved and the other one sold.
\<close>

section \<open>The network\<close>

definition office :: "nat \<Rightarrow> ledger env" where
  "office n = sample_env n (5 * n) (Addr 50) (\<lambda>a. a \<noteq> Addr 50 \<and> a \<noteq> Addr 100)"

definition ticket_desk :: "nat \<Rightarrow> ledger env" where
  "ticket_desk n = sample_env n (5 * n) (Addr 60) (\<lambda>a. a \<noteq> Addr 100)"

definition sample_network :: "ledger network" where
  "sample_network = \<lparr>event_envs = range office, payments_envs = desks,
     ticket_envs = range ticket_desk, payments_address = Addr 100, ticket_address = Addr 60\<rparr>"

lemma sample_network_simps [simp]:
  "event_envs sample_network = range office" "payments_envs sample_network = desks"
  "ticket_envs sample_network = range ticket_desk"
  "payments_address sample_network = Addr 100" "ticket_address sample_network = Addr 60"
  by (simp_all add: sample_network_def)

lemma callee_office:
  "callee (office n) (Addr 100) = desk n" "callee (office n) (Addr 60) = ticket_desk n"
  by (auto simp: office_def desk_def ticket_desk_def callee_def sample_env_def)

lemma wired_sample [simp]: "wired sample_network"
  by (auto simp: wired_def callee_office)

definition sample_params :: create_event_params where
  "sample_params = \<lparr>cp_organizer = Addr 7, cp_payout_token = Addr 1, cp_event_id = ''ev'',
     cp_name = ''n'', cp_description = ''d'', cp_venue = ''v'', cp_event_date = 90000,
     cp_initial_tiers = [\<lparr>tp_name = ''gold'', tp_price = 300, tp_capacity = 2\<rparr>],
     cp_allow_anonymous = True, cp_requires_verification = False, cp_privacy_level = Standard,
     cp_max_tickets_per_user = 3, cp_event_start_ledger = 100, cp_event_end_ledger = 200,
     cp_withdrawal_delay_ledgers = 100, cp_revenue_splits = [], cp_resale_royalty_bps = 500,
     cp_max_resale_price = None, cp_allow_free_ticket_transfer = True\<rparr>"

section \<open>Reservation and sale\<close>

definition sample_opening :: "(ledger, unit) event_call" where
  "sample_opening =
     thenE (call_payments (initialize (Addr 5) (Addr 1) 200 (Addr 6) (Addr 50))) (
     thenE (initialize_ev (office 1) (Addr 5) (Addr 60) (Addr 100)) (
     thenE (create_event (office 10) sample_params) (
     thenE (update_event_status (office 15) (Addr 7) ''ev'' S_Active) (
     reserve_ticket (office 20) (Addr 12) ''ev'' 0 None))))"

definition gold_event :: "nat \<Rightarrow> event" where
  "gold_event k = \<lparr>ev_event_id = ''ev'', ev_organizer = Addr 7, ev_payout_token = Addr 1,
     ev_name = ''n'', ev_description = ''d'', ev_venue = ''v'', ev_event_date = 90000,
     ev_allow_anonymous = True, ev_requires_verification = False,
     ev_tiers = [\<lparr>tt_tier_id = 0, tt_name = ''gold'', tt_price = 300, tt_capacity = 2,
       tt_sold = k, tt_reserved = 1\<rparr>],
     ev_status = S_Active, ev_created_at = 50, ev_privacy_level = Standard,
     ev_max_tickets_per_user = 3, ev_max_supply = 2, ev_sold_count = k,
     ev_event_start_ledger = 100, ev_event_end_ledger = 200,
     ev_withdrawal_delay_ledgers = 100, ev_revenue_splits = [], ev_resale_royalty_bps = 500,
     ev_max_resale_price = None, ev_allow_free_ticket_transfer = True\<rparr>"

definition opened :: "ledger event_state" where
  "opened = (empty_event_state sample_wallets)\<lparr>
     ek_Event := [''ev'' \<mapsto> gold_event 0],
     ek_Reservation := [(''ev'', Addr 12) \<mapsto> \<lparr>rv_tier_id = 0, rv_expires_at = 1000\<rparr>],
     ek_Admin := Some (Addr 5), ek_TicketContract := Some (Addr 60),
     ek_PaymentsContract := Some (Addr 100), ek_EventPrivacy := [''ev'' \<mapsto> Standard],
     ek_payments := (empty_payments_state sample_wallets)\<lparr>
       pk_Admin := Some (Addr 5), pk_AcceptedToken := Some (Addr 1),
       pk_EventContract := Some (Addr 50),
       pk_EventConfig := [''ev'' \<mapsto> config_of (gold_event 0)],
       pk_PlatformFeeBps := Some 200, pk_PlatformWallet := Some (Addr 6)\<rparr>,
     ek_emitted := [EventCreated ''ev'' (Full (Addr 7)) ''n'' ''v'' 90000 1 50,
       EventStatusChanged ''ev'' S_Upcoming S_Active 75]\<rparr>"

lemmas event_state_eval =
  get_event_def save_event_def update_event_def event_exists_def is_registered_def
  has_reservation_def get_reservation_def save_reservation_def remove_reservation_def
  has_linked_contracts_def get_ticket_contract_ev_def get_payments_contract_ev_def
  get_event_privacy_ev_def put_registration_def event_modify_defs get_attendees_count_def
  get_admin_ev_def ticket_storage_defs call_payments_def call_ticket_def try_call_ticket_def
  empty_event_state_def empty_ticket_state_def callee_office office_def ticket_desk_def
  callee_def checked_add_u32_def

lemmas event_eval = initialize_ev_def create_event_def check_event_params_def
  validate_revenue_splits_ev_def validate_revenue_splits_def map_err_def when_linked_def
  sync_config_def config_of_def new_event_def update_event_status_def organizer_event_def
  reserve_ticket_def reserve_seat_def release_seat_def require_tier_def register_for_event_def
  check_registration_def check_reservation_def require_settleable_privacy_def
  check_free_claims_def charge_def emit_registration_def emit_status_changed_def
  set_event_contract_tk_def initialize_def sync_event_config_def require_event_contract_def
  require_auth_def MIN_WITHDRAWAL_DELAY_LEDGERS_def mint_ticket_def mint_authority_def
  new_ticket_def add_owner_ticket_def add_event_ticket_def put_event_ticket_def
  put_owner_ticket_def get_owner_tickets_count_tk_def get_event_tickets_count_def

lemma opened_runs: "sample_opening (empty_event_state sample_wallets) = Inr ((), opened)"
  unfolding sample_opening_def opened_def
  by (simp add: event_eval event_state_eval payment_eval state_eval sample_defs sample_params_def
      numeral_2_eq_2 [symmetric] gold_event_def)

lemma office_step:
  assumes "system_execution sample_network s"
    and "event_call_step (office n) (Addr 60) (Addr 100) s s'"
  shows "system_execution sample_network s'"
  by (rule reachable_step [OF assms(1)]) (rule event_invocation [of "office n"], use assms(2) in simp_all)

lemma opened_reachable: "system_execution sample_network opened"
proof -
  have init: "system_init sample_network (empty_event_state sample_wallets)"
    using sample_init by (simp add: system_init_def empty_event_state_def empty_payments_state_def)
  have pay: "system_step sample_network s t"
    if "call_payments (initialize (Addr 5) (Addr 1) 200 (Addr 6) (Addr 50)) s = Inr (u, t)" for s t u
  proof -
    obtain p where p: "initialize (Addr 5) (Addr 1) 200 (Addr 6) (Addr 50) (ek_payments s) = Inr (u, p)"
      "t = s\<lparr>ek_payments := p\<rparr>"
      using \<open>call_payments _ s = _\<close> by (auto simp: call_payments_def split: sum.splits)
    show ?thesis
      unfolding p(2) by (rule payments_invocation)
        (use invocation [OF desk_in_desks [of 0] call_initialize [OF p(1)]] in simp)
  qed
  have step: "event_call_step (office n) (Addr 60) (Addr 100) s t \<Longrightarrow> system_step sample_network s t" for n s t
    by (rule event_invocation [of "office n"]) simp_all
  show ?thesis
    by (rule reachable_thenE [OF reachable_init [where init = "system_init sample_network", OF init]
            opened_runs [unfolded sample_opening_def]], erule pay,
        erule (1) reachable_thenE, rule step, erule call_initialize_ev,
        erule (1) reachable_thenE, rule step, erule call_create_event,
        erule (1) reachable_thenE, rule step, erule call_update_status,
        erule reachable_step, rule step, erule call_reserve)
qed

text \<open>The other seat is sold.\<close>

definition booked :: "ledger event_state" where
  "booked = opened\<lparr>
     ek_Event := [''ev'' \<mapsto> gold_event 1],
     ek_Registration := [(''ev'', Addr 11) \<mapsto> True],
     ek_EventAttendeeIndex := [(''ev'', 0) \<mapsto> Addr 11], ek_EventAttendeesCount := [''ev'' \<mapsto> 1],
     ek_ticket := empty_ticket_state\<lparr>
       tk_Ticket := [1 \<mapsto> new_ticket (ticket_desk 30) 1 ''ev'' (Addr 7) (Addr 11)],
       tk_OwnerTicket := [(Addr 11, 1) \<mapsto> 0], tk_EventTicket := [(''ev'', 1) \<mapsto> True],
       tk_NextTicketId := Some 2, tk_OwnerTicketIndex := [(Addr 11, 0) \<mapsto> 1],
       tk_OwnerTicketsCount := [Addr 11 \<mapsto> 1], tk_EventTicketIndex := [(''ev'', 0) \<mapsto> 1],
       tk_EventTicketsCount := [''ev'' \<mapsto> 1],
       tk_emitted := [TicketMinted 1 ''ev'' (Addr 11) (Addr 7) 150]\<rparr>,
     ek_payments := (ek_payments opened)\<lparr>
       pk_world := (pk_world (ek_payments opened))
         (Addr 1 := ((pk_world (ek_payments opened)) (Addr 1))(Addr 11 := 700, Addr 100 := 300)),
       pk_EventConfig := [''ev'' \<mapsto> (config_of (gold_event 0))\<lparr>ec_sold_count := 1\<rparr>],
       pk_Payment := [1 \<mapsto> standard_payment\<lparr>p_paid_at := 150\<rparr>],
       pk_Ticket := [1 \<mapsto> build_ticket standard_payment 1],
       pk_EventRevenue := [''ev'' \<mapsto> 300], pk_EventTokenRevenue := [(''ev'', Addr 1) \<mapsto> 300],
       pk_EventPayment := [(''ev'', 1) \<mapsto> True], pk_OwnerTicket := [(Addr 11, 1) \<mapsto> 0],
       pk_PayerPayment := [(Addr 11, 1) \<mapsto> True], pk_EventToken := [(''ev'', Addr 1) \<mapsto> True],
       pk_EventTokenIndex := [(''ev'', 0) \<mapsto> Addr 1], pk_EventTokenCount := [''ev'' \<mapsto> 1],
       pk_NextPaymentId := Some 1, pk_NextTicketId := Some 1,
       pk_ProcessedNonce := [(Addr 11, 1) \<mapsto> True],
       pk_UserEventTickets := [(''ev'', Addr 11) \<mapsto> 1], pk_TotalPayments := [''ev'' \<mapsto> 300],
       pk_EventPaymentIndex := [(''ev'', 0) \<mapsto> 1], pk_EventPaymentsCount := [''ev'' \<mapsto> 1],
       pk_PayerPaymentIndex := [(Addr 11, 0) \<mapsto> 1], pk_PayerPaymentsCount := [Addr 11 \<mapsto> 1],
       pk_EventTokenVolume := [(''ev'', Addr 1) \<mapsto> 300],
       pk_OwnerTicketIndex := [(Addr 11, 0) \<mapsto> 1], pk_OwnerTicketsCount := [Addr 11 \<mapsto> 1],
       pk_emitted := [PaymentReceived 1 ''ev'' (Full (Addr 11)) 300 (Addr 1) 150,
         TicketIssued 1 ''ev'' (Full (Addr 11)) 1 150]\<rparr>,
     ek_emitted := ek_emitted opened @ [EventRegistration ''ev'' (Full (Addr 11)) 0 1 150]\<rparr>"

lemma booked_runs:
  "register_for_event (office 30) 1 (Addr 11) ''ev'' 0 False None opened = Inr ((), booked)"
  unfolding booked_def opened_def
  by (simp add: event_eval event_state_eval payment_eval state_eval sample_defs
      numeral_2_eq_2 [symmetric] gold_event_def)

lemma booked_reachable: "system_execution sample_network booked"
  by (rule office_step [OF opened_reachable call_register], rule booked_runs)

lemma sample_events:
  "ek_Event opened = [''ev'' \<mapsto> gold_event 0]" "ek_Event booked = [''ev'' \<mapsto> gold_event 1]"
  by (simp_all add: opened_def booked_def)

lemma gold_event_simps:
  "ev_sold_count (gold_event k) = k" "ev_max_supply (gold_event k) = 2"
  "ev_organizer (gold_event k) = Addr 7" "ev_status (gold_event k) = S_Active"
  "ev_tiers (gold_event k) = [\<lparr>tt_tier_id = 0, tt_name = ''gold'', tt_price = 300, tt_capacity = 2,
     tt_sold = k, tt_reserved = 1\<rparr>]"
  by (simp_all add: gold_event_def)

end
