(* ===== verification/Event_Properties.thy ===== *)
theory Event_Properties
  imports Event_Sample
begin

text \<open>
  The properties of the event contract and of the linked system: seats, life cycle, the two linked
  contracts as components, attendee lists, anonymous claims and zkPassport attendance.
\<close>

section \<open>Seats\<close>

text \<open>C22: In every reachable state of the linked system an event is never oversold: in each tier the
  sold and reserved seats together fit the capacity, the event's sold count is the sum of the tiers'
  sold seats and at most its maximum supply, which is the sum of the capacities, and a tier's
  reserved counter is exactly the number of addresses that hold a reservation in it.\<close>
theorem never_oversold:
  assumes "system_execution N s" and "ek_Event s e = Some ev"
  shows "ev_sold_count ev = (\<Sum>t\<leftarrow>ev_tiers ev. tt_sold t) \<and>
    ev_max_supply ev = (\<Sum>t\<leftarrow>ev_tiers ev. tt_capacity t) \<and> ev_sold_count ev \<le> ev_max_supply ev \<and>
    (\<forall>i<length (ev_tiers ev). tt_sold (ev_tiers ev ! i) + tt_reserved (ev_tiers ev ! i)
        \<le> tt_capacity (ev_tiers ev ! i) \<and>
      tt_reserved (ev_tiers ev ! i) =
        card {a. \<exists>r. ek_Reservation s (e, a) = Some r \<and> rv_tier_id r = i})"
proof -
  have ok: "seats_ok s" by (rule seats_machine.reachable_inv [OF assms(1)])
  have sup: "supply_ok ev" by (rule seats_okD(1) [OF ok assms(2)])
  have "(\<Sum>t\<leftarrow>ev_tiers ev. tt_sold t) \<le> (\<Sum>t\<leftarrow>ev_tiers ev. tt_capacity t)"
    by (rule sum_list_mono) (use sup in \<open>auto simp: supply_ok_def in_set_conv_nth\<close>)
  then show ?thesis
    using sup seats_okD(2) [OF ok assms(2)] by (simp add: supply_ok_def held_def)
qed

theorem never_oversold_witness:
  "ev_sold_count (gold_event 1) \<le> ev_max_supply (gold_event 1) \<and>
   card {a. \<exists>r. ek_Reservation booked (''ev'', a) = Some r \<and> rv_tier_id r = 0} = 1"
  using never_oversold [OF booked_reachable, of "''ev''" "gold_event 1"]
  by (simp add: sample_events gold_event_simps)

section \<open>Life cycle\<close>

definition event_kept :: "event \<Rightarrow> event \<Rightarrow> bool" where
  "event_kept ev ev' \<longleftrightarrow> status_edge\<^sup>*\<^sup>* (ev_status ev) (ev_status ev') \<and>
     ev_event_id ev' = ev_event_id ev \<and> ev_organizer ev' = ev_organizer ev \<and>
     ev_payout_token ev' = ev_payout_token ev \<and> ev_created_at ev' = ev_created_at ev \<and>
     ev_revenue_splits ev' = ev_revenue_splits ev \<and>
     ev_withdrawal_delay_ledgers ev' = ev_withdrawal_delay_ledgers ev \<and>
     ev_sold_count ev \<le> ev_sold_count ev' \<and> length (ev_tiers ev) \<le> length (ev_tiers ev') \<and>
     (0 < ev_sold_count ev \<longrightarrow> ev_resale_royalty_bps ev' = ev_resale_royalty_bps ev \<and>
        ev_max_resale_price ev' = ev_max_resale_price ev)"

definition events_kept :: "'w event_state \<Rightarrow> 'w event_state \<Rightarrow> bool" where
  "events_kept s s' \<longleftrightarrow> (\<forall>e ev. ek_Event s e = Some ev \<longrightarrow>
     (\<exists>ev'. ek_Event s' e = Some ev' \<and> event_kept ev ev'))"

lemma event_kept_trans: "event_kept a b \<Longrightarrow> event_kept b c \<Longrightarrow> event_kept a c"
  by (auto simp: event_kept_def intro: rtranclp_trans)

lemma events_kept_trans: "events_kept s t \<Longrightarrow> events_kept t u \<Longrightarrow> events_kept s u"
  unfolding events_kept_def by (meson event_kept_trans)

lemma events_kept_refl: "events_kept s s"
  by (simp add: events_kept_def event_kept_def)

lemma event_edge_kept: "event_edge ev ev' \<Longrightarrow> event_kept ev ev'"
  by (simp add: event_edge_def event_kept_def r_into_rtranclp)

lemma events_edge_kept: "events_edge s s' \<Longrightarrow> events_kept s s'"
  unfolding events_kept_def
proof (intro allI impI)
  fix e ev
  assume "events_edge s s'" and "ek_Event s e = Some ev"
  then obtain ev' where "ek_Event s' e = Some ev'" "event_edge ev ev'"
    by (auto simp: events_edge_def)
  then show "\<exists>ev'. ek_Event s' e = Some ev' \<and> event_kept ev ev'"
    by (intro exI [of _ ev'] conjI event_edge_kept)
qed

lemma events_kept_step: "seats_ok s \<Longrightarrow> system_step N s s' \<Longrightarrow> events_kept s s'"
  by (rule events_edge_kept) (drule system_step_seats, simp add: seats_step_def)

lemma status_edge_terminal:
  "status_edge a b \<Longrightarrow> a = S_Completed \<or> a = S_Cancelled \<Longrightarrow> b = a"
  "status_edge a S_Upcoming \<Longrightarrow> a = S_Upcoming"
  by (cases a; cases b; simp add: status_edge_def)+

lemma status_terminal:
  assumes "status_edge\<^sup>*\<^sup>* a b"
  shows "(a \<in> {S_Completed, S_Cancelled} \<longrightarrow> b = a) \<and> (b = S_Upcoming \<longrightarrow> a = S_Upcoming)"
  using assms
proof (induction rule: rtranclp_induct)
  case (step b c)
  then show ?case using status_edge_terminal(1) [of b c] status_edge_terminal(2) [of b] by blast
qed simp

lemma event_life_cycle_kept:
  "system_execution N s \<Longrightarrow> (system_step N)\<^sup>*\<^sup>* s s' \<Longrightarrow> events_kept s s'"
  by (erule seats_machine.execution_preserves, erule seats_machine.reachable_inv)
    (auto intro: events_kept_step events_kept_refl events_kept_trans)

text \<open>C23: Between any two states of an execution an event keeps its identity, organizer, payout
  token, creation time, revenue splits and withdrawal delay; its sold count and its list of tiers
  only grow; its resale terms are frozen from the first sale on; and its status follows the life
  cycle: Completed and Cancelled are final, and nothing returns to Upcoming.\<close>
theorem event_life_cycle:
  assumes "system_execution N s" and "(system_step N)\<^sup>*\<^sup>* s s'" and "ek_Event s e = Some ev"
  shows "\<exists>ev'. ek_Event s' e = Some ev' \<and> ev_event_id ev' = ev_event_id ev \<and>
    ev_organizer ev' = ev_organizer ev \<and> ev_payout_token ev' = ev_payout_token ev \<and>
    ev_created_at ev' = ev_created_at ev \<and> ev_revenue_splits ev' = ev_revenue_splits ev \<and>
    ev_withdrawal_delay_ledgers ev' = ev_withdrawal_delay_ledgers ev \<and>
    ev_sold_count ev \<le> ev_sold_count ev' \<and> length (ev_tiers ev) \<le> length (ev_tiers ev') \<and>
    (0 < ev_sold_count ev \<longrightarrow> ev_resale_royalty_bps ev' = ev_resale_royalty_bps ev \<and>
      ev_max_resale_price ev' = ev_max_resale_price ev) \<and>
    (ev_status ev \<in> {S_Completed, S_Cancelled} \<longrightarrow> ev_status ev' = ev_status ev) \<and>
    (ev_status ev' = S_Upcoming \<longrightarrow> ev_status ev = S_Upcoming)"
proof -
  have "events_kept s s'" by (rule event_life_cycle_kept [OF assms(1,2)])
  then obtain ev' where "ek_Event s' e = Some ev'" "event_kept ev ev'"
    using assms(3) by (auto simp: events_kept_def)
  then show ?thesis
    using status_terminal [of "ev_status ev" "ev_status ev'"]
    unfolding event_kept_def by (intro exI [of _ ev'] conjI) (elim conjE, assumption | blast)+
qed

theorem event_life_cycle_witness:
  "ev_organizer (gold_event 1) = ev_organizer (gold_event 0) \<and> ev_status (gold_event 1) \<noteq> S_Upcoming"
proof -
  have "(system_step sample_network)\<^sup>*\<^sup>* opened booked"
    by (rule r_into_rtranclp, rule event_invocation [of "office 30"])
      (simp_all add: call_register [OF booked_runs])
  then show ?thesis
    using event_life_cycle [OF opened_reachable, of booked "''ev''" "gold_event 0"]
    by (auto simp: sample_events gold_event_simps)
qed

section \<open>The linked contracts\<close>

text \<open>C24: Refinement of the linked system by its components: in a network whose environments are
  closed under calls, the payments and the ticket storage of every reachable state of the linked
  system are reachable states of the payments and of the ticket contract's own state machines, so
  that every property of their executions (escrow backed by the balance, payments immutable,
  ticket life cycle) holds in the linked system; and a step of the system is a sequence of steps of
  each.\<close>
theorem linked_contracts_refined:
  assumes "wired N" and "system_execution N s"
  shows "payments_execution (payments_envs N) (ek_payments s) \<and>
    reachable (\<lambda>t. t = empty_ticket_state) (\<lambda>t t'. \<exists>env\<in>ticket_envs N. ticket_step env t t')
      (ek_ticket s) \<and>
    (\<forall>s'. system_step N s s' \<longrightarrow>
      (payments_step (payments_envs N))\<^sup>*\<^sup>* (ek_payments s) (ek_payments s') \<and>
      (\<lambda>t t'. \<exists>env\<in>ticket_envs N. ticket_step env t t')\<^sup>*\<^sup>* (ek_ticket s) (ek_ticket s'))"
proof -
  have run: "(\<lambda>t t'. \<exists>env\<in>ticket_envs N. ticket_step env t t') = ticket_run N"
    by (simp add: ticket_run_def fun_eq_iff)
  have sim: "linked N s \<and> payments_execution (payments_envs N) (ek_payments s) \<and>
      reachable (\<lambda>t. t = empty_ticket_state) (ticket_run N) (ek_ticket s)"
    using assms(2)
  proof (induction rule: reachable.induct)
    case (reachable_init s)
    then have "s = empty_event_state (pk_world (ek_payments s))"
      and init: "payments_init (payments_envs N) (ek_payments s)"
      by (simp_all add: system_init_def)
    then have "ek_PaymentsContract s = None" "ek_TicketContract s = None" "ek_ticket s = empty_ticket_state"
      by (metis empty_event_state_def event_state.select_convs)+
    then show ?case using init by (simp add: linked_def reachable.reachable_init)
  next
    case (reachable_step s s')
    then have "runs N s s'" using system_step_runs [OF assms(1)] by blast
    then show ?case
      using reachable_step.IH by (auto simp: runs_def intro: reachable_rtranclp)
  qed
  then show ?thesis
    unfolding run using system_step_runs [OF assms(1)] by (simp add: runs_def)
qed

theorem linked_contracts_refined_witness:
  "payments_execution desks (ek_payments booked) \<and> escrow (ek_payments booked) ''ev'' (Addr 1) = 300"
  using linked_contracts_refined [OF wired_sample booked_reachable]
  by (simp add: booked_def opened_def escrow_def empty_payments_state_def get_total_token_volume_def
      get_total_token_refunds_def get_total_token_withdrawn_def)

section \<open>Attendees\<close>

text \<open>C25: In every reachable state the attendee list of an event, as paginated calls read it, holds
  every registered address exactly once and nobody else; the first page of up to a hundred is a
  prefix of it.\<close>
theorem attendee_list_exact:
  assumes "system_execution N s"
  shows "distinct (get_attendees s e) \<and> set (get_attendees s e) = {a. is_registered s e a} \<and>
    length (get_attendees s e) = get_attendees_count s e \<and>
    get_attendees_paginated s e 0 n = take (min n 100) (get_attendees s e)"
proof -
  obtain xs where xs: "lists_attendees s e xs" "distinct xs" "set xs = {a. is_registered s e a}"
    using people_machine.reachable_inv [OF assms] unfolding attendees_ok_def by blast
  have "idx_list (\<lambda>i. ek_EventAttendeeIndex s (e, i)) k = take k xs" if "k \<le> length xs" for k
    using that xs(1)
    by (induction k) (simp_all add: lists_attendees_def take_Suc_conv_app_nth)
  then show ?thesis
    using xs by (simp add: get_attendees_def get_attendees_paginated_def idx_list_def [symmetric]
        lists_attendees_def Let_def saturating_add_u64_def min_def u64_max_def)
qed

theorem attendee_list_exact_witness:
  "set (get_attendees booked ''ev'') = {a. is_registered booked ''ev'' a} \<and>
   is_registered booked ''ev'' (Addr 11)"
  using attendee_list_exact [OF booked_reachable, of "''ev''"]
  by (simp add: is_registered_def booked_def)

end
