(* ===== verification/Event_Sales.thy ===== *)
theory Event_Sales
  imports Event_Properties Payments_Safety
begin

text \<open>
  What the selling entry points of the event contract do: a registration charges the price, mints
  the ticket and takes the seat; a nullifier claims one seat; zkPassport attendance.
\<close>

section \<open>The payment of a registration\<close>

definition same_records :: "'w payments_state \<Rightarrow> 'w payments_state \<Rightarrow> bool" where
  "same_records s s' \<longleftrightarrow> pk_Payment s' = pk_Payment s"

interpretation records: history same_records
  by unfold_locales (simp_all add: same_records_def)

lemma recording_same_records:
  "keeps same_records (add_event_payment e n)" "keeps same_records (add_payer_payment a n)"
  "keeps same_records (record_nonce env pp p)" "keeps same_records (add_event_revenue e x)"
  "keeps same_records (add_event_token_revenue e a x)" "keeps same_records (add_event_token e a)"
  "keeps same_records (add_total_payments e x)" "keeps same_records (add_total_token_volume e a x)"
  "keeps same_records (emit_payment_received p)" "keeps same_records (issue_ticket env pp p)"
  "keeps same_records (emit_payment_receipt_requested env n e h)"
  unfolding record_nonce_def emit_payment_received_def issue_ticket_def count_user_ticket_def
    emit_payment_receipt_requested_def emit_ticket_issued_def storage_call_defs storage_put_defs Let_def
  by (intro records.keeps_rules payment_privacy_keeps keeps_modify;
    simp add: same_records_def split: option.split)+

lemma wpI_save_payment:
  "(\<And>t. pk_Payment t (p_payment_id p) = Some p \<Longrightarrow> Q () t) \<Longrightarrow> wp (save_payment p) Q s"
  by (simp add: save_payment_def wp_rules)

definition standard_record :: "payment_params \<Rightarrow> nat \<Rightarrow> payment_record \<Rightarrow> bool" where
  "standard_record pp i r \<longleftrightarrow> p_payment_id r = i \<and> p_event_id r = pp_event_id pp \<and>
     p_payer r = Some (pp_payer pp) \<and> p_amount r = pp_amount pp \<and>
     p_token r = pp_token_address pp \<and> p_status r = Held \<and> p_refunded_amount r = 0"

lemma create_payment_creates:
  assumes "pp_privacy_level pp = P_Standard"
  shows "wp (create_payment env pp) (\<lambda>i t. \<exists>r. pk_Payment t i = Some r \<and> standard_record pp i r) s"
proof -
  have build: "wp (build_payment_record env pp i n) (\<lambda>p _. standard_record pp i p) t" for i n t
    using assms by (simp add: build_payment_record_def standard_record_def wp_rules)
  have saved: "wp (thenE (record_payment env pp p) k)
      (\<lambda>j t. \<exists>r. pk_Payment t j = Some r \<and> standard_record pp j r) t"
    if p: "standard_record pp i p" and tail: "keeps same_records k" and ret: "\<And>t. wp k (\<lambda>j _. j = i) t"
    for p k t i
  proof -
    have rest: "wp m (\<lambda>_ t. pk_Payment t i = Some p) t'" if "keeps same_records m" "pk_Payment t' i = Some p"
      for m :: "('a, unit) payment_call" and t'
      using wp_keeps [OF that(1)] that(2) by (simp add: same_records_def)
    have "wp (record_payment env pp p) (\<lambda>_ t. pk_Payment t i = Some p) t"
      unfolding record_payment_def
      by (rule wpI_thenE, rule wp_skip, rule wpI_thenE, rule wpI_save_payment, rule rest,
          intro records.keeps_rules recording_same_records)
        (use p in \<open>simp add: standard_record_def\<close>)
    moreover have "wp k (\<lambda>j t. \<exists>r. pk_Payment t j = Some r \<and> standard_record pp j r) t'"
      if "pk_Payment t' i = Some p" for t'
    proof -
      have "wp k (\<lambda>j t. j = i \<and> same_records t' t) t'"
        unfolding wp_conj using ret tail by (simp add: keeps_def)
      then show ?thesis by (rule wp_mono) (use that p in \<open>auto simp: same_records_def\<close>)
    qed
    ultimately show ?thesis unfolding wp_thenE by (rule wp_mono)
  qed
  show ?thesis
    unfolding create_payment_def
    by (rule wpI_thenE, rule wp_skip, rule wpI_thenE, rule wp_skip, rule wpI_bindE, rule wp_skip,
        rule wpI_bindE, rule wp_mono [OF build], rule saved, assumption,
        intro records.keeps_rules recording_same_records,
        (rule wpI_thenE, rule wp_skip)+, rule wpI_return, rule HOL.refl)
qed

text \<open>A payment without a nonce is refused.\<close>

lemma pay_nonce_zero: "never_returns (pay_for_ticket env 0 a e x em tok l nc sk) s"
  by (rule never_returnsI) (simp add: pay_for_ticket_def create_payment_def check_payment_def wp_rules
      require_auth_def require_not_paused_def)

section \<open>Registration\<close>

lemma check_registration_reads: "keeps (=) (check_registration env a e i ev)"
  unfolding check_registration_def require_settleable_privacy_def check_free_claims_def
    check_reservation_def get_reservation_def require_tier_def
  by (intro reader.keeps_rules)

lemma check_registration_result:
  assumes "seats_ok s" and "ek_Event s e = Some ev"
  shows "wp (check_registration env a e i ev) (\<lambda>x t. t = s \<and> \<not> is_registered s e a \<and>
    i < length (ev_tiers ev) \<and> x = (i, ev_tiers ev ! i, has_reservation s e a)) s"
proof -
  have "wp (check_registration env a e i ev) (\<lambda>_ t. s = t) s"
    using check_registration_reads [of env a e i ev] by (simp add: keeps_def)
  moreover have "wp (check_registration env a e i ev) (\<lambda>_ _. \<not> is_registered s e a) s"
    by (rule wpI_check_registration_people [OF same_people.refl])
  moreover have "wp (check_registration env a e i ev)
      (\<lambda>x _. i < length (ev_tiers ev) \<and> x = (i, ev_tiers ev ! i, has_reservation s e a)) s"
    by (rule wpI_check_registration [OF assms seats.refl]) (simp add: seat_ready_def)
  ultimately have "wp (check_registration env a e i ev) (\<lambda>x t. s = t \<and> \<not> is_registered s e a \<and>
      i < length (ev_tiers ev) \<and> x = (i, ev_tiers ev ! i, has_reservation s e a)) s"
    by (simp add: wp_conj)
  then show ?thesis by (rule wp_mono) simp
qed

lemma charge_records:
  "wp (charge env P n a e x h) (\<lambda>_ t. \<exists>p. t = s\<lparr>ek_payments := p\<rparr> \<and> (\<exists>k r. pk_Payment p k = Some r \<and>
     p_payer r = Some a \<and> p_event_id r = e \<and> p_amount r = x \<and> p_status r = Held)) s"
proof -
  have pay: "wp (pay_for_ticket env n a e x h tok P_Standard None None) (\<lambda>_ p. \<exists>k r. pk_Payment p k = Some r \<and>
      p_payer r = Some a \<and> p_event_id r = e \<and> p_amount r = x \<and> p_status r = Held) t" for env tok t
    unfolding pay_for_ticket_def
    by (rule wp_mono [OF create_payment_creates]) (auto simp: standard_record_def)
  show ?thesis
    unfolding charge_def wp_bindE wp_call_payments
    by (simp add: get_accepted_token_def wp_rules, intro allI impI, rule wp_mono [OF pay]) auto
qed

lemma mint_records:
  "wp (mint_ticket env e org a) (\<lambda>_ t. \<exists>k tk. tk_Ticket t k = Some tk \<and> t_owner tk = a \<and>
     t_event_id tk = e \<and> t_status tk = Valid) s"
  by (simp add: mint_ticket_def ticket_storage_defs wp_rules new_ticket_def put_owner_ticket_def
      put_event_ticket_def Let_def) blast

text \<open>C26: A registration that returns in a reachable state sold one seat to the caller: the caller was
  not registered before and is afterwards, its reservation, when it held one, is consumed, the
  event's and the tier's sold counts went up by one (with the reserved count down by one in the
  case of a reservation) and nothing else of the event changed, a valid ticket of the event owned
  by the caller exists, and for a paid tier the payments contract holds a payment of exactly the
  tier's price by the caller.\<close>
theorem registration_exact:
  assumes "system_execution N s" and "ek_Event s e = Some ev"
    and "register_for_event env n a e i vr h s = Inr (u, s')"
  shows "\<not> is_registered s e a \<and> is_registered s' e a \<and> ek_Reservation s' (e, a) = None \<and>
    i < length (ev_tiers ev) \<and>
    ek_Event s' e = Some (ev\<lparr>ev_sold_count := ev_sold_count ev + 1,
      ev_tiers := (ev_tiers ev)[i := (ev_tiers ev ! i)\<lparr>tt_sold := tt_sold (ev_tiers ev ! i) + 1,
        tt_reserved := tt_reserved (ev_tiers ev ! i) - (if has_reservation s e a then 1 else 0)\<rparr>]\<rparr>) \<and>
    (\<exists>k t. tk_Ticket (ek_ticket s') k = Some t \<and> t_owner t = a \<and>
      t_event_id t = ev_event_id ev \<and> t_status t = Valid) \<and>
    (0 < tt_price (ev_tiers ev ! i) \<longrightarrow> (\<exists>k r. pk_Payment (ek_payments s') k = Some r \<and>
      p_payer r = Some a \<and> p_event_id r = e \<and> p_amount r = tt_price (ev_tiers ev ! i) \<and>
      p_status r = Held))"
    (is "?Q s'")
proof -
  have ok: "seats_ok s" by (rule seats_machine.reachable_inv [OF assms(1)])
  let ?paid = "\<lambda>p. 0 < tt_price (ev_tiers ev ! i) \<longrightarrow> (\<exists>k r. pk_Payment p k = Some r \<and>
      p_payer r = Some a \<and> p_event_id r = e \<and> p_amount r = tt_price (ev_tiers ev ! i) \<and> p_status r = Held)"
  let ?minted = "\<lambda>t. \<exists>k tk. tk_Ticket t k = Some tk \<and> t_owner tk = a \<and>
      t_event_id tk = ev_event_id ev \<and> t_status tk = Valid"
  have charged: "wp (whenE (tt_price (ev_tiers ev ! i) > 0)
      (thenE (charge env P n a e (tt_price (ev_tiers ev ! i)) h) (return ())))
      (\<lambda>_ t. \<exists>p. t = s\<lparr>ek_payments := p\<rparr> \<and> ?paid p) s" for P
    unfolding wp_whenE wp_thenE wp_return
    by (auto intro: wp_mono [OF charge_records] exI [of _ "ek_payments s"])
  have minted: "wp (call_ticket (mint_ticket env (ev_event_id ev) org a))
      (\<lambda>_ t. \<exists>tk. t = s\<lparr>ek_payments := p, ek_ticket := tk\<rparr> \<and> ?minted tk) (s\<lparr>ek_payments := p\<rparr>)" for env org p
    unfolding wp_call_ticket by (rule wp_mono [OF mint_records]) auto
  have "wp (register_for_event env n a e i vr h) (\<lambda>_. ?Q) s"
    unfolding register_for_event_def
    by (rule wpI_thenE, unfold wp_require_auth, rule impI, rule wpI_bindE,
        rule wpI_get_event [OF seats.refl], rule wpI_bindE,
        rule wp_mono [OF check_registration_result [OF ok]], assumption, elim conjE, hypsubst,
        unfold prod.case get_payments_contract_ev_def get_ticket_contract_ev_def,
        rule wpI_bindE, intro wpI_bindE wpI_gets wpI_ok_or,
        simp only: assms(2) option.inject, hypsubst,
        rule wpI_thenE, rule wp_mono [OF charged], erule exE, erule conjE, hypsubst,
        rule wpI_thenE, rule wp_mono [OF minted], erule exE, erule conjE, hypsubst)
      (simp add: wp_rules save_registration_def put_registration_def get_attendees_count_def Let_def
        remove_reservation_def increment_free_claim_count_def set_last_free_claim_def
        update_event_def save_event_def event_exists_def emit_registration_def emit_ev_def
        is_registered_def has_reservation_def taken_simps(3))
  from wpD [OF this assms(3)] show ?thesis .
qed

theorem registration_exact_witness:
  "is_registered booked ''ev'' (Addr 11) \<and> ek_Event booked ''ev'' = Some (gold_event 1) \<and>
   (\<exists>k r. pk_Payment (ek_payments booked) k = Some r \<and> p_payer r = Some (Addr 11) \<and> p_amount r = 300)"
proof -
  have "ek_Event opened ''ev'' = Some (gold_event 0)" by (simp add: sample_events)
  note sold = registration_exact [OF opened_reachable this booked_runs]
  have "\<not> has_reservation opened ''ev'' (Addr 11)" by (simp add: has_reservation_def opened_def)
  moreover have "(gold_event 0)\<lparr>ev_sold_count := 1, ev_tiers := ev_tiers (gold_event 1)\<rparr> = gold_event 1"
    by (simp add: gold_event_def)
  ultimately show ?thesis using sold by (auto simp: gold_event_simps)
qed

section \<open>Anonymous claims\<close>

lemma claim_stores:
  "wp (claim_anonymous_ticket env verify e i claim) (\<lambda>_ t.
     ek_AnonymousNullifier t (e, ac_nullifier claim) = Some (ac_ticket_commitment claim)) s"
proof -
  have save: "wp (thenE (save_anonymous_ticket_commitment e h c) k)
      (\<lambda>_ t. ek_AnonymousNullifier t (e, h) = Some c) t"
    if "keeps same_people k" for h c k t
    using that by (auto simp: save_anonymous_ticket_commitment_def wp_rules same_people_def
        elim!: wp_keeps)
  show ?thesis
    unfolding claim_anonymous_ticket_def
    by (intro save wpI_bindE people_jumps [where r = s] wpI_gets wpI_option wpI_ensure wpI_prod people_frames;
        (assumption | rule same_people.refl)?)
      (simp add: get_anonymous_ticket_commitment_def same_people_def)
qed

lemma claim_verified:
  assumes "ek_AnonymousNullifier s (e, ac_nullifier claim) = None"
  shows "wp (claim_anonymous_ticket env verify e i claim) (\<lambda>_ _. \<exists>v. ek_AnonymousClaimVerifier s = Some v \<and>
    verify v (ac_proof claim) (anonymous_claim_public_inputs env e i claim) = Some True) s"
  using assms
  by (simp add: claim_anonymous_ticket_def check_anonymous_claim_def count_window_claim_def get_event_def
      get_anonymous_ticket_commitment_def require_tier_def get_anonymous_claim_verifier_def
      set_anon_window_state_def wp_rules Let_def wp_skip)

lemma claim_again:
  assumes "ek_Event s e = Some ev" and "ek_AnonymousNullifier s (e, ac_nullifier claim) = Some c"
  shows "claim_anonymous_ticket env verify e i claim s =
    (if c = ac_ticket_commitment claim then Inr ((), s) else Inl (Err E_AnonymousNullifierReused))"
  using assms by (simp add: claim_anonymous_ticket_def get_event_def get_anonymous_ticket_commitment_def exec)

text \<open>What a claim that returned leaves in every later state.\<close>

lemma claim_kept:
  assumes "system_execution N s" and "env \<in> event_envs N"
    and "claim_anonymous_ticket env verify e i claim s = Inr (u, t)"
    and "(system_step N)\<^sup>*\<^sup>* t s'"
  obtains ev where "ek_Event s' e = Some ev"
    "ek_AnonymousNullifier s' (e, ac_nullifier claim) = Some (ac_ticket_commitment claim)"
proof -
  have step: "system_step N s t"
    by (rule event_invocation [OF assms(2) call_claim_anonymous [OF assms(3)]])
  have t: "system_execution N t" by (rule reachable_step [OF assms(1) step])
  have stored: "ek_AnonymousNullifier t (e, ac_nullifier claim) = Some (ac_ticket_commitment claim)"
    by (rule wpD [OF claim_stores assms(3)])
  obtain ev where "ek_Event s e = Some ev"
    using assms(3) by (auto simp: claim_anonymous_ticket_def get_event_def exec split: option.splits)
  then obtain ev' where "ek_Event t e = Some ev'"
    using events_kept_step [OF seats_machine.reachable_inv [OF assms(1)] step] by (auto simp: events_kept_def)
  then obtain ev'' where "ek_Event s' e = Some ev''"
    using event_life_cycle_kept [OF t assms(4)] by (auto simp: events_kept_def)
  moreover have "people_step t s'"
    by (rule people_machine.execution_preserves [OF assms(4) people_machine.reachable_inv [OF t]
          system_step_people people.refl people.trans])
  then have "ek_AnonymousNullifier s' (e, ac_nullifier claim) = Some (ac_ticket_commitment claim)"
    using stored by (auto simp: people_step_def nullifiers_kept_def map_le_def dom_def)
  ultimately show thesis by (rule that)
qed

text \<open>C27: A nullifier claims at most one anonymous ticket of an event.  A first claim that returns was
  accepted by the configured verifier on exactly the public inputs of the claim; from then on, in
  every continuation of the execution, a claim with the same nullifier changes nothing: it is
  confirmed when it carries the same ticket commitment, whatever its proof, tier and time, and
  rejected as a reused nullifier otherwise.\<close>
theorem anonymous_claim_once:
  assumes "system_execution N s" and "env \<in> event_envs N"
    and "claim_anonymous_ticket env verify e i claim s = Inr (u, t)"
    and "(system_step N)\<^sup>*\<^sup>* t s'" and "ac_nullifier claim' = ac_nullifier claim"
  shows "(ek_AnonymousNullifier s (e, ac_nullifier claim) = None \<longrightarrow>
      (\<exists>v. ek_AnonymousClaimVerifier s = Some v \<and>
        verify v (ac_proof claim) (anonymous_claim_public_inputs env e i claim) = Some True)) \<and>
    claim_anonymous_ticket env' verify' e i' claim' s' =
      (if ac_ticket_commitment claim' = ac_ticket_commitment claim then Inr ((), s')
       else Inl (Err E_AnonymousNullifierReused))"
proof -
  obtain ev where "ek_Event s' e = Some ev"
    "ek_AnonymousNullifier s' (e, ac_nullifier claim) = Some (ac_ticket_commitment claim)"
    by (rule claim_kept [OF assms(1-4)])
  then have "claim_anonymous_ticket env' verify' e i' claim' s' =
      (if ac_ticket_commitment claim' = ac_ticket_commitment claim then Inr ((), s')
       else Inl (Err E_AnonymousNullifierReused))"
    using claim_again [of s' e ev claim'] assms(5) by (simp add: eq_commute)
  then show ?thesis using wpD [OF claim_verified assms(3)] by blast
qed

definition sample_anonymous :: "(ledger, unit) event_call" where
  "sample_anonymous =
     thenE (create_event (office 31) (sample_params\<lparr>cp_event_id := ''an'',
       cp_initial_tiers := [\<lparr>tp_name = ''free'', tp_price = 0, tp_capacity = 2\<rparr>]\<rparr>)) (
     thenE (update_event_status (office 32) (Addr 7) ''an'' S_Active) (
     set_anonymous_claim_verifier (office 33) (Addr 5) (Addr 70)))"

definition sample_claim :: anonymous_ticket_claim where
  "sample_claim = \<lparr>ac_proof = [1], ac_nullifier = [2], ac_ticket_commitment = [3], ac_expiry_ledger = 50\<rparr>"

definition sample_verifier :: claim_verifier where
  "sample_verifier v p inputs = Some (v = Addr 70 \<and> p = [1])"

lemma sample_anonymous_runs:
  "\<exists>s t. sample_anonymous booked = Inr ((), s) \<and>
     claim_anonymous_ticket (office 40) sample_verifier ''an'' 0 sample_claim s = Inr ((), t)"
  unfolding sample_anonymous_def booked_def opened_def
  by (simp add: event_eval event_state_eval payment_eval state_eval sample_defs sample_params_def
      set_anonymous_claim_verifier_def claim_anonymous_ticket_def check_anonymous_claim_def
      count_window_claim_def get_anon_claim_settings_def get_anonymous_claim_verifier_def
      get_anonymous_ticket_commitment_def sample_claim_def sample_verifier_def
      saturating_add_u32_def MAX_ANONYMOUS_PROOF_TTL_LEDGERS_def)

lemma sample_anonymous_reached:
  assumes "sample_anonymous booked = Inr ((), s)"
  shows "system_execution sample_network s"
proof -
  have step: "event_call_step (office n) (Addr 60) (Addr 100) s t \<Longrightarrow> system_step sample_network s t" for n s t
    by (rule event_invocation [of "office n"]) simp_all
  show ?thesis
    by (rule reachable_thenE [OF booked_reachable assms [unfolded sample_anonymous_def]],
        rule step, erule call_create_event, erule (1) reachable_thenE, rule step,
        erule call_update_status, erule reachable_step, rule step, erule call_set_verifier)
qed

theorem anonymous_claim_once_witness:
  "\<exists>t. claim_anonymous_ticket (office 41) sample_verifier ''an'' 0
      (sample_claim\<lparr>ac_ticket_commitment := [4]\<rparr>) t = Inl (Err E_AnonymousNullifierReused) \<and>
     claim_anonymous_ticket (office 41) sample_verifier ''an'' 0 sample_claim t = Inr ((), t)"
proof -
  obtain s t where run: "sample_anonymous booked = Inr ((), s)"
    and claim: "claim_anonymous_ticket (office 40) sample_verifier ''an'' 0 sample_claim s = Inr ((), t)"
    using sample_anonymous_runs by blast
  have s: "system_execution sample_network s" by (rule sample_anonymous_reached [OF run])
  have "office 40 \<in> event_envs sample_network" by simp
  note again = anonymous_claim_once [OF s this claim rtranclp.rtrancl_refl, THEN conjunct2]
  show ?thesis
    using again [of "sample_claim\<lparr>ac_ticket_commitment := [4]\<rparr>"] again [of sample_claim]
    by (intro exI [of _ t]) (simp add: sample_claim_def)
qed

section \<open>zkPassport attendance and initialization\<close>

text \<open>C29: zkPassport attendance does not depend on the proof it carries, and for a paid tier of an event
  in a linked deployment it never returns: the payment it makes has no nonce.\<close>
theorem zk_attendance_unproved:
  "verify_and_attend env e i (claim\<lparr>zc_proof := p\<rparr>) = verify_and_attend env e i claim \<and>
   (has_linked_contracts s \<and> ek_Event s e = Some ev \<and> find_tier (ev_tiers ev) i = Some k \<and>
    0 < tt_price (ev_tiers ev ! k) \<longrightarrow> never_returns (verify_and_attend env e i claim) s)"
proof -
  have unpaid: "wp (charge env P 0 a e x h) Q t" for env P a e x h Q t
    by (auto simp: charge_def wp_call_payments get_accepted_token_def wp_rules
        pay_nonce_zero [unfolded never_returns_def]
        wp_def [of "pay_for_ticket _ _ _ _ _ _ _ _ _ _"] split: sum.split)
  have "verify_and_attend env e i (claim\<lparr>zc_proof := p\<rparr>) = verify_and_attend env e i claim"
    by (simp add: verify_and_attend_def check_zk_claim_def)
  moreover have "never_returns (verify_and_attend env e i claim) s"
    if "has_linked_contracts s" "ek_Event s e = Some ev" "find_tier (ev_tiers ev) i = Some k"
      "0 < tt_price (ev_tiers ev ! k)"
    using that
    by (intro never_returnsI) (simp add: verify_and_attend_def check_zk_claim_def when_linked_def
      require_settleable_privacy_def get_event_def require_tier_def get_payments_contract_ev_def
      unpaid wp_rules)
  ultimately show ?thesis by blast
qed

definition sample_zk_claim :: zk_passport_claim where
  "sample_zk_claim =
     \<lparr>zc_claim_type = Z_Age, zc_proof = [], zc_nullifier = [9], zc_expiry_ledger = 60\<rparr>"

theorem zk_attendance_unproved_witness:
  "never_returns (verify_and_attend (office 40) ''ev'' 0 sample_zk_claim) opened"
  using zk_attendance_unproved [where env = "office 40" and e = "''ev''" and i = 0 and
      claim = sample_zk_claim and s = opened and ev = "gold_event 0" and k = 0]
  by (simp add: sample_events gold_event_simps has_linked_contracts_def) (simp add: opened_def)

text \<open>Initialization has no guard against a second call: whoever calls it, in any state, becomes
  the administrator and chooses the ticket and the payments contract from then on.\<close>
theorem initialize_takeover:
  assumes "authorized env a"
  shows "\<exists>s'. initialize_ev env a T P s = Inr ((), s') \<and> ek_Admin s' = Some a \<and>
    ek_TicketContract s' = Some T \<and> ek_PaymentsContract s' = Some P"
  using assms
  by (auto simp: initialize_ev_def set_admin_ev_def put_ticket_contract_ev_def
      put_payments_contract_ev_def try_call_ticket_def exec split: sum.split)

theorem initialize_takeover_witness:
  "\<exists>s'. initialize_ev (office 99) (Addr 13) (Addr 14) (Addr 15) booked = Inr ((), s') \<and>
     ek_Admin booked = Some (Addr 5) \<and> ek_Admin s' = Some (Addr 13)"
  using initialize_takeover [of "office 99" "Addr 13" "Addr 14" "Addr 15" booked]
  by (simp add: office_def) (auto simp: booked_def opened_def)

end
