(* ===== verification/Factory.thy ===== *)
theory Factory
  imports Event_Refinement
begin

text \<open>
  The factory contract (\<^verbatim>\<open>contracts/factory\<close>): it deploys one event contract per event and keeps the
  registry of them.

  The host's deployer is a parameter: \<open>contract_id deployer salt\<close> is the address that the network
  derives for a deployment, and a deployment to an address that already holds a contract fails.
  The code behind the stored hash is the event contract's: a deployed contract starts with empty
  storage, and its \<open>initialize\<close> is the event contract's entry point, run with the storage of the
  ticket and payments contracts that all event contracts share.
\<close>

section \<open>Data\<close>

datatype factory_error =
    F_Unauthorized | F_EventAlreadyDeployed | F_EventNotFoundInRegistry | F_NotInitialized
  | F_MigrationFailed | F_UnsupportedVersion

definition factory_error_code :: "factory_error \<Rightarrow> nat" where
  "factory_error_code e =
     (case e of F_Unauthorized \<Rightarrow> 1 | F_EventAlreadyDeployed \<Rightarrow> 2 | F_EventNotFoundInRegistry \<Rightarrow> 3
      | F_NotInitialized \<Rightarrow> 4 | F_MigrationFailed \<Rightarrow> 5 | F_UnsupportedVersion \<Rightarrow> 6)"

record deployed_event =
  de_event_id :: symbol
  de_contract_address :: address
  de_organizer :: address
  de_deployed_at :: nat

datatype factory_event =
    FactoryInitialized address
  | EventDeployed symbol address masked_address

record 'w factory_state =
  fk_Admin :: "address option"
  fk_EventWasm :: "bytes32 option"
  fk_DeployedEvent :: "symbol \<Rightarrow> deployed_event option"
  fk_AllEvents :: "symbol list option"
  fk_OrganizerEvents :: "address \<Rightarrow> symbol list option"
  fk_TicketContract :: "address option"
  fk_PaymentsContract :: "address option"
  fk_ContractVersion :: "nat option"
  fk_contracts :: "address \<Rightarrow> 'w event_state option"
  fk_ticket :: ticket_state
  fk_payments :: "'w payments_state"
  fk_emitted :: "factory_event list"

type_synonym ('w, 'a) factory_call = "('w factory_state, factory_error, 'a) call"

definition empty_factory_state :: "ticket_state \<Rightarrow> 'w payments_state \<Rightarrow> 'w factory_state" where
  "empty_factory_state t p =
     \<lparr>fk_Admin = None, fk_EventWasm = None, fk_DeployedEvent = Map.empty, fk_AllEvents = None,
      fk_OrganizerEvents = Map.empty, fk_TicketContract = None, fk_PaymentsContract = None,
      fk_ContractVersion = None, fk_contracts = Map.empty, fk_ticket = t, fk_payments = p,
      fk_emitted = []\<rparr>"

section \<open>Storage\<close>

definition is_initialized_fk :: "'w factory_state \<Rightarrow> bool" where
  "is_initialized_fk s \<longleftrightarrow> fk_Admin s \<noteq> None \<and> fk_EventWasm s \<noteq> None \<and>
     fk_TicketContract s \<noteq> None \<and> fk_PaymentsContract s \<noteq> None"

definition get_admin_fk :: "('w, address) factory_call" where
  "get_admin_fk = bindE (gets fk_Admin) (\<lambda>a. ok_or a F_NotInitialized)"

definition set_admin_fk :: "address \<Rightarrow> ('w, unit) factory_call" where
  "set_admin_fk admin = modify (\<lambda>s. s\<lparr>fk_Admin := Some admin\<rparr>)"

definition get_event_wasm_hash :: "('w, bytes32) factory_call" where
  "get_event_wasm_hash = bindE (gets fk_EventWasm) (\<lambda>h. ok_or h F_NotInitialized)"

definition set_event_wasm_hash :: "bytes32 \<Rightarrow> ('w, unit) factory_call" where
  "set_event_wasm_hash hash = modify (\<lambda>s. s\<lparr>fk_EventWasm := Some hash\<rparr>)"

definition get_ticket_contract_fk :: "('w, address) factory_call" where
  "get_ticket_contract_fk = bindE (gets fk_TicketContract) (\<lambda>a. ok_or a F_NotInitialized)"

definition set_ticket_contract_fk :: "address \<Rightarrow> ('w, unit) factory_call" where
  "set_ticket_contract_fk a = modify (\<lambda>s. s\<lparr>fk_TicketContract := Some a\<rparr>)"

definition get_payments_contract_fk :: "('w, address) factory_call" where
  "get_payments_contract_fk = bindE (gets fk_PaymentsContract) (\<lambda>a. ok_or a F_NotInitialized)"

definition set_payments_contract_fk :: "address \<Rightarrow> ('w, unit) factory_call" where
  "set_payments_contract_fk a = modify (\<lambda>s. s\<lparr>fk_PaymentsContract := Some a\<rparr>)"

definition get_all_event_ids :: "'w factory_state \<Rightarrow> symbol list" where
  "get_all_event_ids s = (case fk_AllEvents s of None \<Rightarrow> [] | Some es \<Rightarrow> es)"

definition get_organizer_events :: "'w factory_state \<Rightarrow> address \<Rightarrow> symbol list" where
  "get_organizer_events s organizer =
     (case fk_OrganizerEvents s organizer of None \<Rightarrow> [] | Some es \<Rightarrow> es)"

definition get_deployed_event :: "symbol \<Rightarrow> ('w, deployed_event) factory_call" where
  "get_deployed_event event_id =
     bindE (gets fk_DeployedEvent) (\<lambda>m. ok_or (m event_id) F_EventNotFoundInRegistry)"

definition save_deployed_event :: "deployed_event \<Rightarrow> ('w, unit) factory_call" where
  "save_deployed_event event =
     bindE (gets fk_DeployedEvent) (\<lambda>m.
     thenE (ensure (m (de_event_id event) = None) F_EventAlreadyDeployed) (
     thenE (modify (\<lambda>s. s\<lparr>fk_DeployedEvent := (fk_DeployedEvent s)(de_event_id event \<mapsto> event)\<rparr>)) (
     thenE (modify (\<lambda>s. s\<lparr>fk_AllEvents := Some (get_all_event_ids s @ [de_event_id event])\<rparr>)) (
     modify (\<lambda>s. s\<lparr>fk_OrganizerEvents := (fk_OrganizerEvents s)(de_organizer event \<mapsto>
       get_organizer_events s (de_organizer event) @ [de_event_id event])\<rparr>)))))"

definition get_contract_version_fk :: "'w factory_state \<Rightarrow> nat" where
  "get_contract_version_fk s = (case fk_ContractVersion s of None \<Rightarrow> 1 | Some v \<Rightarrow> v)"

definition set_contract_version_fk :: "nat \<Rightarrow> ('w, unit) factory_call" where
  "set_contract_version_fk version = modify (\<lambda>s. s\<lparr>fk_ContractVersion := Some version\<rparr>)"

definition verify_version_fk :: "('w, unit) factory_call" where
  "verify_version_fk =
     bindE (gets get_contract_version_fk) (\<lambda>v. ensure (\<not> v > 1) F_UnsupportedVersion)"

definition emit_fk :: "factory_event \<Rightarrow> ('w, unit) factory_call" where
  "emit_fk x = modify (\<lambda>s. s\<lparr>fk_emitted := fk_emitted s @ [x]\<rparr>)"

definition emit_event_deployed ::
    "'w env \<Rightarrow> symbol \<Rightarrow> address \<Rightarrow> address \<Rightarrow> privacy_level \<Rightarrow> ('w, unit) factory_call" where
  "emit_event_deployed env event_id contract_address organizer privacy_level =
     emit_fk (EventDeployed event_id contract_address (mask_address env organizer privacy_level))"

section \<open>Deployment\<close>

text \<open>A call into a deployed event contract; any failure of it traps.\<close>

definition call_event ::
    "address \<Rightarrow> ('w, 'a) event_call \<Rightarrow> ('w, 'a) factory_call" where
  "call_event contract m = (\<lambda>s.
     case fk_contracts s contract of
       None \<Rightarrow> Inl Trap
     | Some c \<Rightarrow>
         (case m (c\<lparr>ek_ticket := fk_ticket s, ek_payments := fk_payments s\<rparr>) of
            Inl _ \<Rightarrow> Inl Trap
          | Inr (x, c') \<Rightarrow> Inr (x, s\<lparr>fk_contracts := (fk_contracts s)(contract \<mapsto> c'),
              fk_ticket := ek_ticket c', fk_payments := ek_payments c'\<rparr>)))"

definition deploy_contract :: "address \<Rightarrow> ('w, unit) factory_call" where
  "deploy_contract a =
     bindE (gets fk_contracts) (\<lambda>m.
     thenE (host_check (m a = None)) (
     modify (\<lambda>s. s\<lparr>fk_contracts :=
       (fk_contracts s)(a \<mapsto> empty_event_state (pk_world (fk_payments s)))\<rparr>)))"

definition deploy ::
    "'w env \<Rightarrow> (address \<Rightarrow> bytes32 \<Rightarrow> address) \<Rightarrow> address \<Rightarrow> bytes32 \<Rightarrow> bytes32 \<Rightarrow> address \<Rightarrow> address \<Rightarrow>
     ('w, address) factory_call" where
  "deploy env contract_id organizer wasm_hash salt ticket_contract payments_contract =
     (let deployed_address = contract_id (current_contract_address env) salt in
      thenE (deploy_contract deployed_address) (
      thenE (call_event deployed_address (initialize_ev (callee env deployed_address) organizer
               ticket_contract payments_contract)) (
      return deployed_address)))"

section \<open>Entry points\<close>

definition initialize_fk ::
    "'w env \<Rightarrow> address \<Rightarrow> bytes32 \<Rightarrow> address \<Rightarrow> address \<Rightarrow> ('w, unit) factory_call" where
  "initialize_fk env admin event_wasm_hash ticket_contract payments_contract =
     bindE (gets is_initialized_fk) (\<lambda>initialized.
     if initialized then return ()
     else
       thenE (require_auth env admin) (
       thenE (set_admin_fk admin) (
       thenE (set_event_wasm_hash event_wasm_hash) (
       thenE (set_ticket_contract_fk ticket_contract) (
       thenE (set_payments_contract_fk payments_contract) (
       emit_fk (FactoryInitialized admin)))))))"

definition deploy_event ::
    "'w env \<Rightarrow> (address \<Rightarrow> bytes32 \<Rightarrow> address) \<Rightarrow> address \<Rightarrow> symbol \<Rightarrow> bytes32 \<Rightarrow>
     ('w, address) factory_call" where
  "deploy_event env contract_id organizer event_id salt =
     thenE (require_auth env organizer) (
     bindE (gets fk_DeployedEvent) (\<lambda>m.
     thenE (ensure (m event_id = None) F_EventAlreadyDeployed) (
     bindE get_event_wasm_hash (\<lambda>wasm_hash.
     bindE get_ticket_contract_fk (\<lambda>ticket_contract.
     bindE get_payments_contract_fk (\<lambda>payments_contract.
     bindE (deploy env contract_id organizer wasm_hash salt ticket_contract payments_contract)
       (\<lambda>contract_address.
     thenE (save_deployed_event \<lparr>de_event_id = event_id, de_contract_address = contract_address,
              de_organizer = organizer, de_deployed_at = ledger_timestamp env\<rparr>) (
     thenE (emit_event_deployed env event_id contract_address organizer Standard) (
     return contract_address)))))))))"

definition get_event_address :: "symbol \<Rightarrow> ('w, address) factory_call" where
  "get_event_address event_id =
     bindE (get_deployed_event event_id) (\<lambda>deployed. return (de_contract_address deployed))"

definition migrate_fk :: "'w env \<Rightarrow> address \<Rightarrow> ('w, nat) factory_call" where
  "migrate_fk env admin =
     thenE (require_auth env admin) (
     bindE get_admin_fk (\<lambda>current_admin.
     thenE (ensure (current_admin = admin) F_Unauthorized) (
     bindE (gets get_contract_version_fk) (\<lambda>current_version.
     bindE (u32 (current_version + 1)) (\<lambda>new_version.
     thenE (if current_version = 0 then set_contract_version_fk 1
            else if current_version = 1 then set_contract_version_fk 2
            else if current_version = 2 then set_contract_version_fk 3
            else throw F_UnsupportedVersion) (
     return new_version))))))"

section \<open>The registry\<close>

text \<open>What a deployment reads: the code hash and the two linked contracts.\<close>

definition is_deployable :: "'w factory_state \<Rightarrow> bool" where
  "is_deployable s \<longleftrightarrow>
     fk_EventWasm s \<noteq> None \<and> fk_TicketContract s \<noteq> None \<and> fk_PaymentsContract s \<noteq> None"


text \<open>One step per entry point that changes state; the deployed event contracts act in between.\<close>

inductive factory_step ::
    "(address \<Rightarrow> bytes32 \<Rightarrow> address) \<Rightarrow> 'w factory_state \<Rightarrow> 'w factory_state \<Rightarrow> bool"
  for contract_id where
  factory_initialize: "initialize_fk env a h t p s = Inr (u, s') \<Longrightarrow> factory_step contract_id s s'"
| factory_deploy:
    "deploy_event env contract_id a e salt s = Inr (c, s') \<Longrightarrow> factory_step contract_id s s'"
| factory_migrate: "migrate_fk env a s = Inr (v, s') \<Longrightarrow> factory_step contract_id s s'"
| deployed_acts:
    "fk_contracts s c = Some ev \<Longrightarrow>
     factory_step contract_id s (s\<lparr>fk_contracts := (fk_contracts s)(c \<mapsto> ev'),
       fk_ticket := t, fk_payments := p\<rparr>)"

definition registry_ok :: "'w factory_state \<Rightarrow> bool" where
  "registry_ok s \<longleftrightarrow> distinct (get_all_event_ids s) \<and>
     set (get_all_event_ids s) = dom (fk_DeployedEvent s) \<and>
     (\<forall>a. get_organizer_events s a =
        filter (\<lambda>e. map_option de_organizer (fk_DeployedEvent s e) = Some a) (get_all_event_ids s)) \<and>
     (\<forall>e d. fk_DeployedEvent s e = Some d \<longrightarrow> de_event_id d = e \<and>
        fk_contracts s (de_contract_address d) \<noteq> None) \<and>
     inj_on (\<lambda>e. map_option de_contract_address (fk_DeployedEvent s e)) (dom (fk_DeployedEvent s))"

definition registry_kept :: "'w factory_state \<Rightarrow> 'w factory_state \<Rightarrow> bool" where
  "registry_kept s s' \<longleftrightarrow> fk_DeployedEvent s \<subseteq>\<^sub>m fk_DeployedEvent s' \<and>
     (is_initialized_fk s \<longrightarrow> is_initialized_fk s' \<and> fk_Admin s' = fk_Admin s \<and>
        fk_EventWasm s' = fk_EventWasm s \<and> fk_TicketContract s' = fk_TicketContract s \<and>
        fk_PaymentsContract s' = fk_PaymentsContract s)"

lemma registry_ok_frame:
  assumes "registry_ok s" and "fk_DeployedEvent s' = fk_DeployedEvent s"
    and "fk_AllEvents s' = fk_AllEvents s" and "fk_OrganizerEvents s' = fk_OrganizerEvents s"
    and "\<And>a. fk_contracts s a \<noteq> None \<Longrightarrow> fk_contracts s' a \<noteq> None"
  shows "registry_ok s'"
  using assms unfolding registry_ok_def get_all_event_ids_def get_organizer_events_def by metis

text \<open>The state after a deployment, with its registry entry.\<close>

definition registered ::
    "deployed_event \<Rightarrow> 'w event_state \<Rightarrow> ticket_state \<Rightarrow> 'w payments_state \<Rightarrow> factory_event list \<Rightarrow>
     'w factory_state \<Rightarrow> 'w factory_state" where
  "registered d c t p l s = s\<lparr>
     fk_contracts := (fk_contracts s)(de_contract_address d \<mapsto> c), fk_ticket := t, fk_payments := p,
     fk_DeployedEvent := (fk_DeployedEvent s)(de_event_id d \<mapsto> d),
     fk_AllEvents := Some (get_all_event_ids s @ [de_event_id d]),
     fk_OrganizerEvents := (fk_OrganizerEvents s)(de_organizer d \<mapsto>
       get_organizer_events s (de_organizer d) @ [de_event_id d]), fk_emitted := l\<rparr>"

lemma registry_ok_save:
  assumes ok: "registry_ok s" and new: "fk_DeployedEvent s (de_event_id d) = None"
    and contract: "fk_contracts s (de_contract_address d) = None"
  shows "registry_ok (registered d c t p l s)" (is "registry_ok ?s")
proof -
  note reg = ok [unfolded registry_ok_def]
  let ?e = "de_event_id d"
  have fresh: "?e \<notin> set (get_all_event_ids s)" using reg new by auto
  have other: "filter (\<lambda>e. map_option de_organizer (((fk_DeployedEvent s)(?e \<mapsto> d)) e) = Some a) (get_all_event_ids s)
      = get_organizer_events s a" for a
    using reg fresh by (auto intro!: filter_cong)
  have addr: "fk_DeployedEvent s e = Some x \<Longrightarrow> de_contract_address x \<noteq> de_contract_address d" for e x
    using reg contract by metis
  show ?thesis
    unfolding registry_ok_def
  proof (intro conjI allI impI)
    show "distinct (get_all_event_ids ?s)" "set (get_all_event_ids ?s) = dom (fk_DeployedEvent ?s)"
      using reg fresh by (auto simp: get_all_event_ids_def registered_def)
    fix a
    show "get_organizer_events ?s a = filter (\<lambda>e. map_option de_organizer (fk_DeployedEvent ?s e) = Some a)
        (get_all_event_ids ?s)"
      using other [of a] by (simp add: get_all_event_ids_def get_organizer_events_def registered_def)
  next
    fix e x assume "fk_DeployedEvent ?s e = Some x"
    then show "de_event_id x = e" "fk_contracts ?s (de_contract_address x) \<noteq> None"
      using reg by (auto simp: registered_def split: if_splits)
  next
    show "inj_on (\<lambda>e. map_option de_contract_address (fk_DeployedEvent ?s e)) (dom (fk_DeployedEvent ?s))"
      using reg addr by (fastforce simp: inj_on_def dom_def registered_def)
  qed
qed

lemmas factory_storage_defs =
  get_admin_fk_def set_admin_fk_def get_event_wasm_hash_def set_event_wasm_hash_def
  get_ticket_contract_fk_def set_ticket_contract_fk_def get_payments_contract_fk_def
  set_payments_contract_fk_def set_contract_version_fk_def emit_fk_def

text \<open>What a deployment does: a new contract, initialized, and its registry entry.\<close>

definition deployed_with ::
    "address \<Rightarrow> address \<Rightarrow> address \<Rightarrow> 'w event_state \<Rightarrow> bool" where
  "deployed_with organizer t p c \<longleftrightarrow> ek_Admin c = Some organizer \<and>
     ek_TicketContract c = Some t \<and> ek_PaymentsContract c = Some p \<and> ek_Event c = Map.empty"

lemma wp_initialize_ev:
  "wp (initialize_ev env a t p) (\<lambda>_ s'. deployed_with a t p s') (empty_event_state w\<lparr>ek_ticket := tk, ek_payments := pm\<rparr>)"
  by (simp add: initialize_ev_def set_admin_ev_def put_ticket_contract_ev_def put_payments_contract_ev_def
      try_call_ticket_def wp_rules deployed_with_def empty_event_state_def split: sum.split)

lemma wp_call_event:
  "wp (call_event a m) Q s \<longleftrightarrow> (\<forall>c. fk_contracts s a = Some c \<longrightarrow>
     wp m (\<lambda>x c'. Q x (s\<lparr>fk_contracts := (fk_contracts s)(a \<mapsto> c'), fk_ticket := ek_ticket c',
       fk_payments := ek_payments c'\<rparr>)) (c\<lparr>ek_ticket := fk_ticket s, ek_payments := fk_payments s\<rparr>))"
  by (auto simp: wp_def call_event_def split: sum.splits option.splits)

lemma wpI_deploy:
  assumes "\<And>c tk p. fk_contracts s (contract_id (current_contract_address env) salt) = None \<Longrightarrow>
    deployed_with a t pc c \<Longrightarrow> Q (contract_id (current_contract_address env) salt)
      (s\<lparr>fk_contracts := (fk_contracts s)(contract_id (current_contract_address env) salt \<mapsto> c),
        fk_ticket := tk, fk_payments := p\<rparr>)"
  shows "wp (deploy env contract_id a h salt t pc) Q s"
  unfolding deploy_def deploy_contract_def
  by (auto simp: Let_def wp_rules wp_call_event intro!: wp_mono [OF wp_initialize_ev] assms)

text \<open>The steps of the entry points.\<close>

lemma management_steps_fk:
  "keeps registry_kept (initialize_fk env a h t p)" "keeps registry_kept (migrate_fk env a)"
  by (auto simp: keeps_def initialize_fk_def migrate_fk_def factory_storage_defs wp_rules
      registry_kept_def is_initialized_fk_def)

lemma management_registry:
  assumes "registry_ok s"
  shows "wp (initialize_fk env a h t p) (\<lambda>_. registry_ok) s" and "wp (migrate_fk env a) (\<lambda>_. registry_ok) s"
  by (auto simp: initialize_fk_def migrate_fk_def factory_storage_defs wp_rules
      intro: assms registry_ok_frame [OF assms])

definition registry_entry ::
    "'w env \<Rightarrow> (address \<Rightarrow> bytes32 \<Rightarrow> address) \<Rightarrow> address \<Rightarrow> symbol \<Rightarrow> bytes32 \<Rightarrow> deployed_event" where
  "registry_entry env contract_id a e salt = \<lparr>de_event_id = e,
     de_contract_address = contract_id (current_contract_address env) salt,
     de_organizer = a, de_deployed_at = ledger_timestamp env\<rparr>"

lemma deploy_event_wp:
  assumes "\<And>c tk p l t pc h. authorized env a \<Longrightarrow> fk_DeployedEvent s e = None \<Longrightarrow>
    fk_EventWasm s = Some h \<Longrightarrow> fk_TicketContract s = Some t \<Longrightarrow> fk_PaymentsContract s = Some pc \<Longrightarrow>
    fk_contracts s (contract_id (current_contract_address env) salt) = None \<Longrightarrow>
    deployed_with a t pc c \<Longrightarrow> Q (contract_id (current_contract_address env) salt)
      (registered (registry_entry env contract_id a e salt) c tk p l s)"
  shows "wp (deploy_event env contract_id a e salt) Q s"
  unfolding deploy_event_def
  by (simp add: wp_rules factory_storage_defs, intro allI impI wpI_deploy)
    (use assms [unfolded registered_def registry_entry_def] in \<open>simp add: save_deployed_event_def
      emit_event_deployed_def factory_storage_defs wp_rules get_all_event_ids_def
      get_organizer_events_def\<close>)

lemma deploy_event_kept: "keeps registry_kept (deploy_event env contract_id a e salt)"
  by (auto simp: keeps_def registry_kept_def map_le_def dom_def is_initialized_fk_def registered_def
      registry_entry_def intro!: deploy_event_wp)

lemma deploy_event_ok: "registry_ok s \<Longrightarrow> wp (deploy_event env contract_id a e salt) (\<lambda>_. registry_ok) s"
  by (rule deploy_event_wp, erule registry_ok_save) (simp_all add: registry_entry_def)

lemma factory_step_kept: "factory_step contract_id s s' \<Longrightarrow> registry_kept s s'"
  by (cases rule: factory_step.cases, assumption)
    (auto dest: management_steps_fk [THEN keepsD] deploy_event_kept [THEN keepsD]
      simp: registry_kept_def is_initialized_fk_def)

lemma factory_step_ok: "factory_step contract_id s s' \<Longrightarrow> registry_ok s \<Longrightarrow> registry_ok s'"
  by (cases rule: factory_step.cases, assumption)
    (auto dest: management_registry [THEN wpD] deploy_event_ok [THEN wpD]
      elim: registry_ok_frame)

lemma factory_init_ok: "registry_ok (empty_factory_state t p)"
  by (simp add: registry_ok_def empty_factory_state_def get_all_event_ids_def get_organizer_events_def)

interpretation factory_machine: state_machine
  "\<lambda>s. \<exists>t p. s = empty_factory_state t p" "factory_step contract_id" registry_ok for contract_id
  by unfold_locales (auto intro: factory_init_ok factory_step_ok)

section \<open>Properties\<close>

text \<open>C30: In every reachable state of the factory the registry is exact: the list of all events has
  each registered event once, the list of an organizer is the sublist of its own events in the
  order of deployment, every entry is filed under its event and names a deployed contract, no two
  events share a contract; entries are never changed or removed, and the administrator, the code
  hash and the linked contracts are fixed by the first initialization.\<close>
theorem registry_exact:
  assumes "reachable (\<lambda>s. \<exists>t p. s = empty_factory_state t p) (factory_step contract_id) s"
    and "(factory_step contract_id)\<^sup>*\<^sup>* s s'"
  shows "distinct (get_all_event_ids s) \<and> set (get_all_event_ids s) = dom (fk_DeployedEvent s) \<and>
    (\<forall>a. get_organizer_events s a =
       filter (\<lambda>e. map_option de_organizer (fk_DeployedEvent s e) = Some a) (get_all_event_ids s)) \<and>
    (\<forall>e d. fk_DeployedEvent s e = Some d \<longrightarrow> de_event_id d = e \<and>
       fk_contracts s (de_contract_address d) \<noteq> None) \<and>
    inj_on (\<lambda>e. map_option de_contract_address (fk_DeployedEvent s e)) (dom (fk_DeployedEvent s)) \<and>
    fk_DeployedEvent s \<subseteq>\<^sub>m fk_DeployedEvent s' \<and>
    (is_initialized_fk s \<longrightarrow> fk_Admin s' = fk_Admin s \<and> fk_EventWasm s' = fk_EventWasm s \<and>
       fk_TicketContract s' = fk_TicketContract s \<and> fk_PaymentsContract s' = fk_PaymentsContract s)"
proof -
  have ok: "registry_ok s" by (rule factory_machine.reachable_inv [OF assms(1)])
  have "registry_kept s s'"
    by (rule factory_machine.execution_preserves [OF assms(2) ok factory_step_kept])
      (auto simp: registry_kept_def intro: map_le_trans)
  then show ?thesis using ok by (simp add: registry_ok_def registry_kept_def)
qed

definition sample_id :: "address \<Rightarrow> bytes32 \<Rightarrow> address" where
  "sample_id deployer salt = Addr (1000 + length salt)"

definition plant :: "ledger env" where
  "plant = sample_env 20 100 (Addr 90) (\<lambda>a. a \<noteq> Addr 90)"

definition sample_deployment :: "(ledger, address) factory_call" where
  "sample_deployment =
     thenE (initialize_fk plant (Addr 5) [7] (Addr 60) (Addr 100)) (
     deploy_event plant sample_id (Addr 7) ''ev'' [1, 2])"

abbreviation fresh_factory :: "ledger factory_state" where
  "fresh_factory \<equiv> empty_factory_state empty_ticket_state (empty_payments_state (\<lambda>_ _. 0))"

lemma sample_deployment_runs:
  obtains s t where "initialize_fk plant (Addr 5) [7] (Addr 60) (Addr 100) fresh_factory = Inr ((), s)"
    and "deploy_event plant sample_id (Addr 7) ''ev'' [1, 2] s = Inr (Addr 1002, t)"
  by (simp add: initialize_fk_def deploy_event_def deploy_def deploy_contract_def call_event_def
      factory_storage_defs is_initialized_fk_def save_deployed_event_def emit_event_deployed_def
      initialize_ev_def set_admin_ev_def put_ticket_contract_ev_def put_payments_contract_ev_def
      try_call_ticket_def set_event_contract_tk_def get_admin_tk_def plant_def sample_id_def
      empty_factory_state_def empty_event_state_def empty_ticket_state_def exec Let_def)

lemma sample_deployment_reachable:
  assumes "initialize_fk plant (Addr 5) [7] (Addr 60) (Addr 100) fresh_factory = Inr ((), s)"
  shows "reachable (\<lambda>s. \<exists>t p. s = empty_factory_state t p) (factory_step sample_id) s"
  by (rule reachable_step [where s = fresh_factory], rule reachable_init, blast,
      rule factory_initialize [OF assms])

theorem registry_exact_witness:
  "\<exists>t :: ledger factory_state. distinct (get_all_event_ids t) \<and>
     set (get_all_event_ids t) = dom (fk_DeployedEvent t) \<and> fk_DeployedEvent t ''ev'' \<noteq> None"
proof -
  obtain s t where init: "initialize_fk plant (Addr 5) [7] (Addr 60) (Addr 100) fresh_factory = Inr ((), s)"
    and run: "deploy_event plant sample_id (Addr 7) ''ev'' [1, 2] s = Inr (Addr 1002, t)"
    by (rule sample_deployment_runs)
  have t: "reachable (\<lambda>s. \<exists>t p. s = empty_factory_state t p) (factory_step sample_id) t"
    by (rule reachable_step [OF sample_deployment_reachable [OF init]]) (rule factory_deploy [OF run])
  have "wp (deploy_event plant sample_id (Addr 7) ''ev'' [1, 2])
      (\<lambda>_ t. fk_DeployedEvent t ''ev'' \<noteq> None) s"
    by (rule deploy_event_wp) (simp add: registered_def registry_entry_def)
  from wpD [OF this run] show ?thesis using registry_exact [OF t rtranclp.rtrancl_refl] by blast
qed

text \<open>A deployment that returns was authorized by the organizer, for an event not registered
  before, on an initialized factory; it creates a contract at the address that the factory and the
  salt determine, where there was none, with the organizer as administrator, linked to the
  factory's ticket and payments contracts and without events, and registers it; a second
  deployment of the same event never returns.\<close>
theorem deploy_event_exact:
  assumes "deploy_event env contract_id a e salt s = Inr (c, s')"
  shows "authorized env a \<and> is_deployable s \<and> fk_DeployedEvent s e = None \<and>
    c = contract_id (current_contract_address env) salt \<and> fk_contracts s c = None \<and>
    (\<exists>ev. fk_contracts s' c = Some ev \<and> ek_Admin ev = Some a \<and>
       ek_TicketContract ev = fk_TicketContract s \<and> ek_PaymentsContract ev = fk_PaymentsContract s \<and>
       ek_Event ev = Map.empty) \<and>
    get_event_address e s' = Inr (c, s') \<and> get_all_event_ids s' = get_all_event_ids s @ [e] \<and>
    (\<forall>env' a' salt'. \<nexists>r. deploy_event env' contract_id a' e salt' s' = Inr r)"
proof -
  have "wp (deploy_event env contract_id a e salt) (\<lambda>x t. authorized env a \<and> is_deployable s \<and>
      fk_DeployedEvent s e = None \<and> x = contract_id (current_contract_address env) salt \<and>
      fk_contracts s x = None \<and>
      (\<exists>ev. fk_contracts t x = Some ev \<and> ek_Admin ev = Some a \<and>
         ek_TicketContract ev = fk_TicketContract s \<and> ek_PaymentsContract ev = fk_PaymentsContract s \<and>
         ek_Event ev = Map.empty) \<and>
      fk_DeployedEvent t e = Some (registry_entry env contract_id a e salt) \<and>
      get_all_event_ids t = get_all_event_ids s @ [e]) s"
    by (rule deploy_event_wp) (simp add: registered_def registry_entry_def deployed_with_def
        is_deployable_def get_all_event_ids_def)
  note run = wpD [OF this assms]
  then have "\<nexists>r. deploy_event env' contract_id a' e salt' s' = Inr r" for env' :: "'a env" and a' salt'
    by (simp add: deploy_event_def exec split: sum.split)
  then show ?thesis
    using run by (auto simp: get_event_address_def get_deployed_event_def exec registry_entry_def)
qed

theorem deploy_event_exact_witness:
  "\<exists>(t :: ledger factory_state) ev. get_event_address ''ev'' t = Inr (Addr 1002, t) \<and> fk_contracts t (Addr 1002) = Some ev \<and>
     ek_Admin ev = Some (Addr 7)"
proof -
  obtain s t where run: "deploy_event plant sample_id (Addr 7) ''ev'' [1, 2] s = Inr (Addr 1002, t)"
    by (rule sample_deployment_runs)
  obtain ev where "fk_contracts t (Addr 1002) = Some ev" "ek_Admin ev = Some (Addr 7)"
    and "get_event_address ''ev'' t = Inr (Addr 1002, t)"
    using deploy_event_exact [OF run] by (elim conjE exE) simp
  then show ?thesis by (intro exI [of _ t] exI [of _ ev]) simp
qed

end
