(* ===== verification/Mock_Event.thy ===== *)
theory Mock_Event
  imports Event_State
begin

text \<open>
  The event views that other contracts consult (\<^verbatim>\<open>get_allow_anonymous\<close> and
  \<^verbatim>\<open>get_requires_verification\<close>) as the event contract answers them, and the stand-in contract of
  \<^verbatim>\<open>mock-event/src/lib.rs\<close>, whose whole storage is one entry per configured event.
  The lemmas compare the two, and the stand-in's defaults with those of the payments contract.
\<close>

section \<open>The event contract's views\<close>

text \<open>\<^verbatim>\<open>get_event(..).unwrap()\<close>: every error of the lookup is a trap.\<close>

definition get_allow_anonymous :: "symbol \<Rightarrow> ('w, bool) event_call" where
  "get_allow_anonymous event_id =
     bindE (gets ek_Event) (\<lambda>events. bindE (unwrap (events event_id)) (\<lambda>event.
     return (ev_allow_anonymous event)))"

definition get_requires_verification :: "symbol \<Rightarrow> ('w, bool) event_call" where
  "get_requires_verification event_id =
     bindE (gets ek_Event) (\<lambda>events. bindE (unwrap (events event_id)) (\<lambda>event.
     return (ev_requires_verification event)))"

section \<open>The stand-in contract\<close>

record mock_config =
  mock_allow_anonymous :: bool
  mock_requires_verification :: bool

type_synonym mock_state = "symbol \<Rightarrow> mock_config option"

definition mock_initialize :: "address \<Rightarrow> address \<Rightarrow> address \<Rightarrow> (mock_state, unit, unit) call" where
  "mock_initialize admin ticket_contract payments_contract = return ()"

definition configure_event :: "symbol \<Rightarrow> bool \<Rightarrow> bool \<Rightarrow> (mock_state, unit, unit) call" where
  "configure_event event_id allow_anonymous requires_verification =
     modify (\<lambda>s. s(event_id \<mapsto> \<lparr>mock_allow_anonymous = allow_anonymous,
       mock_requires_verification = requires_verification\<rparr>))"

definition mock_get_allow_anonymous :: "symbol \<Rightarrow> (mock_state, unit, bool) call" where
  "mock_get_allow_anonymous event_id =
     gets (\<lambda>s. case s event_id of None \<Rightarrow> True | Some config \<Rightarrow> mock_allow_anonymous config)"

definition mock_get_requires_verification :: "symbol \<Rightarrow> (mock_state, unit, bool) call" where
  "mock_get_requires_verification event_id =
     gets (\<lambda>s. case s event_id of None \<Rightarrow> False | Some config \<Rightarrow> mock_requires_verification config)"

section \<open>Agreement\<close>

lemma mock_mirrors_event:
  assumes "ek_Event s event_id = Some event"
    and "configure_event event_id (ev_allow_anonymous event) (ev_requires_verification event) m
      = Inr ((), m')"
  shows "mock_get_allow_anonymous event_id m' = Inr (a, m') \<longleftrightarrow> get_allow_anonymous event_id s = Inr (a, s)"
    and "mock_get_requires_verification event_id m' = Inr (v, m') \<longleftrightarrow>
      get_requires_verification event_id s = Inr (v, s)"
    and "other \<noteq> event_id \<Longrightarrow> m' other = m other"
  using assms
  by (auto simp: configure_event_def mock_get_allow_anonymous_def mock_get_requires_verification_def
      get_allow_anonymous_def get_requires_verification_def exec)

lemma mock_defaults_of_payments:
  assumes "m event_id = None" and "pk_EventPrivacy s event_id = None"
  shows "mock_get_allow_anonymous event_id m = Inr (epc_allow_anonymous (get_event_privacy s event_id), m)"
    and "mock_get_requires_verification event_id m
      = Inr (epc_requires_verification (get_event_privacy s event_id), m)"
  using assms
  by (simp_all add: mock_get_allow_anonymous_def mock_get_requires_verification_def
      get_event_privacy_def exec)

lemma unknown_event_traps:
  assumes "ek_Event s event_id = None"
  shows "get_allow_anonymous event_id s = Inl Trap" "get_requires_verification event_id s = Inl Trap"
  using assms by (simp_all add: get_allow_anonymous_def get_requires_verification_def exec)

end
