(* ===== verification/Verifier_Field.thy ===== *)
theory Verifier_Field
  imports Soroban
begin

text \<open>
  The scalar field of BN254 (\<^verbatim>\<open>crates/ultrazk-soroban-verifier/src/field.rs\<close>).

  \<^verbatim>\<open>Fr\<close> wraps the host's field element: a 256-bit integer kept reduced modulo the group order
  \<open>fr_modulus\<close>.  It is a type of its own here, with the ring operations of the host's
  \<^verbatim>\<open>fr_add\<close>, \<^verbatim>\<open>fr_sub\<close> and \<^verbatim>\<open>fr_mul\<close>, so that the ring lemmas and the simplifier's
  arithmetic on numerals apply to it.  Inversion is a host function and stays a parameter: a
  \<open>None\<close> of \<open>host_inv\<close> is the host's error on a non-invertible element, and the only law about it
  is that an inverse that is returned is one (\<open>inverse_law\<close>).  Nothing below needs the modulus to
  be prime.
\<close>

section \<open>Results\<close>

text \<open>The verifier returns \<^verbatim>\<open>Result\<close> values; \<^verbatim>\<open>?\<close> is \<open>and_then\<close>.\<close>

type_synonym ('e, 'a) outcome = "'e failure + 'a"

definition and_then :: "('e, 'a) outcome \<Rightarrow> ('a \<Rightarrow> ('e, 'b) outcome) \<Rightarrow> ('e, 'b) outcome" where
  "and_then r f = (case r of Inl e \<Rightarrow> Inl e | Inr x \<Rightarrow> f x)"

definition ok_when :: "bool \<Rightarrow> 'e \<Rightarrow> ('e, unit) outcome" where
  "ok_when b e = (if b then Inr () else Inl (Err e))"

definition or_trap :: "'a option \<Rightarrow> ('e, 'a) outcome" where
  "or_trap x = (case x of None \<Rightarrow> Inl Trap | Some v \<Rightarrow> Inr v)"

definition with_error :: "'f \<Rightarrow> ('e, 'a) outcome \<Rightarrow> ('f, 'a) outcome" where
  "with_error f r = (case r of Inl (Err _) \<Rightarrow> Inl (Err f) | Inl Trap \<Rightarrow> Inl Trap | Inr x \<Rightarrow> Inr x)"

named_theorems outcome "execution of results"

lemma and_then_outcome [outcome]:
  "and_then (Inr x) f = f x" "and_then (Inl e) f = Inl e"
  by (simp_all add: and_then_def)

lemma and_then_Inr: "and_then r f = Inr y \<longleftrightarrow> (\<exists>x. r = Inr x \<and> f x = Inr y)"
  by (cases r) (auto simp: and_then_def)

lemma ok_when_Inr: "ok_when b e = Inr u \<longleftrightarrow> b"
  by (simp add: ok_when_def)

lemma or_trap_Inr: "or_trap x = Inr v \<longleftrightarrow> x = Some v"
  by (cases x) (simp_all add: or_trap_def)

lemma with_error_Inr: "with_error f r = Inr x \<longleftrightarrow> r = Inr x"
  by (auto simp: with_error_def split: sum.splits failure.splits)

lemmas outcome_Inr = and_then_Inr ok_when_Inr or_trap_Inr with_error_Inr

section \<open>Field elements\<close>

definition fr_modulus :: int where
  "fr_modulus = 0x30644e72e131a029b85045b68181585d2833e84879b9709143e1f593f0000001"

lemma fr_modulus_bounds [simp]: "0 < fr_modulus" "1 < fr_modulus" "fr_modulus < 2 ^ 254"
  by (simp_all add: fr_modulus_def)

typedef fr = "{0..<fr_modulus}" morphisms int_of_fr Abs_fr
  by (intro exI [of _ 0]) simp

setup_lifting type_definition_fr

lift_definition fr_of_int :: "int \<Rightarrow> fr" is "\<lambda>i. i mod fr_modulus"
  by simp

instantiation fr :: comm_ring_1
begin

lift_definition zero_fr :: fr is 0 by simp
lift_definition one_fr :: fr is 1 by simp
lift_definition plus_fr :: "fr \<Rightarrow> fr \<Rightarrow> fr" is "\<lambda>a b. (a + b) mod fr_modulus" by simp
lift_definition minus_fr :: "fr \<Rightarrow> fr \<Rightarrow> fr" is "\<lambda>a b. (a - b) mod fr_modulus" by simp
lift_definition uminus_fr :: "fr \<Rightarrow> fr" is "\<lambda>a. (- a) mod fr_modulus" by simp
lift_definition times_fr :: "fr \<Rightarrow> fr \<Rightarrow> fr" is "\<lambda>a b. (a * b) mod fr_modulus" by simp

instance
  by (standard; transfer) (simp_all add: mod_simps algebra_simps)

end

instantiation fr :: equal
begin

lift_definition equal_fr :: "fr \<Rightarrow> fr \<Rightarrow> bool" is "(=)" .

instance
  by standard (simp add: equal_fr.rep_eq int_of_fr_inject)

end

lemma int_of_fr_bounds [simp]: "0 \<le> int_of_fr a" "int_of_fr a < fr_modulus"
  using int_of_fr [of a] by simp_all

lemma fr_of_int_inverse [simp]: "fr_of_int (int_of_fr a) = a"
  by transfer simp

lemma int_of_fr_of_int: "int_of_fr (fr_of_int i) = i mod fr_modulus"
  by transfer simp

lemma fr_of_int_add: "fr_of_int (a + b) = fr_of_int a + fr_of_int b"
  by transfer (simp add: mod_simps)

lemma fr_of_int_diff: "fr_of_int (a - b) = fr_of_int a - fr_of_int b"
  by transfer (simp add: mod_simps)

lemma fr_of_int_0_1: "fr_of_int 0 = 0" "fr_of_int 1 = 1"
  by (transfer; simp)+

lemma of_int_fr: "of_int i = fr_of_int i"
proof (induction i rule: int_induct [where k = 0])
  case base
  then show ?case by (simp add: fr_of_int_0_1)
next
  case (step1 i)
  then show ?case by (simp add: fr_of_int_add fr_of_int_0_1)
next
  case (step2 i)
  then show ?case by (simp add: fr_of_int_diff fr_of_int_0_1)
qed

lemma of_int_eq_fr: "(of_int a :: fr) = of_int b \<longleftrightarrow> a mod fr_modulus = b mod fr_modulus"
  unfolding of_int_fr by transfer simp

lemma int_of_fr_of_int' [simp]: "int_of_fr (of_int i) = i mod fr_modulus"
  by (simp add: of_int_fr int_of_fr_of_int)

text \<open>Equations between numerals of the field are decided by the simplifier.\<close>

named_theorems fr_eval "evaluation of closed field terms"

lemma fr_numeral_eq [fr_eval]:
  "(numeral a :: fr) = numeral b \<longleftrightarrow> (numeral a :: int) mod fr_modulus = numeral b mod fr_modulus"
  "(numeral a :: fr) = 1 \<longleftrightarrow> (numeral a :: int) mod fr_modulus = 1"
  "(1 :: fr) = numeral b \<longleftrightarrow> 1 = (numeral b :: int) mod fr_modulus"
  "(numeral a :: fr) = 0 \<longleftrightarrow> (numeral a :: int) mod fr_modulus = 0"
  "(0 :: fr) = numeral b \<longleftrightarrow> 0 = (numeral b :: int) mod fr_modulus"
  "(numeral a :: fr) = - numeral b \<longleftrightarrow> (numeral a :: int) mod fr_modulus = (- numeral b) mod fr_modulus"
  "(- numeral a :: fr) = numeral b \<longleftrightarrow> (- numeral a :: int) mod fr_modulus = numeral b mod fr_modulus"
  "(- numeral a :: fr) = - numeral b \<longleftrightarrow> (- numeral a :: int) mod fr_modulus = (- numeral b) mod fr_modulus"
  "(- numeral a :: fr) = 0 \<longleftrightarrow> (- numeral a :: int) mod fr_modulus = 0"
  "(0 :: fr) = - numeral b \<longleftrightarrow> 0 = (- numeral b :: int) mod fr_modulus"
  "(- numeral a :: fr) = 1 \<longleftrightarrow> (- numeral a :: int) mod fr_modulus = 1"
  "(1 :: fr) = - numeral b \<longleftrightarrow> 1 = (- numeral b :: int) mod fr_modulus"
  "(- 1 :: fr) = numeral b \<longleftrightarrow> (- 1 :: int) mod fr_modulus = numeral b mod fr_modulus"
  "(numeral a :: fr) = - 1 \<longleftrightarrow> (numeral a :: int) mod fr_modulus = (- 1) mod fr_modulus"
  using of_int_eq_fr [of "numeral a" "numeral b"] of_int_eq_fr [of "numeral a" 1]
    of_int_eq_fr [of 1 "numeral b"] of_int_eq_fr [of "numeral a" 0] of_int_eq_fr [of 0 "numeral b"]
    of_int_eq_fr [of "numeral a" "- numeral b"] of_int_eq_fr [of "- numeral a" "numeral b"]
    of_int_eq_fr [of "- numeral a" "- numeral b"] of_int_eq_fr [of "- numeral a" 0]
    of_int_eq_fr [of 0 "- numeral b"] of_int_eq_fr [of "- numeral a" 1]
    of_int_eq_fr [of 1 "- numeral b"] of_int_eq_fr [of "- 1" "numeral b"]
    of_int_eq_fr [of "numeral a" "- 1"]
  by simp_all

declare fr_modulus_def [fr_eval]

lemma fr_zero_neq_one [simp]: "(0 :: fr) \<noteq> 1"
  by simp

section \<open>Bytes\<close>

text \<open>Big-endian integers of byte strings.\<close>

definition be_int :: "bytes \<Rightarrow> int" where
  "be_int bs = foldl (\<lambda>n b. 256 * n + uint b) 0 bs"

primrec be_bytes :: "nat \<Rightarrow> int \<Rightarrow> bytes" where
  "be_bytes 0 x = []"
| "be_bytes (Suc n) x = be_bytes n (x div 256) @ [word_of_int x]"

lemma be_int_Nil [simp]: "be_int [] = 0"
  by (simp add: be_int_def)

lemma be_int_snoc [simp]: "be_int (bs @ [b]) = 256 * be_int bs + uint b"
  by (simp add: be_int_def)

lemma be_int_bounds: "0 \<le> be_int bs" "be_int bs < 256 ^ length bs"
proof (induction bs rule: rev_induct)
  case (snoc b bs)
  have b: "0 \<le> uint b" "uint b < 256"
    using uint_lt2p [of b] by simp_all
  { case 1 then show ?case using snoc b by simp
  next
    case 2 then show ?case using snoc b by simp }
qed simp_all

lemma length_be_bytes [simp]: "length (be_bytes n x) = n"
  by (induction n arbitrary: x) simp_all

lemma be_bytes_be_int: "length bs = n \<Longrightarrow> be_bytes n (be_int bs) = bs"
proof (induction bs arbitrary: n rule: rev_induct)
  case (snoc b bs)
  have "(256 * be_int bs + uint b) div 256 = be_int bs"
    using uint_lt2p [of b] by (simp add: div_add1_eq [of "256 * be_int bs"])
  moreover have "(word_of_int (256 * be_int bs + uint b) :: byte) = b"
  proof (rule word_uint_eqI)
    show "uint (word_of_int (256 * be_int bs + uint b) :: byte) = uint b"
      using uint_lt2p [of b] by (simp add: uint_word_of_int del: of_int_add of_int_mult)
  qed
  ultimately show ?case using snoc by auto
qed simp

lemma be_int_be_bytes: "be_int (be_bytes n x) = x mod 256 ^ n"
proof (induction n arbitrary: x)
  case (Suc n)
  have "uint (word_of_int x :: byte) = x mod 256"
    by (simp add: uint_word_of_int)
  then show ?case
    using Suc [of "x div 256"] by (simp add: zmod_zmult2_eq)
qed simp

section \<open>Fr\<close>

definition fr_from_u64 :: "nat \<Rightarrow> fr" where
  "fr_from_u64 x = of_nat x"

definition fr_from_array :: "bytes \<Rightarrow> fr" where
  "fr_from_array value = fr_of_int (be_int value)"

definition fr_to_bytes :: "fr \<Rightarrow> bytes" where
  "fr_to_bytes a = be_bytes 32 (int_of_fr a)"

definition neg_half :: fr where
  "neg_half = 0x183227397098d014dc2822db40c0ac2e9419f4243cdcb848a1f0fac9f8000000"

definition minus_one :: fr where
  "minus_one = 0x30644e72e131a029b85045b68181585d2833e84879b9709143e1f593f0000000"

definition minus_two :: fr where
  "minus_two = 0x30644e72e131a029b85045b68181585d2833e84879b9709143e1f593efffffff"

definition minus_three :: fr where
  "minus_three = 0x30644e72e131a029b85045b68181585d2833e84879b9709143e1f593effffffe"

definition internal_matrix_diagonal :: "fr list" where
  "internal_matrix_diagonal =
     [0x10dc6e9c006ea38b04b1e03b4bd9490c0d03f98929ca1d7fb56821fd19d3b6e7,
      0x0c28145b6a44df3e0149b3d0a30b3bb599df9756d4dd9b84a86b38cfb45a740b,
      0x00544b8338791518b2c7645a50392798b21f75bb60e3596170067d00141cac15,
      0x222c01175718386f2e2e82eb122789e352e105a3b8fa852613bc534433ee428b]"

definition fr_is_zero :: "fr \<Rightarrow> bool" where
  "fr_is_zero a \<longleftrightarrow> a = 0"

definition fr_pow :: "fr \<Rightarrow> nat \<Rightarrow> fr" where
  "fr_pow a e = a ^ e"

lemma fr_constants: "neg_half * 2 = -1" "minus_one = -1" "minus_two = -2" "minus_three = -3"
  by (simp_all add: neg_half_def minus_one_def minus_two_def minus_three_def fr_eval)

lemma length_fr_to_bytes [simp]: "length (fr_to_bytes a) = 32"
  by (simp add: fr_to_bytes_def)

lemma fr_round_trip [simp]: "fr_from_array (fr_to_bytes a) = a"
proof -
  have "int_of_fr a < 256 ^ 32"
    using int_of_fr_bounds(2) [of a] by (simp add: fr_modulus_def)
  then show ?thesis
    by (simp add: fr_from_array_def fr_to_bytes_def be_int_be_bytes)
qed

text \<open>A 32-byte word is the encoding of the element it decodes to iff it is below the modulus.\<close>

lemma fr_canonical:
  assumes "length b = 32"
  shows "fr_to_bytes (fr_from_array b) = b \<longleftrightarrow> be_int b < fr_modulus"
proof
  assume "be_int b < fr_modulus"
  then have "int_of_fr (fr_from_array b) = be_int b"
    by (simp add: fr_from_array_def int_of_fr_of_int be_int_bounds)
  then show "fr_to_bytes (fr_from_array b) = b"
    using assms by (simp add: fr_to_bytes_def be_bytes_be_int)
next
  assume b: "fr_to_bytes (fr_from_array b) = b"
  have "be_int (fr_to_bytes (fr_from_array b)) = int_of_fr (fr_from_array b)"
    using int_of_fr_bounds(2) [of "fr_from_array b"]
    by (simp add: fr_to_bytes_def be_int_be_bytes fr_modulus_def)
  then show "be_int b < fr_modulus" unfolding b by simp
qed

section \<open>The host\<close>

text \<open>
  The BN254 host functions and the hash, the verifier's view of its \<^verbatim>\<open>Env\<close>: scalar inversion,
  multi-scalar multiplication and the pairing product check over encoded points (\<open>None\<close> is the
  host's error on an invalid input), negation of an encoded point, and Keccak-256.
\<close>

record bn254 =
  host_inv :: "fr \<Rightarrow> fr option"
  host_msm :: "bytes list \<Rightarrow> fr list \<Rightarrow> bytes option"
  host_pairing :: "bytes list \<Rightarrow> bytes list \<Rightarrow> bool option"
  host_neg :: "bytes \<Rightarrow> bytes"
  host_keccak256 :: "bytes \<Rightarrow> bytes"

definition inverse_law :: "bn254 \<Rightarrow> bool" where
  "inverse_law h \<longleftrightarrow> (\<forall>a b. host_inv h a = Some b \<longrightarrow> a * b = 1)"

definition fr_inverse :: "bn254 \<Rightarrow> fr \<Rightarrow> ('e, fr) outcome" where
  "fr_inverse h a = or_trap (host_inv h a)"

text \<open>A ring element has at most one inverse.\<close>

lemma inverse_unique: "(a :: fr) * b = 1 \<Longrightarrow> a * c = 1 \<Longrightarrow> b = c"
  by (metis mult.assoc mult.commute mult.right_neutral)

section \<open>Batch inversion\<close>

text \<open>
  \<^verbatim>\<open>batch_inverse\<close>: prefix products into \<open>out\<close>, one inversion, and a sweep back.  The loops
  are folds over the index ranges of the code, with its in-place updates.
\<close>

definition prefix_products :: "fr list \<Rightarrow> fr list \<Rightarrow> fr list" where
  "prefix_products vals out =
     foldl (\<lambda>out i. out[i := out ! (i - 1) * vals ! i]) (out[0 := vals ! 0]) [1..<length vals]"

definition sweep_back :: "fr list \<Rightarrow> fr list \<Rightarrow> fr \<Rightarrow> fr list \<times> fr" where
  "sweep_back vals out pinv =
     foldl (\<lambda>(out, inv_acc) i. (out[i := inv_acc * out ! (i - 1)], inv_acc * vals ! i)) (out, pinv)
       (rev [1..<length vals])"

definition batch_inverse :: "bn254 \<Rightarrow> fr list \<Rightarrow> fr list \<Rightarrow> (string, fr list) outcome" where
  "batch_inverse h vals out =
     (let n = length vals in
      if n \<noteq> length out then Inl Trap
      else if n = 0 then Inr out
      else
        (let out = prefix_products vals out in
         if fr_is_zero (out ! (n - 1)) then Inl (Err ''denominator is zero'')
         else and_then (fr_inverse h (out ! (n - 1))) (\<lambda>pinv.
           case sweep_back vals out pinv of (out, inv_acc) \<Rightarrow> Inr (out[0 := inv_acc]))))"

lemma prefix_products_upto:
  assumes "length out = length vals" and "vals \<noteq> []" and "0 < k" and "k \<le> length vals"
  shows "let r = foldl (\<lambda>out i. out[i := out ! (i - 1) * vals ! i]) (out[0 := vals ! 0]) [1..<k]
    in length r = length vals \<and> (\<forall>i<k. r ! i = prod_list (take (Suc i) vals))"
  using assms(3,4)
proof (induction k)
  case (Suc k)
  show ?case
  proof (cases "k = 0")
    case True
    with assms Suc.prems show ?thesis by (simp add: take_Suc_conv_app_nth)
  next
    case False
    with Suc assms show ?thesis
      by (simp add: Let_def nth_list_update less_Suc_eq take_Suc_conv_app_nth [of k vals])
  qed
qed simp

lemma prefix_products_nth:
  assumes "length out = length vals" and "vals \<noteq> []"
  shows "length (prefix_products vals out) = length vals"
    and "i < length vals \<Longrightarrow> prefix_products vals out ! i = prod_list (take (Suc i) vals)"
  using prefix_products_upto [OF assms, of "length vals"] assms(2)
  by (simp_all add: prefix_products_def Let_def)

text \<open>
  The sweep's invariant: entries from \<open>k\<close> on are inverses, those below are still prefix products,
  and the accumulator inverts the product of the first \<open>k\<close> values.
\<close>

definition swept :: "fr list \<Rightarrow> nat \<Rightarrow> fr list \<times> fr \<Rightarrow> bool" where
  "swept vals k r \<longleftrightarrow> length (fst r) = length vals \<and> prod_list (take k vals) * snd r = 1 \<and>
     (\<forall>i. k \<le> i \<and> i < length vals \<longrightarrow> vals ! i * fst r ! i = 1) \<and>
     (\<forall>i<k. fst r ! i = prod_list (take (Suc i) vals))"

lemma swept_step:
  assumes "swept vals (Suc k) (out, acc)" and "0 < k" and "k < length vals"
  shows "swept vals k (out[k := acc * out ! (k - 1)], acc * vals ! k)"
proof -
  have prod: "prod_list (take (Suc k) vals) = prod_list (take k vals) * vals ! k"
    using assms(3) by (simp add: take_Suc_conv_app_nth)
  have pinv: "prod_list (take k vals) * vals ! k * acc = 1"
    using assms(1) by (simp add: swept_def prod)
  moreover have "out ! (k - 1) = prod_list (take k vals)"
    using assms by (simp add: swept_def)
  ultimately have "vals ! k * (acc * out ! (k - 1)) = 1"
    by (simp add: ac_simps)
  with assms pinv show ?thesis
    by (auto simp: swept_def nth_list_update ac_simps le_Suc_eq)
qed

lemma swept_down:
  assumes "swept vals (length vals) r" and "0 < k" and "k \<le> length vals"
  shows "swept vals k
    (foldl (\<lambda>(out, acc) i. (out[i := acc * out ! (i - 1)], acc * vals ! i)) r (rev [k..<length vals]))"
  using assms(2,3)
proof (induction "length vals - k" arbitrary: k)
  case 0
  then show ?case using assms(1) by simp
next
  case (Suc d)
  let ?f = "\<lambda>(out, acc) i. (out[i := acc * out ! (i - 1)], acc * vals ! i)"
  obtain out acc where r: "foldl ?f r (rev [Suc k..<length vals]) = (out, acc)"
    by (cases "foldl ?f r (rev [Suc k..<length vals])")
  moreover have "d = length vals - Suc k" and "k < length vals"
    using Suc.hyps(2) by simp_all
  ultimately have "swept vals (Suc k) (out, acc)"
    using Suc.hyps(1) [of "Suc k"] by simp
  then show ?case
    using swept_step [of vals k out acc] Suc.prems Suc.hyps(2) r
    by (simp add: upt_conv_Cons)
qed

lemma batch_inverse_Nil: "batch_inverse h [] [] = Inr []"
  by (simp add: batch_inverse_def)

lemma batch_inverse_step:
  assumes "length out = length vals" and "vals \<noteq> []"
  shows "batch_inverse h vals out =
    (if prod_list vals = 0 then Inl (Err ''denominator is zero'')
     else and_then (fr_inverse h (prod_list vals)) (\<lambda>pinv.
       let r = sweep_back vals (prefix_products vals out) pinv in Inr ((fst r)[0 := snd r])))"
  using assms by (simp add: batch_inverse_def prefix_products_nth fr_is_zero_def Let_def split_beta)

lemma batch_inverse_Inr:
  assumes "inverse_law h" and "length out = length vals"
    and "batch_inverse h vals out = Inr ys"
  shows "length ys = length vals" and "i < length vals \<Longrightarrow> vals ! i * ys ! i = 1"
proof -
  have "length ys = length vals \<and> (\<forall>i<length vals. vals ! i * ys ! i = 1)"
  proof (cases "vals = []")
    case True
    with assms show ?thesis by (simp add: batch_inverse_def)
  next
    case False
    let ?out = "prefix_products vals out"
    from assms False obtain pinv where pinv: "host_inv h (prod_list vals) = Some pinv"
      and ys: "ys = (fst (sweep_back vals ?out pinv))[0 := snd (sweep_back vals ?out pinv)]"
      by (auto simp: batch_inverse_step fr_inverse_def outcome_Inr Let_def split: if_splits)
    have "swept vals (length vals) (?out, pinv)"
      using assms pinv False by (auto simp: swept_def inverse_law_def prefix_products_nth)
    from swept_down [OF this, of 1] False
    have "swept vals 1 (sweep_back vals ?out pinv)"
      by (simp add: sweep_back_def Suc_le_eq)
    with False show ?thesis
      by (cases "sweep_back vals ?out pinv")
        (auto simp: ys swept_def nth_list_update take_Suc_conv_app_nth Suc_le_eq)
  qed
  then show "length ys = length vals" and "i < length vals \<Longrightarrow> vals ! i * ys ! i = 1"
    by blast+
qed

end
