(* ===== verification/Verifier_Types.thy ===== *)
theory Verifier_Types
  imports Verifier_Field
begin

text \<open>
  The data of the proof verifier (\<^verbatim>\<open>crates/ultrazk-soroban-verifier/src/types.rs\<close>): the protocol's
  sizes, the wire indices, encoded curve points, and the records of the verification key, the
  proof, the relation parameters and the transcript.  The fixed-size arrays of the source are lists
  here; \<open>proof_wf\<close> and \<open>vk_wf\<close> state their sizes, which decoding establishes.
\<close>

section \<open>Sizes\<close>

definition CONST_PROOF_SIZE_LOG_N :: nat where "CONST_PROOF_SIZE_LOG_N = 28"
definition NUMBER_OF_SUBRELATIONS :: nat where "NUMBER_OF_SUBRELATIONS = 26"
definition BATCHED_RELATION_PARTIAL_LENGTH :: nat where "BATCHED_RELATION_PARTIAL_LENGTH = 9"
definition NUMBER_OF_ENTITIES :: nat where "NUMBER_OF_ENTITIES = 40"
definition NUMBER_UNSHIFTED :: nat where "NUMBER_UNSHIFTED = 35"
definition NUMBER_TO_BE_SHIFTED :: nat where "NUMBER_TO_BE_SHIFTED = 5"
definition PAIRING_POINTS_SIZE :: nat where "PAIRING_POINTS_SIZE = 16"
definition NUMBER_OF_ALPHAS :: nat where "NUMBER_OF_ALPHAS = NUMBER_OF_SUBRELATIONS - 1"
definition PROOF_FIELDS :: nat where "PROOF_FIELDS = 507"
definition PROOF_BYTES :: nat where "PROOF_BYTES = PROOF_FIELDS * 32"

lemmas sizes = CONST_PROOF_SIZE_LOG_N_def NUMBER_OF_SUBRELATIONS_def
  BATCHED_RELATION_PARTIAL_LENGTH_def NUMBER_OF_ENTITIES_def NUMBER_UNSHIFTED_def
  NUMBER_TO_BE_SHIFTED_def PAIRING_POINTS_SIZE_def NUMBER_OF_ALPHAS_def PROOF_FIELDS_def
  PROOF_BYTES_def

section \<open>Wires\<close>

datatype wire =
    Qm | Qc | Ql | Qr | Qo | Q4 | QLookup | QArith | QRange | QElliptic | QAux
  | QPoseidon2External | QPoseidon2Internal
  | Sigma1 | Sigma2 | Sigma3 | Sigma4 | Id1 | Id2 | Id3 | Id4
  | Table1 | Table2 | Table3 | Table4 | LagrangeFirst | LagrangeLast
  | Wl | Wr | Wo | W4 | ZPerm | LookupInverses | LookupReadCounts | LookupReadTags
  | WlShift | WrShift | WoShift | W4Shift | ZPermShift

primrec wire_index :: "wire \<Rightarrow> nat" where
  "wire_index Qm = 0"
| "wire_index Qc = 1"
| "wire_index Ql = 2"
| "wire_index Qr = 3"
| "wire_index Qo = 4"
| "wire_index Q4 = 5"
| "wire_index QLookup = 6"
| "wire_index QArith = 7"
| "wire_index QRange = 8"
| "wire_index QElliptic = 9"
| "wire_index QAux = 10"
| "wire_index QPoseidon2External = 11"
| "wire_index QPoseidon2Internal = 12"
| "wire_index Sigma1 = 13"
| "wire_index Sigma2 = 14"
| "wire_index Sigma3 = 15"
| "wire_index Sigma4 = 16"
| "wire_index Id1 = 17"
| "wire_index Id2 = 18"
| "wire_index Id3 = 19"
| "wire_index Id4 = 20"
| "wire_index Table1 = 21"
| "wire_index Table2 = 22"
| "wire_index Table3 = 23"
| "wire_index Table4 = 24"
| "wire_index LagrangeFirst = 25"
| "wire_index LagrangeLast = 26"
| "wire_index Wl = 27"
| "wire_index Wr = 28"
| "wire_index Wo = 29"
| "wire_index W4 = 30"
| "wire_index ZPerm = 31"
| "wire_index LookupInverses = 32"
| "wire_index LookupReadCounts = 33"
| "wire_index LookupReadTags = 34"
| "wire_index WlShift = 35"
| "wire_index WrShift = 36"
| "wire_index WoShift = 37"
| "wire_index W4Shift = 38"
| "wire_index ZPermShift = 39"

section \<open>Points\<close>

text \<open>An affine point is its 64-byte encoding: both coordinates, big-endian.\<close>

type_synonym g1_point = bytes

definition g1_from_xy :: "bytes \<Rightarrow> bytes \<Rightarrow> g1_point" where
  "g1_from_xy x y = x @ y"

definition g1_infinity :: g1_point where
  "g1_infinity = replicate 64 0"

definition g1_generator :: g1_point where
  "g1_generator = g1_from_xy ((replicate 32 0)[31 := 1]) ((replicate 32 0)[31 := 2])"

section \<open>Records\<close>

record verification_key =
  vk_circuit_size :: nat
  vk_log_circuit_size :: nat
  vk_public_inputs_size :: nat
  vk_pub_inputs_offset :: nat
  vk_qm :: g1_point
  vk_qc :: g1_point
  vk_ql :: g1_point
  vk_qr :: g1_point
  vk_qo :: g1_point
  vk_q4 :: g1_point
  vk_q_lookup :: g1_point
  vk_q_arith :: g1_point
  vk_q_delta_range :: g1_point
  vk_q_elliptic :: g1_point
  vk_q_aux :: g1_point
  vk_q_poseidon2_external :: g1_point
  vk_q_poseidon2_internal :: g1_point
  vk_s1 :: g1_point
  vk_s2 :: g1_point
  vk_s3 :: g1_point
  vk_s4 :: g1_point
  vk_id1 :: g1_point
  vk_id2 :: g1_point
  vk_id3 :: g1_point
  vk_id4 :: g1_point
  vk_t1 :: g1_point
  vk_t2 :: g1_point
  vk_t3 :: g1_point
  vk_t4 :: g1_point
  vk_lagrange_first :: g1_point
  vk_lagrange_last :: g1_point

record proof_data =
  pf_pairing_point_object :: "fr list"
  pf_w1 :: g1_point
  pf_w2 :: g1_point
  pf_w3 :: g1_point
  pf_w4 :: g1_point
  pf_lookup_read_counts :: g1_point
  pf_lookup_read_tags :: g1_point
  pf_lookup_inverses :: g1_point
  pf_z_perm :: g1_point
  pf_libra_concatenation_commitment :: g1_point
  pf_libra_sum :: fr
  pf_sumcheck_univariates :: "fr list list"
  pf_sumcheck_evaluations :: "fr list"
  pf_libra_claimed_evaluation :: fr
  pf_libra_grand_sum_commitment :: g1_point
  pf_libra_quotient_commitment :: g1_point
  pf_hiding_polynomial_commitment :: g1_point
  pf_hiding_polynomial_evaluation :: fr
  pf_gemini_fold_comms :: "g1_point list"
  pf_gemini_a_evaluations :: "fr list"
  pf_libra_polynomial_evaluations :: "fr list"
  pf_shplonk_q :: g1_point
  pf_kzg_quotient :: g1_point

record relation_parameters =
  rp_eta :: fr
  rp_eta_two :: fr
  rp_eta_three :: fr
  rp_beta :: fr
  rp_gamma :: fr
  rp_public_inputs_delta :: fr

record transcript =
  tr_rel_params :: relation_parameters
  tr_alphas :: "fr list"
  tr_gate_challenges :: "fr list"
  tr_libra_challenge :: fr
  tr_sumcheck_u_challenges :: "fr list"
  tr_rho :: fr
  tr_gemini_r :: fr
  tr_shplonk_nu :: fr
  tr_shplonk_z :: fr

datatype vk_load_error = WrongLength | InvalidParameters

datatype verify_error = InvalidInput | SumcheckFailed | ShplonkFailed

text \<open>The key's commitments, in the order of its encoding.\<close>

definition vk_points :: "verification_key \<Rightarrow> g1_point list" where
  "vk_points vk =
     [vk_qm vk, vk_qc vk, vk_ql vk, vk_qr vk, vk_qo vk, vk_q4 vk, vk_q_lookup vk, vk_q_arith vk,
      vk_q_delta_range vk, vk_q_elliptic vk, vk_q_aux vk, vk_q_poseidon2_external vk,
      vk_q_poseidon2_internal vk, vk_s1 vk, vk_s2 vk, vk_s3 vk, vk_s4 vk, vk_id1 vk, vk_id2 vk,
      vk_id3 vk, vk_id4 vk, vk_t1 vk, vk_t2 vk, vk_t3 vk, vk_t4 vk, vk_lagrange_first vk,
      vk_lagrange_last vk]"

definition vk_wf :: "verification_key \<Rightarrow> bool" where
  "vk_wf vk \<longleftrightarrow> 0 < vk_log_circuit_size vk \<and> vk_log_circuit_size vk \<le> CONST_PROOF_SIZE_LOG_N \<and>
     vk_circuit_size vk = 2 ^ vk_log_circuit_size vk \<and>
     PAIRING_POINTS_SIZE \<le> vk_public_inputs_size vk \<and> vk_public_inputs_size vk \<le> u64_max \<and>
     vk_pub_inputs_offset vk \<le> vk_circuit_size vk \<and>
     (\<forall>p \<in> set (vk_points vk). length p = 64)"

definition proof_points :: "proof_data \<Rightarrow> g1_point list" where
  "proof_points p =
     [pf_w1 p, pf_w2 p, pf_w3 p, pf_w4 p, pf_lookup_read_counts p, pf_lookup_read_tags p,
      pf_lookup_inverses p, pf_z_perm p, pf_libra_concatenation_commitment p,
      pf_libra_grand_sum_commitment p, pf_libra_quotient_commitment p,
      pf_hiding_polynomial_commitment p, pf_shplonk_q p, pf_kzg_quotient p]
     @ pf_gemini_fold_comms p"

definition proof_wf :: "proof_data \<Rightarrow> bool" where
  "proof_wf p \<longleftrightarrow> length (pf_pairing_point_object p) = PAIRING_POINTS_SIZE \<and>
     length (pf_sumcheck_univariates p) = CONST_PROOF_SIZE_LOG_N \<and>
     (\<forall>u \<in> set (pf_sumcheck_univariates p). length u = BATCHED_RELATION_PARTIAL_LENGTH) \<and>
     length (pf_sumcheck_evaluations p) = NUMBER_OF_ENTITIES \<and>
     length (pf_gemini_fold_comms p) = CONST_PROOF_SIZE_LOG_N - 1 \<and>
     length (pf_gemini_a_evaluations p) = CONST_PROOF_SIZE_LOG_N \<and>
     length (pf_libra_polynomial_evaluations p) = 4 \<and>
     (\<forall>q \<in> set (proof_points p). length q = 64)"

end
