(* ===== verification/Verifier_Transcript.thy ===== *)
theory Verifier_Transcript
  imports Verifier_Types
begin

text \<open>
  The Fiat-Shamir transcript (\<^verbatim>\<open>crates/ultrazk-soroban-verifier/src/transcript.rs\<close>): each round
  hashes the previous challenge and what the proof sends in that round, and splits the digest into
  128-bit challenges.  The byte buffer that a round builds is a list here; the loops over the fixed
  number of rounds are primitive recursions that thread the previous challenge.
\<close>

section \<open>Serialization\<close>

definition push_coord_halves :: "bytes \<Rightarrow> bytes \<Rightarrow> bytes" where
  "push_coord_halves buf coord =
     (let low = replicate 15 0 @ drop 15 coord;
          high = replicate 17 0 @ take 15 coord
      in buf @ low @ high)"

definition push_point :: "bytes \<Rightarrow> g1_point \<Rightarrow> bytes" where
  "push_point buf pt = push_coord_halves (push_coord_halves buf (take 32 pt)) (drop 32 pt)"

definition push_points :: "bytes \<Rightarrow> g1_point list \<Rightarrow> bytes" where
  "push_points buf pts = foldl push_point buf pts"

definition push_frs :: "bytes \<Rightarrow> fr list \<Rightarrow> bytes" where
  "push_frs buf xs = foldl (\<lambda>b x. b @ fr_to_bytes x) buf xs"

definition split_challenge_from_be32 :: "bytes \<Rightarrow> fr \<times> fr" where
  "split_challenge_from_be32 challenge_bytes =
     (let low_bytes = replicate 16 0 @ drop 16 challenge_bytes;
          high_bytes = replicate 16 0 @ take 16 challenge_bytes
      in (fr_from_array low_bytes, fr_from_array high_bytes))"

definition split_challenge :: "fr \<Rightarrow> fr \<times> fr" where
  "split_challenge challenge = split_challenge_from_be32 (fr_to_bytes challenge)"

definition hash_to_fr :: "bn254 \<Rightarrow> bytes \<Rightarrow> fr" where
  "hash_to_fr h data = fr_from_array (host_keccak256 h data)"

definition u64_to_be32 :: "nat \<Rightarrow> bytes" where
  "u64_to_be32 x = replicate 24 0 @ be_bytes 8 (int x)"

section \<open>Rounds\<close>

text \<open>What the first round absorbs.\<close>

definition eta_data :: "proof_data \<Rightarrow> bytes \<Rightarrow> nat \<Rightarrow> nat \<Rightarrow> nat \<Rightarrow> bytes" where
  "eta_data proof public_inputs circuit_size public_inputs_size pub_inputs_offset =
     (let data = u64_to_be32 circuit_size @ u64_to_be32 public_inputs_size
            @ u64_to_be32 pub_inputs_offset @ public_inputs;
          data = push_frs data (pf_pairing_point_object proof)
      in push_points data [pf_w1 proof, pf_w2 proof, pf_w3 proof])"

definition generate_eta_challenge ::
    "bn254 \<Rightarrow> proof_data \<Rightarrow> bytes \<Rightarrow> nat \<Rightarrow> nat \<Rightarrow> nat \<Rightarrow> fr \<times> fr \<times> fr \<times> fr" where
  "generate_eta_challenge h proof public_inputs circuit_size public_inputs_size pub_inputs_offset =
     (let first = hash_to_fr h
            (eta_data proof public_inputs circuit_size public_inputs_size pub_inputs_offset);
          first_bytes = fr_to_bytes first;
          (eta, eta_two) = split_challenge_from_be32 first_bytes;
          second = hash_to_fr h first_bytes;
          (eta_three, _) = split_challenge second
      in (eta, eta_two, eta_three, second))"

definition generate_beta_and_gamma_challenges ::
    "bn254 \<Rightarrow> fr \<Rightarrow> proof_data \<Rightarrow> fr \<times> fr \<times> fr" where
  "generate_beta_and_gamma_challenges h previous_challenge proof =
     (let data = push_points (fr_to_bytes previous_challenge)
            [pf_lookup_read_counts proof, pf_lookup_read_tags proof, pf_w4 proof];
          next_previous_challenge = hash_to_fr h data;
          (beta, gamma) = split_challenge next_previous_challenge
      in (beta, gamma, next_previous_challenge))"

text \<open>\<open>alpha_pairs h n c\<close>: the challenges of \<open>n\<close> further hashes of the previous challenge alone.\<close>

primrec alpha_pairs :: "bn254 \<Rightarrow> nat \<Rightarrow> fr \<Rightarrow> fr list \<times> fr" where
  "alpha_pairs h 0 c = ([], c)"
| "alpha_pairs h (Suc n) c =
     (let next = hash_to_fr h (fr_to_bytes c);
          (lo, hi) = split_challenge next;
          (rest, last) = alpha_pairs h n next
      in (lo # hi # rest, last))"

definition generate_alpha_challenges :: "bn254 \<Rightarrow> fr \<Rightarrow> proof_data \<Rightarrow> fr list \<times> fr" where
  "generate_alpha_challenges h previous_challenge proof =
     (let data = push_points (fr_to_bytes previous_challenge)
            [pf_lookup_inverses proof, pf_z_perm proof];
          next_previous_challenge = hash_to_fr h data;
          (a0, a1) = split_challenge next_previous_challenge;
          (pairs, next_previous_challenge) =
            alpha_pairs h (NUMBER_OF_ALPHAS div 2 - 1) next_previous_challenge;
          alphas = a0 # a1 # pairs
      in if odd NUMBER_OF_ALPHAS \<and> NUMBER_OF_ALPHAS > 2 then
           (let next_previous_challenge = hash_to_fr h (fr_to_bytes next_previous_challenge);
                (last, _) = split_challenge next_previous_challenge
            in (alphas @ [last], next_previous_challenge))
         else (alphas, next_previous_challenge))"

definition generate_relation_parameters_challenges ::
    "bn254 \<Rightarrow> proof_data \<Rightarrow> bytes \<Rightarrow> nat \<Rightarrow> nat \<Rightarrow> nat \<Rightarrow> relation_parameters \<times> fr" where
  "generate_relation_parameters_challenges h proof public_inputs circuit_size public_inputs_size
       pub_inputs_offset =
     (let (eta, eta_two, eta_three, previous_challenge) =
            generate_eta_challenge h proof public_inputs circuit_size public_inputs_size
              pub_inputs_offset;
          (beta, gamma, next_previous_challenge) =
            generate_beta_and_gamma_challenges h previous_challenge proof
      in (\<lparr>rp_eta = eta, rp_eta_two = eta_two, rp_eta_three = eta_three, rp_beta = beta,
           rp_gamma = gamma, rp_public_inputs_delta = 0\<rparr>, next_previous_challenge))"

primrec gate_loop :: "bn254 \<Rightarrow> nat \<Rightarrow> fr \<Rightarrow> fr list \<times> fr" where
  "gate_loop h 0 c = ([], c)"
| "gate_loop h (Suc n) c =
     (let next = hash_to_fr h (fr_to_bytes c);
          (rest, last) = gate_loop h n next
      in (fst (split_challenge next) # rest, last))"

definition generate_gate_challenges :: "bn254 \<Rightarrow> fr \<Rightarrow> fr list \<times> fr" where
  "generate_gate_challenges h previous_challenge =
     gate_loop h CONST_PROOF_SIZE_LOG_N previous_challenge"

definition generate_libra_challenge :: "bn254 \<Rightarrow> proof_data \<Rightarrow> fr \<Rightarrow> fr \<times> fr" where
  "generate_libra_challenge h proof previous_challenge =
     (let data = push_point (fr_to_bytes previous_challenge)
            (pf_libra_concatenation_commitment proof);
          next_previous_challenge = hash_to_fr h (data @ fr_to_bytes (pf_libra_sum proof))
      in (fst (split_challenge next_previous_challenge), next_previous_challenge))"

primrec sumcheck_loop :: "bn254 \<Rightarrow> fr list list \<Rightarrow> fr \<Rightarrow> fr list \<times> fr" where
  "sumcheck_loop h [] c = ([], c)"
| "sumcheck_loop h (u # us) c =
     (let next = hash_to_fr h (push_frs (fr_to_bytes c) u);
          (rest, last) = sumcheck_loop h us next
      in (fst (split_challenge next) # rest, last))"

definition generate_sumcheck_challenges :: "bn254 \<Rightarrow> proof_data \<Rightarrow> fr \<Rightarrow> fr list \<times> fr" where
  "generate_sumcheck_challenges h proof previous_challenge =
     sumcheck_loop h (take CONST_PROOF_SIZE_LOG_N (pf_sumcheck_univariates proof))
       previous_challenge"

definition generate_rho_challenge :: "bn254 \<Rightarrow> proof_data \<Rightarrow> fr \<Rightarrow> fr \<times> fr" where
  "generate_rho_challenge h proof previous_challenge =
     (let data = push_frs (fr_to_bytes previous_challenge) (pf_sumcheck_evaluations proof);
          data = data @ fr_to_bytes (pf_libra_claimed_evaluation proof);
          data = push_point data (pf_libra_grand_sum_commitment proof);
          data = push_point data (pf_libra_quotient_commitment proof);
          data = push_point data (pf_hiding_polynomial_commitment proof);
          data = data @ fr_to_bytes (pf_hiding_polynomial_evaluation proof);
          next_previous_challenge = hash_to_fr h data
      in (fst (split_challenge next_previous_challenge), next_previous_challenge))"

definition generate_gemini_r_challenge :: "bn254 \<Rightarrow> proof_data \<Rightarrow> fr \<Rightarrow> fr \<times> fr" where
  "generate_gemini_r_challenge h proof previous_challenge =
     (let next_previous_challenge = hash_to_fr h
            (push_points (fr_to_bytes previous_challenge) (pf_gemini_fold_comms proof))
      in (fst (split_challenge next_previous_challenge), next_previous_challenge))"

definition generate_shplonk_nu_challenge :: "bn254 \<Rightarrow> proof_data \<Rightarrow> fr \<Rightarrow> fr \<times> fr" where
  "generate_shplonk_nu_challenge h proof previous_challenge =
     (let data = push_frs (fr_to_bytes previous_challenge) (pf_gemini_a_evaluations proof);
          data = push_frs data (pf_libra_polynomial_evaluations proof);
          next_previous_challenge = hash_to_fr h data
      in (fst (split_challenge next_previous_challenge), next_previous_challenge))"

definition generate_shplonk_z_challenge :: "bn254 \<Rightarrow> proof_data \<Rightarrow> fr \<Rightarrow> fr \<times> fr" where
  "generate_shplonk_z_challenge h proof previous_challenge =
     (let next_previous_challenge = hash_to_fr h
            (push_point (fr_to_bytes previous_challenge) (pf_shplonk_q proof))
      in (fst (split_challenge next_previous_challenge), next_previous_challenge))"

section \<open>The whole transcript\<close>

definition validate_proof :: "proof_data \<Rightarrow> (string, unit) outcome" where
  "validate_proof proof =
     (if length (pf_pairing_point_object proof) \<noteq> PAIRING_POINTS_SIZE
      then Inl (Err ''invalid pairing_point_object size'')
      else if length (pf_sumcheck_univariates proof) \<noteq> CONST_PROOF_SIZE_LOG_N
      then Inl (Err ''invalid sumcheck_univariates size'')
      else if \<exists>univ \<in> set (pf_sumcheck_univariates proof).
                length univ \<noteq> BATCHED_RELATION_PARTIAL_LENGTH
      then Inl (Err ''invalid sumcheck_univariate coefficient count'')
      else if length (pf_sumcheck_evaluations proof) \<noteq> NUMBER_OF_ENTITIES
      then Inl (Err ''invalid sumcheck_evaluations size'')
      else if length (pf_gemini_fold_comms proof) \<noteq> CONST_PROOF_SIZE_LOG_N - 1
      then Inl (Err ''invalid gemini_fold_comms size'')
      else if length (pf_gemini_a_evaluations proof) \<noteq> CONST_PROOF_SIZE_LOG_N
      then Inl (Err ''invalid gemini_a_evaluations size'')
      else Inr ())"

definition generate_transcript ::
    "bn254 \<Rightarrow> proof_data \<Rightarrow> bytes \<Rightarrow> nat \<Rightarrow> nat \<Rightarrow> nat \<Rightarrow> (string, transcript) outcome" where
  "generate_transcript h proof public_inputs circuit_size public_inputs_size pub_inputs_offset =
     and_then (validate_proof proof) (\<lambda>_.
     let (rp, previous_challenge) = generate_relation_parameters_challenges h proof public_inputs
           circuit_size public_inputs_size pub_inputs_offset;
         (alphas, previous_challenge) = generate_alpha_challenges h previous_challenge proof;
         (gate_chals, previous_challenge) = generate_gate_challenges h previous_challenge;
         (libra_challenge, previous_challenge) = generate_libra_challenge h proof previous_challenge;
         (u_chals, previous_challenge) = generate_sumcheck_challenges h proof previous_challenge;
         (rho, previous_challenge) = generate_rho_challenge h proof previous_challenge;
         (gemini_r, previous_challenge) = generate_gemini_r_challenge h proof previous_challenge;
         (shplonk_nu, previous_challenge) = generate_shplonk_nu_challenge h proof previous_challenge;
         (shplonk_z, _) = generate_shplonk_z_challenge h proof previous_challenge
     in Inr \<lparr>tr_rel_params = rp, tr_alphas = alphas, tr_gate_challenges = gate_chals,
          tr_libra_challenge = libra_challenge, tr_sumcheck_u_challenges = u_chals, tr_rho = rho,
          tr_gemini_r = gemini_r, tr_shplonk_nu = shplonk_nu, tr_shplonk_z = shplonk_z\<rparr>)"

end
