(* ===== verification/Verifier_Codec.thy ===== *)
theory Verifier_Codec
  imports Verifier_Transcript
begin

text \<open>
  Decoding of proofs and verification keys (\<^verbatim>\<open>crates/ultrazk-soroban-verifier/src/utils.rs\<close>).

  A read past the end of the byte string traps, as the host's \<^verbatim>\<open>Bytes::slice\<close> does.  The
  encoders \<open>encode_proof\<close> and \<open>encode_vk\<close> specify the two layouts; they are the prover's side and
  have no counterpart in the crate.
\<close>

section \<open>Reading\<close>

definition read_bytes :: "nat \<Rightarrow> bytes \<Rightarrow> nat \<Rightarrow> ('e, bytes \<times> nat) outcome" where
  "read_bytes n data idx =
     (if idx + n \<le> length data then Inr (take n (drop idx data), idx + n) else Inl Trap)"

definition chunk :: "nat \<Rightarrow> nat \<Rightarrow> bytes \<Rightarrow> bytes" where
  "chunk a b blob = take (b - a) (drop a blob)"

definition combine_limbs :: "bytes \<Rightarrow> bytes \<Rightarrow> bytes" where
  "combine_limbs lo hi = drop 17 hi @ drop 15 lo"

definition fr_word32 :: "bytes \<Rightarrow> nat \<Rightarrow> fr" where
  "fr_word32 blob word_idx = (let off = word_idx * 32 in fr_from_array (chunk off (off + 32) blob))"

definition g1_from_proof_chunk128 :: "bytes \<Rightarrow> g1_point" where
  "g1_from_proof_chunk128 b =
     (let x = combine_limbs (chunk 0 32 b) (chunk 32 64 b);
          y = combine_limbs (chunk 64 96 b) (chunk 96 128 b)
      in g1_from_xy x y)"

definition g1_from_proof_blob_at :: "bytes \<Rightarrow> nat \<Rightarrow> g1_point" where
  "g1_from_proof_blob_at blob point_idx =
     (let off = point_idx * 128 in g1_from_proof_chunk128 (chunk off (off + 128) blob))"

definition PAIRING_OBJ_BYTES :: nat where "PAIRING_OBJ_BYTES = PAIRING_POINTS_SIZE * 32"
definition PROOF_HEAD_G1_BYTES :: nat where "PROOF_HEAD_G1_BYTES = 8 * 128"
definition LIBRA_CONCATENATION_BYTES :: nat where "LIBRA_CONCATENATION_BYTES = 128 + 32"
definition SUMCHECK_UNIV_BYTES :: nat where
  "SUMCHECK_UNIV_BYTES = CONST_PROOF_SIZE_LOG_N * BATCHED_RELATION_PARTIAL_LENGTH * 32"
definition SUMCHECK_EVAL_BYTES :: nat where "SUMCHECK_EVAL_BYTES = NUMBER_OF_ENTITIES * 32"
definition ZK_OPENING_BYTES :: nat where "ZK_OPENING_BYTES = 32 + 3 * 128 + 32"
definition GEMINI_FOLD_COMMS_BYTES :: nat where
  "GEMINI_FOLD_COMMS_BYTES = (CONST_PROOF_SIZE_LOG_N - 1) * 128"
definition GEMINI_A_EVAL_BYTES :: nat where "GEMINI_A_EVAL_BYTES = CONST_PROOF_SIZE_LOG_N * 32"
definition LIBRA_EVAL_BYTES :: nat where "LIBRA_EVAL_BYTES = 4 * 32"
definition FINAL_TWO_G1_BYTES :: nat where "FINAL_TWO_G1_BYTES = 2 * 128"

lemmas section_sizes = PAIRING_OBJ_BYTES_def PROOF_HEAD_G1_BYTES_def LIBRA_CONCATENATION_BYTES_def
  SUMCHECK_UNIV_BYTES_def SUMCHECK_EVAL_BYTES_def ZK_OPENING_BYTES_def GEMINI_FOLD_COMMS_BYTES_def
  GEMINI_A_EVAL_BYTES_def LIBRA_EVAL_BYTES_def FINAL_TWO_G1_BYTES_def

section \<open>Proofs\<close>

definition load_proof :: "bytes \<Rightarrow> (string, proof_data) outcome" where
  "load_proof proof_bytes =
     (if length proof_bytes \<noteq> PROOF_BYTES then Inl (Err ''proof bytes length mismatch'')
      else
     and_then (read_bytes PAIRING_OBJ_BYTES proof_bytes 0) (\<lambda>(ppo, boundary).
     and_then (read_bytes PROOF_HEAD_G1_BYTES proof_bytes boundary) (\<lambda>(g1_head, boundary).
     and_then (read_bytes LIBRA_CONCATENATION_BYTES proof_bytes boundary) (\<lambda>(libra_head, boundary).
     and_then (read_bytes SUMCHECK_UNIV_BYTES proof_bytes boundary) (\<lambda>(su, boundary).
     and_then (read_bytes SUMCHECK_EVAL_BYTES proof_bytes boundary) (\<lambda>(se, boundary).
     and_then (read_bytes ZK_OPENING_BYTES proof_bytes boundary) (\<lambda>(zk_opening, boundary).
     and_then (read_bytes GEMINI_FOLD_COMMS_BYTES proof_bytes boundary) (\<lambda>(gf, boundary).
     and_then (read_bytes GEMINI_A_EVAL_BYTES proof_bytes boundary) (\<lambda>(ga, boundary).
     and_then (read_bytes LIBRA_EVAL_BYTES proof_bytes boundary) (\<lambda>(libra_evals, boundary).
     and_then (read_bytes FINAL_TWO_G1_BYTES proof_bytes boundary) (\<lambda>(tail_g1, boundary).
     Inr \<lparr>pf_pairing_point_object = map (fr_word32 ppo) [0..<PAIRING_POINTS_SIZE],
       pf_w1 = g1_from_proof_blob_at g1_head 0,
       pf_w2 = g1_from_proof_blob_at g1_head 1,
       pf_w3 = g1_from_proof_blob_at g1_head 2,
       pf_w4 = g1_from_proof_blob_at g1_head 5,
       pf_lookup_read_counts = g1_from_proof_blob_at g1_head 3,
       pf_lookup_read_tags = g1_from_proof_blob_at g1_head 4,
       pf_lookup_inverses = g1_from_proof_blob_at g1_head 6,
       pf_z_perm = g1_from_proof_blob_at g1_head 7,
       pf_libra_concatenation_commitment = g1_from_proof_chunk128 (chunk 0 128 libra_head),
       pf_libra_sum = fr_word32 libra_head 4,
       pf_sumcheck_univariates =
         map (\<lambda>r. map (\<lambda>c. fr_word32 su (r * BATCHED_RELATION_PARTIAL_LENGTH + c))
           [0..<BATCHED_RELATION_PARTIAL_LENGTH]) [0..<CONST_PROOF_SIZE_LOG_N],
       pf_sumcheck_evaluations = map (fr_word32 se) [0..<NUMBER_OF_ENTITIES],
       pf_libra_claimed_evaluation = fr_word32 zk_opening 0,
       pf_libra_grand_sum_commitment = g1_from_proof_chunk128 (chunk 32 160 zk_opening),
       pf_libra_quotient_commitment = g1_from_proof_chunk128 (chunk 160 288 zk_opening),
       pf_hiding_polynomial_commitment = g1_from_proof_chunk128 (chunk 288 416 zk_opening),
       pf_hiding_polynomial_evaluation = fr_word32 zk_opening 13,
       pf_gemini_fold_comms = map (g1_from_proof_blob_at gf) [0..<CONST_PROOF_SIZE_LOG_N - 1],
       pf_gemini_a_evaluations = map (fr_word32 ga) [0..<CONST_PROOF_SIZE_LOG_N],
       pf_libra_polynomial_evaluations = map (fr_word32 libra_evals) [0..<4],
       pf_shplonk_q = g1_from_proof_chunk128 (chunk 0 128 tail_g1),
       pf_kzg_quotient = g1_from_proof_chunk128 (chunk 128 256 tail_g1)\<rparr>)))))))))))"

section \<open>Verification keys\<close>

definition HEADER_WORDS :: nat where "HEADER_WORDS = 4"
definition NUM_POINTS :: nat where "NUM_POINTS = 27"
definition POINT_BLOB_LEN :: nat where "POINT_BLOB_LEN = NUM_POINTS * 64"
definition EXPECTED_LEN :: nat where "EXPECTED_LEN = HEADER_WORDS * 8 + POINT_BLOB_LEN"

lemmas vk_sizes = HEADER_WORDS_def NUM_POINTS_def POINT_BLOB_LEN_def EXPECTED_LEN_def

definition read_u64 :: "bytes \<Rightarrow> nat \<Rightarrow> ('e, nat \<times> nat) outcome" where
  "read_u64 data idx =
     and_then (read_bytes 8 data idx) (\<lambda>(b, idx). Inr (nat (be_int b), idx))"

definition vk_of_points :: "nat \<Rightarrow> nat \<Rightarrow> nat \<Rightarrow> nat \<Rightarrow> g1_point list \<Rightarrow> verification_key" where
  "vk_of_points circuit_size log_circuit_size public_inputs_size pub_inputs_offset pts =
     \<lparr>vk_circuit_size = circuit_size, vk_log_circuit_size = log_circuit_size,
      vk_public_inputs_size = public_inputs_size, vk_pub_inputs_offset = pub_inputs_offset,
      vk_qm = pts ! 0, vk_qc = pts ! 1, vk_ql = pts ! 2, vk_qr = pts ! 3, vk_qo = pts ! 4,
      vk_q4 = pts ! 5, vk_q_lookup = pts ! 6, vk_q_arith = pts ! 7, vk_q_delta_range = pts ! 8,
      vk_q_elliptic = pts ! 9, vk_q_aux = pts ! 10, vk_q_poseidon2_external = pts ! 11,
      vk_q_poseidon2_internal = pts ! 12, vk_s1 = pts ! 13, vk_s2 = pts ! 14, vk_s3 = pts ! 15,
      vk_s4 = pts ! 16, vk_id1 = pts ! 17, vk_id2 = pts ! 18, vk_id3 = pts ! 19, vk_id4 = pts ! 20,
      vk_t1 = pts ! 21, vk_t2 = pts ! 22, vk_t3 = pts ! 23, vk_t4 = pts ! 24,
      vk_lagrange_first = pts ! 25, vk_lagrange_last = pts ! 26\<rparr>"

definition load_vk_from_bytes :: "bytes \<Rightarrow> (vk_load_error, verification_key) outcome" where
  "load_vk_from_bytes data =
     (if length data \<noteq> EXPECTED_LEN then Inl (Err WrongLength)
      else
     and_then (read_u64 data 0) (\<lambda>(circuit_size, idx).
     and_then (read_u64 data idx) (\<lambda>(log_circuit_size, idx).
     and_then (read_u64 data idx) (\<lambda>(public_inputs_size, idx).
     and_then (read_u64 data idx) (\<lambda>(pub_inputs_offset, idx).
     if log_circuit_size = 0 \<or> log_circuit_size > CONST_PROOF_SIZE_LOG_N
     then Inl (Err InvalidParameters)
     else if public_inputs_size < PAIRING_POINTS_SIZE then Inl (Err InvalidParameters)
     else if circuit_size \<noteq> 2 ^ log_circuit_size then Inl (Err InvalidParameters)
     else if pub_inputs_offset > circuit_size then Inl (Err InvalidParameters)
     else
       and_then (read_bytes POINT_BLOB_LEN data idx) (\<lambda>(points_bytes, idx).
       let pts = map (\<lambda>i. let off = i * 64 in chunk off (off + 64) points_bytes) [0..<NUM_POINTS]
       in Inr (vk_of_points circuit_size log_circuit_size public_inputs_size pub_inputs_offset
            pts)))))))"

section \<open>Layouts\<close>

definition encode_proof :: "proof_data \<Rightarrow> bytes" where
  "encode_proof p =
     push_frs [] (pf_pairing_point_object p)
     @ push_points [] [pf_w1 p, pf_w2 p, pf_w3 p, pf_lookup_read_counts p, pf_lookup_read_tags p,
         pf_w4 p, pf_lookup_inverses p, pf_z_perm p]
     @ (push_point [] (pf_libra_concatenation_commitment p) @ fr_to_bytes (pf_libra_sum p))
     @ push_frs [] (concat (pf_sumcheck_univariates p))
     @ push_frs [] (pf_sumcheck_evaluations p)
     @ (fr_to_bytes (pf_libra_claimed_evaluation p)
        @ push_points [] [pf_libra_grand_sum_commitment p, pf_libra_quotient_commitment p,
            pf_hiding_polynomial_commitment p]
        @ fr_to_bytes (pf_hiding_polynomial_evaluation p))
     @ push_points [] (pf_gemini_fold_comms p)
     @ push_frs [] (pf_gemini_a_evaluations p)
     @ push_frs [] (pf_libra_polynomial_evaluations p)
     @ push_points [] [pf_shplonk_q p, pf_kzg_quotient p]"

definition encode_vk :: "verification_key \<Rightarrow> bytes" where
  "encode_vk vk = be_bytes 8 (int (vk_circuit_size vk)) @ be_bytes 8 (int (vk_log_circuit_size vk))
     @ be_bytes 8 (int (vk_public_inputs_size vk)) @ be_bytes 8 (int (vk_pub_inputs_offset vk))
     @ concat (vk_points vk)"

section \<open>Serialized sequences\<close>

text \<open>A buffer grows by the concatenated encodings of the items pushed into it.\<close>

definition point_limbs :: "g1_point \<Rightarrow> bytes" where
  "point_limbs pt = push_point [] pt"

lemma push_point_append: "push_point buf pt = buf @ point_limbs pt"
  by (simp add: push_point_def push_coord_halves_def point_limbs_def Let_def)

lemma length_point_limbs [simp]: "length pt = 64 \<Longrightarrow> length (point_limbs pt) = 128"
  by (simp add: point_limbs_def push_point_def push_coord_halves_def)

lemma push_points_append: "push_points buf pts = buf @ concat (map point_limbs pts)"
  by (induction pts arbitrary: buf) (simp_all add: push_points_def push_point_append)

lemma push_frs_append: "push_frs buf xs = buf @ concat (map fr_to_bytes xs)"
  by (induction xs arbitrary: buf) (simp_all add: push_frs_def)

lemmas pushes = push_point_append push_points_append push_frs_append

lemma length_concat_fixed:
  "(\<And>x. x \<in> set xs \<Longrightarrow> length (f x) = n) \<Longrightarrow> length (concat (map f xs)) = n * length xs"
  by (induction xs) auto

lemma chunk_concat:
  assumes "\<And>x. x \<in> set xs \<Longrightarrow> length (f x) = n" and "i < length xs"
  shows "chunk (i * n) (i * n + n) (concat (map f xs) @ rest) = f (xs ! i)"
  using assms
proof (induction xs arbitrary: i)
  case (Cons x xs)
  then have x: "length (f x) = n" by simp
  show ?case
  proof (cases i)
    case 0
    with x show ?thesis by (simp add: chunk_def)
  next
    case (Suc j)
    with Cons have "chunk (j * n) (j * n + n) (concat (map f xs) @ rest) = f (xs ! j)" by simp
    with x Suc show ?thesis by (simp add: chunk_def)
  qed
qed simp

text \<open>The limb split is undone by the decoder; the decoder drops the padding of the limbs.\<close>

lemma combine_split:
  "length c = 32 \<Longrightarrow> combine_limbs (replicate 15 0 @ drop 15 c) (replicate 17 0 @ take 15 c) = c"
  by (simp add: combine_limbs_def)

lemma point_round_trip:
  assumes "length pt = 64"
  shows "g1_from_proof_chunk128 (point_limbs pt) = pt"
  using assms combine_split [of "take 32 pt"] combine_split [of "drop 32 pt"]
  by (simp add: g1_from_proof_chunk128_def point_limbs_def push_point_def push_coord_halves_def
      chunk_def g1_from_xy_def Let_def)

lemma point_at:
  assumes "\<And>p. p \<in> set ps \<Longrightarrow> length p = 64" and "i < length ps"
  shows "g1_from_proof_blob_at (concat (map point_limbs ps) @ rest) i = ps ! i"
  using assms chunk_concat [of ps point_limbs 128 i rest]
  by (simp add: g1_from_proof_blob_at_def point_round_trip)

lemma fr_at: "i < length xs \<Longrightarrow> fr_word32 (concat (map fr_to_bytes xs) @ rest) i = xs ! i"
  using chunk_concat [of xs fr_to_bytes 32 i rest] by (simp add: fr_word32_def)

section \<open>Decoding a proof\<close>

lemma load_sections:
  assumes "length s1 = 512" "length s2 = 1024" "length s3 = 160" "length s4 = 8064"
    "length s5 = 1280" "length s6 = 448" "length s7 = 3456" "length s8 = 896" "length s9 = 128"
    "length s10 = 256"
  shows "load_proof (s1 @ s2 @ s3 @ s4 @ s5 @ s6 @ s7 @ s8 @ s9 @ s10) =
    Inr \<lparr>pf_pairing_point_object = map (fr_word32 s1) [0..<PAIRING_POINTS_SIZE],
       pf_w1 = g1_from_proof_blob_at s2 0,
       pf_w2 = g1_from_proof_blob_at s2 1,
       pf_w3 = g1_from_proof_blob_at s2 2,
       pf_w4 = g1_from_proof_blob_at s2 5,
       pf_lookup_read_counts = g1_from_proof_blob_at s2 3,
       pf_lookup_read_tags = g1_from_proof_blob_at s2 4,
       pf_lookup_inverses = g1_from_proof_blob_at s2 6,
       pf_z_perm = g1_from_proof_blob_at s2 7,
       pf_libra_concatenation_commitment = g1_from_proof_chunk128 (chunk 0 128 s3),
       pf_libra_sum = fr_word32 s3 4,
       pf_sumcheck_univariates =
         map (\<lambda>r. map (\<lambda>c. fr_word32 s4 (r * BATCHED_RELATION_PARTIAL_LENGTH + c))
           [0..<BATCHED_RELATION_PARTIAL_LENGTH]) [0..<CONST_PROOF_SIZE_LOG_N],
       pf_sumcheck_evaluations = map (fr_word32 s5) [0..<NUMBER_OF_ENTITIES],
       pf_libra_claimed_evaluation = fr_word32 s6 0,
       pf_libra_grand_sum_commitment = g1_from_proof_chunk128 (chunk 32 160 s6),
       pf_libra_quotient_commitment = g1_from_proof_chunk128 (chunk 160 288 s6),
       pf_hiding_polynomial_commitment = g1_from_proof_chunk128 (chunk 288 416 s6),
       pf_hiding_polynomial_evaluation = fr_word32 s6 13,
       pf_gemini_fold_comms = map (g1_from_proof_blob_at s7) [0..<CONST_PROOF_SIZE_LOG_N - 1],
       pf_gemini_a_evaluations = map (fr_word32 s8) [0..<CONST_PROOF_SIZE_LOG_N],
       pf_libra_polynomial_evaluations = map (fr_word32 s9) [0..<4],
       pf_shplonk_q = g1_from_proof_chunk128 (chunk 0 128 s10),
       pf_kzg_quotient = g1_from_proof_chunk128 (chunk 128 256 s10)\<rparr>"
proof -
  have "PAIRING_OBJ_BYTES = 512" "PROOF_HEAD_G1_BYTES = 1024" "LIBRA_CONCATENATION_BYTES = 160"
    "SUMCHECK_UNIV_BYTES = 8064" "SUMCHECK_EVAL_BYTES = 1280" "ZK_OPENING_BYTES = 448"
    "GEMINI_FOLD_COMMS_BYTES = 3456" "GEMINI_A_EVAL_BYTES = 896" "LIBRA_EVAL_BYTES = 128"
    "FINAL_TWO_G1_BYTES = 256" "PROOF_BYTES = 16224"
    by (simp_all add: section_sizes sizes)
  with assms show ?thesis
    by (simp add: load_proof_def read_bytes_def outcome)
qed

lemma load_proof_Inr:
  assumes "load_proof data = Inr p"
  obtains s1 s2 s3 s4 s5 s6 s7 s8 s9 s10 where
    "data = s1 @ s2 @ s3 @ s4 @ s5 @ s6 @ s7 @ s8 @ s9 @ s10"
    "length s1 = 512" "length s2 = 1024" "length s3 = 160" "length s4 = 8064"
    "length s5 = 1280" "length s6 = 448" "length s7 = 3456" "length s8 = 896" "length s9 = 128"
    "length s10 = 256"
proof -
  have len: "length data = 16224"
    using assms by (simp add: load_proof_def sizes split: if_splits)
  define cut where "cut a b = take (b - a) (drop a data)" for a b
  have step: "drop a data = cut a b @ drop b data" if "a \<le> b" for a b
    using that append_take_drop_id [of "b - a" "drop a data"] by (simp add: cut_def)
  have "data = drop 0 data" by simp
  also have "\<dots> = cut 0 512 @ cut 512 1536 @ cut 1536 1696 @ cut 1696 9760 @ cut 9760 11040
      @ cut 11040 11488 @ cut 11488 14944 @ cut 14944 15840 @ cut 15840 15968 @ drop 15968 data"
    using step [of 0 512] step [of 512 1536] step [of 1536 1696] step [of 1696 9760]
      step [of 9760 11040] step [of 11040 11488] step [of 11488 14944] step [of 14944 15840]
      step [of 15840 15968] by simp
  finally show thesis
    by (rule that) (simp_all add: cut_def len)
qed

lemma map_upt_nth: "length xs = n \<Longrightarrow> (\<And>i. i < n \<Longrightarrow> f i = xs ! i) \<Longrightarrow> map f [0..<n] = xs"
  by (rule nth_equalityI) simp_all

lemma concat_nth_fixed:
  assumes "\<And>u. u \<in> set us \<Longrightarrow> length u = n" and "r < length us" and "c < n"
  shows "concat us ! (r * n + c) = us ! r ! c"
  using assms
proof (induction us arbitrary: r)
  case (Cons u us)
  then show ?case by (cases r) (auto simp: nth_append)
qed simp

lemma chunk_skip: "length a = k \<Longrightarrow> chunk (k + i) (k + j) (a @ b) = chunk i j b"
  by (simp add: chunk_def)

lemma chunk_take: "length a = n \<Longrightarrow> chunk 0 n (a @ b) = a"
  by (simp add: chunk_def)

lemma load_encode:
  assumes "proof_wf p"
  shows "load_proof (encode_proof p) = Inr p"
proof -
  note wf = assms [unfolded proof_wf_def proof_points_def sizes, simplified]
  let ?frs = "\<lambda>xs. concat (map fr_to_bytes xs)" and ?pts = "\<lambda>ps. concat (map point_limbs ps)"
  let ?us = "pf_sumcheck_univariates p"
  have us: "length (concat ?us) = 252"
    using length_concat_fixed [of ?us "\<lambda>x. x" 9] wf by simp
  have frs: "map (fr_word32 (?frs xs)) [0..<n] = xs" if "length xs = n" for xs n
    using that fr_at [of _ xs "[]"] by (intro map_upt_nth) simp_all
  have pts: "map (g1_from_proof_blob_at (?pts ps)) [0..<n] = ps"
    if "length ps = n" "\<forall>q \<in> set ps. length q = 64" for ps n
    using that point_at [of ps _ "[]"] by (intro map_upt_nth) simp_all
  have univ: "map (\<lambda>r. map (\<lambda>c. fr_word32 (?frs (concat ?us)) (r * 9 + c)) [0..<9]) [0..<28] = ?us"
  proof (rule map_upt_nth)
    fix r :: nat assume "r < 28"
    moreover have "fr_word32 (?frs (concat ?us)) (r * 9 + c) = ?us ! r ! c" if "c < 9" for c
      using that \<open>r < 28\<close> us wf fr_at [of "r * 9 + c" "concat ?us" "[]"] concat_nth_fixed [of ?us 9 r c]
      by simp
    ultimately show "map (\<lambda>c. fr_word32 (?frs (concat ?us)) (r * 9 + c)) [0..<9] = ?us ! r"
      using wf by (intro map_upt_nth) simp_all
  qed (use wf in simp)
  define hd where "hd = [pf_w1 p, pf_w2 p, pf_w3 p, pf_lookup_read_counts p, pf_lookup_read_tags p,
         pf_w4 p, pf_lookup_inverses p, pf_z_perm p]"
  have hd: "\<forall>q \<in> set hd. length q = 64" "length hd = 8"
    using wf by (simp_all add: hd_def)
  have head: "g1_from_proof_blob_at (?pts hd) i = hd ! i" if "i < 8" for i
    using point_at [of hd i "[]"] hd that by simp
  let ?libra = "point_limbs (pf_libra_concatenation_commitment p) @ fr_to_bytes (pf_libra_sum p)"
  have libra: "chunk 0 128 ?libra = point_limbs (pf_libra_concatenation_commitment p)"
    "fr_word32 ?libra 4 = pf_libra_sum p"
    using wf chunk_skip [of "point_limbs (pf_libra_concatenation_commitment p)" 128 0 32]
    by (simp_all add: chunk_take fr_word32_def chunk_def)
  let ?zk = "fr_to_bytes (pf_libra_claimed_evaluation p)
      @ concat (map point_limbs [pf_libra_grand_sum_commitment p, pf_libra_quotient_commitment p,
          pf_hiding_polynomial_commitment p]) @ fr_to_bytes (pf_hiding_polynomial_evaluation p)"
  have zk: "fr_word32 ?zk 0 = pf_libra_claimed_evaluation p"
    "fr_word32 ?zk 13 = pf_hiding_polynomial_evaluation p"
    "chunk 32 160 ?zk = point_limbs (pf_libra_grand_sum_commitment p)"
    "chunk 160 288 ?zk = point_limbs (pf_libra_quotient_commitment p)"
    "chunk 288 416 ?zk = point_limbs (pf_hiding_polynomial_commitment p)"
    using wf by (simp_all add: fr_word32_def chunk_def)
  let ?tail = "concat (map point_limbs [pf_shplonk_q p, pf_kzg_quotient p])"
  have tail: "chunk 0 128 ?tail = point_limbs (pf_shplonk_q p)"
    "chunk 128 256 ?tail = point_limbs (pf_kzg_quotient p)"
    using wf by (simp_all add: chunk_def)
  have lengths: "length (?frs xs) = 32 * length xs" for xs
    by (rule length_concat_fixed) simp
  have point_lengths: "length (?pts ps) = 128 * length ps" if "\<forall>q \<in> set ps. length q = 64" for ps
    using that by (intro length_concat_fixed) simp
  have "encode_proof p = ?frs (pf_pairing_point_object p) @ ?pts hd @ ?libra @ ?frs (concat ?us)
      @ ?frs (pf_sumcheck_evaluations p) @ ?zk @ ?pts (pf_gemini_fold_comms p)
      @ ?frs (pf_gemini_a_evaluations p) @ ?frs (pf_libra_polynomial_evaluations p) @ ?tail"
    by (simp only: encode_proof_def pushes append_Nil hd_def)
  also have "load_proof \<dots> = Inr p"
    using wf hd us univ
    by (subst load_sections)
      (simp_all add: lengths point_lengths head libra zk tail frs pts point_round_trip sizes
        del: concat.simps list.map map_append, simp_all add: hd_def)
  finally show ?thesis .
qed

lemma load_proof_wf:
  assumes "load_proof data = Inr p"
  shows "proof_wf p"
proof -
  have point: "length b = 128 \<Longrightarrow> length (g1_from_proof_chunk128 b) = 64" for b
    by (simp add: g1_from_proof_chunk128_def combine_limbs_def chunk_def g1_from_xy_def Let_def)
  then have at: "128 * i + 128 \<le> length b \<Longrightarrow> length (g1_from_proof_blob_at b i) = 64" for b i
    by (simp add: g1_from_proof_blob_at_def chunk_def Let_def mult.commute)
  obtain s1 s2 s3 s4 s5 s6 s7 s8 s9 s10 where
    data: "data = s1 @ s2 @ s3 @ s4 @ s5 @ s6 @ s7 @ s8 @ s9 @ s10"
    and len: "length s1 = 512" "length s2 = 1024" "length s3 = 160" "length s4 = 8064"
    "length s5 = 1280" "length s6 = 448" "length s7 = 3456" "length s8 = 896" "length s9 = 128"
    "length s10 = 256"
    using load_proof_Inr [OF assms] by metis
  from assms have "Inr p = load_proof data" by simp
  note this [unfolded data, unfolded load_sections [OF len]]
  then show ?thesis
    using len by (auto simp: proof_wf_def proof_points_def sizes at point chunk_def)
qed

section \<open>Decoding a key\<close>

lemma read_u64_at:
  "length a = idx \<Longrightarrow> length b = 8 \<Longrightarrow> read_u64 (a @ b @ c) idx = Inr (nat (be_int b), idx + 8)"
  by (simp add: read_u64_def read_bytes_def outcome)

text \<open>The structural checks of a key's header.\<close>

definition header_ok :: "nat \<Rightarrow> nat \<Rightarrow> nat \<Rightarrow> nat \<Rightarrow> bool" where
  "header_ok circuit log pis off \<longleftrightarrow> 0 < log \<and> log \<le> CONST_PROOF_SIZE_LOG_N \<and>
     PAIRING_POINTS_SIZE \<le> pis \<and> circuit = 2 ^ log \<and> off \<le> circuit"

lemma load_vk_sections:
  assumes "length b1 = 8" "length b2 = 8" "length b3 = 8" "length b4 = 8" "length pts = 1728"
  shows "load_vk_from_bytes (b1 @ b2 @ b3 @ b4 @ pts) =
    (if header_ok (nat (be_int b1)) (nat (be_int b2)) (nat (be_int b3)) (nat (be_int b4))
     then Inr (vk_of_points (nat (be_int b1)) (nat (be_int b2)) (nat (be_int b3)) (nat (be_int b4))
       (map (\<lambda>i. chunk (i * 64) (i * 64 + 64) pts) [0..<27]))
     else Inl (Err InvalidParameters))"
proof -
  let ?d = "b1 @ b2 @ b3 @ b4 @ pts"
  define n1 n2 n3 n4 where n: "n1 = nat (be_int b1)" "n2 = nat (be_int b2)"
    "n3 = nat (be_int b3)" "n4 = nat (be_int b4)"
  have "(read_u64 ?d 0 :: (vk_load_error, _) outcome) = Inr (n1, 8)"
    "(read_u64 ?d 8 :: (vk_load_error, _) outcome) = Inr (n2, 16)"
    "(read_u64 ?d 16 :: (vk_load_error, _) outcome) = Inr (n3, 24)"
    "(read_u64 ?d 24 :: (vk_load_error, _) outcome) = Inr (n4, 32)"
    using assms read_u64_at [of "[]" 0 b1 "b2 @ b3 @ b4 @ pts"]
      read_u64_at [of b1 8 b2 "b3 @ b4 @ pts"] read_u64_at [of "b1 @ b2" 16 b3 "b4 @ pts"]
      read_u64_at [of "b1 @ b2 @ b3" 24 b4 pts] by (simp_all add: n)
  with assms show ?thesis
    unfolding n [symmetric]
    by (simp add: load_vk_from_bytes_def outcome vk_sizes read_bytes_def header_ok_def Let_def
        not_le not_less)
qed

lemma vk_points_of_points:
  "length pts = 27 \<Longrightarrow> vk_points (vk_of_points a b c d pts) = pts"
  by (rule nth_equalityI) (auto simp: vk_points_def vk_of_points_def less_Suc_eq numeral_eq_Suc)

lemma vk_header_of_points [simp]:
  "vk_circuit_size (vk_of_points a b c d pts) = a" "vk_log_circuit_size (vk_of_points a b c d pts) = b"
  "vk_public_inputs_size (vk_of_points a b c d pts) = c"
  "vk_pub_inputs_offset (vk_of_points a b c d pts) = d"
  by (simp_all add: vk_of_points_def)

lemma vk_of_points_vk:
  "vk_of_points (vk_circuit_size vk) (vk_log_circuit_size vk) (vk_public_inputs_size vk)
    (vk_pub_inputs_offset vk) (vk_points vk) = vk"
  by (simp add: vk_of_points_def vk_points_def)

lemma vk_wf_header:
  "vk_wf vk \<longleftrightarrow> header_ok (vk_circuit_size vk) (vk_log_circuit_size vk) (vk_public_inputs_size vk)
      (vk_pub_inputs_offset vk) \<and> vk_public_inputs_size vk \<le> u64_max \<and>
    (\<forall>p \<in> set (vk_points vk). length p = 64)"
  by (auto simp: vk_wf_def header_ok_def)

lemma be_int_8: "length b = 8 \<Longrightarrow> nat (be_int b) \<le> u64_max"
  using be_int_bounds [of b] by (simp add: u64_max_def)

lemma load_vk_wf:
  assumes "load_vk_from_bytes data = Inr vk"
  shows "vk_wf vk"
proof -
  have len: "length data = 1760"
    using assms by (simp add: load_vk_from_bytes_def vk_sizes split: if_splits)
  define b where "b i = take 8 (drop (8 * i) data)" for i
  define pts where "pts = drop 32 data"
  have split: "data = b 0 @ b 1 @ b 2 @ b 3 @ pts"
    using append_take_drop_id [of 8 data] append_take_drop_id [of 8 "drop 8 data"]
      append_take_drop_id [of 8 "drop 16 data"] append_take_drop_id [of 8 "drop 24 data"]
    by (simp add: b_def pts_def)
  have lens: "length (b 0) = 8" "length (b 1) = 8" "length (b 2) = 8" "length (b 3) = 8"
    "length pts = 1728"
    by (simp_all add: b_def pts_def len)
  from assms [unfolded split load_vk_sections [OF lens]]
  show ?thesis
    using lens be_int_8 [OF lens(3)]
    by (auto simp: vk_wf_header vk_points_of_points chunk_def split: if_splits)
qed

lemma load_encode_vk:
  assumes "vk_wf vk"
  shows "load_vk_from_bytes (encode_vk vk) = Inr vk"
proof -
  note wf = assms [unfolded vk_wf_header]
  have points: "length (vk_points vk) = 27"
    by (simp add: vk_points_def)
  have small: "vk_log_circuit_size vk \<le> u64_max" "vk_circuit_size vk \<le> u64_max"
    "vk_pub_inputs_offset vk \<le> u64_max"
  proof -
    have "(2 :: nat) ^ vk_log_circuit_size vk \<le> 2 ^ 28"
      using wf by (intro power_increasing) (simp_all add: header_ok_def sizes)
    with wf show "vk_log_circuit_size vk \<le> u64_max" "vk_circuit_size vk \<le> u64_max"
      "vk_pub_inputs_offset vk \<le> u64_max"
      by (simp_all add: header_ok_def sizes u64_max_def)
  qed
  have be: "nat (be_int (be_bytes 8 (int n))) = n" if "n \<le> u64_max" for n
    using that by (simp add: be_int_be_bytes u64_max_def)
  have "length (concat (vk_points vk)) = 1728"
    using length_concat_fixed [of "vk_points vk" "\<lambda>x. x" 64] wf points by simp
  moreover have "map (\<lambda>i. chunk (i * 64) (i * 64 + 64) (concat (vk_points vk))) [0..<27] = vk_points vk"
    using chunk_concat [of "vk_points vk" "\<lambda>x. x" 64 _ "[]"] wf points
    by (intro map_upt_nth) simp_all
  ultimately show ?thesis
    using wf small by (simp add: encode_vk_def load_vk_sections be vk_of_points_vk)
qed

end
