(* ===== verification/Verifier_Relations.thy ===== *)
theory Verifier_Relations
  imports Verifier_Types
begin

text \<open>
  The 26 subrelations of the circuit (\<^verbatim>\<open>crates/ultrazk-soroban-verifier/src/relations.rs\<close>).

  Each family evaluates its identities at the claimed evaluations \<open>p\<close> of the wires and writes its
  entries of \<open>evals\<close>; the batch weighs them with the \<open>alpha\<close> challenges.  The lemmas at the end
  run the crate's own test vector; \<open>Verifier_Gates\<close> gives the identities in closed form.
\<close>

definition wire_at :: "fr list \<Rightarrow> wire \<Rightarrow> fr" where
  "wire_at p w = p ! wire_index w"

section \<open>The families\<close>

definition accumulate_arithmetic_relation :: "fr list \<Rightarrow> fr list \<Rightarrow> fr \<Rightarrow> fr list" where
  "accumulate_arithmetic_relation p evals domain_sep =
     (let one = 1; two = fr_from_u64 2; three = fr_from_u64 3;
          q_arith = wire_at p QArith; qm = wire_at p Qm; wr = wire_at p Wr; wl = wire_at p Wl;
          ql = wire_at p Ql; qr = wire_at p Qr; qo = wire_at p Qo; q4 = wire_at p Q4;
          w4 = wire_at p W4; qc = wire_at p Qc; w4_shift = wire_at p W4Shift;
          wl_shift = wire_at p WlShift; wo = wire_at p Wo;
          accum = (q_arith - three) * qm * wr * wl * neg_half;
          accum = accum + ql * wl + qr * wr + qo * wo + q4 * w4 + qc;
          accum = (accum + (q_arith - one) * w4_shift) * q_arith * domain_sep;
          evals = evals[0 := accum];
          accum = wl + w4 - wl_shift + qm;
          accum = accum * (q_arith - two) * (q_arith - one) * q_arith * domain_sep
      in evals[1 := accum])"

definition accumulate_permutation_relation ::
    "fr list \<Rightarrow> relation_parameters \<Rightarrow> fr list \<Rightarrow> fr \<Rightarrow> fr list" where
  "accumulate_permutation_relation p rp evals domain_sep =
     (let wl = wire_at p Wl; wr = wire_at p Wr; wo = wire_at p Wo; w4 = wire_at p W4;
          z_perm = wire_at p ZPerm; lagrange_first = wire_at p LagrangeFirst;
          z_perm_shift = wire_at p ZPermShift; lagrange_last = wire_at p LagrangeLast;
          num = wl + wire_at p Id1 * rp_beta rp + rp_gamma rp;
          num = num * (wr + wire_at p Id2 * rp_beta rp + rp_gamma rp)
            * (wo + wire_at p Id3 * rp_beta rp + rp_gamma rp)
            * (w4 + wire_at p Id4 * rp_beta rp + rp_gamma rp);
          den = wl + wire_at p Sigma1 * rp_beta rp + rp_gamma rp;
          den = den * (wr + wire_at p Sigma2 * rp_beta rp + rp_gamma rp)
            * (wo + wire_at p Sigma3 * rp_beta rp + rp_gamma rp)
            * (w4 + wire_at p Sigma4 * rp_beta rp + rp_gamma rp);
          evals = evals[2 := ((z_perm + lagrange_first) * num
            - (z_perm_shift + lagrange_last * rp_public_inputs_delta rp) * den) * domain_sep]
      in evals[3 := lagrange_last * z_perm_shift * domain_sep])"

definition accumulate_log_derivative_lookup_relation ::
    "fr list \<Rightarrow> relation_parameters \<Rightarrow> fr list \<Rightarrow> fr \<Rightarrow> fr list" where
  "accumulate_log_derivative_lookup_relation p rp evals domain_sep =
     (let write_term = wire_at p Table1 + rp_gamma rp + wire_at p Table2 * rp_eta rp
            + wire_at p Table3 * rp_eta_two rp + wire_at p Table4 * rp_eta_three rp;
          derived_entry_2 = wire_at p Wr + wire_at p Qm * wire_at p WrShift;
          derived_entry_3 = wire_at p Wo + wire_at p Qc * wire_at p WoShift;
          read_term = wire_at p Wl + rp_gamma rp + wire_at p Qr * wire_at p WlShift
            + derived_entry_2 * rp_eta rp + derived_entry_3 * rp_eta_two rp
            + wire_at p Qo * rp_eta_three rp;
          lookup_inv = wire_at p LookupInverses;
          lookup_read_tags = wire_at p LookupReadTags;
          q_lookup = wire_at p QLookup;
          inv_exists = lookup_read_tags + q_lookup - lookup_read_tags * q_lookup;
          evals = evals[4 := (read_term * write_term * lookup_inv - inv_exists) * domain_sep]
      in evals[5 := q_lookup * (write_term * lookup_inv)
           - wire_at p LookupReadCounts * (read_term * lookup_inv)])"

definition accumulate_delta_range_relation :: "fr list \<Rightarrow> fr list \<Rightarrow> fr \<Rightarrow> fr list" where
  "accumulate_delta_range_relation p evals domain_sep =
     (let wr = wire_at p Wr; wl = wire_at p Wl; wo = wire_at p Wo; w4 = wire_at p W4;
          wl_shift = wire_at p WlShift;
          deltas = [wr - wl, wo - wr, w4 - wo, wl_shift - w4];
          negs = [minus_one, minus_two, minus_three];
          q_range_dom = wire_at p QRange * domain_sep
      in foldl (\<lambda>evals i.
           let acc = foldl (\<lambda>acc n. acc * (deltas ! i + n)) (deltas ! i) negs
           in evals[6 + i := acc * q_range_dom]) evals [0..<4])"

definition accumulate_elliptic_relation :: "fr list \<Rightarrow> fr list \<Rightarrow> fr \<Rightarrow> fr list" where
  "accumulate_elliptic_relation p evals domain_sep =
     (let one = 1; nine = fr_from_u64 9;
          x1 = wire_at p Wr; y1 = wire_at p Wo; x2 = wire_at p WlShift; y2 = wire_at p W4Shift;
          x3 = wire_at p WrShift; y3 = wire_at p WoShift;
          q_sign = wire_at p Ql; q_double = wire_at p Qm; q_gate = wire_at p QElliptic;
          delta_x = x2 - x1;
          y1_sq = y1 * y1;
          x_add_id =
            (let y2_sq = y2 * y2; y1y2 = y1 * y2 * q_sign
             in (x3 + x2 + x1) * delta_x * delta_x - y2_sq - y1_sq + y1y2 + y1y2);
          y_add_id =
            (let y_diff = y2 * q_sign - y1 in (y1 + y3) * delta_x + (x3 - x1) * y_diff);
          b_neg = fr_from_u64 17;
          x_double_id =
            (let x_pow_4 = (y1_sq + b_neg) * x1;
                 y1_sqr_mul_4 = y1_sq + y1_sq + y1_sq + y1_sq;
                 x_pow_4_mul_9 = x_pow_4 * nine
             in (x3 + x1 + x1) * y1_sqr_mul_4 - x_pow_4_mul_9);
          y_double_id =
            (let x1_sqr_mul_3 = (x1 + x1 + x1) * x1
             in x1_sqr_mul_3 * (x1 - x3) - (y1 + y1) * (y1 + y3));
          q_gate_dom = q_gate * domain_sep;
          add_factor = (one - q_double) * q_gate_dom;
          double_factor = q_double * q_gate_dom;
          evals = evals[10 := x_add_id * add_factor + x_double_id * double_factor]
      in evals[11 := y_add_id * add_factor + y_double_id * double_factor])"

definition limb_size :: fr where
  "limb_size = 0x0000000000000000000000000000000000000000000000100000000000000000"

definition accumulate_auxiliary_relation ::
    "fr list \<Rightarrow> relation_parameters \<Rightarrow> fr list \<Rightarrow> fr \<Rightarrow> fr list" where
  "accumulate_auxiliary_relation p rp evals domain_sep =
     (let one = 1;
          sublimb_shift = fr_from_u64 (2 ^ 14);
          wl = wire_at p Wl; wr = wire_at p Wr; wo = wire_at p Wo; w4 = wire_at p W4;
          wl_shift = wire_at p WlShift; wr_shift = wire_at p WrShift;
          wo_shift = wire_at p WoShift; w4_shift = wire_at p W4Shift;
          ql = wire_at p Ql; qr = wire_at p Qr; qo = wire_at p Qo; q4 = wire_at p Q4;
          qm = wire_at p Qm; qc = wire_at p Qc; q_aux = wire_at p QAux;
          q_arith = wire_at p QArith;
          limb_subproduct = wl * wr_shift + wl_shift * wr;
          non_native_field_gate_2 = wl * w4 + wr * wo - wo_shift;
          non_native_field_gate_2 =
            non_native_field_gate_2 * limb_size - w4_shift + limb_subproduct;
          non_native_field_gate_2 = non_native_field_gate_2 * q4;
          limb_subproduct = limb_size * limb_subproduct + wl_shift * wr_shift;
          non_native_field_gate_1 = (limb_subproduct - (wo + w4)) * qo;
          non_native_field_gate_3 = (w4 - (wo_shift + w4_shift) + limb_subproduct) * qm;
          non_native_field_identity =
            (non_native_field_gate_1 + non_native_field_gate_2 + non_native_field_gate_3) * qr;
          limb_accumulator_1 = wr_shift * sublimb_shift + wl_shift;
          limb_accumulator_1 = limb_accumulator_1 * sublimb_shift + wo;
          limb_accumulator_1 = limb_accumulator_1 * sublimb_shift + wr;
          limb_accumulator_1 = limb_accumulator_1 * sublimb_shift + wl;
          limb_accumulator_1 = (limb_accumulator_1 - w4) * q4;
          limb_accumulator_2 = wo_shift * sublimb_shift + wr_shift;
          limb_accumulator_2 = limb_accumulator_2 * sublimb_shift + wl_shift;
          limb_accumulator_2 = limb_accumulator_2 * sublimb_shift + w4;
          limb_accumulator_2 = limb_accumulator_2 * sublimb_shift + wo;
          limb_accumulator_2 = (limb_accumulator_2 - w4_shift) * qm;
          limb_accumulator_identity = (limb_accumulator_1 + limb_accumulator_2) * qo;
          memory_record_check =
            wo * rp_eta_three rp + wr * rp_eta_two rp + wl * rp_eta rp + qc;
          access_type = w4 - memory_record_check;
          memory_record_check = memory_record_check - w4;
          index_delta = wl_shift - wl;
          record_delta = w4_shift - w4;
          index_is_monotonically_increasing = index_delta * index_delta - index_delta;
          adjacent_values_match_if_adjacent_indices_match = (one - index_delta) * record_delta;
          rom_gate_common = ql * qr * q_aux * domain_sep;
          evals = evals[13 := adjacent_values_match_if_adjacent_indices_match * rom_gate_common];
          evals = evals[14 := index_is_monotonically_increasing * rom_gate_common];
          access_check = access_type * access_type - access_type;
          next_gate_access_type =
            wo_shift * rp_eta_three rp + wr_shift * rp_eta_two rp + wl_shift * rp_eta rp;
          next_gate_access_type = w4_shift - next_gate_access_type;
          value_delta = wo_shift - wo;
          adjacent_values_match_and_next_access_is_a_read =
            (one - index_delta) * value_delta * (one - next_gate_access_type);
          ram_gate_common = q_arith * q_aux * domain_sep;
          evals = evals[15 := adjacent_values_match_and_next_access_is_a_read * ram_gate_common];
          evals = evals[16 := index_is_monotonically_increasing * ram_gate_common];
          evals = evals[17 := (next_gate_access_type * next_gate_access_type
            - next_gate_access_type) * ram_gate_common];
          rom_consistency_check_identity = memory_record_check * ql * qr;
          ram_timestamp_check_identity = (one - index_delta) * (wr_shift - wr) - wo;
          ram_consistency_check_identity = access_check * q_arith;
          memory_identity = rom_consistency_check_identity
            + ram_timestamp_check_identity * q4 * ql
            + memory_record_check * qm * ql
            + ram_consistency_check_identity;
          auxiliary_identity =
            memory_identity + non_native_field_identity + limb_accumulator_identity
      in evals[12 := auxiliary_identity * q_aux * domain_sep])"

definition accumulate_poseidon_external_relation :: "fr list \<Rightarrow> fr list \<Rightarrow> fr \<Rightarrow> fr list" where
  "accumulate_poseidon_external_relation p evals domain_sep =
     (let wl = wire_at p Wl; ql = wire_at p Ql; wr = wire_at p Wr; qr = wire_at p Qr;
          wo = wire_at p Wo; qo = wire_at p Qo; w4 = wire_at p W4; q4 = wire_at p Q4;
          wl_shift = wire_at p WlShift; wr_shift = wire_at p WrShift;
          wo_shift = wire_at p WoShift; w4_shift = wire_at p W4Shift;
          q_poseidon = wire_at p QPoseidon2External;
          s1 = wl + ql; s2 = wr + qr; s3 = wo + qo; s4 = w4 + q4;
          u1_ext = fr_pow s1 5; u2_ext = fr_pow s2 5; u3_ext = fr_pow s3 5; u4_ext = fr_pow s4 5;
          t0 = u1_ext + u2_ext;
          t1 = u3_ext + u4_ext;
          t2 = u2_ext + u2_ext + t1;
          t3 = u4_ext + u4_ext + t0;
          v4 = t1 + t1 + t1 + t1 + t3;
          v2 = t0 + t0 + t0 + t0 + t2;
          v1 = t3 + v2;
          v3 = t2 + v4;
          q_poseidon_dom = q_poseidon * domain_sep;
          evals = evals[18 := (v1 - wl_shift) * q_poseidon_dom];
          evals = evals[19 := (v2 - wr_shift) * q_poseidon_dom];
          evals = evals[20 := (v3 - wo_shift) * q_poseidon_dom]
      in evals[21 := (v4 - w4_shift) * q_poseidon_dom])"

definition accumulate_poseidon_internal_relation ::
    "fr list \<Rightarrow> fr list \<Rightarrow> fr \<Rightarrow> fr list \<Rightarrow> fr list" where
  "accumulate_poseidon_internal_relation p evals domain_sep diag =
     (let wl = wire_at p Wl; ql = wire_at p Ql;
          u1_int = fr_pow (wl + ql) 5;
          u2_int = wire_at p Wr; u3_int = wire_at p Wo; u4_int = wire_at p W4;
          wl_shift = wire_at p WlShift; wr_shift = wire_at p WrShift;
          wo_shift = wire_at p WoShift; w4_shift = wire_at p W4Shift;
          q_poseidon = wire_at p QPoseidon2Internal;
          q_poseidon_dom = q_poseidon * domain_sep;
          u_sum = u1_int + u2_int + u3_int + u4_int;
          w1 = u1_int * diag ! 0 + u_sum;
          w2 = u2_int * diag ! 1 + u_sum;
          w3 = u3_int * diag ! 2 + u_sum;
          w4 = u4_int * diag ! 3 + u_sum;
          evals = evals[22 := (w1 - wl_shift) * q_poseidon_dom];
          evals = evals[23 := (w2 - wr_shift) * q_poseidon_dom];
          evals = evals[24 := (w3 - wo_shift) * q_poseidon_dom]
      in evals[25 := (w4 - w4_shift) * q_poseidon_dom])"

section \<open>The batch\<close>

definition scale_and_batch_subrelations :: "fr list \<Rightarrow> fr list \<Rightarrow> fr" where
  "scale_and_batch_subrelations evaluations subrelation_challenges =
     foldl (\<lambda>accumulator i. accumulator + evaluations ! i * subrelation_challenges ! (i - 1))
       (evaluations ! 0) [1..<NUMBER_OF_SUBRELATIONS]"

definition relation_evaluations :: "fr list \<Rightarrow> relation_parameters \<Rightarrow> fr \<Rightarrow> fr list" where
  "relation_evaluations purported_evaluations rp domain_sep =
     (let evaluations = replicate NUMBER_OF_SUBRELATIONS 0;
          evaluations =
            accumulate_arithmetic_relation purported_evaluations evaluations domain_sep;
          evaluations =
            accumulate_permutation_relation purported_evaluations rp evaluations domain_sep;
          evaluations =
            accumulate_log_derivative_lookup_relation purported_evaluations rp evaluations
              domain_sep;
          evaluations =
            accumulate_delta_range_relation purported_evaluations evaluations domain_sep;
          evaluations =
            accumulate_elliptic_relation purported_evaluations evaluations domain_sep;
          evaluations =
            accumulate_auxiliary_relation purported_evaluations rp evaluations domain_sep;
          evaluations =
            accumulate_poseidon_external_relation purported_evaluations evaluations domain_sep
      in accumulate_poseidon_internal_relation purported_evaluations evaluations domain_sep
           internal_matrix_diagonal)"

definition accumulate_relation_evaluations ::
    "fr list \<Rightarrow> relation_parameters \<Rightarrow> fr list \<Rightarrow> fr \<Rightarrow> fr" where
  "accumulate_relation_evaluations purported_evaluations rp alphas pow_partial_eval =
     scale_and_batch_subrelations
       (relation_evaluations purported_evaluations rp pow_partial_eval) alphas"

lemmas relation_family_defs =
  accumulate_arithmetic_relation_def accumulate_permutation_relation_def
  accumulate_log_derivative_lookup_relation_def accumulate_delta_range_relation_def
  accumulate_elliptic_relation_def accumulate_auxiliary_relation_def
  accumulate_poseidon_external_relation_def accumulate_poseidon_internal_relation_def

section \<open>The test vector\<close>

text \<open>
  The crate's \<^verbatim>\<open>test_relations_determinism\<close> fixes the value of the batch on one input; the model
  computes the same value.
\<close>

definition test_evaluations :: "fr list" where
  "test_evaluations = map fr_from_u64 [0..<NUMBER_OF_ENTITIES]"

definition test_parameters :: relation_parameters where
  "test_parameters = \<lparr>rp_eta = 100, rp_eta_two = 101, rp_eta_three = 102, rp_beta = 103,
     rp_gamma = 104, rp_public_inputs_delta = 105\<rparr>"

definition test_alphas :: "fr list" where
  "test_alphas = map (\<lambda>i. fr_from_u64 (200 + i)) [0..<NUMBER_OF_ALPHAS]"

lemma wire_at_test: "wire_at test_evaluations w = of_nat (wire_index w)"
proof -
  have "wire_index w < 40" by (cases w) simp_all
  then show ?thesis by (simp add: wire_at_def test_evaluations_def sizes fr_from_u64_def)
qed

lemma alphas_test: "i < 25 \<Longrightarrow> test_alphas ! i = of_nat (200 + i)"
  by (simp add: test_alphas_def sizes fr_from_u64_def)

lemma arithmetic_test:
  "accumulate_arithmetic_relation test_evaluations evals 300 =
    evals[0 := 1329300,
      1 := 1386000]"
  by (simp add: accumulate_arithmetic_relation_def wire_at_test fr_from_u64_def Let_def
      test_parameters_def neg_half_def)

lemma permutation_test:
  "accumulate_permutation_relation test_evaluations test_parameters evals 300 =
    evals[2 := - 5459394547890360000,
      3 := 304200]"
  by (simp add: accumulate_permutation_relation_def wire_at_test fr_from_u64_def Let_def
      test_parameters_def )

lemma log_derivative_lookup_test:
  "accumulate_log_derivative_lookup_relation test_evaluations test_parameters evals 300 =
    evals[4 := 688709425200,
      5 := - 9313728]"
  by (simp add: accumulate_log_derivative_lookup_relation_def wire_at_test fr_from_u64_def Let_def
      test_parameters_def )

lemma delta_range_test:
  "accumulate_delta_range_relation test_evaluations evals 300 =
    evals[6 := 0,
      7 := 0,
      8 := 0,
      9 := 288000]"
  by (simp add: accumulate_delta_range_relation_def wire_at_test fr_from_u64_def Let_def
      test_parameters_def fr_constants upt_rec)

lemma elliptic_test:
  "accumulate_elliptic_relation test_evaluations evals 300 =
    evals[10 := 18829800,
      11 := 2262600]"
  by (simp add: accumulate_elliptic_relation_def wire_at_test fr_from_u64_def Let_def
      test_parameters_def )

lemma auxiliary_test:
  "accumulate_auxiliary_relation test_evaluations test_parameters evals 300 =
    evals[13 := - 1008000,
      14 := 1008000,
      15 := - 12786648000,
      16 := 1176000,
      17 := 2482436376000,
      12 := 41792213583320310288005040000]"
  by (simp add: accumulate_auxiliary_relation_def wire_at_test fr_from_u64_def Let_def
      test_parameters_def limb_size_def)

lemma poseidon_external_test:
  "accumulate_poseidon_external_relation test_evaluations evals 300 =
    evals[18 := 1648880590500,
      19 := 1140073222200,
      20 := 2210104561500,
      21 := 1718683177200]"
  by (simp add: accumulate_poseidon_external_relation_def wire_at_test fr_from_u64_def Let_def
      test_parameters_def fr_pow_def)

lemma poseidon_internal_test:
  "accumulate_poseidon_internal_relation test_evaluations evals 300 internal_matrix_diagonal =
    evals[22 := 563139978579953075969080623101213027089270801181132644169830304995593310048802579544000,
      23 := 554255711358436058467554645548211932726394249626426756255429702604599562260040000,
      24 := 15548952029088477140235131548016395817496796207375004153270518389119308325913600,
      25 := 1669289650597284408628495324275602465740737714764279144401234598021654741961052800]"
  by (simp add: accumulate_poseidon_internal_relation_def wire_at_test fr_from_u64_def Let_def
      test_parameters_def fr_pow_def internal_matrix_diagonal_def)

lemmas families_test = arithmetic_test permutation_test log_derivative_lookup_test delta_range_test
  elliptic_test auxiliary_test poseidon_external_test poseidon_internal_test

lemma relation_evaluations_test:
  "relation_evaluations test_evaluations test_parameters 300 =
    [1329300,
     1386000,
     - 5459394547890360000,
     304200,
     688709425200,
     - 9313728,
     0,
     0,
     0,
     288000,
     18829800,
     2262600,
     41792213583320310288005040000,
     - 1008000,
     1008000,
     - 12786648000,
     1176000,
     2482436376000,
     1648880590500,
     1140073222200,
     2210104561500,
     1718683177200,
     563139978579953075969080623101213027089270801181132644169830304995593310048802579544000,
     554255711358436058467554645548211932726394249626426756255429702604599562260040000,
     15548952029088477140235131548016395817496796207375004153270518389119308325913600,
     1669289650597284408628495324275602465740737714764279144401234598021654741961052800]"
  by (simp add: relation_evaluations_def families_test sizes Let_def numeral_eq_Suc)

lemma relations_test_vector:
  "accumulate_relation_evaluations test_evaluations test_parameters test_alphas 300 =
    0x1ec606befa857100f90267ac1dc687413b93e8586fdbb4682dfda24b864515aa"
  by (simp add: accumulate_relation_evaluations_def scale_and_batch_subrelations_def
      relation_evaluations_test alphas_test sizes upt_rec fr_eval)

end
