(* ===== verification/Verifier_Sumcheck.thy ===== *)
theory Verifier_Sumcheck
  imports Verifier_Relations
begin

text \<open>
  The sumcheck verifier (\<^verbatim>\<open>crates/ultrazk-soroban-verifier/src/sumcheck.rs\<close>): one round per
  variable, each checking the round's univariate against the target and moving the target to its
  value at the challenge, and the final comparison with the batched relations.

  A round evaluates the univariate, given by its values at \<open>0, ..., 8\<close>, by the barycentric formula.
  \<open>barycentric_value\<close> shows that this is the value of the polynomial of degree at most 8 through
  those points, and \<open>sumcheck_rounds_sound\<close> that the loop is the textbook sumcheck over those
  polynomials.  The interpolation identities are proved over the integers and carried to the field
  along \<open>of_int\<close>, so nothing rests on the modulus being prime.
\<close>

section \<open>Rounds\<close>

definition BARY_BYTES :: "bytes list" where
  "BARY_BYTES =
     [[0x00, 0x00, 0x00, 0x00, 0x00, 0x00, 0x00, 0x00, 0x00, 0x00, 0x00, 0x00, 0x00, 0x00, 0x00,
       0x00, 0x00, 0x00, 0x00, 0x00, 0x00, 0x00, 0x00, 0x00, 0x00, 0x00, 0x00, 0x00, 0x00, 0x00,
       0x9d, 0x80],
      [0x30, 0x64, 0x4e, 0x72, 0xe1, 0x31, 0xa0, 0x29, 0xb8, 0x50, 0x45, 0xb6, 0x81, 0x81, 0x58,
       0x5d, 0x28, 0x33, 0xe8, 0x48, 0x79, 0xb9, 0x70, 0x91, 0x43, 0xe1, 0xf5, 0x93, 0xef, 0xff,
       0xec, 0x51],
      [0x00, 0x00, 0x00, 0x00, 0x00, 0x00, 0x00, 0x00, 0x00, 0x00, 0x00, 0x00, 0x00, 0x00, 0x00,
       0x00, 0x00, 0x00, 0x00, 0x00, 0x00, 0x00, 0x00, 0x00, 0x00, 0x00, 0x00, 0x00, 0x00, 0x00,
       0x05, 0xa0],
      [0x30, 0x64, 0x4e, 0x72, 0xe1, 0x31, 0xa0, 0x29, 0xb8, 0x50, 0x45, 0xb6, 0x81, 0x81, 0x58,
       0x5d, 0x28, 0x33, 0xe8, 0x48, 0x79, 0xb9, 0x70, 0x91, 0x43, 0xe1, 0xf5, 0x93, 0xef, 0xff,
       0xfd, 0x31],
      [0x00, 0x00, 0x00, 0x00, 0x00, 0x00, 0x00, 0x00, 0x00, 0x00, 0x00, 0x00, 0x00, 0x00, 0x00,
       0x00, 0x00, 0x00, 0x00, 0x00, 0x00, 0x00, 0x00, 0x00, 0x00, 0x00, 0x00, 0x00, 0x00, 0x00,
       0x02, 0x40],
      [0x30, 0x64, 0x4e, 0x72, 0xe1, 0x31, 0xa0, 0x29, 0xb8, 0x50, 0x45, 0xb6, 0x81, 0x81, 0x58,
       0x5d, 0x28, 0x33, 0xe8, 0x48, 0x79, 0xb9, 0x70, 0x91, 0x43, 0xe1, 0xf5, 0x93, 0xef, 0xff,
       0xfd, 0x31],
      [0x00, 0x00, 0x00, 0x00, 0x00, 0x00, 0x00, 0x00, 0x00, 0x00, 0x00, 0x00, 0x00, 0x00, 0x00,
       0x00, 0x00, 0x00, 0x00, 0x00, 0x00, 0x00, 0x00, 0x00, 0x00, 0x00, 0x00, 0x00, 0x00, 0x00,
       0x05, 0xa0],
      [0x30, 0x64, 0x4e, 0x72, 0xe1, 0x31, 0xa0, 0x29, 0xb8, 0x50, 0x45, 0xb6, 0x81, 0x81, 0x58,
       0x5d, 0x28, 0x33, 0xe8, 0x48, 0x79, 0xb9, 0x70, 0x91, 0x43, 0xe1, 0xf5, 0x93, 0xef, 0xff,
       0xec, 0x51],
      [0x00, 0x00, 0x00, 0x00, 0x00, 0x00, 0x00, 0x00, 0x00, 0x00, 0x00, 0x00, 0x00, 0x00, 0x00,
       0x00, 0x00, 0x00, 0x00, 0x00, 0x00, 0x00, 0x00, 0x00, 0x00, 0x00, 0x00, 0x00, 0x00, 0x00,
       0x9d, 0x80]]"

definition barycentric_weights :: "fr list" where
  "barycentric_weights =
     map (\<lambda>i. fr_from_array (BARY_BYTES ! i)) [0..<BATCHED_RELATION_PARTIAL_LENGTH]"

definition point_indices :: "fr list" where
  "point_indices = map fr_from_u64 [0..<BATCHED_RELATION_PARTIAL_LENGTH]"

definition check_sum :: "fr list \<Rightarrow> fr \<Rightarrow> bool" where
  "check_sum round_univariate round_target \<longleftrightarrow>
     round_univariate ! 0 + round_univariate ! 1 = round_target"

definition compute_next_target_sum ::
    "bn254 \<Rightarrow> fr list \<Rightarrow> fr \<Rightarrow> fr list \<Rightarrow> fr list \<Rightarrow> fr \<Rightarrow> fr \<Rightarrow> (string, fr) outcome" where
  "compute_next_target_sum h round_univariate round_challenge weights points one zero =
     (case find (\<lambda>(point, univariate). round_challenge = point) (zip points round_univariate) of
        Some (_, univariate) \<Rightarrow> Inr univariate
      | None \<Rightarrow>
          let (b_poly, denoms) = foldl (\<lambda>(b_poly, denoms) i.
                let diff = round_challenge - points ! i
                in (b_poly * diff, denoms[i := weights ! i * diff]))
                (one, replicate BATCHED_RELATION_PARTIAL_LENGTH zero)
                [0..<BATCHED_RELATION_PARTIAL_LENGTH]
          in and_then (with_error ''sumcheck: barycentric denominator is zero''
               (batch_inverse h denoms (replicate BATCHED_RELATION_PARTIAL_LENGTH zero)))
               (\<lambda>inv_denoms. Inr (b_poly * foldl (\<lambda>acc (univariate, inv_denom).
                  acc + univariate * inv_denom) zero (zip round_univariate inv_denoms))))"

definition partially_evaluate_pow :: "fr \<Rightarrow> fr \<Rightarrow> fr \<Rightarrow> fr \<Rightarrow> fr" where
  "partially_evaluate_pow one gate_challenge pow_partial_evaluation round_challenge =
     pow_partial_evaluation * (one + round_challenge * (gate_challenge - one))"

text \<open>The rounds of \<^verbatim>\<open>verify_sumcheck\<close>, with the round target and the gate separator.\<close>

primrec sumcheck_rounds ::
    "bn254 \<Rightarrow> proof_data \<Rightarrow> transcript \<Rightarrow> nat list \<Rightarrow> fr \<Rightarrow> fr \<Rightarrow> (string, fr \<times> fr) outcome" where
  "sumcheck_rounds h proof tp [] round_target pow = Inr (round_target, pow)"
| "sumcheck_rounds h proof tp (round # rounds) round_target pow =
     (let round_univariate = pf_sumcheck_univariates proof ! round in
      if \<not> check_sum round_univariate round_target then Inl (Err ''round failed'')
      else
        (let round_challenge = tr_sumcheck_u_challenges tp ! round in
         and_then (compute_next_target_sum h round_univariate round_challenge barycentric_weights
             point_indices 1 0) (\<lambda>round_target.
         sumcheck_rounds h proof tp rounds round_target
           (partially_evaluate_pow 1 (tr_gate_challenges tp ! round) pow round_challenge))))"

definition verify_sumcheck ::
    "bn254 \<Rightarrow> proof_data \<Rightarrow> transcript \<Rightarrow> verification_key \<Rightarrow> (string, unit) outcome" where
  "verify_sumcheck h proof tp vk =
     (let log_n = vk_log_circuit_size vk in
      if log_n = 0 \<or> log_n > CONST_PROOF_SIZE_LOG_N
      then Inl (Err ''sumcheck: log_circuit_size out of range'')
      else
        and_then (sumcheck_rounds h proof tp [0..<log_n]
            (tr_libra_challenge tp * pf_libra_sum proof) 1)
          (\<lambda>(round_target, pow_partial_evaluation).
        let grand_honk_relation_sum = accumulate_relation_evaluations
              (pf_sumcheck_evaluations proof) (tr_rel_params tp) (tr_alphas tp)
              pow_partial_evaluation;
            evaluation = foldl (\<lambda>evaluation challenge. evaluation * challenge) 1
              (drop 2 (take log_n (tr_sumcheck_u_challenges tp)));
            masked_relation_sum = grand_honk_relation_sum * (1 - evaluation)
              + pf_libra_claimed_evaluation proof * tr_libra_challenge tp
        in if masked_relation_sum = round_target then Inr ()
           else Inl (Err ''sumcheck final mismatch'')))"

section \<open>Lagrange interpolation\<close>

text \<open>A polynomial by its coefficients, lowest first.\<close>

definition poly_at :: "fr list \<Rightarrow> fr \<Rightarrow> fr" where
  "poly_at cs x = (\<Sum>i<length cs. cs ! i * x ^ i)"

text \<open>\<open>skip_product k c\<close> is the product of \<open>c - j\<close> over the other points \<open>j\<close> of the domain.\<close>

definition skip_product :: "nat \<Rightarrow> 'a :: comm_ring_1 \<Rightarrow> 'a" where
  "skip_product k c = prod_list (map (\<lambda>j. c - of_nat j) (remove1 k [0..<9]))"

lemma upto9: "[0..<9] = [0, 1, 2, 3, 4, 5, 6, 7, 8 :: nat]"
  by (simp add: upt_rec)

lemma sum9: "(\<Sum>k<9. f k) = f 0 + f 1 + f 2 + f 3 + f 4 + f 5 + f 6 + f 7 + (f (8::nat) :: 'a :: comm_monoid_add)"
  by (simp add: numeral_eq_Suc)

definition binomial_signs :: "int list" where
  "binomial_signs = [1, -8, 28, -56, 70, -56, 28, -8, 1]"

lemma less9: "m < (9::nat) \<longleftrightarrow> m = 0 \<or> m = 1 \<or> m = 2 \<or> m = 3 \<or> m = 4 \<or> m = 5 \<or> m = 6 \<or> m = 7 \<or> m = 8"
  by auto

lemma int_lagrange:
  assumes "m < 9"
  shows "(\<Sum>k<9. binomial_signs ! k * int k ^ m * skip_product k i) = 40320 * i ^ m"
proof -
  let ?P = "\<lambda>m. (\<Sum>k<9. binomial_signs ! k * int k ^ m * skip_product k i) = 40320 * i ^ m"
  note ground = sum9 skip_product_def upto9 binomial_signs_def
  have "?P 0" by (simp add: ground algebra_simps)
  moreover have "?P 1" by (simp add: ground) algebra
  moreover have "?P 2" by (simp add: ground) algebra
  moreover have "?P 3" by (simp add: ground) algebra
  moreover have "?P 4" by (simp add: ground) algebra
  moreover have "?P 5" by (simp add: ground) algebra
  moreover have "?P 6" by (simp add: ground) algebra
  moreover have "?P 7" by (simp add: ground) algebra
  moreover have "?P 8" by (simp add: ground) algebra
  ultimately show ?thesis
    using assms by (auto simp: less9)
qed

lemma prod_list_remove1:
  "x \<in> set xs \<Longrightarrow> prod_list (map f xs) = f x * prod_list (map f (remove1 x xs))"
  for f :: "'b \<Rightarrow> 'a :: comm_ring_1"
  by (induction xs) (auto simp: ac_simps)

lemma skip_product_of_int: "of_int (skip_product k i) = (skip_product k (of_int i) :: fr)"
proof -
  have "of_int (prod_list (map (\<lambda>j. i - int j) xs)) = (prod_list (map (\<lambda>j. of_int i - of_nat j) xs) :: fr)"
    for xs by (induction xs) simp_all
  then show ?thesis by (simp add: skip_product_def)
qed

lemma fr_lagrange:
  assumes "m < 9"
  shows "(\<Sum>k<9. of_int (binomial_signs ! k) * of_nat k ^ m * skip_product k (c :: fr)) = 40320 * c ^ m"
proof -
  have c: "of_int (int_of_fr c) = c" by (simp add: of_int_fr)
  have "of_int (\<Sum>k<9. binomial_signs ! k * int k ^ m * skip_product k (int_of_fr c))
      = (of_int (40320 * int_of_fr c ^ m) :: fr)"
    by (simp only: int_lagrange [OF assms])
  then show ?thesis by (simp add: skip_product_of_int c)
qed

lemma weights_int:
  "barycentric_weights = map of_int [40320, -5040, 1440, -720, 576, -720, 1440, -5040, 40320]"
  by (simp add: barycentric_weights_def BARY_BYTES_def sizes upto9 fr_from_array_def be_int_def fr_eval flip: of_int_fr)

lemma unit_cancel: "e * x = e * y \<Longrightarrow> e * u = 1 \<Longrightarrow> x = y"
  for e x y u :: fr
  by (metis mult.assoc mult.commute mult_1)

lemma barycentric_identity:
  fixes c :: fr and d y :: "nat \<Rightarrow> fr"
  assumes inv: "\<And>k. k < 9 \<Longrightarrow> barycentric_weights ! k * (c - of_nat k) * d k = 1"
    and y: "\<And>k. k < 9 \<Longrightarrow> y k = poly_at cs (of_nat k)" and deg: "length cs \<le> 9"
  shows "prod_list (map (\<lambda>j. c - of_nat j) [0..<9]) * (\<Sum>k<9. y k * d k) = poly_at cs c"
proof -
  let ?B = "prod_list (map (\<lambda>j. c - of_nat j) [0..<9])" and ?s = "\<lambda>k. of_int (binomial_signs ! k) :: fr"
  have weight: "barycentric_weights ! k * ?s k = 40320" if "k < 9" for k
    using that by (auto simp: less9 weights_int binomial_signs_def)
  have scaled: "40320 * (?B * d k) = ?s k * skip_product k c" if k: "k < 9" for k
  proof -
    have "?B = (c - of_nat k) * skip_product k c"
      using k prod_list_remove1 [of k "[0..<9]" "\<lambda>j. c - of_nat j"] by (simp add: skip_product_def)
    then have "40320 * (?B * d k) = ?s k * skip_product k c * (barycentric_weights ! k * (c - of_nat k) * d k)"
      using weight [OF k] by (simp add: ac_simps flip: weight [OF k])
    then show ?thesis by (simp add: inv [OF k])
  qed
  have "40320 * (?B * (\<Sum>k<9. y k * d k)) = (\<Sum>k<9. y k * (40320 * (?B * d k)))"
    unfolding sum_distrib_left by (simp add: ac_simps)
  also have "\<dots> = (\<Sum>k<9. (\<Sum>m<length cs. cs ! m * of_nat k ^ m) * (?s k * skip_product k c))"
    by (intro sum.cong) (auto simp: y scaled poly_at_def)
  also have "\<dots> = (\<Sum>k<9. \<Sum>m<length cs. cs ! m * (?s k * of_nat k ^ m * skip_product k c))"
    unfolding sum_distrib_right by (simp add: ac_simps)
  also have "\<dots> = (\<Sum>m<length cs. cs ! m * (\<Sum>k<9. ?s k * of_nat k ^ m * skip_product k c))"
    by (subst sum.swap) (simp add: sum_distrib_left)
  also have "\<dots> = (\<Sum>m<length cs. cs ! m * (40320 * c ^ m))"
    using deg by (intro sum.cong) (simp_all add: fr_lagrange)
  also have "\<dots> = 40320 * poly_at cs c"
    unfolding poly_at_def sum_distrib_left by (simp add: ac_simps)
  finally have "40320 * (?B * (\<Sum>k<9. y k * d k)) = 40320 * poly_at cs c" .
  moreover have "40320 * (c * d 0) = 1"
    using inv [of 0] by (simp add: weights_int ac_simps)
  ultimately show ?thesis
    using unit_cancel by blast
qed

section \<open>A round evaluates its polynomial\<close>

lemma denominators_loop:
  fixes c b :: fr
  assumes "n \<le> length ds"
  shows "foldl (\<lambda>(b, ds) i. let diff = c - points ! i in (b * diff, ds[i := w ! i * diff])) (b, ds) [0..<n]
    = (b * prod_list (map (\<lambda>i. c - points ! i) [0..<n]),
       map (\<lambda>i. w ! i * (c - points ! i)) [0..<n] @ drop n ds)"
  using assms
proof (induction n)
  case (Suc n)
  then have "drop n ds = ds ! n # drop (Suc n) ds" by (simp add: Cons_nth_drop_Suc)
  with Suc show ?case by (simp add: list_update_append Let_def ac_simps)
qed simp

lemma zip_sum_loop:
  "length us = length ds \<Longrightarrow>
   foldl (\<lambda>acc (u, d). acc + u * d) z (zip us ds) = z + (\<Sum>i<length us. us ! i * ds ! i)"
  for z :: fr
proof (induction us arbitrary: ds z)
  case (Cons u us)
  then show ?case
    by (cases ds) (simp_all add: sum.lessThan_Suc_shift ac_simps del: sum.lessThan_Suc)
qed simp

lemma point_indices_nth: "k < 9 \<Longrightarrow> point_indices ! k = of_nat k"
  by (simp add: point_indices_def sizes fr_from_u64_def)

lemma length_point_indices [simp]: "length point_indices = 9"
  by (simp add: point_indices_def sizes)

definition interpolates :: "fr list \<Rightarrow> fr list \<Rightarrow> bool" where
  "interpolates cs u \<longleftrightarrow> length cs \<le> 9 \<and> length u = 9 \<and> (\<forall>k<9. u ! k = poly_at cs (of_nat k))"

lemma barycentric_value:
  assumes "inverse_law h" and u: "interpolates cs u"
    and t: "compute_next_target_sum h u c barycentric_weights point_indices 1 0 = Inr t"
  shows "t = poly_at cs c"
proof (cases "find (\<lambda>(point, univariate). c = point) (zip point_indices u)")
  case None
  let ?denoms = "map (\<lambda>i. barycentric_weights ! i * (c - point_indices ! i)) [0..<9]"
  from t None obtain ys where ys: "batch_inverse h ?denoms (replicate 9 0) = Inr ys"
    and t: "t = prod_list (map (\<lambda>i. c - point_indices ! i) [0..<9]) *
      foldl (\<lambda>acc (u, d). acc + u * d) 0 (zip u ys)"
    by (auto simp: compute_next_target_sum_def sizes denominators_loop outcome_Inr)
  note inverses = batch_inverse_Inr [OF assms(1) _ ys]
  have points: "map (\<lambda>i. c - point_indices ! i) [0..<9] = map (\<lambda>i. c - of_nat i) [0..<9]"
    by (simp add: point_indices_nth)
  have "length ys = 9" using inverses(1) by simp
  then have "t = prod_list (map (\<lambda>i. c - of_nat i) [0..<9]) * (\<Sum>i<9. u ! i * ys ! i)"
    using u by (simp add: t points zip_sum_loop interpolates_def)
  moreover have "barycentric_weights ! k * (c - of_nat k) * ys ! k = 1" if "k < 9" for k
    using that inverses(2) [of k] by (simp add: point_indices_nth)
  ultimately show ?thesis
    using barycentric_identity [of c "(!) ys" "(!) u" cs] u by (simp add: interpolates_def)
next
  case (Some r)
  with t have "snd r = t" by (cases r) (simp add: compute_next_target_sum_def)
  moreover from Some u obtain i where "i < 9" and "c = point_indices ! i" and "snd r = u ! i"
    by (auto simp: find_Some_iff interpolates_def)
  ultimately obtain i where "i < 9" and "c = point_indices ! i" and "t = u ! i" by auto
  with u show ?thesis by (simp add: interpolates_def point_indices_nth)
qed

section \<open>The protocol\<close>

text \<open>
  The textbook verifier of the sumcheck protocol: each round's polynomial must sum to the claim
  over \<open>{0, 1}\<close>, its value at the challenge is the next claim, and the last claim is the value of
  the summand.
\<close>

fun textbook_sumcheck :: "fr list list \<Rightarrow> fr list \<Rightarrow> fr \<Rightarrow> fr \<Rightarrow> bool" where
  "textbook_sumcheck [] rs claim final \<longleftrightarrow> claim = final"
| "textbook_sumcheck (cs # css) (r # rs) claim final \<longleftrightarrow>
     poly_at cs 0 + poly_at cs 1 = claim \<and> textbook_sumcheck css rs (poly_at cs r) final"
| "textbook_sumcheck (cs # css) [] claim final \<longleftrightarrow> False"

definition gate_separator :: "transcript \<Rightarrow> nat list \<Rightarrow> fr" where
  "gate_separator tp rounds = prod_list (map (\<lambda>i. 1 + tr_sumcheck_u_challenges tp ! i *
     (tr_gate_challenges tp ! i - 1)) rounds)"

definition masked_relation_sum :: "proof_data \<Rightarrow> transcript \<Rightarrow> nat \<Rightarrow> fr" where
  "masked_relation_sum proof tp log_n =
     accumulate_relation_evaluations (pf_sumcheck_evaluations proof) (tr_rel_params tp)
       (tr_alphas tp) (gate_separator tp [0..<log_n])
     * (1 - prod_list (drop 2 (take log_n (tr_sumcheck_u_challenges tp))))
     + pf_libra_claimed_evaluation proof * tr_libra_challenge tp"

lemma rounds_textbook:
  assumes "inverse_law h"
    and "list_all2 (\<lambda>cs i. interpolates cs (pf_sumcheck_univariates proof ! i)) css rounds"
  shows "sumcheck_rounds h proof tp rounds claim pow = Inr (t, pow') \<Longrightarrow>
      (textbook_sumcheck css (map ((!) (tr_sumcheck_u_challenges tp)) rounds) claim final \<longleftrightarrow> t = final)
      \<and> pow' = pow * gate_separator tp rounds"
    and "\<forall>i \<in> set rounds. \<exists>v. compute_next_target_sum h (pf_sumcheck_univariates proof ! i)
        (tr_sumcheck_u_challenges tp ! i) barycentric_weights point_indices 1 0 = Inr v \<Longrightarrow>
      textbook_sumcheck css (map ((!) (tr_sumcheck_u_challenges tp)) rounds) claim final \<Longrightarrow>
      \<exists>pow'. sumcheck_rounds h proof tp rounds claim pow = Inr (final, pow')"
proof -
  have ends: "interpolates cs u \<Longrightarrow> u ! 0 = poly_at cs 0 \<and> u ! Suc 0 = poly_at cs 1" for cs u
    by (auto simp: interpolates_def dest: spec [of _ 0] spec [of _ 1])
  show "(textbook_sumcheck css (map ((!) (tr_sumcheck_u_challenges tp)) rounds) claim final \<longleftrightarrow> t = final)
      \<and> pow' = pow * gate_separator tp rounds"
    if "sumcheck_rounds h proof tp rounds claim pow = Inr (t, pow')"
    using assms(2) that
  proof (induction css rounds arbitrary: claim pow rule: list_all2_induct)
    case Nil
    then show ?case by (auto simp: gate_separator_def)
  next
    case (Cons cs css i rounds)
    let ?u = "pf_sumcheck_univariates proof ! i" and ?c = "tr_sumcheck_u_challenges tp ! i"
    from Cons.prems obtain v where total: "?u ! 0 + ?u ! Suc 0 = claim"
      and v: "compute_next_target_sum h ?u ?c barycentric_weights point_indices 1 0 = Inr v"
      and rest: "sumcheck_rounds h proof tp rounds v
        (partially_evaluate_pow 1 (tr_gate_challenges tp ! i) pow ?c) = Inr (t, pow')"
      by (auto simp: Let_def outcome_Inr check_sum_def split: if_splits)
    from Cons.IH [OF rest] total ends [OF Cons.hyps(1)] barycentric_value [OF assms(1) Cons.hyps(1) v]
    show ?case by (simp add: gate_separator_def partially_evaluate_pow_def ac_simps)
  qed
  show "\<exists>pow'. sumcheck_rounds h proof tp rounds claim pow = Inr (final, pow')"
    if "\<forall>i \<in> set rounds. \<exists>v. compute_next_target_sum h (pf_sumcheck_univariates proof ! i)
        (tr_sumcheck_u_challenges tp ! i) barycentric_weights point_indices 1 0 = Inr v"
      and "textbook_sumcheck css (map ((!) (tr_sumcheck_u_challenges tp)) rounds) claim final"
    using assms(2) that
  proof (induction css rounds arbitrary: claim pow rule: list_all2_induct)
    case (Cons cs css i rounds)
    then obtain v where v: "compute_next_target_sum h (pf_sumcheck_univariates proof ! i)
        (tr_sumcheck_u_challenges tp ! i) barycentric_weights point_indices 1 0 = Inr v" by auto
    note computed = barycentric_value [OF assms(1) Cons.hyps(1) v]
    from Cons v ends [OF Cons.hyps(1)] show ?case
      by (simp add: Let_def outcome check_sum_def computed)
  qed simp
qed

end
