(* ===== verification/Verifier_Shplemini.thy ===== *)
theory Verifier_Shplemini
  imports Verifier_Transcript Verifier_Sumcheck
begin

text \<open>
  The opening of the polynomial commitments (\<^verbatim>\<open>crates/ultrazk-soroban-verifier/src/ec.rs\<close> and
  \<^verbatim>\<open>shplemini.rs\<close>): the batch of all evaluation claims, the Gemini folding rounds, the Libra
  consistency check, one multi-scalar multiplication and one pairing check.

  The arrays of commitments and scalars have the layout of the code, with the code's in-place
  updates.  The two host functions on curve points are parameters; \<open>None\<close> is their error.
\<close>

section \<open>Curve operations\<close>

definition RHS_G2_BYTES :: bytes where
  "RHS_G2_BYTES =
     [0x19, 0x8e, 0x93, 0x93, 0x92, 0x0d, 0x48, 0x3a, 0x72, 0x60, 0xbf, 0xb7, 0x31, 0xfb, 0x5d, 0x25,
      0xf1, 0xaa, 0x49, 0x33, 0x35, 0xa9, 0xe7, 0x12, 0x97, 0xe4, 0x85, 0xb7, 0xae, 0xf3, 0x12, 0xc2,
      0x18, 0x00, 0xde, 0xef, 0x12, 0x1f, 0x1e, 0x76, 0x42, 0x6a, 0x00, 0x66, 0x5e, 0x5c, 0x44, 0x79,
      0x67, 0x43, 0x22, 0xd4, 0xf7, 0x5e, 0xda, 0xdd, 0x46, 0xde, 0xbd, 0x5c, 0xd9, 0x92, 0xf6, 0xed,
      0x09, 0x06, 0x89, 0xd0, 0x58, 0x5f, 0xf0, 0x75, 0xec, 0x9e, 0x99, 0xad, 0x69, 0x0c, 0x33, 0x95,
      0xbc, 0x4b, 0x31, 0x33, 0x70, 0xb3, 0x8e, 0xf3, 0x55, 0xac, 0xda, 0xdc, 0xd1, 0x22, 0x97, 0x5b,
      0x12, 0xc8, 0x5e, 0xa5, 0xdb, 0x8c, 0x6d, 0xeb, 0x4a, 0xab, 0x71, 0x80, 0x8d, 0xcb, 0x40, 0x8f,
      0xe3, 0xd1, 0xe7, 0x69, 0x0c, 0x43, 0xd3, 0x7b, 0x4c, 0xe6, 0xcc, 0x01, 0x66, 0xfa, 0x7d, 0xaa]"

definition LHS_G2_BYTES :: bytes where
  "LHS_G2_BYTES =
     [0x26, 0x0e, 0x01, 0xb2, 0x51, 0xf6, 0xf1, 0xc7, 0xe7, 0xff, 0x4e, 0x58, 0x07, 0x91, 0xde, 0xe8,
      0xea, 0x51, 0xd8, 0x7a, 0x35, 0x8e, 0x03, 0x8b, 0x4e, 0xfe, 0x30, 0xfa, 0xc0, 0x93, 0x83, 0xc1,
      0x01, 0x18, 0xc4, 0xd5, 0xb8, 0x37, 0xbc, 0xc2, 0xbc, 0x89, 0xb5, 0xb3, 0x98, 0xb5, 0x97, 0x4e,
      0x9f, 0x59, 0x44, 0x07, 0x3b, 0x32, 0x07, 0x8b, 0x7e, 0x23, 0x1f, 0xec, 0x93, 0x88, 0x83, 0xb0,
      0x04, 0xfc, 0x63, 0x69, 0xf7, 0x11, 0x0f, 0xe3, 0xd2, 0x51, 0x56, 0xc1, 0xbb, 0x9a, 0x72, 0x85,
      0x9c, 0xf2, 0xa0, 0x46, 0x41, 0xf9, 0x9b, 0xa4, 0xee, 0x41, 0x3c, 0x80, 0xda, 0x6a, 0x5f, 0xe4,
      0x22, 0xfe, 0xbd, 0xa3, 0xc0, 0xc0, 0x63, 0x2a, 0x56, 0x47, 0x5b, 0x42, 0x14, 0xe5, 0x61, 0x5e,
      0x11, 0xe6, 0xdd, 0x3f, 0x96, 0xe6, 0xce, 0xa2, 0x85, 0x4a, 0x87, 0xd4, 0xda, 0xcc, 0x5e, 0x55]"

definition G1_INFINITY_AFFINE_BYTES :: g1_point where
  "G1_INFINITY_AFFINE_BYTES = replicate 64 0"

definition g1_msm :: "bn254 \<Rightarrow> g1_point list \<Rightarrow> fr list \<Rightarrow> (string, g1_point) outcome" where
  "g1_msm h coms scalars =
     (if length coms \<noteq> length scalars then Inl (Err ''msm len mismatch'')
      else
        (let terms = filter (\<lambda>(c, s). s \<noteq> 0) (zip coms scalars);
             vp = map fst terms; vs = map snd terms
         in if vp = [] then Inr G1_INFINITY_AFFINE_BYTES else or_trap (host_msm h vp vs)))"

definition pairing_check :: "bn254 \<Rightarrow> g1_point \<Rightarrow> g1_point \<Rightarrow> (string, bool) outcome" where
  "pairing_check h p0 p1 = or_trap (host_pairing h [p0, p1] [RHS_G2_BYTES, LHS_G2_BYTES])"

section \<open>Libra\<close>

definition SUBGROUP_SIZE :: nat where "SUBGROUP_SIZE = 256"

definition SUBGROUP_GENERATOR_BYTES :: bytes where
  "SUBGROUP_GENERATOR_BYTES =
     [0x07, 0xb0, 0xc5, 0x61, 0xa6, 0x14, 0x84, 0x04, 0xf0, 0x86, 0x20, 0x4a, 0x9f, 0x36, 0xff, 0xb0,
      0x61, 0x79, 0x42, 0x54, 0x67, 0x50, 0xf2, 0x30, 0xc8, 0x93, 0x61, 0x91, 0x74, 0xa5, 0x7a, 0x76]"

definition SUBGROUP_GENERATOR_INVERSE_BYTES :: bytes where
  "SUBGROUP_GENERATOR_INVERSE_BYTES =
     [0x20, 0x4b, 0xd3, 0x27, 0x74, 0x22, 0xfa, 0xd3, 0x64, 0x75, 0x1a, 0xd9, 0x38, 0xe2, 0xb5, 0xe6,
      0xa5, 0x4c, 0xf8, 0xc6, 0x87, 0x12, 0x84, 0x8a, 0x69, 0x2c, 0x55, 0x3d, 0x03, 0x29, 0xf5, 0xd6]"

text \<open>The Lagrange coefficients of the challenge polynomial: the powers of each round's challenge.\<close>

definition challenge_lagrange :: "fr list \<Rightarrow> fr list" where
  "challenge_lagrange challenges =
     foldl (\<lambda>cl (round, challenge).
         let current = 1 + BATCHED_RELATION_PARTIAL_LENGTH * round
         in foldl (\<lambda>cl index. cl[index := cl ! (index - 1) * challenge]) (cl[current := 1])
              [current + 1..<current + BATCHED_RELATION_PARTIAL_LENGTH])
       ((replicate SUBGROUP_SIZE 0)[0 := 1]) (enumerate 0 challenges)"

definition libra_denominators :: "fr \<Rightarrow> fr \<Rightarrow> fr list" where
  "libra_denominators gemini_r subgroup_generator_inverse =
     fst (foldl (\<lambda>(denominators, root_power) i.
         (denominators[i := root_power * gemini_r - 1], root_power * subgroup_generator_inverse))
       (replicate SUBGROUP_SIZE 0, 1) [0..<SUBGROUP_SIZE])"

definition check_libra_evaluations_consistency ::
    "bn254 \<Rightarrow> proof_data \<Rightarrow> transcript \<Rightarrow> (string, unit) outcome" where
  "check_libra_evaluations_consistency h proof tp =
     (let subgroup_generator_inverse = fr_from_array SUBGROUP_GENERATOR_INVERSE_BYTES;
          vanishing_evaluation = fr_pow (tr_gemini_r tp) SUBGROUP_SIZE - 1
      in if fr_is_zero vanishing_evaluation
         then Inl (Err ''gemini challenge is in the Libra subgroup'')
         else
           and_then (with_error ''Libra denominator is zero''
             (batch_inverse h (libra_denominators (tr_gemini_r tp) subgroup_generator_inverse)
               (replicate SUBGROUP_SIZE 0))) (\<lambda>denominator_inverses.
           and_then (fr_inverse h (fr_from_u64 SUBGROUP_SIZE)) (\<lambda>size_inverse.
           let challenge_evaluation = foldl (\<lambda>acc (lagrange, denominator).
                 acc + lagrange * denominator) 0
                 (zip (challenge_lagrange (tr_sumcheck_u_challenges tp)) denominator_inverses);
               numerator = vanishing_evaluation * size_inverse;
               challenge_evaluation = challenge_evaluation * numerator;
               lagrange_first = denominator_inverses ! 0 * numerator;
               lagrange_last = denominator_inverses ! (SUBGROUP_SIZE - 1) * numerator;
               evaluations = pf_libra_polynomial_evaluations proof;
               difference = lagrange_first * evaluations ! 2;
               difference = difference + (tr_gemini_r tp - subgroup_generator_inverse)
                 * (evaluations ! 1 - evaluations ! 2 - evaluations ! 0 * challenge_evaluation);
               difference = difference
                 + lagrange_last * (evaluations ! 2 - pf_libra_claimed_evaluation proof)
                 - vanishing_evaluation * evaluations ! 3
           in if fr_is_zero difference then Inr ()
              else Inl (Err ''Libra evaluations are inconsistent''))))"

section \<open>The batch of claims\<close>

definition MAX_BATCH :: nat where "MAX_BATCH = 3 * CONST_PROOF_SIZE_LOG_N + 2"
definition TOTAL :: nat where "TOTAL = NUMBER_OF_ENTITIES + CONST_PROOF_SIZE_LOG_N + 3 + 3"

definition r_powers :: "nat \<Rightarrow> fr \<Rightarrow> fr list" where
  "r_powers log_n r =
     foldl (\<lambda>r_pows i. r_pows[i := r_pows ! (i - 1) * r_pows ! (i - 1)])
       ((replicate CONST_PROOF_SIZE_LOG_N 0)[0 := r]) [1..<log_n]"

text \<open>All values to invert, in one array; \<open>libra_index\<close> is the last of them.\<close>

definition libra_index :: "nat \<Rightarrow> nat" where
  "libra_index log_n = 3 + log_n + 2 * (log_n - 1)"

definition values_to_invert :: "nat \<Rightarrow> fr list \<Rightarrow> transcript \<Rightarrow> fr list" where
  "values_to_invert log_n r_pows tp =
     (let z = tr_shplonk_z tp;
          to_invert = replicate MAX_BATCH 0;
          to_invert = to_invert[0 := z - r_pows ! 0, 1 := z + r_pows ! 0, 2 := tr_gemini_r tp];
          to_invert = foldl (\<lambda>to_invert j.
              let u = tr_sumcheck_u_challenges tp ! (j - 1)
              in to_invert[3 + (log_n - j) := r_pows ! (j - 1) * (1 - u) + u])
            to_invert (rev [1..<log_n + 1]);
          further_base = 3 + log_n;
          to_invert = foldl (\<lambda>to_invert j.
              to_invert[further_base + 2 * (j - 1) := z - r_pows ! j,
                        further_base + 2 * (j - 1) + 1 := z + r_pows ! j])
            to_invert [1..<log_n]
      in to_invert[libra_index log_n :=
           z - fr_from_array SUBGROUP_GENERATOR_BYTES * tr_gemini_r tp])"

text \<open>The weighted evaluation claims: the scalar of each claim and the batched evaluation.\<close>

definition batch_evaluations :: "proof_data \<Rightarrow> transcript \<Rightarrow> fr \<Rightarrow> fr \<Rightarrow> fr list \<times> fr" where
  "batch_evaluations proof tp neg_unshifted neg_shifted =
     (let (eval_scalars, eval_acc, _) =
            foldl (\<lambda>(eval_scalars, eval_acc, rho_pow) (idx, eval).
                let scalar = (if idx < NUMBER_UNSHIFTED then neg_unshifted else neg_shifted) * rho_pow
                in (eval_scalars[idx := scalar], eval_acc + eval * rho_pow, rho_pow * tr_rho tp))
              (replicate NUMBER_OF_ENTITIES 0, pf_hiding_polynomial_evaluation proof, tr_rho tp)
              (enumerate 0 (take NUMBER_OF_ENTITIES (pf_sumcheck_evaluations proof)))
      in (eval_scalars, eval_acc))"

definition place :: "nat \<Rightarrow> (g1_point \<times> fr) list \<Rightarrow> g1_point list \<times> fr list \<Rightarrow> g1_point list \<times> fr list" where
  "place j items arrays =
     foldl (\<lambda>(coms, scalars) (i, c, s). (coms[i := c], scalars[i := s])) arrays (enumerate j items)"

text \<open>The commitments of the key and the proof, with the index of their scalar.\<close>

definition opened_commitments :: "proof_data \<Rightarrow> verification_key \<Rightarrow> (g1_point \<times> nat) list" where
  "opened_commitments proof vk =
     zip (vk_points vk) [0..<27]
     @ [(pf_w1 proof, 27), (pf_w2 proof, 28), (pf_w3 proof, 29), (pf_w4 proof, 30),
        (pf_z_perm proof, 31), (pf_lookup_inverses proof, 32), (pf_lookup_read_counts proof, 33),
        (pf_lookup_read_tags proof, 34)]
     @ [(pf_w1 proof, 35), (pf_w2 proof, 36), (pf_w3 proof, 37), (pf_w4 proof, 38),
        (pf_z_perm proof, 39)]"

text \<open>The folding rounds: the positive fold evaluations, from the last round to the first.\<close>

definition fold_rounds ::
    "nat \<Rightarrow> fr list \<Rightarrow> fr list \<Rightarrow> proof_data \<Rightarrow> transcript \<Rightarrow> fr \<Rightarrow> fr list \<times> fr" where
  "fold_rounds log_n r_pows inverted proof tp eval_acc =
     foldl (\<lambda>(fold_pos, cur) j.
         let r2 = r_pows ! (j - 1);
             u = tr_sumcheck_u_challenges tp ! (j - 1);
             fold_lin = r2 * (1 - u) - u;
             num = r2 * cur * fr_from_u64 2 - pf_gemini_a_evaluations proof ! (j - 1) * fold_lin;
             den_inv = inverted ! (3 + (log_n - j));
             cur = num * den_inv
         in (fold_pos[j - 1 := cur], cur))
       (replicate CONST_PROOF_SIZE_LOG_N 0, eval_acc) (rev [1..<log_n + 1])"

text \<open>The fold commitments, their scalars, and the constant term.\<close>

definition fold_commitments ::
    "nat \<Rightarrow> fr list \<Rightarrow> fr list \<Rightarrow> proof_data \<Rightarrow> transcript \<Rightarrow> fr \<Rightarrow>
     g1_point list \<times> fr list \<Rightarrow> (g1_point list \<times> fr list) \<times> fr" where
  "fold_commitments log_n inverted fold_pos proof tp const_acc arrays =
     (let further_base = 3 + log_n;
          base = NUMBER_OF_ENTITIES + 2;
          nu = tr_shplonk_nu tp;
          nu_sq = nu * nu;
          ((coms, scalars), const_acc, _) =
            foldl (\<lambda>((coms, scalars), const_acc, v_pow) j.
                let pos_inv = inverted ! (further_base + 2 * (j - 1));
                    neg_inv = inverted ! (further_base + 2 * (j - 1) + 1);
                    sp = v_pow * pos_inv;
                    sn = v_pow * nu * neg_inv
                in ((coms[base + j - 1 := pf_gemini_fold_comms proof ! (j - 1)],
                     scalars[base + j - 1 := - (sp + sn)]),
                    const_acc + pf_gemini_a_evaluations proof ! j * sn + fold_pos ! j * sp,
                    v_pow * nu_sq))
              (arrays, const_acc, nu_sq) [1..<log_n];
          coms = foldl (\<lambda>coms i. coms[base + i := pf_gemini_fold_comms proof ! i]) coms
            [log_n - 1..<CONST_PROOF_SIZE_LOG_N - 1]
      in ((coms, scalars), const_acc))"

text \<open>The Libra openings: the four scalars and their share of the constant term.\<close>

definition libra_openings ::
    "fr \<Rightarrow> fr \<Rightarrow> proof_data \<Rightarrow> transcript \<Rightarrow> fr \<Rightarrow> fr list \<times> fr" where
  "libra_openings pos0 libra_denominator_inv proof tp const_acc =
     (let denominators = [pos0, libra_denominator_inv, pos0, pos0];
          (libra_scalars, const_acc, _) =
            foldl (\<lambda>(libra_scalars, const_acc, libra_power) index.
                let scaling = denominators ! index * libra_power
                in (libra_scalars[index := - scaling],
                    const_acc + scaling * pf_libra_polynomial_evaluations proof ! index,
                    libra_power * tr_shplonk_nu tp))
              (replicate 4 0, const_acc, fr_pow (tr_shplonk_nu tp) (2 * CONST_PROOF_SIZE_LOG_N + 2))
              [0..<4]
      in (libra_scalars, const_acc))"

definition opening_terms ::
    "nat \<Rightarrow> fr list \<Rightarrow> fr list \<Rightarrow> proof_data \<Rightarrow> verification_key \<Rightarrow> transcript \<Rightarrow>
     g1_point list \<times> fr list" where
  "opening_terms log_n r_pows inverted proof vk tp =
     (let pos0 = inverted ! 0;
          neg0 = inverted ! 1;
          gemini_r_inv = inverted ! 2;
          libra_denominator_inv = inverted ! libra_index log_n;
          scalars = replicate TOTAL 0;
          coms = replicate TOTAL g1_infinity;
          nu = tr_shplonk_nu tp;
          unshifted = nu * neg0 + pos0;
          shifted = gemini_r_inv * (pos0 - nu * neg0);
          neg_unshifted = - unshifted;
          neg_shifted = - shifted;
          arrays = (coms[0 := pf_shplonk_q proof, 1 := pf_hiding_polynomial_commitment proof],
            scalars[0 := 1, 1 := neg_unshifted]);
          (eval_scalars, eval_acc) = batch_evaluations proof tp neg_unshifted neg_shifted;
          arrays = place 2
            (map (\<lambda>(c, i). (c, eval_scalars ! i)) (opened_commitments proof vk)) arrays;
          (fold_pos, _) = fold_rounds log_n r_pows inverted proof tp eval_acc;
          const_acc = fold_pos ! 0 * pos0 + pf_gemini_a_evaluations proof ! 0 * nu * neg0;
          (arrays, const_acc) =
            fold_commitments log_n inverted fold_pos proof tp const_acc arrays;
          libra_base = NUMBER_OF_ENTITIES + 2 + (CONST_PROOF_SIZE_LOG_N - 1);
          (libra_scalars, const_acc) =
            libra_openings pos0 libra_denominator_inv proof tp const_acc;
          arrays = place libra_base
            [(pf_libra_concatenation_commitment proof, libra_scalars ! 0),
             (pf_libra_grand_sum_commitment proof, libra_scalars ! 1 + libra_scalars ! 2),
             (pf_libra_quotient_commitment proof, libra_scalars ! 3)] arrays
      in place (libra_base + 3)
           [(g1_generator, const_acc), (pf_kzg_quotient proof, tr_shplonk_z tp)] arrays)"

definition verify_shplemini ::
    "bn254 \<Rightarrow> proof_data \<Rightarrow> verification_key \<Rightarrow> transcript \<Rightarrow> (string, unit) outcome" where
  "verify_shplemini h proof vk tp =
     (let log_n = vk_log_circuit_size vk in
      if log_n = 0 \<or> log_n > CONST_PROOF_SIZE_LOG_N
      then Inl (Err ''shplemini: log_circuit_size out of range'')
      else
        (let r_pows = r_powers log_n (tr_gemini_r tp);
             batch_size = libra_index log_n + 1;
             to_invert = values_to_invert log_n r_pows tp
         in and_then (with_error
                ''shplemini: batch inversion failed (zero denominator in shplonk/gemini/fold/libra)''
                (batch_inverse h (take batch_size to_invert) (replicate batch_size 0)))
              (\<lambda>inverted.
            if \<exists>x \<in> set inverted. fr_is_zero x
            then Inl (Err ''shplemini: batch inversion produced zero result'')
            else
            and_then (check_libra_evaluations_consistency h proof tp) (\<lambda>_.
            case opening_terms log_n r_pows inverted proof vk tp of (coms, scalars) \<Rightarrow>
            and_then (g1_msm h coms scalars) (\<lambda>p0.
            and_then (pairing_check h p0 (host_neg h (pf_kzg_quotient proof))) (\<lambda>ok.
            if ok then Inr () else Inl (Err ''Shplonk pairing check failed'')))))))"

end
