(* ===== verification/Verifier_Honk.thy ===== *)
theory Verifier_Honk
  imports Verifier_Codec Verifier_Shplemini
begin

text \<open>
  The verifier itself (\<^verbatim>\<open>crates/ultrazk-soroban-verifier/src/verifier.rs\<close>) and the contract that
  runs it on anonymous claims (\<^verbatim>\<open>contracts/anon-claim-verifier/src/lib.rs\<close>).

  The two loops over the public-input bytes advance an offset by 32 until it reaches the end; each
  terminates because the offset grows, and a read past the end traps.  The contract's verification
  key is a file that the build includes, so it is a parameter here.
\<close>

section \<open>Public inputs\<close>

function canonical_from :: "bytes \<Rightarrow> nat \<Rightarrow> ('e, bool) outcome" where
  "canonical_from public_inputs offset =
     (if offset < length public_inputs then
        (if offset + 32 > length public_inputs then Inl Trap
         else
           (let encoded = chunk offset (offset + 32) public_inputs
            in if fr_to_bytes (fr_from_array encoded) \<noteq> encoded then Inr False
               else canonical_from public_inputs (offset + 32)))
      else Inr True)"
  by pat_completeness auto

termination
  by (relation "measure (\<lambda>(b, offset). length b - offset)") auto

declare canonical_from.simps [simp del]

definition public_inputs_are_canonical :: "bytes \<Rightarrow> ('e, bool) outcome" where
  "public_inputs_are_canonical public_inputs = canonical_from public_inputs 0"

text \<open>The numerator, the denominator and their running terms.\<close>

type_synonym delta_state = "fr \<times> fr \<times> fr \<times> fr"

definition delta_step :: "fr \<Rightarrow> fr \<Rightarrow> delta_state \<Rightarrow> delta_state" where
  "delta_step beta public_input =
     (\<lambda>(numerator, denominator, numerator_acc, denominator_acc).
       (numerator * (numerator_acc + public_input), denominator * (denominator_acc + public_input),
        numerator_acc + beta, denominator_acc - beta))"

function delta_loop :: "fr \<Rightarrow> bytes \<Rightarrow> nat \<Rightarrow> delta_state \<Rightarrow> ('e, delta_state) outcome" where
  "delta_loop beta public_inputs idx st =
     (if idx < length public_inputs then
        (if idx + 32 > length public_inputs then Inl Trap
         else
           (let public_input = fr_from_array (chunk idx (idx + 32) public_inputs)
            in delta_loop beta public_inputs (idx + 32) (delta_step beta public_input st)))
      else Inr st)"
  by pat_completeness auto

termination
  by (relation "measure (\<lambda>(beta, b, idx, st). length b - idx)") auto

declare delta_loop.simps [simp del]

definition compute_public_input_delta ::
    "bn254 \<Rightarrow> bytes \<Rightarrow> fr list \<Rightarrow> fr \<Rightarrow> fr \<Rightarrow> nat \<Rightarrow> nat \<Rightarrow> (string, fr) outcome" where
  "compute_public_input_delta h public_inputs pairing_point_object beta gamma offset n =
     (let beta_n = beta * fr_from_u64 (n + offset);
          beta_off = beta * fr_from_u64 (offset + 1)
      in and_then (delta_loop beta public_inputs 0 (1, 1, gamma + beta_n, gamma - beta_off)) (\<lambda>st.
         case foldl (\<lambda>st public_input. delta_step beta public_input st) st pairing_point_object of
           (numerator, denominator, _, _) \<Rightarrow>
             if fr_is_zero denominator
             then Inl (Err ''denominator is zero in public_input_delta'')
             else and_then (fr_inverse h denominator)
               (\<lambda>denominator_inv. Inr (numerator * denominator_inv))))"

section \<open>Verification\<close>

definition verify ::
    "bn254 \<Rightarrow> verification_key \<Rightarrow> bytes \<Rightarrow> bytes \<Rightarrow> (verify_error, unit) outcome" where
  "verify h vk proof_bytes public_inputs_bytes =
     and_then (with_error InvalidInput (load_proof proof_bytes)) (\<lambda>proof.
     if length public_inputs_bytes mod 32 \<noteq> 0 then Inl (Err InvalidInput)
     else if vk_public_inputs_size vk < PAIRING_POINTS_SIZE then Inl (Err InvalidInput)
     else
       (let provided = length public_inputs_bytes div 32;
            expected = vk_public_inputs_size vk - PAIRING_POINTS_SIZE
        in if expected \<noteq> provided then Inl (Err InvalidInput)
           else
             and_then (public_inputs_are_canonical public_inputs_bytes) (\<lambda>canonical.
             if \<not> canonical then Inl (Err InvalidInput)
             else
               (let pis_total = provided + PAIRING_POINTS_SIZE;
                    pub_inputs_offset = vk_pub_inputs_offset vk
                in and_then (with_error InvalidInput (generate_transcript h proof
                       public_inputs_bytes (vk_circuit_size vk) pis_total pub_inputs_offset)) (\<lambda>t.
                   and_then (with_error InvalidInput (compute_public_input_delta h
                       public_inputs_bytes (pf_pairing_point_object proof)
                       (rp_beta (tr_rel_params t)) (rp_gamma (tr_rel_params t)) pub_inputs_offset
                       (vk_circuit_size vk))) (\<lambda>delta.
                   let t = t\<lparr>tr_rel_params := (tr_rel_params t)\<lparr>rp_public_inputs_delta := delta\<rparr>\<rparr>
                   in and_then (with_error SumcheckFailed (verify_sumcheck h proof t vk)) (\<lambda>_.
                      with_error ShplonkFailed (verify_shplemini h proof vk t))))))))"

definition new_verifier :: "bytes \<Rightarrow> (vk_load_error, verification_key) outcome" where
  "new_verifier vk_bytes = load_vk_from_bytes vk_bytes"

section \<open>The claim verifier contract\<close>

definition PUBLIC_INPUT_BYTES :: nat where "PUBLIC_INPUT_BYTES = 5 * 32"

definition verify_anonymous_claim ::
    "bn254 \<Rightarrow> bytes \<Rightarrow> bytes \<Rightarrow> bytes \<Rightarrow> (unit, bool) outcome" where
  "verify_anonymous_claim h VERIFICATION_KEY proof public_inputs =
     (if length proof \<noteq> PROOF_BYTES \<or> length public_inputs \<noteq> PUBLIC_INPUT_BYTES then Inr False
      else
        (case new_verifier VERIFICATION_KEY of
           Inl Trap \<Rightarrow> Inl Trap
         | Inl (Err _) \<Rightarrow> Inr False
         | Inr verifier \<Rightarrow>
             (case verify h verifier proof public_inputs of
                Inl Trap \<Rightarrow> Inl Trap
              | Inl (Err _) \<Rightarrow> Inr False
              | Inr _ \<Rightarrow> Inr True)))"

section \<open>The words of the public inputs\<close>

definition words32 :: "bytes \<Rightarrow> bytes list" where
  "words32 b = map (\<lambda>i. chunk (32 * i) (32 * i + 32) b) [0..<length b div 32]"

lemma words32_from:
  assumes "length b = 32 * n" and "i < n"
  shows "drop i (words32 b) = chunk (32 * i) (32 * i + 32) b # drop (Suc i) (words32 b)"
  using assms by (simp add: words32_def flip: Cons_nth_drop_Suc)

lemma canonical_from_words:
  assumes "length b = 32 * n" and "i \<le> n"
  shows "canonical_from b (32 * i) =
    Inr (\<forall>w \<in> set (drop i (words32 b)). be_int w < fr_modulus)"
  using assms(2)
proof (induction "n - i" arbitrary: i)
  case 0
  with assms(1) show ?case
    by (subst canonical_from.simps) (simp add: words32_def)
next
  case (Suc d)
  then have i: "i < n" and next_i: "d = n - Suc i" "Suc i \<le> n" by simp_all
  have "length (chunk (32 * i) (32 * i + 32) b) = 32"
    using assms(1) i by (simp add: chunk_def)
  note canonical = fr_canonical [OF this]
  show ?case
    using Suc.hyps(1) [OF next_i, unfolded mult_Suc_right add.commute [of 32]] assms(1) i
    by (subst canonical_from.simps) (simp add: words32_from [OF assms(1) i] canonical Let_def)
qed

lemma canonical_words:
  assumes "length b mod 32 = 0"
  shows "public_inputs_are_canonical b = Inr (\<forall>w \<in> set (words32 b). be_int w < fr_modulus)"
proof -
  have "length b = 32 * (length b div 32)" using assms by presburger
  from canonical_from_words [OF this, of 0] show ?thesis
    by (simp add: public_inputs_are_canonical_def)
qed

lemma delta_loop_words:
  assumes "length b = 32 * n" and "i \<le> n"
  shows "delta_loop beta b (32 * i) st =
    Inr (foldl (\<lambda>st x. delta_step beta x st) st (map fr_from_array (drop i (words32 b))))"
  using assms(2)
proof (induction "n - i" arbitrary: i st)
  case 0
  with assms(1) show ?case
    by (subst delta_loop.simps) (simp add: words32_def)
next
  case (Suc d)
  then have i: "i < n" and next_i: "d = n - Suc i" "Suc i \<le> n" by simp_all
  show ?case
    using Suc.hyps(1) [OF next_i, unfolded mult_Suc_right add.commute [of 32]] assms(1) i
    by (subst delta_loop.simps) (simp add: words32_from [OF assms(1) i] Let_def)
qed

lemma delta_products:
  "foldl (\<lambda>st x. delta_step beta x st) (num, den, na, da) xs =
    (num * (\<Prod>i<length xs. na + of_nat i * beta + xs ! i),
     den * (\<Prod>i<length xs. da - of_nat i * beta + xs ! i),
     na + of_nat (length xs) * beta, da - of_nat (length xs) * beta)"
proof (induction xs arbitrary: num den na da)
  case (Cons x xs)
  have "foldl (\<lambda>st x. delta_step beta x st) (num, den, na, da) (x # xs) =
    foldl (\<lambda>st x. delta_step beta x st) (num * (na + x), den * (da + x), na + beta, da - beta) xs"
    by (simp add: delta_step_def)
  also note Cons.IH
  finally show ?case
    by (simp add: prod.lessThan_Suc_shift algebra_simps del: prod.lessThan_Suc)
qed simp

end
