(* ===== verification/Verifier_Binding.thy ===== *)
theory Verifier_Binding
  imports Verifier_Honk
begin

text \<open>
  The transcript as a hash chain, and what its last challenge binds.

  \<open>transcript_messages\<close> lists what each hash absorbs beside the previous challenge, and
  \<open>chain_state\<close> is the chain over such a list; \<open>transcript_chain\<close> shows that the rounds of the
  code compute the chain of their messages.  \<open>chain_binds\<close> walks the chain backwards: two chains
  with the same end have the same messages, or two different inputs at the same position with the
  same challenge.
\<close>

section \<open>Hash chains\<close>

primrec chain_state :: "bn254 \<Rightarrow> fr \<Rightarrow> bytes list \<Rightarrow> fr" where
  "chain_state h c [] = c"
| "chain_state h c (m # ms) = chain_state h (hash_to_fr h (fr_to_bytes c @ m)) ms"

primrec chain_inputs :: "bn254 \<Rightarrow> fr \<Rightarrow> bytes list \<Rightarrow> bytes list" where
  "chain_inputs h c [] = []"
| "chain_inputs h c (m # ms) =
     (fr_to_bytes c @ m) # chain_inputs h (hash_to_fr h (fr_to_bytes c @ m)) ms"

definition challenge_of :: "bn254 \<Rightarrow> bytes \<Rightarrow> fr" where
  "challenge_of h data = fst (split_challenge (hash_to_fr h data))"

lemma length_chain_inputs [simp]: "length (chain_inputs h c ms) = length ms"
  by (induction ms arbitrary: c) simp_all

lemma chain_state_append: "chain_state h c (ms @ ms') = chain_state h (chain_state h c ms) ms'"
  by (induction ms arbitrary: c) simp_all

lemma chain_inputs_append:
  "chain_inputs h c (ms @ ms') = chain_inputs h c ms @ chain_inputs h (chain_state h c ms) ms'"
  by (induction ms arbitrary: c) simp_all

lemma fr_to_bytes_inject: "fr_to_bytes a = fr_to_bytes b \<Longrightarrow> a = b"
  using fr_round_trip by metis

lemma chain_step_inject: "fr_to_bytes c @ m = fr_to_bytes c' @ m' \<Longrightarrow> c = c' \<and> m = m'"
  by (simp add: fr_to_bytes_inject)

text \<open>A position at which the two lists of hash inputs differ but yield the same challenge.\<close>

definition collision_at :: "bn254 \<Rightarrow> bytes list \<Rightarrow> bytes list \<Rightarrow> nat \<Rightarrow> bool" where
  "collision_at h ds ds' i \<longleftrightarrow> ds ! i \<noteq> ds' ! i \<and> challenge_of h (ds ! i) = challenge_of h (ds' ! i)"

lemma chain_binds:
  assumes "length ms = length ms'" and "chain_state h c ms = chain_state h c' ms'"
  shows "c = c' \<and> ms = ms' \<or>
    (\<exists>i<length ms. collision_at h (chain_inputs h c ms) (chain_inputs h c' ms') i)"
  using assms
proof (induction ms ms' arbitrary: c c' rule: list_induct2)
  case (Cons m ms m' ms')
  let ?d = "fr_to_bytes c @ m" and ?d' = "fr_to_bytes c' @ m'"
  from Cons.IH [of "hash_to_fr h ?d" "hash_to_fr h ?d'"] Cons.prems
  consider (same) "hash_to_fr h ?d = hash_to_fr h ?d'" "ms = ms'"
    | (later) i where "i < length ms"
        "collision_at h (chain_inputs h (hash_to_fr h ?d) ms) (chain_inputs h (hash_to_fr h ?d') ms') i"
    by auto
  then show ?case
  proof cases
    case same
    show ?thesis
    proof (cases "?d = ?d'")
      case True
      with same chain_step_inject show ?thesis by auto
    next
      case False
      with same show ?thesis
        by (intro disjI2 exI [of _ 0]) (simp add: collision_at_def challenge_of_def)
    qed
  next
    case later
    then show ?thesis
      by (intro disjI2 exI [of _ "Suc i"]) (simp add: collision_at_def)
  qed
qed simp

text \<open>The same from equal last challenges, which are only half of the last digest.\<close>

lemma challenge_binds:
  assumes "length ms = length ms'" and "ms \<noteq> []"
    and "challenge_of h (last (chain_inputs h c ms)) = challenge_of h (last (chain_inputs h c' ms'))"
  shows "c = c' \<and> ms = ms' \<or>
    (\<exists>i<length ms. collision_at h (chain_inputs h c ms) (chain_inputs h c' ms') i)"
proof -
  obtain xs x where ms: "ms = xs @ [x]" using assms(2) rev_exhaust by blast
  obtain ys y where ms': "ms' = ys @ [y]" using assms(1) ms by (cases ms' rule: rev_cases) auto
  have len: "length xs = length ys" using assms(1) ms ms' by simp
  let ?d = "fr_to_bytes (chain_state h c xs) @ x" and ?d' = "fr_to_bytes (chain_state h c' ys) @ y"
  show ?thesis
  proof (cases "?d = ?d'")
    case True
    then have "chain_state h c xs = chain_state h c' ys" "x = y" using chain_step_inject by blast+
    from chain_binds [OF len this(1)] this(2) show ?thesis
    proof (elim disjE exE conjE)
      fix i assume "i < length xs" "collision_at h (chain_inputs h c xs) (chain_inputs h c' ys) i"
      then show ?thesis
        using len by (intro disjI2 exI [of _ i])
          (simp add: ms ms' chain_inputs_append collision_at_def nth_append)
    qed (simp add: ms ms')
  next
    case False
    with assms(3) show ?thesis
      by (intro disjI2 exI [of _ "length xs"])
        (simp add: ms ms' len chain_inputs_append collision_at_def nth_append)
  qed
qed

section \<open>The messages of the transcript\<close>

definition points_message :: "g1_point list \<Rightarrow> bytes" where
  "points_message ps = concat (map point_limbs ps)"

definition frs_message :: "fr list \<Rightarrow> bytes" where
  "frs_message xs = concat (map fr_to_bytes xs)"

definition transcript_messages :: "proof_data \<Rightarrow> bytes list" where
  "transcript_messages p =
     [[], points_message [pf_lookup_read_counts p, pf_lookup_read_tags p, pf_w4 p],
      points_message [pf_lookup_inverses p, pf_z_perm p]]
     @ replicate 11 [] @ [[]] @ replicate 28 []
     @ [point_limbs (pf_libra_concatenation_commitment p) @ fr_to_bytes (pf_libra_sum p)]
     @ map frs_message (pf_sumcheck_univariates p)
     @ [frs_message (pf_sumcheck_evaluations p) @ fr_to_bytes (pf_libra_claimed_evaluation p)
          @ points_message [pf_libra_grand_sum_commitment p, pf_libra_quotient_commitment p,
              pf_hiding_polynomial_commitment p]
          @ fr_to_bytes (pf_hiding_polynomial_evaluation p),
        points_message (pf_gemini_fold_comms p),
        frs_message (pf_gemini_a_evaluations p) @ frs_message (pf_libra_polynomial_evaluations p),
        point_limbs (pf_shplonk_q p)]"

definition transcript_hashes ::
    "bn254 \<Rightarrow> proof_data \<Rightarrow> bytes \<Rightarrow> nat \<Rightarrow> nat \<Rightarrow> nat \<Rightarrow> bytes list" where
  "transcript_hashes h p pis circuit_size pis_size offset =
     (let first = eta_data p pis circuit_size pis_size offset
      in first # chain_inputs h (hash_to_fr h first) (transcript_messages p))"

lemma alpha_pairs_state: "snd (alpha_pairs h n c) = chain_state h c (replicate n [])"
  by (induction n arbitrary: c) (simp_all add: Let_def split_beta)

lemma gate_loop_state: "snd (gate_loop h n c) = chain_state h c (replicate n [])"
  by (induction n arbitrary: c) (simp_all add: Let_def split_beta)

lemma sumcheck_loop_state: "snd (sumcheck_loop h us c) = chain_state h c (map frs_message us)"
  by (induction us arbitrary: c)
    (simp_all add: Let_def split_beta push_frs_append frs_message_def)

text \<open>The previous challenge that each round hands on.\<close>

lemma round_states:
  "snd (snd (snd (generate_eta_challenge h p pis n k off))) =
    chain_state h (hash_to_fr h (eta_data p pis n k off)) [[]]"
  "snd (snd (generate_beta_and_gamma_challenges h c p)) = chain_state h c
    [points_message [pf_lookup_read_counts p, pf_lookup_read_tags p, pf_w4 p]]"
  "snd (generate_alpha_challenges h c p) = chain_state h c
    ([points_message [pf_lookup_inverses p, pf_z_perm p]] @ replicate 11 [] @ [[]])"
  "snd (generate_gate_challenges h c) = chain_state h c (replicate 28 [])"
  "snd (generate_libra_challenge h p c) = chain_state h c
    [point_limbs (pf_libra_concatenation_commitment p) @ fr_to_bytes (pf_libra_sum p)]"
  "length (pf_sumcheck_univariates p) = CONST_PROOF_SIZE_LOG_N \<Longrightarrow>
   snd (generate_sumcheck_challenges h p c) = chain_state h c (map frs_message (pf_sumcheck_univariates p))"
  "snd (generate_rho_challenge h p c) = chain_state h c
    [frs_message (pf_sumcheck_evaluations p) @ fr_to_bytes (pf_libra_claimed_evaluation p)
          @ points_message [pf_libra_grand_sum_commitment p, pf_libra_quotient_commitment p,
              pf_hiding_polynomial_commitment p]
          @ fr_to_bytes (pf_hiding_polynomial_evaluation p)]"
  "snd (generate_gemini_r_challenge h p c) = chain_state h c [points_message (pf_gemini_fold_comms p)]"
  "snd (generate_shplonk_nu_challenge h p c) = chain_state h c
    [frs_message (pf_gemini_a_evaluations p) @ frs_message (pf_libra_polynomial_evaluations p)]"
  by (simp_all add: generate_eta_challenge_def generate_beta_and_gamma_challenges_def
      generate_gate_challenges_def generate_libra_challenge_def generate_sumcheck_challenges_def
      generate_rho_challenge_def generate_gemini_r_challenge_def generate_shplonk_nu_challenge_def
      gate_loop_state sumcheck_loop_state pushes points_message_def frs_message_def Let_def split_beta
      sizes)
    (simp_all add: generate_alpha_challenges_def alpha_pairs_state chain_state_append pushes Let_def
      split_beta sizes points_message_def)

lemma shplonk_z_challenge:
  "fst (generate_shplonk_z_challenge h p c) = challenge_of h (fr_to_bytes c @ point_limbs (pf_shplonk_q p))"
  by (simp add: generate_shplonk_z_challenge_def challenge_of_def pushes Let_def)

lemma relation_round_state:
  "snd (generate_relation_parameters_challenges h p pis n k off) =
   snd (snd (generate_beta_and_gamma_challenges h
     (snd (snd (snd (generate_eta_challenge h p pis n k off)))) p))"
  by (simp add: generate_relation_parameters_challenges_def split_beta Let_def)

lemma transcript_chain:
  assumes "generate_transcript h p pis n k off = Inr t"
  shows "tr_shplonk_z t = challenge_of h (last (transcript_hashes h p pis n k off))"
proof -
  from assms have "validate_proof p = Inr ()"
    and z: "tr_shplonk_z t = fst (generate_shplonk_z_challenge h p
      (snd (generate_shplonk_nu_challenge h p (snd (generate_gemini_r_challenge h p
      (snd (generate_rho_challenge h p (snd (generate_sumcheck_challenges h p
      (snd (generate_libra_challenge h p (snd (generate_gate_challenges h
      (snd (generate_alpha_challenges h
        (snd (generate_relation_parameters_challenges h p pis n k off)) p)))))))))))))))"
    by (auto simp: generate_transcript_def outcome_Inr Let_def split_beta)
  from this(1) have "length (pf_sumcheck_univariates p) = CONST_PROOF_SIZE_LOG_N"
    by (auto simp: validate_proof_def split: if_splits)
  with z show ?thesis
    by (simp only: shplonk_z_challenge relation_round_state round_states transcript_hashes_def
        transcript_messages_def chain_inputs_append chain_state_append [symmetric] append_Cons
        append_Nil append_assoc)
      (simp add: Let_def chain_inputs_append chain_state_append)
qed

section \<open>Messages determine their contents\<close>

lemma length_points_message:
  "\<forall>q \<in> set ps. length q = 64 \<Longrightarrow> length (points_message ps) = 128 * length ps"
  unfolding points_message_def by (intro length_concat_fixed) simp

lemma length_frs_message [simp]: "length (frs_message xs) = 32 * length xs"
  unfolding frs_message_def by (intro length_concat_fixed) simp

lemma points_message_inject:
  assumes "points_message ps = points_message ps'" and "length ps = length ps'"
    and "\<forall>q \<in> set ps \<union> set ps'. length q = 64"
  shows "ps = ps'"
proof (rule nth_equalityI)
  fix i assume "i < length ps"
  then have "ps ! i = g1_from_proof_blob_at (points_message ps) i"
    "ps' ! i = g1_from_proof_blob_at (points_message ps') i"
    using point_at [of ps i "[]"] point_at [of ps' i "[]"] assms(2,3)
    by (simp_all add: points_message_def)
  with assms(1) show "ps ! i = ps' ! i" by simp
qed (rule assms(2))

lemma frs_message_inject: "frs_message xs = frs_message ys \<Longrightarrow> xs = ys"
proof (rule nth_equalityI)
  assume eq: "frs_message xs = frs_message ys"
  from arg_cong [OF eq, of length] show len: "length xs = length ys" by simp
  fix i assume "i < length xs"
  with len eq show "xs ! i = ys ! i"
    using fr_at [of i xs "[]"] fr_at [of i ys "[]"] by (simp add: frs_message_def)
qed

lemma point_limbs_inject: "point_limbs q = point_limbs q' \<Longrightarrow> length q = 64 \<Longrightarrow> length q' = 64 \<Longrightarrow> q = q'"
  using point_round_trip by metis

lemma u64_to_be32_inject:
  assumes "u64_to_be32 a = u64_to_be32 b" and "a \<le> u64_max" and "b \<le> u64_max"
  shows "a = b"
proof -
  have "be_int (be_bytes 8 (int a)) = be_int (be_bytes 8 (int b))"
    using assms(1) by (simp add: u64_to_be32_def)
  with assms(2,3) show ?thesis by (simp add: be_int_be_bytes u64_max_def)
qed

lemma length_u64_to_be32 [simp]: "length (u64_to_be32 n) = 32"
  by (simp add: u64_to_be32_def)

lemma eta_data_inject:
  assumes "eta_data p pis n k off = eta_data p' pis' n' k' off'"
    and wf: "proof_wf p" "proof_wf p'"
    and u64: "n \<le> u64_max" "k \<le> u64_max" "off \<le> u64_max" "n' \<le> u64_max" "k' \<le> u64_max" "off' \<le> u64_max"
  shows "n = n' \<and> k = k' \<and> off = off' \<and> pis = pis' \<and>
    pf_pairing_point_object p = pf_pairing_point_object p' \<and>
    pf_w1 p = pf_w1 p' \<and> pf_w2 p = pf_w2 p' \<and> pf_w3 p = pf_w3 p'"
proof -
  let ?t = "\<lambda>p. frs_message (pf_pairing_point_object p) @ points_message [pf_w1 p, pf_w2 p, pf_w3 p]"
  have data: "eta_data p pis n k off =
      u64_to_be32 n @ u64_to_be32 k @ u64_to_be32 off @ pis @ ?t p" for p pis n k off
    by (simp add: eta_data_def pushes frs_message_def points_message_def Let_def)
  note sizes_ok = wf [unfolded proof_wf_def proof_points_def sizes, simplified]
  have "length (?t p) = length (?t p')"
    using sizes_ok by (simp add: length_points_message)
  with assms(1) have "u64_to_be32 n = u64_to_be32 n'" "u64_to_be32 k = u64_to_be32 k'"
    "u64_to_be32 off = u64_to_be32 off'" "pis = pis'" "?t p = ?t p'"
    unfolding data by auto
  moreover from this(5) sizes_ok
  have "frs_message (pf_pairing_point_object p) = frs_message (pf_pairing_point_object p')"
    "points_message [pf_w1 p, pf_w2 p, pf_w3 p] = points_message [pf_w1 p', pf_w2 p', pf_w3 p']"
    by auto
  ultimately show ?thesis
    using u64 sizes_ok points_message_inject [of "[pf_w1 p, pf_w2 p, pf_w3 p]" "[pf_w1 p', pf_w2 p', pf_w3 p']"]
    by (auto dest: u64_to_be32_inject frs_message_inject)
qed

text \<open>Everything of a proof but its last commitment, which the pairing check uses directly.\<close>

lemma messages_inject:
  assumes eq: "transcript_messages p = transcript_messages p'" and wf: "proof_wf p" "proof_wf p'"
    and eta: "pf_pairing_point_object p = pf_pairing_point_object p'"
      "pf_w1 p = pf_w1 p'" "pf_w2 p = pf_w2 p'" "pf_w3 p = pf_w3 p'"
  shows "p' = p\<lparr>pf_kzg_quotient := pf_kzg_quotient p'\<rparr>"
proof -
  note ok = wf [unfolded proof_wf_def proof_points_def sizes, simplified]
  from eq ok have m:
    "points_message [pf_lookup_read_counts p, pf_lookup_read_tags p, pf_w4 p] =
     points_message [pf_lookup_read_counts p', pf_lookup_read_tags p', pf_w4 p']"
    "points_message [pf_lookup_inverses p, pf_z_perm p] = points_message [pf_lookup_inverses p', pf_z_perm p']"
    "point_limbs (pf_libra_concatenation_commitment p) = point_limbs (pf_libra_concatenation_commitment p')"
    "fr_to_bytes (pf_libra_sum p) = fr_to_bytes (pf_libra_sum p')"
    "map frs_message (pf_sumcheck_univariates p) = map frs_message (pf_sumcheck_univariates p')"
    "frs_message (pf_sumcheck_evaluations p) = frs_message (pf_sumcheck_evaluations p')"
    "fr_to_bytes (pf_libra_claimed_evaluation p) = fr_to_bytes (pf_libra_claimed_evaluation p')"
    "points_message [pf_libra_grand_sum_commitment p, pf_libra_quotient_commitment p,
       pf_hiding_polynomial_commitment p] = points_message [pf_libra_grand_sum_commitment p',
       pf_libra_quotient_commitment p', pf_hiding_polynomial_commitment p']"
    "fr_to_bytes (pf_hiding_polynomial_evaluation p) = fr_to_bytes (pf_hiding_polynomial_evaluation p')"
    "points_message (pf_gemini_fold_comms p) = points_message (pf_gemini_fold_comms p')"
    "frs_message (pf_gemini_a_evaluations p) = frs_message (pf_gemini_a_evaluations p')"
    "frs_message (pf_libra_polynomial_evaluations p) = frs_message (pf_libra_polynomial_evaluations p')"
    "point_limbs (pf_shplonk_q p) = point_limbs (pf_shplonk_q p')"
    by (auto simp: transcript_messages_def append_eq_append_conv)
  have univariates: "pf_sumcheck_univariates p = pf_sumcheck_univariates p'"
    using m(5) frs_message_inject by (metis inj_onI inj_map_eq_map injI)
  note points = points_message_inject [OF m(1)] points_message_inject [OF m(2)]
    points_message_inject [OF m(8)] points_message_inject [OF m(10)]
  have "pf_lookup_read_counts p = pf_lookup_read_counts p'" "pf_lookup_read_tags p = pf_lookup_read_tags p'"
    "pf_w4 p = pf_w4 p'" "pf_lookup_inverses p = pf_lookup_inverses p'" "pf_z_perm p = pf_z_perm p'"
    "pf_libra_grand_sum_commitment p = pf_libra_grand_sum_commitment p'"
    "pf_libra_quotient_commitment p = pf_libra_quotient_commitment p'"
    "pf_hiding_polynomial_commitment p = pf_hiding_polynomial_commitment p'"
    using points(1-3) ok by simp_all
  moreover have "pf_gemini_fold_comms p = pf_gemini_fold_comms p'"
    by (rule points(4)) (use ok in auto)
  moreover have "pf_libra_concatenation_commitment p = pf_libra_concatenation_commitment p'"
    "pf_shplonk_q p = pf_shplonk_q p'"
    using point_limbs_inject [OF m(3)] point_limbs_inject [OF m(13)] ok by simp_all
  moreover note eta univariates fr_to_bytes_inject [OF m(4)] fr_to_bytes_inject [OF m(7)]
    fr_to_bytes_inject [OF m(9)] frs_message_inject [OF m(6)] frs_message_inject [OF m(11)]
    frs_message_inject [OF m(12)]
  ultimately show ?thesis by (intro proof_data.equality) simp_all
qed

end
