(* ===== verification/Verifier_Properties.thy ===== *)
theory Verifier_Properties
  imports Verifier_Binding
begin

text \<open>
  What the proof verifier promises: batch inversion, the sumcheck, the public-input delta, the two
  decoders, the transcript, and the acceptance of public inputs.  The witnesses run the model on
  \<open>sample_host\<close>, whose inversion returns the inverses it can check, and on a small proof.
\<close>

section \<open>A concrete host and proof\<close>

definition sample_inverses :: "(fr \<times> fr) list" where
  "sample_inverses = [(30, 12403337627375589292606296588979122550177406493569086128095649039059624814183),
     (2, - neg_half)]"

definition sample_host :: bn254 where
  "sample_host = \<lparr>
     host_inv = (\<lambda>a. case map_of sample_inverses a of
       Some b \<Rightarrow> if a * b = 1 then Some b else None | None \<Rightarrow> None),
     host_msm = (\<lambda>ps _. Some (hd ps)), host_pairing = (\<lambda>_ _. Some True), host_neg = (\<lambda>p. p),
     host_keccak256 = (\<lambda>b. take 32 (rev b))\<rparr>"

lemma sample_host_law [simp]: "inverse_law sample_host"
  by (auto simp: inverse_law_def sample_host_def split: option.splits if_splits)

text \<open>A proof whose first univariate is \<open>4 + 2 x\<close>; all points are the point at infinity.\<close>

definition sample_proof :: proof_data where
  "sample_proof = \<lparr>pf_pairing_point_object = replicate 16 1, pf_w1 = g1_infinity,
     pf_w2 = g1_infinity, pf_w3 = g1_infinity, pf_w4 = g1_infinity,
     pf_lookup_read_counts = g1_infinity, pf_lookup_read_tags = g1_infinity,
     pf_lookup_inverses = g1_infinity, pf_z_perm = g1_infinity,
     pf_libra_concatenation_commitment = g1_infinity, pf_libra_sum = 10,
     pf_sumcheck_univariates = replicate 28 [4, 6, 8, 10, 12, 14, 16, 18, 20],
     pf_sumcheck_evaluations = replicate 40 0, pf_libra_claimed_evaluation = 10,
     pf_libra_grand_sum_commitment = g1_infinity, pf_libra_quotient_commitment = g1_infinity,
     pf_hiding_polynomial_commitment = g1_infinity, pf_hiding_polynomial_evaluation = 0,
     pf_gemini_fold_comms = replicate 27 g1_infinity, pf_gemini_a_evaluations = replicate 28 0,
     pf_libra_polynomial_evaluations = replicate 4 0, pf_shplonk_q = g1_infinity,
     pf_kzg_quotient = g1_infinity\<rparr>"

lemma sample_proof_wf [simp]: "proof_wf sample_proof"
  by (simp add: proof_wf_def proof_points_def sample_proof_def sizes g1_infinity_def)

definition sample_key :: verification_key where
  "sample_key = vk_of_points 2 1 21 1 (replicate 27 g1_infinity)"

lemma sample_key_wf [simp]: "vk_wf sample_key"
  by (simp add: sample_key_def vk_wf_def vk_points_of_points sizes u64_max_def g1_infinity_def)

section \<open>Batch inversion\<close>

text \<open>C37: Batch inversion is element-wise inversion: what it returns for a list of field elements has
at every position the inverse of the element there, so it agrees with inverting each element by
the host wherever the host has an inverse.  It fails with its error exactly when the list is not
empty and the product of its elements is zero.\<close>

theorem batch_inverse_exact:
  assumes "inverse_law h" and "length out = length vals"
  shows "(\<forall>ys. batch_inverse h vals out = Inr ys \<longrightarrow> length ys = length vals \<and>
      (\<forall>i<length vals. vals ! i * ys ! i = 1 \<and>
        (\<forall>y. host_inv h (vals ! i) = Some y \<longrightarrow> ys ! i = y))) \<and>
    (batch_inverse h vals out = Inl (Err ''denominator is zero'') \<longleftrightarrow>
      vals \<noteq> [] \<and> prod_list vals = 0) \<and>
    (prod_list vals \<noteq> 0 \<and> host_inv h (prod_list vals) \<noteq> None \<longrightarrow>
      (\<exists>ys. batch_inverse h vals out = Inr ys))"
proof (intro conjI allI impI)
  fix ys assume ys: "batch_inverse h vals out = Inr ys"
  note inverses = batch_inverse_Inr [OF assms ys]
  show "length ys = length vals" by (rule inverses(1))
  fix i assume i: "i < length vals"
  show product: "vals ! i * ys ! i = 1" using inverses(2) [OF i] .
  fix y assume "host_inv h (vals ! i) = Some y"
  with assms(1) have "vals ! i * y = 1" by (simp add: inverse_law_def)
  with product show "ys ! i = y" by (rule inverse_unique)
next
  show "batch_inverse h vals out = Inl (Err ''denominator is zero'') \<longleftrightarrow> vals \<noteq> [] \<and> prod_list vals = 0"
    using assms(2) by (cases "vals = []")
      (auto simp: batch_inverse_step fr_inverse_def or_trap_def outcome Let_def batch_inverse_Nil
        split: option.splits)
next
  assume "prod_list vals \<noteq> 0 \<and> host_inv h (prod_list vals) \<noteq> None"
  then show "\<exists>ys. batch_inverse h vals out = Inr ys"
    using assms(2) by (cases "vals = []")
      (auto simp: batch_inverse_step fr_inverse_def or_trap_def outcome Let_def batch_inverse_Nil)
qed

theorem batch_inverse_exact_witness:
  "\<exists>ys. batch_inverse sample_host [2, 3, 5] [0, 0, 0] = Inr ys \<and> 3 * ys ! 1 = 1"
proof -
  have "host_inv sample_host 30 \<noteq> None"
    by (simp add: sample_host_def sample_inverses_def fr_eval)
  then have "\<exists>ys. batch_inverse sample_host [2, 3, 5] [0, 0, 0] = Inr ys"
    using batch_inverse_exact [OF sample_host_law, of "[0, 0, 0]" "[2, 3, 5]"] by (simp add: fr_eval)
  then obtain ys where ys: "batch_inverse sample_host [2, 3, 5] [0, 0, 0] = Inr ys" ..
  with batch_inverse_exact [OF sample_host_law, of "[0, 0, 0]" "[2, 3, 5]"]
  have "[2, 3, 5] ! 1 * ys ! 1 = 1" by force
  with ys show ?thesis by simp
qed

section \<open>Sumcheck\<close>

lemma foldl_times: "foldl (\<lambda>acc x. acc * x) a xs = a * prod_list xs" for a :: fr
  by (induction xs arbitrary: a) (simp_all add: ac_simps)

lemma map_nth_take: "n \<le> length xs \<Longrightarrow> map ((!) xs) [0..<n] = take n xs"
  by (rule nth_equalityI) simp_all

text \<open>C31: The sumcheck verifier is the textbook one.  Let each round's univariate be given by the
values at 0, ..., 8 of a polynomial of degree at most 8.  If verification accepts, the number of
rounds is in range and the textbook verifier accepts these polynomials: the values at 0 and 1 of
each sum to the current claim, its value at the round's challenge is the next claim, the first
claim is the Libra-masked sum, and the last is the masked batch of the relations at the claimed
evaluations with the product of the gate factors.  It accepts whenever the textbook verifier does
and no round's interpolation fails in the host.\<close>

theorem sumcheck_sound:
  fixes tp :: transcript and vk :: verification_key
  defines "n \<equiv> vk_log_circuit_size vk" and "us \<equiv> tr_sumcheck_u_challenges tp"
  assumes "inverse_law h" and "n \<le> length us"
    and polys: "list_all2 (\<lambda>cs i. interpolates cs (pf_sumcheck_univariates proof ! i)) css [0..<n]"
  shows "(verify_sumcheck h proof tp vk = Inr () \<longrightarrow> 0 < n \<and> n \<le> CONST_PROOF_SIZE_LOG_N \<and>
      textbook_sumcheck css (take n us) (tr_libra_challenge tp * pf_libra_sum proof)
        (masked_relation_sum proof tp n)) \<and>
    (0 < n \<and> n \<le> CONST_PROOF_SIZE_LOG_N \<and>
      (\<forall>i \<in> set [0..<n]. \<exists>v. compute_next_target_sum h (pf_sumcheck_univariates proof ! i) (us ! i)
         barycentric_weights point_indices 1 0 = Inr v) \<and>
      textbook_sumcheck css (take n us) (tr_libra_challenge tp * pf_libra_sum proof)
        (masked_relation_sum proof tp n) \<longrightarrow>
     verify_sumcheck h proof tp vk = Inr ())"
proof -
  note rounds = rounds_textbook [OF assms(3) polys, where tp = tp and pow = 1
      and claim = "tr_libra_challenge tp * pf_libra_sum proof"
      and final = "masked_relation_sum proof tp n", folded us_def, unfolded map_nth_take [OF assms(4)]]
  have final: "verify_sumcheck h proof tp vk = Inr () \<longleftrightarrow> 0 < n \<and> n \<le> CONST_PROOF_SIZE_LOG_N \<and>
    (\<exists>t pow. sumcheck_rounds h proof tp [0..<n] (tr_libra_challenge tp * pf_libra_sum proof) 1 = Inr (t, pow) \<and>
      t = accumulate_relation_evaluations (pf_sumcheck_evaluations proof) (tr_rel_params tp) (tr_alphas tp) pow
        * (1 - prod_list (drop 2 (take n us))) + pf_libra_claimed_evaluation proof * tr_libra_challenge tp)"
    by (auto simp: verify_sumcheck_def outcome_Inr foldl_times n_def us_def Let_def split: if_splits)
  have masked: "sumcheck_rounds h proof tp [0..<n] (tr_libra_challenge tp * pf_libra_sum proof) 1 = Inr (t, pow) \<Longrightarrow>
    accumulate_relation_evaluations (pf_sumcheck_evaluations proof) (tr_rel_params tp) (tr_alphas tp) pow
        * (1 - prod_list (drop 2 (take n us))) + pf_libra_claimed_evaluation proof * tr_libra_challenge tp
    = masked_relation_sum proof tp n" for t pow
    using rounds(1) by (simp add: masked_relation_sum_def us_def)
  show ?thesis
    using rounds masked unfolding final by metis
qed

definition sample_transcript :: transcript where
  "sample_transcript = \<lparr>tr_rel_params = \<lparr>rp_eta = 1, rp_eta_two = 2, rp_eta_three = 3, rp_beta = 4,
       rp_gamma = 5, rp_public_inputs_delta = 6\<rparr>, tr_alphas = replicate 25 1,
     tr_gate_challenges = replicate 28 7, tr_libra_challenge = 1,
     tr_sumcheck_u_challenges = replicate 28 3, tr_rho = 8, tr_gemini_r = 9, tr_shplonk_nu = 10,
     tr_shplonk_z = 11\<rparr>"

theorem sumcheck_sound_witness:
  "verify_sumcheck sample_host sample_proof sample_transcript sample_key = Inr ()"
proof -
  have key: "vk_log_circuit_size sample_key = 1"
    by (simp add: sample_key_def)
  have poly: "interpolates [4, 2] (pf_sumcheck_univariates sample_proof ! 0)"
    by (auto simp: interpolates_def sample_proof_def poly_at_def less9)
  have target: "compute_next_target_sum sample_host (pf_sumcheck_univariates sample_proof ! 0) 3
      barycentric_weights point_indices 1 0 = Inr 10"
    by (simp add: compute_next_target_sum_def sample_proof_def point_indices_def sizes upto9
        fr_from_u64_def fr_eval)
  show ?thesis
    using sumcheck_sound [OF sample_host_law, of sample_key sample_transcript sample_proof "[[4, 2]]"]
      poly target
    by (simp add: key sample_transcript_def sizes poly_at_def masked_relation_sum_def sample_proof_def
        fr_eval numeral_2_eq_2)
qed

section \<open>Public inputs\<close>

text \<open>C38: The public-input delta is the quotient of the two products of the permutation argument: over
the words of the public inputs followed by the pairing point object, the returned value times the
product of gamma - beta (1 + i + offset) + x_i is the product of gamma + beta (n + i + offset) + x_i.\<close>

theorem public_input_delta_exact:
  assumes "inverse_law h" and "length public_inputs mod 32 = 0"
    and delta: "compute_public_input_delta h public_inputs pairing_point_object beta gamma offset n = Inr d"
  defines "xs \<equiv> map fr_from_array (words32 public_inputs) @ pairing_point_object"
  shows "d * (\<Prod>i<length xs. gamma - beta * of_nat (1 + i + offset) + xs ! i) =
    (\<Prod>i<length xs. gamma + beta * of_nat (n + i + offset) + xs ! i)"
proof -
  have "length public_inputs = 32 * (length public_inputs div 32)" using assms(2) by presburger
  note loop = delta_loop_words [OF this, of 0, simplified]
  let ?den = "\<Prod>i<length xs. (gamma - beta * of_nat (offset + 1)) - of_nat i * beta + xs ! i"
  let ?num = "\<Prod>i<length xs. (gamma + beta * of_nat (n + offset)) + of_nat i * beta + xs ! i"
  have "compute_public_input_delta h public_inputs pairing_point_object beta gamma offset n =
    (case foldl (\<lambda>st x. delta_step beta x st)
        (1, 1, gamma + beta * of_nat (n + offset), gamma - beta * of_nat (offset + 1)) xs of
       (num, den, _, _) \<Rightarrow> if fr_is_zero den
         then Inl (Err ''denominator is zero in public_input_delta'')
         else and_then (fr_inverse h den) (\<lambda>den_inv. Inr (num * den_inv)))"
    by (simp add: loop compute_public_input_delta_def outcome xs_def fr_from_u64_def Let_def
        del: foldl_map)
  with delta obtain y where "host_inv h ?den = Some y" and d: "d = ?num * y"
    unfolding delta_products by (auto simp: outcome_Inr fr_inverse_def split: if_splits)
  with assms(1) have "?den * y = 1" by (simp add: inverse_law_def)
  moreover have "d * ?den = ?num * (?den * y)"
    by (simp only: d mult.assoc mult.commute mult.left_commute)
  ultimately have "d * ?den = ?num" by simp
  then show ?thesis by (simp add: algebra_simps)
qed

theorem public_input_delta_exact_witness:
  "\<exists>d. compute_public_input_delta sample_host (replicate 31 0 @ [1]) [1] 1 3 1 2 = Inr d \<and> d * 2 = 56"
proof -
  let ?b = "replicate 31 0 @ [1] :: bytes"
  have word: "chunk 0 32 ?b = ?b" by (simp add: chunk_def)
  have one: "fr_from_array ?b = 1"
    by (simp add: fr_from_array_def be_int_def fr_of_int_0_1 numeral_eq_Suc)
  have words: "words32 ?b = [?b]" by (simp add: words32_def word)
  have half: "host_inv sample_host 2 = Some (- neg_half)"
    by (simp add: sample_host_def sample_inverses_def fr_constants fr_eval mult.commute [of 2])
  have run: "compute_public_input_delta sample_host ?b [1] 1 3 1 2 = Inr (56 * - neg_half)"
    by (simp add: compute_public_input_delta_def delta_loop.simps word one delta_step_def outcome
        fr_is_zero_def fr_inverse_def half or_trap_def fr_from_u64_def fr_eval)
  with public_input_delta_exact [OF sample_host_law _ run] show ?thesis
    by (auto simp: words one numeral_2_eq_2)
qed

section \<open>Decoding\<close>

text \<open>C36: The decoder of proofs accepts exactly the byte strings of the proof's length, its results are
exactly the well-formed proofs, with every array at its size and every point 64 bytes long, and it
reads back what the proof layout writes.  The decoder of verification keys yields exactly the keys
whose logarithmic size is between 1 and 28 and matches the circuit size, with at least 16 public
inputs, an offset within the circuit and 27 points, and reads back what the key layout writes.\<close>

theorem decoders_exact:
  "((\<exists>p. load_proof data = Inr p) \<longleftrightarrow> length data = 16224) \<and>
   ((\<exists>b. load_proof b = Inr p) \<longleftrightarrow> proof_wf p) \<and>
   ((\<exists>b. load_vk_from_bytes b = Inr vk) \<longleftrightarrow> vk_wf vk) \<and>
   (\<not> proof_wf p \<or> load_proof (encode_proof p) = Inr p) \<and>
   (\<not> vk_wf vk \<or> load_vk_from_bytes (encode_vk vk) = Inr vk)"
proof -
  have "\<exists>p. load_proof data = Inr p" if "length data = 16224"
    using that by (simp add: load_proof_def read_bytes_def section_sizes sizes outcome)
  moreover have "load_proof data = Inr p \<Longrightarrow> length data = 16224" for p
    by (simp add: load_proof_def sizes split: if_splits)
  ultimately show ?thesis
    using load_encode load_proof_wf load_encode_vk load_vk_wf by metis
qed

theorem decoders_exact_witness:
  "load_proof (encode_proof sample_proof) = Inr sample_proof \<and>
   load_vk_from_bytes (encode_vk sample_key) = Inr sample_key"
  using decoders_exact [of "[]" sample_proof sample_key] by simp

section \<open>The transcript\<close>

lemma chain_inputs_eq_Nil [simp]: "chain_inputs h c ms = [] \<longleftrightarrow> ms = []"
  by (cases ms) simp_all

text \<open>C33: The last challenge of the transcript binds everything that it is drawn over.  If two decoded
proofs, with their public inputs and circuit parameters, yield the same evaluation point, then the
parameters and the public inputs are equal and the proofs agree in all but the final quotient
commitment, or the two transcripts themselves exhibit a collision: at some position they hash two
different byte strings to the same challenge.\<close>

theorem transcript_binds:
  assumes "load_proof data = Inr p" and "load_proof data' = Inr p'"
    and "\<forall>x \<in> {n, k, off, n', k', off'}. x \<le> u64_max"
    and "generate_transcript h p pis n k off = Inr t"
    and "generate_transcript h p' pis' n' k' off' = Inr t'"
    and "tr_shplonk_z t = tr_shplonk_z t'"
  shows "n = n' \<and> k = k' \<and> off = off' \<and> pis = pis' \<and>
      p' = p\<lparr>pf_kzg_quotient := pf_kzg_quotient p'\<rparr> \<or>
    (\<exists>i<length (transcript_hashes h p pis n k off).
      collision_at h (transcript_hashes h p pis n k off) (transcript_hashes h p' pis' n' k' off') i)"
proof -
  have wf: "proof_wf p" "proof_wf p'" using assms(1,2) by (auto intro: load_proof_wf)
  let ?m = "transcript_messages p" and ?m' = "transcript_messages p'"
  let ?e = "eta_data p pis n k off" and ?e' = "eta_data p' pis' n' k' off'"
  have "length (pf_sumcheck_univariates p) = length (pf_sumcheck_univariates p')"
    using wf by (simp add: proof_wf_def)
  then have len: "length ?m = length ?m'" and ne: "?m \<noteq> []" and ne': "?m' \<noteq> []"
    by (simp_all add: transcript_messages_def)
  have "challenge_of h (last (chain_inputs h (hash_to_fr h ?e) ?m))
      = challenge_of h (last (chain_inputs h (hash_to_fr h ?e') ?m'))"
    using assms(6) ne ne' transcript_chain [OF assms(4)] transcript_chain [OF assms(5)]
    by (simp add: transcript_hashes_def Let_def)
  from challenge_binds [OF len ne this]
  consider (same) "hash_to_fr h ?e = hash_to_fr h ?e'" "?m = ?m'"
    | (later) i where "i < length ?m" "collision_at h (chain_inputs h (hash_to_fr h ?e) ?m)
        (chain_inputs h (hash_to_fr h ?e') ?m') i" by blast
  then show ?thesis
  proof cases
    case same
    show ?thesis
    proof (cases "?e = ?e'")
      case True
      from eta_data_inject [OF True wf] assms(3) messages_inject [OF same(2) wf]
      show ?thesis by simp
    next
      case False
      with same show ?thesis
        by (intro disjI2 exI [of _ 0])
          (simp add: transcript_hashes_def collision_at_def challenge_of_def Let_def)
    qed
  next
    case later
    then show ?thesis
      by (intro disjI2 exI [of _ "Suc i"])
        (simp add: transcript_hashes_def collision_at_def Let_def)
  qed
qed

lemma generate_transcript_returns:
  "proof_wf p \<Longrightarrow> \<exists>t. generate_transcript h p pis n k off = Inr t"
  by (simp add: generate_transcript_def validate_proof_def proof_wf_def outcome split_beta Let_def)

theorem transcript_binds_witness:
  "\<exists>t t'. generate_transcript sample_host sample_proof [] 2 16 1 = Inr t \<and>
     generate_transcript sample_host (sample_proof\<lparr>pf_kzg_quotient := g1_generator\<rparr>) [] 2 16 1 = Inr t' \<and>
     (let ds = transcript_hashes sample_host sample_proof [] 2 16 1 in
       sample_proof\<lparr>pf_kzg_quotient := g1_generator\<rparr> = sample_proof\<lparr>pf_kzg_quotient := g1_generator\<rparr> \<or>
       (\<exists>i<length ds. collision_at sample_host ds ds i))"
proof -
  let ?p = "sample_proof\<lparr>pf_kzg_quotient := g1_generator\<rparr>"
  have wf: "proof_wf ?p"
    using sample_proof_wf by (simp add: proof_wf_def proof_points_def g1_generator_def g1_from_xy_def)
  obtain t where t: "generate_transcript sample_host sample_proof [] 2 16 1 = Inr t"
    using generate_transcript_returns [OF sample_proof_wf] by blast
  obtain t' where t': "generate_transcript sample_host ?p [] 2 16 1 = Inr t'"
    using generate_transcript_returns [OF wf] by blast
  have same: "transcript_hashes sample_host ?p [] 2 16 1 = transcript_hashes sample_host sample_proof [] 2 16 1"
    by (simp add: transcript_hashes_def transcript_messages_def eta_data_def)
  with transcript_chain [OF t] transcript_chain [OF t'] have "tr_shplonk_z t = tr_shplonk_z t'" by simp
  from transcript_binds [OF load_encode [OF sample_proof_wf] load_encode [OF wf] _ t t' this]
  show ?thesis
    using t t' by (simp add: u64_max_def same)
qed

section \<open>Acceptance\<close>

lemma concat_words32:
  assumes "length b mod 32 = 0"
  shows "concat (words32 b) = b"
proof -
  have "concat (map (\<lambda>i. chunk (32 * i) (32 * i + 32) b) [0..<k]) = take (32 * k) b" for k
    by (induction k) (simp_all add: chunk_def take_add add.commute [of 32])
  moreover have "32 * (length b div 32) = length b" using assms by presburger
  ultimately show ?thesis by (simp add: words32_def)
qed

lemma accepted_canonical:
  assumes "verify_anonymous_claim h VK proof public_inputs = Inr True"
  shows "length public_inputs = 160" and "\<forall>w \<in> set (words32 public_inputs). be_int w < fr_modulus"
proof -
  show len: "length public_inputs = 160"
    using assms by (auto simp: verify_anonymous_claim_def PUBLIC_INPUT_BYTES_def split: if_splits)
  from assms obtain vk where "verify h vk proof public_inputs = Inr ()"
    by (auto simp: verify_anonymous_claim_def split: if_splits sum.splits failure.splits)
  then show "\<forall>w \<in> set (words32 public_inputs). be_int w < fr_modulus"
    by (auto simp: verify_def outcome_Inr Let_def canonical_words len split: if_splits)
qed

text \<open>C34: Public inputs are not malleable.  Two different byte strings that stand for the same public
inputs, because their words decode to the same field elements, are not both accepted by the claim
verifier, whatever the verification key and the two proofs; so a nullifier cannot be presented
again under a second encoding.\<close>

theorem claim_inputs_unique:
  assumes "map fr_from_array (words32 pis) = map fr_from_array (words32 pis')" and "pis \<noteq> pis'"
  shows "verify_anonymous_claim h VK proof pis \<noteq> Inr True \<or>
    verify_anonymous_claim h VK proof' pis' \<noteq> Inr True"
proof (rule ccontr)
  assume "\<not> ?thesis"
  then have a: "verify_anonymous_claim h VK proof pis = Inr True"
    "verify_anonymous_claim h VK proof' pis' = Inr True" by auto
  note ok = accepted_canonical [OF a(1)] and ok' = accepted_canonical [OF a(2)]
  have word: "fr_to_bytes (fr_from_array w) = w" if "w \<in> set (words32 b)" "length b = 160"
    "\<forall>w \<in> set (words32 b). be_int w < fr_modulus" for b w
  proof -
    have "length w = 32" using that(1,2) by (auto simp: words32_def chunk_def)
    with that show ?thesis by (simp add: fr_canonical)
  qed
  have aligned: "length b = 160 \<Longrightarrow> length b mod 32 = 0" for b :: bytes by simp
  have "words32 pis = map (\<lambda>w. fr_to_bytes (fr_from_array w)) (words32 pis)"
    by (rule map_idI [symmetric]) (rule word [OF _ ok])
  also have "\<dots> = map fr_to_bytes (map fr_from_array (words32 pis'))"
    by (simp only: assms(1) [symmetric] map_map o_def)
  also have "\<dots> = map (\<lambda>w. fr_to_bytes (fr_from_array w)) (words32 pis')"
    by (simp only: map_map o_def)
  also have "\<dots> = words32 pis'"
    by (rule map_idI) (rule word [OF _ ok'])
  finally have "concat (words32 pis) = concat (words32 pis')" by (rule arg_cong)
  then have "pis = pis'"
    unfolding concat_words32 [OF aligned [OF ok(1)]] concat_words32 [OF aligned [OF ok'(1)]] .
  with assms(2) show False by simp
qed

lemma be_int_zeros: "be_int (replicate n 0) = 0"
  by (induction n) (simp_all add: be_int_def)

theorem claim_inputs_unique_witness:
  "let zeros = replicate 160 0; modulus = be_bytes 32 fr_modulus @ replicate 128 0;
       key = encode_vk sample_key; proof = encode_proof sample_proof in
   map fr_from_array (words32 zeros) = map fr_from_array (words32 modulus) \<and>
   (verify_anonymous_claim sample_host key proof zeros \<noteq> Inr True \<or>
    verify_anonymous_claim sample_host key proof modulus \<noteq> Inr True)"
proof -
  let ?zeros = "replicate 160 0 :: bytes" and ?modulus = "be_bytes 32 fr_modulus @ replicate 128 0"
  have modulus: "be_int (be_bytes 32 fr_modulus) = fr_modulus"
    by (simp add: be_int_be_bytes fr_modulus_def)
  have "fr_from_array (be_bytes 32 fr_modulus) = fr_from_array (replicate 32 0)"
  proof -
    have "fr_of_int fr_modulus = fr_of_int 0" by transfer simp
    then show ?thesis by (simp add: fr_from_array_def modulus be_int_zeros)
  qed
  then have same: "map fr_from_array (words32 ?zeros) = map fr_from_array (words32 ?modulus)"
    by (simp add: words32_def chunk_def upt_rec)
  have "be_int (replicate 32 0) \<noteq> be_int (be_bytes 32 fr_modulus)"
    by (simp add: modulus be_int_zeros) (simp add: fr_modulus_def)
  moreover have "take 32 ?zeros = replicate 32 0" "take 32 ?modulus = be_bytes 32 fr_modulus"
    by simp_all
  ultimately have "?zeros \<noteq> ?modulus" by metis
  with claim_inputs_unique [OF same] same show ?thesis by (simp add: Let_def)
qed

end
