(* ===== verification/Verifier_Answers.thy ===== *)
theory Verifier_Answers
  imports Verifier_Properties
begin

text \<open>
  The verifier answers.  A run of the claim verifier can only trap inside the host: every read of
  the two decoders and of the public-input loops is in range, every inversion is of an element that
  the code has found not to be zero, and the arrays handed to the multi-scalar multiplication have
  equal lengths and hold points of the proof and of the key, the generator and the point at
  infinity.
\<close>

section \<open>Traps of results\<close>

lemma and_then_Trap: "and_then r f = Inl Trap \<longleftrightarrow> r = Inl Trap \<or> (\<exists>x. r = Inr x \<and> f x = Inl Trap)"
  by (cases r) (auto simp: and_then_def)

lemma with_error_Trap: "with_error e r = Inl Trap \<longleftrightarrow> r = Inl Trap"
  by (auto simp: with_error_def split: sum.splits failure.splits)

lemma or_trap_Trap: "or_trap x = Inl Trap \<longleftrightarrow> x = None"
  by (cases x) (simp_all add: or_trap_def)

lemmas outcome_Trap = and_then_Trap with_error_Trap or_trap_Trap

section \<open>Decoding\<close>

lemma load_proof_answers: "load_proof data \<noteq> Inl Trap"
proof (cases "length data = PROOF_BYTES")
  case True
  then have len: "length data = 16224" by (simp add: sizes)
  have "PAIRING_OBJ_BYTES = 512" "PROOF_HEAD_G1_BYTES = 1024" "LIBRA_CONCATENATION_BYTES = 160"
    "SUMCHECK_UNIV_BYTES = 8064" "SUMCHECK_EVAL_BYTES = 1280" "ZK_OPENING_BYTES = 448"
    "GEMINI_FOLD_COMMS_BYTES = 3456" "GEMINI_A_EVAL_BYTES = 896" "LIBRA_EVAL_BYTES = 128"
    "FINAL_TWO_G1_BYTES = 256"
    by (simp_all add: section_sizes sizes)
  with len True show ?thesis by (simp add: load_proof_def read_bytes_def outcome)
qed (simp add: load_proof_def)

lemma new_verifier_answers: "new_verifier data \<noteq> Inl Trap"
  by (auto simp: new_verifier_def load_vk_from_bytes_def outcome_Trap vk_sizes read_bytes_def
      read_u64_def outcome_Inr Let_def split: if_splits)

section \<open>Inversion\<close>

lemma length_foldl_keep:
  "(\<And>xs j. length (F xs j) = length xs) \<Longrightarrow> length (foldl F xs js) = length xs"
  by (induction js arbitrary: xs) simp_all


text \<open>The host inverts every element but zero.\<close>

definition inverts_units :: "bn254 \<Rightarrow> bool" where
  "inverts_units h \<longleftrightarrow> (\<forall>a. a \<noteq> 0 \<longrightarrow> host_inv h a \<noteq> None)"

lemma fr_inverse_answers: "inverts_units h \<Longrightarrow> a \<noteq> 0 \<Longrightarrow> fr_inverse h a \<noteq> Inl Trap"
  by (simp add: inverts_units_def fr_inverse_def or_trap_Trap)

lemma batch_inverse_answers:
  assumes "inverts_units h" and "length out = length vals"
  shows "batch_inverse h vals out \<noteq> Inl Trap"
  using assms fr_inverse_answers [OF assms(1), where ?'a = string]
  by (auto simp: batch_inverse_def fr_is_zero_def Let_def outcome_Trap split: prod.splits)

section \<open>The points of the opening\<close>

definition known_points :: "proof_data \<Rightarrow> verification_key \<Rightarrow> g1_point set" where
  "known_points proof vk =
     set (proof_points proof) \<union> set (vk_points vk) \<union> {g1_generator, g1_infinity}"

text \<open>The two arrays: equal lengths, and only known points.\<close>

definition arrays_ok :: "g1_point set \<Rightarrow> g1_point list \<times> fr list \<Rightarrow> bool" where
  "arrays_ok S a \<longleftrightarrow> length (fst a) = length (snd a) \<and> set (fst a) \<subseteq> S"

lemma set_update: "c \<in> S \<Longrightarrow> set xs \<subseteq> S \<Longrightarrow> set (xs[i := c]) \<subseteq> S"
  by (meson insert_subset set_update_subset_insert subset_trans)

lemma arrays_ok_update:
  "arrays_ok S (coms, scalars) \<Longrightarrow> c \<in> S \<Longrightarrow> arrays_ok S (coms[i := c], scalars[j := s])"
  by (simp add: arrays_ok_def set_update)

lemma arrays_ok_place:
  assumes "arrays_ok S a" and "fst ` set items \<subseteq> S"
  shows "arrays_ok S (place j items a)"
  using assms
proof (induction items arbitrary: j a)
  case (Cons item items)
  obtain c s where item: "item = (c, s)" by (cases item)
  have "arrays_ok S ((fst a)[j := c], (snd a)[j := s])"
    using Cons.prems item by (intro arrays_ok_update) simp_all
  from Cons.IH [OF this] Cons.prems show ?case
    by (simp add: place_def item split_beta)
qed (simp add: place_def)

lemma arrays_exhaust:
  fixes r :: "('a \<times> 'b) \<times> 'c \<times> 'd"
  obtains coms scalars acc v where "r = ((coms, scalars), acc, v)"
  by (metis surj_pair)

lemma arrays_ok_foldl:
  assumes "\<And>r j. j \<in> set js \<Longrightarrow> arrays_ok S (fst r) \<Longrightarrow> arrays_ok S (fst (F r j))"
    and "arrays_ok S (fst r)"
  shows "arrays_ok S (fst (foldl F r js))"
  using assms by (induction js arbitrary: r) simp_all

lemma arrays_ok_dummies:
  "\<forall>j \<in> set js. f j \<in> S \<Longrightarrow> arrays_ok S (coms, scalars) \<Longrightarrow>
    arrays_ok S (foldl (\<lambda>coms j. coms[i j := f j]) coms js, scalars)"
  by (induction js arbitrary: coms) (simp_all add: arrays_ok_def set_update)

lemma arrays_ok_fold_commitments:
  assumes "arrays_ok S arrays" and "set (pf_gemini_fold_comms proof) \<subseteq> S"
    and "length (pf_gemini_fold_comms proof) = 27" and "log_n \<le> 28"
  shows "arrays_ok S (fst (fold_commitments log_n inverted fold_pos proof tp const_acc arrays))"
proof -
  have comm: "pf_gemini_fold_comms proof ! i \<in> S" if "i < 27" for i
    using assms(2,3) that by (metis nth_mem subsetD)
  let ?loop = "\<lambda>((coms, scalars), const_acc, v_pow) j.
     let pos_inv = inverted ! (3 + log_n + 2 * (j - 1)); neg_inv = inverted ! (3 + log_n + 2 * (j - 1) + 1);
       sp = v_pow * pos_inv; sn = v_pow * tr_shplonk_nu tp * neg_inv
     in ((coms[NUMBER_OF_ENTITIES + 2 + j - 1 := pf_gemini_fold_comms proof ! (j - 1)],
          scalars[NUMBER_OF_ENTITIES + 2 + j - 1 := - (sp + sn)]),
         const_acc + pf_gemini_a_evaluations proof ! j * sn + fold_pos ! j * sp,
         v_pow * (tr_shplonk_nu tp * tr_shplonk_nu tp))"
  obtain coms scalars acc v where loop:
    "foldl ?loop (arrays, const_acc, tr_shplonk_nu tp * tr_shplonk_nu tp) [1..<log_n]
      = ((coms, scalars), acc, v)" by (rule arrays_exhaust)
  have "arrays_ok S (fst (foldl ?loop (arrays, const_acc, tr_shplonk_nu tp * tr_shplonk_nu tp) [1..<log_n]))"
  proof (rule arrays_ok_foldl)
    fix r :: "(g1_point list \<times> fr list) \<times> fr \<times> fr" and j
    assume j: "j \<in> set [1..<log_n]" and r: "arrays_ok S (fst r)"
    obtain coms scalars acc v where r_eq: "r = ((coms, scalars), acc, v)" by (rule arrays_exhaust)
    have "pf_gemini_fold_comms proof ! (j - 1) \<in> S" using j assms(4) by (intro comm) auto
    with r show "arrays_ok S (fst (?loop r j))" by (simp add: r_eq Let_def arrays_ok_update)
  qed (use assms(1) in simp)
  then have "arrays_ok S (coms, scalars)" unfolding loop by simp
  then have "arrays_ok S (foldl (\<lambda>coms i. coms[NUMBER_OF_ENTITIES + 2 + i := pf_gemini_fold_comms proof ! i])
      coms [log_n - 1..<CONST_PROOF_SIZE_LOG_N - 1], scalars)"
    by (intro arrays_ok_dummies) (auto intro: comm simp: CONST_PROOF_SIZE_LOG_N_def)
  with loop show ?thesis by (simp add: fold_commitments_def Let_def)
qed

lemma arrays_ok_opening_terms:
  assumes "proof_wf proof" and "log_n \<le> 28"
  shows "arrays_ok (known_points proof vk) (opening_terms log_n r_pows inverted proof vk tp)"
proof -
  let ?S = "known_points proof vk"
  have comms: "set (pf_gemini_fold_comms proof) \<subseteq> ?S" "length (pf_gemini_fold_comms proof) = 27"
    using assms(1) by (auto simp: known_points_def proof_points_def proof_wf_def sizes)
  have proof_S: "c \<in> set (proof_points proof) \<Longrightarrow> c \<in> ?S" for c by (simp add: known_points_def)
  have opened: "fst ` set (opened_commitments proof vk) \<subseteq> ?S"
    by (auto simp: opened_commitments_def known_points_def proof_points_def dest: set_zip_leftD)
  have start: "arrays_ok ?S ((replicate TOTAL g1_infinity)[0 := pf_shplonk_q proof,
      1 := pf_hiding_polynomial_commitment proof], (replicate TOTAL 0)[0 := 1, 1 := x])" for x
    by (intro arrays_ok_update) (auto simp: arrays_ok_def known_points_def proof_points_def)
  have claims: "arrays_ok ?S (place 2 (map (\<lambda>p. (fst p, f (snd p))) (opened_commitments proof vk)) a)"
    if "arrays_ok ?S a" for a and f :: "nat \<Rightarrow> fr"
    using that opened by (intro arrays_ok_place) (simp_all add: image_image)
  have folds: "arrays_ok ?S (fst (fold_commitments log_n inverted fold_pos proof tp c a))"
    if "arrays_ok ?S a" for fold_pos c a
    using arrays_ok_fold_commitments [OF that comms assms(2)] .
  have tail: "arrays_ok ?S (place i [(g1_generator, c), (pf_kzg_quotient proof, d)]
      (place j [(pf_libra_concatenation_commitment proof, x), (pf_libra_grand_sum_commitment proof, y),
        (pf_libra_quotient_commitment proof, z)] a))" if "arrays_ok ?S a" for i j c d x y z a
    using that by (intro arrays_ok_place) (simp_all add: known_points_def proof_points_def)
  show ?thesis
    unfolding opening_terms_def Let_def split_beta
    by (intro tail folds claims [where f = "\<lambda>i. fst _ ! i"] start)
qed

section \<open>The two checks\<close>

text \<open>The multi-scalar multiplication or the pairing check refuses points that the verifier has.\<close>

definition host_refuses :: "bn254 \<Rightarrow> g1_point set \<Rightarrow> bool" where
  "host_refuses h S \<longleftrightarrow>
     (\<exists>ps ss. ps \<noteq> [] \<and> set ps \<subseteq> S \<and> length ps = length ss \<and> host_msm h ps ss = None) \<or>
     (\<exists>p q. q \<in> S \<and> host_pairing h [p, host_neg h q] [RHS_G2_BYTES, LHS_G2_BYTES] = None)"

lemma g1_msm_trap:
  assumes "g1_msm h coms scalars = Inl Trap" and "set coms \<subseteq> S"
  shows "host_refuses h S"
proof -
  let ?terms = "filter (\<lambda>(c, s). s \<noteq> 0) (zip coms scalars)"
  have "map fst ?terms \<noteq> []" "host_msm h (map fst ?terms) (map snd ?terms) = None"
    using assms(1) by (auto simp: g1_msm_def Let_def or_trap_Trap split: if_splits)
  moreover have "set (map fst ?terms) \<subseteq> S"
    using assms(2) by (auto dest: set_zip_leftD)
  ultimately show ?thesis unfolding host_refuses_def by (metis length_map)
qed

lemma libra_answers:
  assumes "inverts_units h"
  shows "check_libra_evaluations_consistency h proof tp \<noteq> Inl Trap"
proof -
  have length: "length (libra_denominators r g) = SUBGROUP_SIZE" for r g
  proof -
    have "length (fst (foldl (\<lambda>(denominators, root_power) i.
        (denominators[i := root_power * r - 1], root_power * g)) a js)) = length (fst a)" for a js
      by (induction js arbitrary: a) (simp_all add: split_beta)
    then show ?thesis by (simp add: libra_denominators_def)
  qed
  have "fr_from_u64 SUBGROUP_SIZE \<noteq> 0" by (simp add: SUBGROUP_SIZE_def fr_from_u64_def fr_eval)
  with assms show ?thesis
    by (auto simp: check_libra_evaluations_consistency_def Let_def outcome_Trap length
        batch_inverse_answers fr_inverse_answers)
qed

lemma shplemini_answers:
  assumes "inverts_units h" and "proof_wf proof"
    and "verify_shplemini h proof vk tp = Inl Trap"
  shows "host_refuses h (known_points proof vk)"
proof -
  let ?n = "vk_log_circuit_size vk"
  have n: "0 < ?n" "?n \<le> 28"
    using assms(3) by (auto simp: verify_shplemini_def Let_def sizes split: if_splits)
  have length: "length (values_to_invert ?n r tp) = MAX_BATCH" for r
    by (simp add: values_to_invert_def Let_def length_foldl_keep del: upt_Suc)
  have size: "libra_index ?n + 1 \<le> MAX_BATCH" using n by (simp add: libra_index_def MAX_BATCH_def sizes)
  then have batch: "batch_inverse h (take (libra_index ?n + 1) (values_to_invert ?n r tp))
      (replicate (libra_index ?n + 1) 0) \<noteq> Inl Trap" for r
    using assms(1) by (intro batch_inverse_answers) (simp_all add: length)
  obtain inverted coms scalars where terms:
    "opening_terms ?n (r_powers ?n (tr_gemini_r tp)) inverted proof vk tp = (coms, scalars)"
    and trap: "g1_msm h coms scalars = Inl Trap \<or>
      (\<exists>p0. pairing_check h p0 (host_neg h (pf_kzg_quotient proof)) = Inl Trap)"
    using assms(3) n batch libra_answers [OF assms(1)]
    by (auto simp: verify_shplemini_def Let_def sizes outcome_Trap split: if_splits prod.splits)
      blast
  have "set coms \<subseteq> known_points proof vk"
    using arrays_ok_opening_terms [OF assms(2) n(2), of vk, of "r_powers ?n (tr_gemini_r tp)" inverted tp]
    by (simp add: terms arrays_ok_def)
  moreover have "pf_kzg_quotient proof \<in> known_points proof vk"
    by (simp add: known_points_def proof_points_def)
  ultimately show ?thesis
    using trap g1_msm_trap [of h coms scalars]
    by (elim disjE exE) (auto simp: pairing_check_def or_trap_Trap host_refuses_def)
qed

lemma sumcheck_answers:
  assumes "inverts_units h"
  shows "verify_sumcheck h proof tp vk \<noteq> Inl Trap"
proof -
  have length: "length (snd (foldl (\<lambda>(b, denoms) i. let diff = c - xs ! i
      in (b * diff, denoms[i := ws ! i * diff])) a js)) = length (snd a)" for c xs ws a js
    by (induction js arbitrary: a) (simp_all add: split_beta Let_def)
  have target: "compute_next_target_sum h u c ws xs one zero \<noteq> Inl Trap" for u c ws xs one zero
    using assms by (auto simp: compute_next_target_sum_def outcome_Trap batch_inverse_answers
        length split_beta split: option.splits)
  have rounds: "sumcheck_rounds h proof tp js target pow \<noteq> Inl Trap" for js target pow
    using target by (induction js arbitrary: target pow)
      (auto simp: Let_def outcome_Trap)
  show ?thesis
    using rounds by (auto simp: verify_sumcheck_def Let_def outcome_Trap split: prod.splits)
qed

lemma transcript_answers: "generate_transcript h proof pis n m k \<noteq> Inl Trap"
  by (auto simp: generate_transcript_def validate_proof_def and_then_Trap Let_def split: prod.splits)

lemma delta_answers:
  assumes "inverts_units h" and "length pis mod 32 = 0"
  shows "compute_public_input_delta h pis ppo beta gamma k n \<noteq> Inl Trap"
proof -
  have "length pis = 32 * (length pis div 32)" using assms(2) by presburger
  note loop = delta_loop_words [OF this, of 0, simplified]
  show ?thesis
    using assms(1) by (auto simp: compute_public_input_delta_def Let_def loop outcome outcome_Trap
        fr_is_zero_def fr_inverse_answers split: prod.splits)
qed

lemma verify_answers:
  assumes "inverts_units h" and "verify h vk proof_bytes pis = Inl Trap"
  obtains p where "load_proof proof_bytes = Inr p" "host_refuses h (known_points p vk)"
proof -
  from assms(2) obtain p where load: "load_proof proof_bytes = Inr p"
    using load_proof_answers by (auto simp: verify_def outcome_Trap outcome_Inr)
  from load have wf: "proof_wf p" by (rule load_proof_wf)
  from assms(2) load have aligned: "length pis mod 32 = 0"
    by (simp add: verify_def outcome with_error_def split: if_splits)
  from assms(2) load obtain t where "verify_shplemini h p vk t = Inl Trap"
    using sumcheck_answers [OF assms(1)] delta_answers [OF assms(1) aligned] transcript_answers
    by (auto simp: verify_def outcome with_error_def [of _ "Inr _"] aligned canonical_words Let_def
        outcome_Trap split: if_splits)
  from that [OF load shplemini_answers [OF assms(1) wf this]] show thesis .
qed

section \<open>The claim verifier\<close>

text \<open>C35: The claim verifier returns.  For every proof string, public-input string and key, if the host
inverts the field elements that are not zero, the contract answers true or false; the only other
outcome is a trap inside the host, whose multi-scalar multiplication or pairing check refuses points
taken from the decoded proof and key, the generator and the point at infinity.  Strings of any other
length than the expected one are answered with false.\<close>

theorem verifier_returns:
  assumes "inverts_units h"
  shows "case verify_anonymous_claim h key proof_bytes pis of
      Inr accepted \<Rightarrow> accepted \<longrightarrow> length proof_bytes = 16224 \<and> length pis = 160
    | Inl failure \<Rightarrow> failure = Trap \<and> length proof_bytes = 16224 \<and> length pis = 160 \<and>
        (\<exists>p vk. load_proof proof_bytes = Inr p \<and> load_vk_from_bytes key = Inr vk \<and>
          host_refuses h (known_points p vk))"
proof (cases "length proof_bytes = 16224 \<and> length pis = 160")
  case False
  then have "verify_anonymous_claim h key proof_bytes pis = Inr False"
    by (auto simp: verify_anonymous_claim_def PUBLIC_INPUT_BYTES_def sizes)
  then show ?thesis by simp
next
  case True
  then have run: "verify_anonymous_claim h key proof_bytes pis =
     (case new_verifier key of Inl Trap \<Rightarrow> Inl Trap | Inl (Err _) \<Rightarrow> Inr False
      | Inr verifier \<Rightarrow> (case verify h verifier proof_bytes pis of Inl Trap \<Rightarrow> Inl Trap
          | Inl (Err _) \<Rightarrow> Inr False | Inr _ \<Rightarrow> Inr True))"
    by (simp add: verify_anonymous_claim_def PUBLIC_INPUT_BYTES_def sizes)
  show ?thesis
  proof (cases "\<exists>vk. new_verifier key = Inr vk \<and> verify h vk proof_bytes pis = Inl Trap")
    case trap: True
    then obtain vk where vk: "new_verifier key = Inr vk" "verify h vk proof_bytes pis = Inl Trap"
      by blast
    from verify_answers [OF assms vk(2)] show ?thesis
      using True vk by (auto simp: run new_verifier_def)
  next
    case False
    with True new_verifier_answers [of key] show ?thesis
      by (auto simp: run split: sum.splits failure.splits)
  qed
qed

text \<open>A host with an inverse for every unit; its pairing check refuses everything.\<close>

definition refusing_host :: bn254 where
  "refusing_host = \<lparr>host_inv = (\<lambda>a. if a = 0 then None else Some a), host_msm = (\<lambda>_ _. None),
     host_pairing = (\<lambda>_ _. None), host_neg = (\<lambda>p. p), host_keccak256 = (\<lambda>b. take 32 (rev b))\<rparr>"

theorem verifier_returns_witness:
  "case verify_anonymous_claim refusing_host (encode_vk sample_key) (encode_proof sample_proof)
      (replicate 160 0) of
      Inr accepted \<Rightarrow> accepted \<longrightarrow> length (encode_proof sample_proof) = 16224
    | Inl failure \<Rightarrow> failure = Trap \<and> host_refuses refusing_host (known_points sample_proof sample_key)"
proof -
  have "inverts_units refusing_host" by (simp add: inverts_units_def refusing_host_def)
  from verifier_returns [OF this, where key = "encode_vk sample_key"
      and proof_bytes = "encode_proof sample_proof" and pis = "replicate 160 0"]
  show ?thesis by (auto simp: load_encode load_encode_vk split: sum.splits)
qed

end
