(* ===== verification/Verifier_Gates.thy ===== *)
theory Verifier_Gates
  imports Verifier_Relations
begin

text \<open>
  What the 26 subrelations say, in the notation of the arithmetization: gate equations as products
  of a selector and an identity, products over the four wires, the round matrices of Poseidon2.
  The code's evaluation, with its shared subterms and in-place accumulation, computes exactly these
  values, each times the gate separator; the alphas batch them into one sum.
\<close>

section \<open>The identities\<close>

definition wires :: "fr list \<Rightarrow> fr list" where
  "wires p = map (wire_at p) [Wl, Wr, Wo, W4]"

definition shifted_wires :: "fr list \<Rightarrow> fr list" where
  "shifted_wires p = map (wire_at p) [WlShift, WrShift, WoShift, W4Shift]"

definition half :: fr where "half = - neg_half"

definition arithmetic_spec :: "fr list \<Rightarrow> fr list" where
  "arithmetic_spec p =
     (let q = wire_at p QArith; wl = wire_at p Wl; wr = wire_at p Wr; wo = wire_at p Wo;
          w4 = wire_at p W4
      in [q * (wire_at p Qm * wl * wr * (3 - q) * half
            + wire_at p Ql * wl + wire_at p Qr * wr + wire_at p Qo * wo + wire_at p Q4 * w4
            + wire_at p Qc + (q - 1) * wire_at p W4Shift),
          q * (q - 1) * (q - 2) * (wl + w4 - wire_at p WlShift + wire_at p Qm)])"

definition permutation_spec :: "fr list \<Rightarrow> relation_parameters \<Rightarrow> fr list" where
  "permutation_spec p rp =
     (let z = wire_at p ZPerm; z' = wire_at p ZPermShift;
          first = wire_at p LagrangeFirst; last = wire_at p LagrangeLast;
          grand = (\<lambda>cols. prod_list (map (\<lambda>(w, c).
            w + rp_beta rp * wire_at p c + rp_gamma rp) (zip (wires p) cols)))
      in [(z + first) * grand [Id1, Id2, Id3, Id4]
            - (z' + last * rp_public_inputs_delta rp) * grand [Sigma1, Sigma2, Sigma3, Sigma4],
          last * z'])"

text \<open>The entry read from a table and the entry of the table, as combinations with powers of \<open>eta\<close>.\<close>

definition lookup_spec :: "fr list \<Rightarrow> relation_parameters \<Rightarrow> fr list" where
  "lookup_spec p rp =
     (let etas = [1, rp_eta rp, rp_eta_two rp, rp_eta_three rp];
          entry = (\<lambda>xs. rp_gamma rp + sum_list (map2 (*) xs etas));
          read = entry [wire_at p Wl + wire_at p Qr * wire_at p WlShift,
            wire_at p Wr + wire_at p Qm * wire_at p WrShift,
            wire_at p Wo + wire_at p Qc * wire_at p WoShift, wire_at p Qo];
          write = entry (map (wire_at p) [Table1, Table2, Table3, Table4]);
          inverse = wire_at p LookupInverses; tag = wire_at p LookupReadTags; q = wire_at p QLookup
      in [read * write * inverse - (1 - (1 - tag) * (1 - q)),
          q * (write * inverse) - wire_at p LookupReadCounts * (read * inverse)])"

definition range_spec :: "fr list \<Rightarrow> fr list" where
  "range_spec p = map (\<lambda>(a, b). wire_at p QRange * (\<Prod>k<4. wire_at p b - wire_at p a - of_nat k))
     [(Wl, Wr), (Wr, Wo), (Wo, W4), (W4, WlShift)]"

text \<open>Addition of \<open>(x1, y1)\<close> and \<open>(x2, s y2)\<close>, and doubling, on \<open>y\<^sup>2 = x\<^sup>3 - 17\<close>.\<close>

definition elliptic_spec :: "fr list \<Rightarrow> fr list" where
  "elliptic_spec p =
     (let x1 = wire_at p Wr; y1 = wire_at p Wo; x2 = wire_at p WlShift; y2 = wire_at p W4Shift;
          x3 = wire_at p WrShift; y3 = wire_at p WoShift; s = wire_at p Ql; double = wire_at p Qm
      in [wire_at p QElliptic *
            ((1 - double) * ((x3 + x2 + x1) * (x2 - x1)\<^sup>2 - (s * y2 - y1)\<^sup>2 + (s\<^sup>2 - 1) * y2\<^sup>2)
             + double * ((x3 + 2 * x1) * (2 * y1)\<^sup>2 - 9 * x1 * (y1\<^sup>2 + 17))),
          wire_at p QElliptic *
            ((1 - double) * ((y3 + y1) * (x2 - x1) - (x1 - x3) * (s * y2 - y1))
             + double * (3 * x1\<^sup>2 * (x1 - x3) - 2 * y1 * (y1 + y3)))])"

text \<open>Non-native field elements have limbs of 68 bits.\<close>

definition limb_base :: fr where "limb_base = 2 ^ 68"

definition auxiliary_spec :: "fr list \<Rightarrow> relation_parameters \<Rightarrow> fr list" where
  "auxiliary_spec p rp =
     (let wl = wire_at p Wl; wr = wire_at p Wr; wo = wire_at p Wo; w4 = wire_at p W4;
          wl' = wire_at p WlShift; wr' = wire_at p WrShift; wo' = wire_at p WoShift;
          w4' = wire_at p W4Shift; ql = wire_at p Ql; qr = wire_at p Qr; qo = wire_at p Qo;
          q4 = wire_at p Q4; qm = wire_at p Qm; q = wire_at p QAux; qa = wire_at p QArith;
          cross = wl * wr' + wl' * wr;
          low = limb_base * cross + wl' * wr';
          nonnative = qr * (qo * (low - wo - w4)
            + q4 * (limb_base * (wl * w4 + wr * wo - wo') + cross - w4')
            + qm * (low + w4 - wo' - w4'));
          limbs = (\<lambda>xs. \<Sum>k<5. xs ! k * 2 ^ (14 * k));
          limb_sums = qo * (q4 * (limbs [wl, wr, wo, wl', wr'] - w4)
            + qm * (limbs [wo, w4, wl', wr', wo'] - w4'));
          combine = (\<lambda>i t v. rp_eta rp * i + rp_eta_two rp * t + rp_eta_three rp * v);
          record_term = combine wl wr wo + wire_at p Qc;
          access = w4 - record_term;
          next_access = w4' - combine wl' wr' wo';
          step = wl' - wl;
          memory = ql * qr * (record_term - w4) + ql * qm * (record_term - w4)
            + ql * q4 * ((1 - step) * (wr' - wr) - wo) + qa * (access * (access - 1))
      in [q * (memory + nonnative + limb_sums),
          q * ql * qr * ((1 - step) * (w4' - w4)),
          q * ql * qr * (step * (step - 1)),
          q * qa * ((1 - step) * (wo' - wo) * (1 - next_access)),
          q * qa * (step * (step - 1)),
          q * qa * (next_access * (next_access - 1))])"

definition poseidon_external_matrix :: "fr list list" where
  "poseidon_external_matrix = [[5, 7, 1, 3], [4, 6, 1, 1], [1, 3, 5, 7], [1, 1, 4, 6]]"

definition apply_matrix :: "fr list list \<Rightarrow> fr list \<Rightarrow> fr list" where
  "apply_matrix m v = map (\<lambda>row. sum_list (map2 (*) row v)) m"

text \<open>The internal matrix: all ones, plus a diagonal.\<close>

definition poseidon_internal_matrix :: "fr list list" where
  "poseidon_internal_matrix =
     map (\<lambda>i. map (\<lambda>j. if i = j then internal_matrix_diagonal ! i + 1 else 1) [0..<4]) [0..<4]"

definition round_spec :: "fr \<Rightarrow> fr list list \<Rightarrow> fr list \<Rightarrow> fr list \<Rightarrow> fr list" where
  "round_spec q m state next = map (\<lambda>(a, b). q * (a - b)) (zip (apply_matrix m state) next)"

definition poseidon_external_spec :: "fr list \<Rightarrow> fr list" where
  "poseidon_external_spec p = round_spec (wire_at p QPoseidon2External) poseidon_external_matrix
     (map (\<lambda>(w, q). (wire_at p w + wire_at p q) ^ 5) [(Wl, Ql), (Wr, Qr), (Wo, Qo), (W4, Q4)])
     (shifted_wires p)"

definition poseidon_internal_spec :: "fr list \<Rightarrow> fr list" where
  "poseidon_internal_spec p = round_spec (wire_at p QPoseidon2Internal) poseidon_internal_matrix
     ((wire_at p Wl + wire_at p Ql) ^ 5 # tl (wires p)) (shifted_wires p)"

definition textbook_relations :: "fr list \<Rightarrow> relation_parameters \<Rightarrow> fr list" where
  "textbook_relations p rp = arithmetic_spec p @ permutation_spec p rp @ lookup_spec p rp
     @ range_spec p @ elliptic_spec p @ auxiliary_spec p rp @ poseidon_external_spec p
     @ poseidon_internal_spec p"

section \<open>The families compute them\<close>

lemma arithmetic_family:
  "accumulate_arithmetic_relation p evals sep =
    evals[0 := arithmetic_spec p ! 0 * sep, 1 := arithmetic_spec p ! 1 * sep]"
  by (simp add: accumulate_arithmetic_relation_def arithmetic_spec_def Let_def fr_from_u64_def
      half_def algebra_simps)

lemma permutation_family:
  "accumulate_permutation_relation p rp evals sep =
    evals[2 := permutation_spec p rp ! 0 * sep, 3 := permutation_spec p rp ! 1 * sep]"
  by (simp add: accumulate_permutation_relation_def permutation_spec_def wires_def Let_def ac_simps)

lemma lookup_family:
  "accumulate_log_derivative_lookup_relation p rp evals sep =
    evals[4 := lookup_spec p rp ! 0 * sep, 5 := lookup_spec p rp ! 1]"
  by (simp add: accumulate_log_derivative_lookup_relation_def lookup_spec_def Let_def ac_simps)
    (simp add: algebra_simps)

lemma range_family:
  "accumulate_delta_range_relation p evals sep =
    evals[6 := range_spec p ! 0 * sep, 7 := range_spec p ! 1 * sep,
      8 := range_spec p ! 2 * sep, 9 := range_spec p ! 3 * sep]"
  by (simp add: accumulate_delta_range_relation_def range_spec_def Let_def fr_constants upt_rec
      eval_nat_numeral ac_simps)

text \<open>The curve identities over variables, as the code accumulates them.\<close>

lemma addition_identities:
  fixes x1 :: fr
  shows "(x3 + x2 + x1) * (x2 - x1) * (x2 - x1) - y2 * y2 - y1 * y1 + y1 * y2 * s + y1 * y2 * s
      = (x3 + x2 + x1) * (x2 - x1)\<^sup>2 - (s * y2 - y1)\<^sup>2 + (s\<^sup>2 - 1) * y2\<^sup>2"
    and "(y1 + y3) * (x2 - x1) + (x3 - x1) * (y2 * s - y1)
      = (y3 + y1) * (x2 - x1) - (x1 - x3) * (s * y2 - y1)"
  by (simp_all add: power2_eq_square algebra_simps)

lemma doubling_identities:
  fixes x1 :: fr
  shows "(x3 + x1 + x1) * (y1 * y1 + y1 * y1 + y1 * y1 + y1 * y1) - (y1 * y1 + 17) * x1 * 9
      = (x3 + 2 * x1) * (2 * y1)\<^sup>2 - 9 * x1 * (y1\<^sup>2 + 17)"
    and "(x1 + x1 + x1) * x1 * (x1 - x3) - (y1 + y1) * (y1 + y3)
      = 3 * x1\<^sup>2 * (x1 - x3) - 2 * y1 * (y1 + y3)"
  by (simp_all add: power2_eq_square algebra_simps)

lemma select_gate: "a * ((1 - d) * (q * sep)) + b * (d * (q * sep)) = q * ((1 - d) * a + d * b) * sep"
  for a :: fr
  by (simp add: algebra_simps)

lemma elliptic_family:
  "accumulate_elliptic_relation p evals sep =
    evals[10 := elliptic_spec p ! 0 * sep, 11 := elliptic_spec p ! 1 * sep]"
  unfolding accumulate_elliptic_relation_def elliptic_spec_def Let_def fr_from_u64_def
  by (simp only: addition_identities doubling_identities of_nat_numeral nth_Cons_0 nth_Cons_Suc
      One_nat_def select_gate)

lemma poseidon_external_family:
  "accumulate_poseidon_external_relation p evals sep =
    evals[18 := poseidon_external_spec p ! 0 * sep, 19 := poseidon_external_spec p ! 1 * sep,
      20 := poseidon_external_spec p ! 2 * sep, 21 := poseidon_external_spec p ! 3 * sep]"
  by (simp add: accumulate_poseidon_external_relation_def poseidon_external_spec_def round_spec_def
      apply_matrix_def poseidon_external_matrix_def shifted_wires_def Let_def fr_pow_def ac_simps)

lemma internal_matrix_rows:
  "poseidon_internal_matrix =
    [[internal_matrix_diagonal ! 0 + 1, 1, 1, 1], [1, internal_matrix_diagonal ! 1 + 1, 1, 1],
     [1, 1, internal_matrix_diagonal ! 2 + 1, 1], [1, 1, 1, internal_matrix_diagonal ! 3 + 1]]"
  by (simp add: poseidon_internal_matrix_def upt_rec eval_nat_numeral)

lemma diagonal_entry:
  "(internal_matrix_diagonal ! i + 1) * a = a * internal_matrix_diagonal ! i + a"
  by (simp add: algebra_simps)

lemma poseidon_internal_family:
  "accumulate_poseidon_internal_relation p evals sep internal_matrix_diagonal =
    evals[22 := poseidon_internal_spec p ! 0 * sep, 23 := poseidon_internal_spec p ! 1 * sep,
      24 := poseidon_internal_spec p ! 2 * sep, 25 := poseidon_internal_spec p ! 3 * sep]"
  by (simp add: accumulate_poseidon_internal_relation_def poseidon_internal_spec_def round_spec_def
      apply_matrix_def internal_matrix_rows shifted_wires_def wires_def Let_def fr_pow_def
      diagonal_entry) (simp add: ac_simps)

text \<open>The parts of the auxiliary identity, over variables.\<close>

lemma nonnative_identity:
  fixes wl :: fr
  shows "((c * (wl * wr' + wl' * wr) + wl' * wr' - (wo + w4)) * qo
        + ((wl * w4 + wr * wo - wo') * c - w4' + (wl * wr' + wl' * wr)) * q4
        + (w4 - (wo' + w4') + (c * (wl * wr' + wl' * wr) + wl' * wr')) * qm) * qr
      = qr * (qo * (c * (wl * wr' + wl' * wr) + wl' * wr' - wo - w4)
        + q4 * (c * (wl * w4 + wr * wo - wo') + (wl * wr' + wl' * wr) - w4')
        + qm * (c * (wl * wr' + wl' * wr) + wl' * wr' + w4 - wo' - w4'))"
  by (simp add: algebra_simps)

lemma limbs_horner:
  fixes a :: fr
  shows "(((e * 16384 + d) * 16384 + c) * 16384 + b) * 16384 + a = (\<Sum>k<5. [a, b, c, d, e] ! k * 2 ^ (14 * k))"
  by (simp add: eval_nat_numeral algebra_simps)

lemma boolean_identity: "a * a - a = a * (a - 1)" for a :: fr
  by (simp add: algebra_simps)

lemma auxiliary_constants: "fr_from_u64 (2 ^ 14) = 16384" "limb_size = limb_base"
  by (simp_all add: fr_from_u64_def limb_size_def limb_base_def)

lemma auxiliary_family:
  "accumulate_auxiliary_relation p rp evals sep =
    evals[13 := auxiliary_spec p rp ! 1 * sep, 14 := auxiliary_spec p rp ! 2 * sep,
      15 := auxiliary_spec p rp ! 3 * sep, 16 := auxiliary_spec p rp ! 4 * sep,
      17 := auxiliary_spec p rp ! 5 * sep, 12 := auxiliary_spec p rp ! 0 * sep]"
proof -
  have combine: "v * rp_eta_three rp + t * rp_eta_two rp + i * rp_eta rp
      = rp_eta rp * i + rp_eta_two rp * t + rp_eta_three rp * v" for i t v
    by (simp add: ac_simps)
  note combine_record = combine [of "wire_at p Wo" "wire_at p Wr" "wire_at p Wl"]
    combine [of "wire_at p WoShift" "wire_at p WrShift" "wire_at p WlShift"]
  show ?thesis
    unfolding accumulate_auxiliary_relation_def auxiliary_spec_def Let_def auxiliary_constants
      combine_record nonnative_identity limbs_horner boolean_identity
    by (simp add: ac_simps del: sum.lessThan_Suc)
qed

lemmas relation_families = arithmetic_family permutation_family lookup_family range_family
  elliptic_family auxiliary_family poseidon_external_family poseidon_internal_family

section \<open>The whole evaluation\<close>

lemma textbook_relations_list:
  "textbook_relations p rp =
    [arithmetic_spec p ! 0, arithmetic_spec p ! 1, permutation_spec p rp ! 0, permutation_spec p rp ! 1,
     lookup_spec p rp ! 0, lookup_spec p rp ! 1, range_spec p ! 0, range_spec p ! 1, range_spec p ! 2,
     range_spec p ! 3, elliptic_spec p ! 0, elliptic_spec p ! 1, auxiliary_spec p rp ! 0,
     auxiliary_spec p rp ! 1, auxiliary_spec p rp ! 2, auxiliary_spec p rp ! 3, auxiliary_spec p rp ! 4,
     auxiliary_spec p rp ! 5, poseidon_external_spec p ! 0, poseidon_external_spec p ! 1,
     poseidon_external_spec p ! 2, poseidon_external_spec p ! 3, poseidon_internal_spec p ! 0,
     poseidon_internal_spec p ! 1, poseidon_internal_spec p ! 2, poseidon_internal_spec p ! 3]"
proof -
  have pair: "xs = [xs ! 0, xs ! 1]" if "length xs = 2" for xs :: "fr list"
    using that by (auto simp: eval_nat_numeral length_Suc_conv)
  have four: "xs = [xs ! 0, xs ! 1, xs ! 2, xs ! 3]" if "length xs = 4" for xs :: "fr list"
    using that by (auto simp: eval_nat_numeral length_Suc_conv)
  have six: "xs = [xs ! 0, xs ! 1, xs ! 2, xs ! 3, xs ! 4, xs ! 5]" if "length xs = 6" for xs :: "fr list"
    using that by (auto simp: eval_nat_numeral length_Suc_conv)
  have "length (arithmetic_spec p) = 2" "length (permutation_spec p rp) = 2"
    "length (lookup_spec p rp) = 2" "length (range_spec p) = 4" "length (elliptic_spec p) = 2"
    "length (auxiliary_spec p rp) = 6" "length (poseidon_external_spec p) = 4"
    "length (poseidon_internal_spec p) = 4"
    by (simp_all add: arithmetic_spec_def permutation_spec_def lookup_spec_def range_spec_def
        elliptic_spec_def auxiliary_spec_def poseidon_external_spec_def poseidon_internal_spec_def
        round_spec_def apply_matrix_def poseidon_external_matrix_def poseidon_internal_matrix_def
        shifted_wires_def Let_def)
  note parts = pair [OF this(1)] pair [OF this(2)] pair [OF this(3)] four [OF this(4)]
    pair [OF this(5)] six [OF this(6)] four [OF this(7)] four [OF this(8)]
  show ?thesis
    unfolding textbook_relations_def
    by (subst parts(1), subst parts(2), subst parts(3), subst parts(4), subst parts(5),
        subst parts(6), subst parts(7), subst parts(8)) simp
qed

lemma relation_evaluations_textbook:
  "relation_evaluations p rp sep =
    map (\<lambda>(i, v). if i = 5 then v else v * sep) (enumerate 0 (textbook_relations p rp))"
  by (simp add: relation_evaluations_def relation_families textbook_relations_list NUMBER_OF_SUBRELATIONS_def
      eval_nat_numeral Let_def)

lemma batch_sum:
  "scale_and_batch_subrelations es alphas = es ! 0 + (\<Sum>i<25. es ! Suc i * alphas ! i)"
proof -
  have "foldl (\<lambda>acc i. acc + es ! i * alphas ! (i - 1)) a [1..<Suc n]
      = a + (\<Sum>i<n. es ! Suc i * alphas ! i)" for a n
    by (induction n) (simp_all add: add.assoc)
  from this [of "es ! 0" 25] show ?thesis
    by (simp add: scale_and_batch_subrelations_def sizes)
qed

lemma length_textbook_relations [simp]: "length (textbook_relations p rp) = 26"
  by (simp add: textbook_relations_list)

lemma batched_textbook:
  "accumulate_relation_evaluations p rp alphas sep =
    textbook_relations p rp ! 0 * sep + (\<Sum>i<25. alphas ! i *
      (if i = 4 then textbook_relations p rp ! 5 else textbook_relations p rp ! Suc i * sep))"
proof -
  let ?v = "textbook_relations p rp"
  have entry: "relation_evaluations p rp sep ! i = (if i = 5 then ?v ! i else ?v ! i * sep)" if "i < 26" for i
    using that by (simp add: relation_evaluations_textbook nth_enumerate_eq)
  have "relation_evaluations p rp sep ! Suc i * alphas ! i
      = alphas ! i * (if i = 4 then ?v ! 5 else ?v ! Suc i * sep)" if "i < 25" for i
    using that by (simp add: entry mult.commute)
  then show ?thesis
    by (simp add: accumulate_relation_evaluations_def batch_sum entry)
qed

text \<open>C32: The evaluation of the circuit relations is the textbook one.  For all claimed evaluations,
  parameters, batching challenges and gate separators, the code's value is the sum of the 26
  identities of the arithmetization, written with products over the wires, the table entries as
  combinations of eta, the chord and tangent formulas of the curve, the limb sums and the Poseidon2
  round matrices; each is weighed by its alpha and by the gate separator, except the second lookup
  identity, which sums to zero over all rows and has no separator.  Hence the value is zero for all
  challenges iff every identity holds.\<close>

theorem relations_exact:
  "accumulate_relation_evaluations p rp alphas sep =
     textbook_relations p rp ! 0 * sep + (\<Sum>i<25. alphas ! i *
       (if i = 4 then textbook_relations p rp ! 5 else textbook_relations p rp ! Suc i * sep)) \<and>
   ((\<forall>as s. accumulate_relation_evaluations p rp as s = 0) \<longleftrightarrow> textbook_relations p rp = replicate 26 0)"
proof (intro conjI batched_textbook iffI)
  let ?v = "textbook_relations p rp"
  assume zero: "\<forall>as s. accumulate_relation_evaluations p rp as s = 0"
  have none: "(\<Sum>i<25. replicate 25 (0 :: fr) ! i * f i) = 0" for f
    by (rule sum.neutral) simp
  have v0: "?v ! 0 = 0"
    using zero [rule_format, of "replicate 25 0" 1] by (simp add: batched_textbook none)
  have "?v ! Suc k = 0" if "k < 25" for k
  proof -
    have unit: "(\<Sum>i<25. (replicate 25 0)[k := 1 :: fr] ! i * f i) = f k" for f
      using that by (simp add: nth_list_update if_distrib [of "\<lambda>x. x * _"] cong: if_cong)
    have "?v ! 0 * 1 + (if k = 4 then ?v ! 5 else ?v ! Suc k * 1) = 0"
      using zero [rule_format, of "(replicate 25 0)[k := 1]" 1] unfolding batched_textbook unit .
    with v0 show ?thesis by (simp split: if_splits)
  qed
  with v0 have "?v ! i = 0" if "i < 26" for i
    using that by (cases i) simp_all
  then show "?v = replicate 26 0" by (intro nth_equalityI) simp_all
next
  assume "textbook_relations p rp = replicate 26 0"
  then show "\<forall>as s. accumulate_relation_evaluations p rp as s = 0"
    by (auto simp: batched_textbook intro!: sum.neutral)
qed

text \<open>An empty row is accepted whatever the challenges.\<close>

lemma zero_row:
  assumes wire: "\<And>w. wire_at p w = 0"
  shows "textbook_relations p rp = replicate 26 0"
  by (simp add: textbook_relations_def arithmetic_spec_def permutation_spec_def lookup_spec_def
      range_spec_def elliptic_spec_def auxiliary_spec_def poseidon_external_spec_def
      poseidon_internal_spec_def internal_matrix_rows poseidon_external_matrix_def round_spec_def
      apply_matrix_def shifted_wires_def wires_def wire Let_def eval_nat_numeral)

theorem relations_exact_witness:
  "accumulate_relation_evaluations (replicate 40 0) test_parameters test_alphas 300 = 0"
proof -
  have wire: "wire_at (replicate 40 0) w = 0" for w
    by (cases w) (simp_all add: wire_at_def)
  from zero_row [of "replicate 40 0" test_parameters, OF this] relations_exact show ?thesis by blast
qed

end
