(* ===== verification/Anonymous_Claims.thy ===== *)
theory Anonymous_Claims
  imports Event_Sales Verifier_Properties
begin

text \<open>
  The event contract and the claim verifier together.  The event contract keys its record of used
  nullifiers by their 32 bytes, while the circuit proves a statement about field elements; the
  verifier's refusal of encodings above the modulus is what makes the two agree.
\<close>

section \<open>The configured verifier\<close>

text \<open>The client call to the claim verifier contract; a trap of the contract fails the call.\<close>

definition ask_claim_verifier :: "bn254 \<Rightarrow> bytes \<Rightarrow> address \<Rightarrow> bytes \<Rightarrow> bytes \<Rightarrow> bool option" where
  "ask_claim_verifier h key verifier proof public_inputs =
     (case verify_anonymous_claim h key proof public_inputs of Inl _ \<Rightarrow> None | Inr b \<Rightarrow> Some b)"

lemma word_of_inputs:
  assumes "length a = 96" and "length n = 32"
  shows "n \<in> set (words32 (a @ n @ b))"
proof -
  have many: "3 < length (a @ n @ b) div 32" using assms by simp
  then have "words32 (a @ n @ b) ! 3 = chunk 96 128 (a @ n @ b)"
    by (simp add: words32_def)
  also have "\<dots> = n" using assms by (simp add: chunk_def)
  finally have "words32 (a @ n @ b) ! 3 = n" "3 < length (words32 (a @ n @ b))"
    using many by (simp_all add: words32_def)
  then show ?thesis by (metis nth_mem)
qed

lemma accepted_nullifier_canonical:
  assumes "claim_anonymous_ticket env (ask_claim_verifier h key) e i claim s = Inr (u, t)"
    and "ek_AnonymousNullifier s (e, ac_nullifier claim) = None"
    and "length (ac_nullifier claim) = 32" and "length (ac_ticket_commitment claim) = 32"
  shows "be_int (ac_nullifier claim) < fr_modulus"
proof -
  let ?inputs = "anonymous_claim_public_inputs env e i claim"
  obtain v where "ask_claim_verifier h key v (ac_proof claim) ?inputs = Some True"
    using wpD [OF claim_verified [OF assms(2)] assms(1)] by blast
  then have "verify_anonymous_claim h key (ac_proof claim) ?inputs = Inr True"
    by (simp add: ask_claim_verifier_def split: sum.splits)
  note accepted = accepted_canonical [OF this]
  define a where "a = append_u32_field (append_u32_field (anonymous_claim_scope env e) i)
    (ac_expiry_ledger claim)"
  have inputs: "?inputs = a @ ac_nullifier claim @ ac_ticket_commitment claim"
    by (simp add: anonymous_claim_public_inputs_def a_def)
  with accepted(1) assms(3,4) have "length a = 96" by simp
  from word_of_inputs [OF this assms(3)] accepted(2) show ?thesis by (simp add: inputs)
qed

text \<open>C28: One ticket per nullifier as a field element.  When the event contract is configured with the
  claim verifier and a claim has been accepted, because its nullifier was new or is a canonical
  encoding, then any later claim that returns and whose nullifier denotes the same field element
  changes nothing: whatever encoding of the nullifier it presents, whatever its proof and tier, and
  whatever happened in between, no second seat is taken.\<close>

theorem one_ticket_per_nullifier:
  assumes "system_execution N s" and "env \<in> event_envs N"
    and "claim_anonymous_ticket env (ask_claim_verifier h key) e i claim s = Inr (u, t)"
    and "ek_AnonymousNullifier s (e, ac_nullifier claim) = None \<or> be_int (ac_nullifier claim) < fr_modulus"
    and "(system_step N)\<^sup>*\<^sup>* t s'"
    and "claim_anonymous_ticket env' (ask_claim_verifier h key) e i' claim' s' = Inr (u', t')"
    and "fr_from_array (ac_nullifier claim') = fr_from_array (ac_nullifier claim)"
    and "length (ac_nullifier claim) = 32" and "length (ac_ticket_commitment claim) = 32"
    and "length (ac_nullifier claim') = 32" and "length (ac_ticket_commitment claim') = 32"
  shows "t' = s'"
proof (cases "ek_AnonymousNullifier s' (e, ac_nullifier claim')")
  case None
  have "be_int (ac_nullifier claim) < fr_modulus" "be_int (ac_nullifier claim') < fr_modulus"
    using assms(4) accepted_nullifier_canonical [OF assms(3) _ assms(8,9)]
      accepted_nullifier_canonical [OF assms(6) None assms(10,11)] by blast+
  then have "ac_nullifier claim' = ac_nullifier claim"
    using fr_canonical [OF assms(8)] fr_canonical [OF assms(10)] assms(7) by simp
  moreover have "ek_AnonymousNullifier s' (e, ac_nullifier claim) \<noteq> None"
    by (rule claim_kept [OF assms(1-3,5)]) simp
  ultimately show ?thesis using None by simp
next
  case (Some c)
  obtain ev where "ek_Event s' e = Some ev"
    using assms(6) by (auto simp: claim_anonymous_ticket_def get_event_def exec split: option.splits)
  from claim_again [OF this Some] assms(6) show ?thesis by (auto split: if_splits)
qed

section \<open>A claim and its repetition\<close>

definition canonical_claim :: anonymous_ticket_claim where
  "canonical_claim = \<lparr>ac_proof = [1], ac_nullifier = replicate 31 0 @ [2],
     ac_ticket_commitment = replicate 31 0 @ [3], ac_expiry_ledger = 50\<rparr>"

lemma canonical_claim_runs:
  "\<exists>s t. sample_anonymous booked = Inr ((), s) \<and>
     claim_anonymous_ticket (office 40) sample_verifier ''an'' 0 canonical_claim s = Inr ((), t)"
  unfolding sample_anonymous_def booked_def opened_def
  by (simp add: event_eval event_state_eval payment_eval state_eval sample_defs sample_params_def
      set_anonymous_claim_verifier_def claim_anonymous_ticket_def check_anonymous_claim_def
      count_window_claim_def get_anon_claim_settings_def get_anonymous_claim_verifier_def
      get_anonymous_ticket_commitment_def canonical_claim_def sample_verifier_def
      saturating_add_u32_def MAX_ANONYMOUS_PROOF_TTL_LEDGERS_def)

lemma canonical_claim_reached:
  obtains t where "system_execution sample_network t"
    and "\<forall>env verify i p. \<exists>t'. claim_anonymous_ticket env verify ''an'' i
      (canonical_claim\<lparr>ac_proof := p\<rparr>) t = Inr ((), t')"
proof -
  obtain s t where run: "sample_anonymous booked = Inr ((), s)"
    and claim: "claim_anonymous_ticket (office 40) sample_verifier ''an'' 0 canonical_claim s = Inr ((), t)"
    using canonical_claim_runs by blast
  note s = sample_anonymous_reached [OF run]
  have desk: "office 40 \<in> event_envs sample_network" by simp
  have t: "system_execution sample_network t"
    by (rule reachable_step [OF s event_invocation [OF desk call_claim_anonymous [OF claim, simplified]]])
  obtain ev where "ek_Event t ''an'' = Some ev"
    "ek_AnonymousNullifier t (''an'', ac_nullifier canonical_claim) = Some (ac_ticket_commitment canonical_claim)"
    by (rule claim_kept [OF s desk claim rtranclp.rtrancl_refl])
  then have "\<forall>env verify i p. \<exists>t'. claim_anonymous_ticket env verify ''an'' i
      (canonical_claim\<lparr>ac_proof := p\<rparr>) t = Inr ((), t')"
    using claim_again [of t "''an''" ev "canonical_claim\<lparr>ac_proof := _\<rparr>"] by simp
  from that [OF t this] show thesis .
qed

theorem one_ticket_per_nullifier_witness:
  "\<exists>t t'. claim_anonymous_ticket (office 41) (ask_claim_verifier sample_host []) ''an'' 0 canonical_claim t
      = Inr ((), t') \<and>
    claim_anonymous_ticket (office 42) (ask_claim_verifier sample_host []) ''an'' 1
      (canonical_claim\<lparr>ac_proof := [9]\<rparr>) t' = Inr ((), t')"
proof -
  obtain t where t: "system_execution sample_network t"
    and again: "\<forall>env verify i p. \<exists>t'. claim_anonymous_ticket env verify ''an'' i
      (canonical_claim\<lparr>ac_proof := p\<rparr>) t = Inr ((), t')"
    by (rule canonical_claim_reached)
  let ?verify = "ask_claim_verifier sample_host []"
  obtain t1 where first: "claim_anonymous_ticket (office 41) ?verify ''an'' 0
      (canonical_claim\<lparr>ac_proof := [1]\<rparr>) t = Inr ((), t1)" using again by blast
  obtain ev where "ek_Event t1 ''an'' = Some ev"
    "ek_AnonymousNullifier t1 (''an'', ac_nullifier canonical_claim) = Some (ac_ticket_commitment canonical_claim)"
    by (rule claim_kept [OF t _ first rtranclp.rtrancl_refl]) simp_all
  then obtain t2 where second: "claim_anonymous_ticket (office 42) ?verify ''an'' 1
      (canonical_claim\<lparr>ac_proof := [9]\<rparr>) t1 = Inr ((), t2)"
    using claim_again [of t1 "''an''" ev "canonical_claim\<lparr>ac_proof := [9]\<rparr>"] by simp
  have "be_int (ac_nullifier canonical_claim) < fr_modulus"
    using be_int_zeros [of 31] by (simp add: canonical_claim_def be_int_def fr_modulus_def)
  then have "t2 = t1"
    by (intro one_ticket_per_nullifier [OF t _ first _ rtranclp.rtrancl_refl second])
      (simp_all add: canonical_claim_def)
  moreover have "canonical_claim\<lparr>ac_proof := [1]\<rparr> = canonical_claim"
    by (simp add: canonical_claim_def)
  ultimately show ?thesis using first second by metis
qed

end
