(* ===== verification/Relayer.thy ===== *)
theory Relayer
  imports Prelude
begin

text \<open>
  The transaction relayer (\<^verbatim>\<open>relayer/src\<close>): an HTTP handler that limits requests per client and per
  session, checks a captcha, and answers.

  The clock is explicit: a request carries the three readings that a limiter check may take, in
  nanoseconds, and \<open>ordered_clock\<close> says that the readings of a sequence of requests never go back,
  as \<^verbatim>\<open>Instant\<close> promises.  The concurrent maps lock the entry of a key for a whole check, so
  the checks of one key are a sequence.  The captcha service behind the HTTP call is a parameter:
  \<open>siteverify secret token\<close> is \<open>None\<close> when the call or the decoding of its answer fails; a run has
  one such answer function per request, as the service may answer differently each time.  The
  submission itself is a constant answer in the source, and logging has no model.
\<close>

section \<open>Rate limiting\<close>

record clock_readings =
  at_entry :: nat
  at_check :: nat
  at_reset :: nat

type_synonym counters = "string \<Rightarrow> (nat \<times> nat) option"

record rate_limiter =
  ip_counts :: counters
  session_counts :: counters
  max_per_ip :: nat
  max_per_session :: nat
  window_ns :: nat

definition new_rate_limiter :: "nat \<Rightarrow> nat \<Rightarrow> nat \<Rightarrow> rate_limiter" where
  "new_rate_limiter per_ip per_session window =
     \<lparr>ip_counts = Map.empty, session_counts = Map.empty, max_per_ip = per_ip,
      max_per_session = per_session, window_ns = window\<rparr>"

text \<open>The check that both limiters share: the entry, the comparison and the update.\<close>

definition check_entry ::
    "nat \<Rightarrow> nat \<Rightarrow> clock_readings \<Rightarrow> string \<Rightarrow> counters \<Rightarrow> bool \<times> counters" where
  "check_entry limit window clk key counts =
     (let (count, since) = (case counts key of None \<Rightarrow> (0, at_entry clk) | Some e \<Rightarrow> e)
      in if at_check clk - since > window then (True, counts(key \<mapsto> (1, at_reset clk)))
         else if count < limit then (True, counts(key \<mapsto> (count + 1, since)))
         else (False, counts(key \<mapsto> (count, since))))"

definition check_and_increment_ip ::
    "clock_readings \<Rightarrow> string \<Rightarrow> rate_limiter \<Rightarrow> bool \<times> rate_limiter" where
  "check_and_increment_ip clk ip r =
     (case check_entry (max_per_ip r) (window_ns r) clk ip (ip_counts r) of
        (ok, counts) \<Rightarrow> (ok, r\<lparr>ip_counts := counts\<rparr>))"

definition check_and_increment_session ::
    "clock_readings \<Rightarrow> string \<Rightarrow> rate_limiter \<Rightarrow> bool \<times> rate_limiter" where
  "check_and_increment_session clk session r =
     (case check_entry (max_per_session r) (window_ns r) clk session (session_counts r) of
        (ok, counts) \<Rightarrow> (ok, r\<lparr>session_counts := counts\<rparr>))"

section \<open>Captcha\<close>

definition captcha_verify :: "(string \<Rightarrow> string \<Rightarrow> bool option) \<Rightarrow> string \<Rightarrow> string \<Rightarrow> bool" where
  "captcha_verify siteverify secret_key token =
     (if token = [] then False
      else if secret_key = ''dummy_secret'' \<and> token = ''valid_dummy_token'' then True
      else (case siteverify secret_key token of Some success \<Rightarrow> success | None \<Rightarrow> False))"

section \<open>The handler\<close>

text \<open>A request: the two headers when they are present and textual, the socket's address, the body.\<close>

record transaction_request =
  x_forwarded_for :: "string option"
  x_session_id :: "string option"
  socket_ip :: string
  transaction_xdr :: string
  captcha_token :: string
  request_clock :: clock_readings
  session_clock :: clock_readings

record transaction_response =
  http_status :: nat
  response_status :: string
  tx_hash :: "string option"
  response_error :: "string option"

record app_state =
  limiter :: rate_limiter
  captcha_secret :: string

definition is_blank :: "char \<Rightarrow> bool" where
  "is_blank c \<longleftrightarrow> c = CHR '' '' \<or> c = CHR 0x09"

definition trim :: "string \<Rightarrow> string" where
  "trim s = rev (dropWhile is_blank (rev (dropWhile is_blank s)))"

definition client_ip :: "transaction_request \<Rightarrow> string" where
  "client_ip req =
     (case x_forwarded_for req of
        Some s \<Rightarrow> trim (takeWhile (\<lambda>c. c \<noteq> CHR '','') s)
      | None \<Rightarrow> socket_ip req)"

definition rejection :: "nat \<Rightarrow> string \<Rightarrow> transaction_response" where
  "rejection code message =
     \<lparr>http_status = code, response_status = ''error'', tx_hash = None, response_error = Some message\<rparr>"

definition submit_transaction ::
    "(string \<Rightarrow> string \<Rightarrow> bool option) \<Rightarrow> transaction_request \<Rightarrow> app_state \<Rightarrow>
     transaction_response \<times> app_state" where
  "submit_transaction siteverify req st =
     (case check_and_increment_ip (request_clock req) (client_ip req) (limiter st) of (ok, r) \<Rightarrow>
      let st = st\<lparr>limiter := r\<rparr> in
      if \<not> ok then (rejection 429 ''Rate limit exceeded for IP'', st)
      else
        (case (case x_session_id req of
                 None \<Rightarrow> (True, limiter st)
               | Some session_id \<Rightarrow>
                   check_and_increment_session (session_clock req) session_id (limiter st)) of
           (ok, r) \<Rightarrow>
         let st = st\<lparr>limiter := r\<rparr> in
         if \<not> ok then (rejection 429 ''Rate limit exceeded for Session'', st)
         else if \<not> captcha_verify siteverify (captcha_secret st) (captcha_token req)
         then (rejection 400 ''Invalid captcha token'', st)
         else (\<lparr>http_status = 200, response_status = ''success'',
                tx_hash = Some ''mocked_tx_hash_12345'', response_error = None\<rparr>, st)))"

text \<open>The state that \<^verbatim>\<open>main\<close> starts with: five requests per client and per session in 60 seconds.\<close>

definition initial_state :: "string option \<Rightarrow> app_state" where
  "initial_state captcha_secret_var =
     \<lparr>limiter = new_rate_limiter 5 5 (60 * 10 ^ 9),
      captcha_secret = (case captcha_secret_var of None \<Rightarrow> ''dummy_secret'' | Some s \<Rightarrow> s)\<rparr>"

text \<open>The requests of a run of the server, each with the captcha service as it is then, and their
  responses in order.\<close>

type_synonym captcha_service = "string \<Rightarrow> string \<Rightarrow> bool option"

primrec serve ::
    "(captcha_service \<times> transaction_request) list \<Rightarrow> app_state \<Rightarrow>
     transaction_response list \<times> app_state" where
  "serve [] st = ([], st)"
| "serve (call # calls) st =
     (case submit_transaction (fst call) (snd call) st of (resp, st) \<Rightarrow>
      case serve calls st of (resps, st) \<Rightarrow> (resp # resps, st))"

abbreviation requests :: "(captcha_service \<times> transaction_request) list \<Rightarrow> transaction_request list" where
  "requests calls \<equiv> map snd calls"

section \<open>How many requests pass\<close>

definition in_window :: "nat \<Rightarrow> nat \<Rightarrow> nat \<Rightarrow> bool" where
  "in_window w a t \<longleftrightarrow> a \<le> t \<and> t \<le> a + w"

text \<open>
  One key's history: the count \<open>c\<close> and start of its current window, and the check times \<open>acc\<close> of
  the requests that passed.  The last \<open>c\<close> of them are in the current window and the \<open>p\<close> before
  them in the previous one; all earlier ones lie more than a window before the current ones.
\<close>

definition spaced :: "nat \<Rightarrow> nat \<Rightarrow> nat \<Rightarrow> nat \<Rightarrow> nat list \<Rightarrow> bool" where
  "spaced m w c since acc \<longleftrightarrow> c \<le> m \<and> c \<le> length acc \<and> (c = 0 \<longrightarrow> acc = []) \<and>
     (\<forall>x \<in> set (take (length acc - c) acc). x \<le> since) \<and>
     (\<exists>p\<le>m. \<forall>x \<in> set (take (length acc - (c + p)) acc). \<forall>y \<in> set (drop (length acc - c) acc). x + w < y) \<and>
     (\<forall>a. length (filter (in_window w a) acc) \<le> 2 * m)"

lemma spacedD:
  assumes "spaced m w c since acc"
  shows "c \<le> m" "c \<le> length acc" "c = 0 \<Longrightarrow> acc = []"
    "x \<in> set (take (length acc - c) acc) \<Longrightarrow> x \<le> since"
    "length (filter (in_window w a) acc) \<le> 2 * m"
  using assms unfolding spaced_def by blast+

lemma filter_late:
  assumes "\<forall>x \<in> set (take (length acc - k) acc). x + w < t"
  shows "length (filter (in_window w a) (acc @ [t])) \<le> length (filter (in_window w a) acc) \<or>
    length (filter (in_window w a) (acc @ [t])) \<le> Suc k"
proof (cases "in_window w a t")
  case True
  have "filter (in_window w a) (take (length acc - k) acc) = []"
    using assms True by (auto simp: filter_empty_conv in_window_def)
  then have "filter (in_window w a) acc = filter (in_window w a) (drop (length acc - k) acc)"
    by (metis append_Nil append_take_drop_id filter_append)
  then have "length (filter (in_window w a) acc) \<le> k"
    by (metis length_drop length_filter_le le_trans diff_diff_cancel diff_le_self nat_le_linear diff_is_0_eq' le0)
  then show ?thesis by simp
qed simp

lemma spaced_more:
  assumes sp: "spaced m w c since acc" and "c < m" and late: "\<forall>x \<in> set acc. x \<le> t"
  shows "spaced m w (Suc c) since (acc @ [t])"
proof -
  note d = spacedD [OF sp]
  from sp obtain p where "p \<le> m" and
    gap: "\<forall>x \<in> set (take (length acc - (c + p)) acc). \<forall>y \<in> set (drop (length acc - c) acc). x + w < y"
    unfolding spaced_def by blast
  have new: "\<forall>x \<in> set (take (length acc - (c + p)) acc). x + w < t"
  proof
    fix x assume x: "x \<in> set (take (length acc - (c + p)) acc)"
    then have "acc \<noteq> []" by auto
    with d(2,3) have "last acc \<in> set (drop (length acc - c) acc)"
      by (metis diff_less drop_eq_Nil last_drop last_in_set length_greater_0_conv linorder_not_le neq0_conv)
    with gap x late \<open>acc \<noteq> []\<close> show "x + w < t"
      by (meson last_in_set less_le_trans)
  qed
  have "length (filter (in_window w a) (acc @ [t])) \<le> 2 * m" for a
    using filter_late [OF new, of a] d(5) [of a] \<open>p \<le> m\<close> \<open>c < m\<close> by auto
  moreover have "\<forall>x \<in> set (take (length (acc @ [t]) - (Suc c + p)) (acc @ [t])).
      \<forall>y \<in> set (drop (length (acc @ [t]) - Suc c) (acc @ [t])). x + w < y"
    using gap new d(2) by auto
  ultimately show ?thesis
    using d \<open>p \<le> m\<close> \<open>c < m\<close> unfolding spaced_def by auto
qed

lemma spaced_reset:
  assumes sp: "spaced m w c since acc" and "0 < m" and late: "\<forall>x \<in> set acc. x \<le> t"
    and "since + w < t" and "t \<le> since'"
  shows "spaced m w 1 since' (acc @ [t])"
proof -
  note d = spacedD [OF sp]
  have new: "\<forall>x \<in> set (take (length acc - c) acc). x + w < t"
    using d(4) assms(4) by fastforce
  have "length (filter (in_window w a) (acc @ [t])) \<le> 2 * m" for a
    using filter_late [OF new, of a] d(1) d(5) [of a] \<open>0 < m\<close> by auto
  moreover have "\<forall>x \<in> set acc. x \<le> since'" using late assms(5) by auto
  ultimately show ?thesis
    using new d(1) \<open>0 < m\<close> unfolding spaced_def by (auto intro!: exI [of _ c])
qed

lemma spaced_start: "spaced m w 0 since []"
  by (auto simp: spaced_def)

text \<open>The state of one limiter against the history of one key.\<close>

definition history_ok :: "nat \<Rightarrow> nat \<Rightarrow> (nat \<times> nat) option \<Rightarrow> nat list \<Rightarrow> bool" where
  "history_ok limit w e acc \<longleftrightarrow>
     (case e of None \<Rightarrow> acc = [] | Some (c, since) \<Rightarrow> spaced limit w c since acc)"

lemma history_bound: "history_ok limit w e acc \<Longrightarrow> length (filter (in_window w a) acc) \<le> 2 * limit"
  by (auto simp: history_ok_def split: option.splits dest: spacedD(5))

lemma check_entry_history:
  assumes "check_entry limit w clk key counts = (ok, counts')" and "0 < limit"
    and "history_ok limit w (counts k) acc" and "\<forall>x \<in> set acc. x \<le> at_check clk"
    and "at_check clk \<le> at_reset clk"
  shows "history_ok limit w (counts' k) (if key = k \<and> ok then acc @ [at_check clk] else acc)"
proof (cases "key = k")
  case True
  define e where "e = (case counts k of None \<Rightarrow> (0, at_entry clk) | Some e \<Rightarrow> e)"
  have "spaced limit w (fst e) (snd e) acc"
    using assms(3) spaced_start by (auto simp: e_def history_ok_def split: option.splits)
  with spaced_more [of limit w "fst e" "snd e" acc "at_check clk"]
    spaced_reset [of limit w "fst e" "snd e" acc "at_check clk" "at_reset clk"] assms True
  show ?thesis
    by (auto simp: check_entry_def e_def [symmetric] history_ok_def Let_def split_beta
        less_diff_conv add.commute split: if_splits)
next
  case False
  with assms show ?thesis by (auto simp: check_entry_def Let_def split_beta split: if_splits)
qed

section \<open>Runs of the server\<close>

definition limits_of :: "app_state \<Rightarrow> nat \<times> nat \<times> nat" where
  "limits_of st = (max_per_ip (limiter st), max_per_session (limiter st), window_ns (limiter st))"

definition passed_ip :: "transaction_response \<Rightarrow> bool" where
  "passed_ip resp \<longleftrightarrow> response_error resp \<noteq> Some ''Rate limit exceeded for IP''"

definition passed_session :: "transaction_response \<Rightarrow> bool" where
  "passed_session resp \<longleftrightarrow>
     passed_ip resp \<and> response_error resp \<noteq> Some ''Rate limit exceeded for Session''"

lemma submit_transaction_effect:
  assumes "submit_transaction siteverify req st = (resp, st')"
    and "limits_of st = (m, n, w)"
  shows "limits_of st' = (m, n, w)"
    and "check_entry m w (request_clock req) (client_ip req) (ip_counts (limiter st)) =
      (passed_ip resp, ip_counts (limiter st'))"
    and "if passed_ip resp \<and> x_session_id req \<noteq> None
      then check_entry n w (session_clock req) (the (x_session_id req)) (session_counts (limiter st)) =
        (passed_session resp, session_counts (limiter st'))
      else session_counts (limiter st') = session_counts (limiter st)"
    and "http_status resp = 200 \<Longrightarrow> passed_session resp"
  using assms
  by (auto simp: submit_transaction_def check_and_increment_ip_def check_and_increment_session_def
      limits_of_def passed_ip_def passed_session_def rejection_def Let_def split_beta prod_eq_iff
      split: if_splits option.splits)

definition ip_times :: "string \<Rightarrow> (transaction_request \<times> transaction_response) list \<Rightarrow> nat list" where
  "ip_times k served = map (\<lambda>(req, _). at_check (request_clock req))
     (filter (\<lambda>(req, resp). client_ip req = k \<and> passed_ip resp) served)"

definition session_times :: "string \<Rightarrow> (transaction_request \<times> transaction_response) list \<Rightarrow> nat list" where
  "session_times k served = map (\<lambda>(req, _). at_check (session_clock req))
     (filter (\<lambda>(req, resp). x_session_id req = Some k \<and> passed_session resp) served)"

definition ordered_clock :: "clock_readings list \<Rightarrow> bool" where
  "ordered_clock cs \<longleftrightarrow> sorted (map at_check cs) \<and> (\<forall>c \<in> set cs. at_check c \<le> at_reset c)"

lemma ordered_clock_Cons:
  "ordered_clock (c # cs) \<longleftrightarrow>
   at_check c \<le> at_reset c \<and> (\<forall>d \<in> set cs. at_check c \<le> at_check d) \<and> ordered_clock cs"
  by (auto simp: ordered_clock_def)

lemma serve_history:
  assumes "serve calls st = (resps, st')" and "limits_of st = (m, n, w)" and "0 < m" and "0 < n"
    and "ordered_clock (map request_clock (requests calls))" and "ordered_clock (map session_clock (requests calls))"
    and "history_ok m w (ip_counts (limiter st) k) acc"
    and "history_ok n w (session_counts (limiter st) s) log"
    and "\<forall>x \<in> set acc. \<forall>req \<in> set (requests calls). x \<le> at_check (request_clock req)"
    and "\<forall>x \<in> set log. \<forall>req \<in> set (requests calls). x \<le> at_check (session_clock req)"
  shows "history_ok m w (ip_counts (limiter st') k) (acc @ ip_times k (zip (requests calls) resps)) \<and>
    history_ok n w (session_counts (limiter st') s) (log @ session_times s (zip (requests calls) resps))"
  using assms
proof (induction calls arbitrary: st acc log resps)
  case Nil
  then show ?case by (simp add: ip_times_def session_times_def)
next
  case (Cons call calls)
  define req where "req = snd call"
  from Cons.prems(1) obtain resp st1 rest where step: "submit_transaction (fst call) req st = (resp, st1)"
    and rest: "serve calls st1 = (rest, st')" and resps: "resps = resp # rest"
    by (auto simp: req_def split: prod.splits)
  note effect = submit_transaction_effect [OF step Cons.prems(2)]
  let ?t = "at_check (request_clock req)" and ?u = "at_check (session_clock req)"
  let ?acc = "if client_ip req = k \<and> passed_ip resp then acc @ [?t] else acc"
  let ?log = "if x_session_id req = Some s \<and> passed_session resp then log @ [?u] else log"
  have ip: "history_ok m w (ip_counts (limiter st1) k) ?acc"
    using check_entry_history [OF effect(2) Cons.prems(3,7)] Cons.prems(5,9)
    by (auto simp: ordered_clock_Cons req_def)
  have session: "history_ok n w (session_counts (limiter st1) s) ?log"
  proof (cases "passed_ip resp \<and> x_session_id req \<noteq> None")
    case True
    with effect(3) have "check_entry n w (session_clock req) (the (x_session_id req))
      (session_counts (limiter st)) = (passed_session resp, session_counts (limiter st1))" by simp
    from check_entry_history [OF this Cons.prems(4,8)] True Cons.prems(6,10)
    show ?thesis by (auto simp: ordered_clock_Cons req_def)
  next
    case False
    with effect(3) Cons.prems(8) show ?thesis by (auto simp: passed_session_def split: if_splits)
  qed
  have "history_ok m w (ip_counts (limiter st') k) (?acc @ ip_times k (zip (requests calls) rest)) \<and>
    history_ok n w (session_counts (limiter st') s) (?log @ session_times s (zip (requests calls) rest))"
    by (rule Cons.IH [OF rest effect(1) Cons.prems(3,4) _ _ ip session])
      (use Cons.prems(5,6,9,10) in \<open>auto simp: ordered_clock_Cons req_def\<close>)
  then show ?case
    by (auto simp: resps req_def ip_times_def session_times_def split: if_splits)
qed

text \<open>The requests that a client, or a session, gets through in a stretch of one window's length.\<close>

definition served_in ::
    "(transaction_request \<Rightarrow> bool) \<Rightarrow> (transaction_request \<Rightarrow> nat) \<Rightarrow> nat \<Rightarrow>
     (transaction_request \<times> transaction_response) list \<Rightarrow> nat" where
  "served_in who time a served = length (filter (\<lambda>(req, resp). http_status resp = 200 \<and> who req \<and>
     in_window (60 * 10 ^ 9) a (time req)) served)"

lemma served_statuses:
  "serve calls st = (resps, st') \<Longrightarrow> (req, resp) \<in> set (zip (requests calls) resps) \<Longrightarrow>
   http_status resp = 200 \<Longrightarrow> passed_session resp"
proof (induction calls arbitrary: st resps)
  case (Cons call calls)
  then show ?case
    by (cases "limits_of st") (auto split: prod.splits dest: submit_transaction_effect(4))
qed simp

lemma length_filter_mono:
  "(\<And>x. x \<in> set xs \<Longrightarrow> P x \<Longrightarrow> Q x) \<Longrightarrow> length (filter P xs) \<le> length (filter Q xs)"
  by (induction xs) (auto intro: le_SucI)

text \<open>C39: The relayer bounds what it serves.  In every run from the initial state whose clocks do not go
back, in any stretch of 60 seconds, at most ten requests of one client address and at most ten
requests of one session are answered with status 200: the limit of five holds per fixed window, and
a stretch of that length meets at most two of them.\<close>

theorem relayer_bounded:
  assumes "serve calls (initial_state secret) = (resps, st)"
    and "ordered_clock (map request_clock (requests calls))" and "ordered_clock (map session_clock (requests calls))"
  shows "served_in (\<lambda>req. client_ip req = k) (at_check \<circ> request_clock) a (zip (requests calls) resps) \<le> 10 \<and>
    served_in (\<lambda>req. x_session_id req = Some s) (at_check \<circ> session_clock) a (zip (requests calls) resps) \<le> 10"
proof -
  have "limits_of (initial_state secret) = (5, 5, 60 * 10 ^ 9)"
    by (simp add: limits_of_def initial_state_def new_rate_limiter_def)
  note run = serve_history [OF assms(1) this _ _ assms(2,3), of k "[]" s "[]"]
  have "history_ok 5 (60 * 10 ^ 9) (ip_counts (limiter st) k) (ip_times k (zip (requests calls) resps))"
    "history_ok 5 (60 * 10 ^ 9) (session_counts (limiter st) s) (session_times s (zip (requests calls) resps))"
    using run by (simp_all add: history_ok_def initial_state_def new_rate_limiter_def)
  from this [THEN history_bound, of a]
  have "length (filter (in_window (60 * 10 ^ 9) a) (ip_times k (zip (requests calls) resps))) \<le> 10"
    "length (filter (in_window (60 * 10 ^ 9) a) (session_times s (zip (requests calls) resps))) \<le> 10" by simp_all
  moreover have "length (filter (in_window (60 * 10 ^ 9) a) (ip_times k (zip (requests calls) resps))) \<ge>
      served_in (\<lambda>req. client_ip req = k) (at_check \<circ> request_clock) a (zip (requests calls) resps)"
    "length (filter (in_window (60 * 10 ^ 9) a) (session_times s (zip (requests calls) resps))) \<ge>
      served_in (\<lambda>req. x_session_id req = Some s) (at_check \<circ> session_clock) a (zip (requests calls) resps)"
    using served_statuses [OF assms(1)]
    by (auto simp: served_in_def ip_times_def session_times_def filter_map filter_filter o_def
        passed_session_def intro!: length_filter_mono)
  ultimately show ?thesis by linarith
qed

definition at_time :: "nat \<Rightarrow> clock_readings" where
  "at_time t = \<lparr>at_entry = t, at_check = t, at_reset = t\<rparr>"

definition sample_request :: "string option \<Rightarrow> nat \<Rightarrow> transaction_request" where
  "sample_request header t = \<lparr>x_forwarded_for = header, x_session_id = Some ''s1'',
     socket_ip = ''192.0.2.1'', transaction_xdr = ''AAAA'', captcha_token = ''valid_dummy_token'',
     request_clock = at_time t, session_clock = at_time t\<rparr>"

abbreviation unanswered :: "transaction_request \<Rightarrow> captcha_service \<times> transaction_request" where
  "unanswered req \<equiv> (\<lambda>_ _. None, req)"

lemma sample_requests_served:
  "map http_status (fst (serve
     (map (\<lambda>t. unanswered (sample_request (Some ''203.0.113.7, 10.0.0.1'') t)) [0, 1, 2, 3, 4, 5])
     (initial_state None)))
   = [200, 200, 200, 200, 200, 429]"
  by (simp add: initial_state_def new_rate_limiter_def sample_request_def at_time_def client_ip_def
      trim_def is_blank_def submit_transaction_def check_and_increment_ip_def
      check_and_increment_session_def check_entry_def captcha_verify_def rejection_def)

theorem relayer_bounded_witness:
  "\<exists>resps st. serve (map (\<lambda>t. unanswered (sample_request None t)) [0, 1, 2, 3, 4, 5]) (initial_state None)
      = (resps, st) \<and>
    served_in (\<lambda>req. client_ip req = ''192.0.2.1'') (at_check \<circ> request_clock) 0
      (zip (map (sample_request None) [0, 1, 2, 3, 4, 5]) resps) \<le> 10"
proof -
  let ?calls = "map (\<lambda>t. unanswered (sample_request None t)) [0, 1, 2, 3, 4, 5]"
  obtain resps st where run: "serve ?calls (initial_state None) = (resps, st)"
    by (cases "serve ?calls (initial_state None)")
  have requests: "requests ?calls = map (sample_request None) [0, 1, 2, 3, 4, 5]" by simp
  have "ordered_clock (map request_clock (requests ?calls))" "ordered_clock (map session_clock (requests ?calls))"
    by (simp_all add: ordered_clock_def sample_request_def at_time_def)
  from relayer_bounded [OF run this] run show ?thesis unfolding requests by blast
qed

section \<open>What identifies a client\<close>

lemma fresh_address_served:
  assumes "ip_counts (limiter st) (client_ip req) = None" and "0 < max_per_ip (limiter st)"
    and "x_session_id req = None"
    and "captcha_verify siteverify (captcha_secret st) (captcha_token req)"
  obtains resp st' e where "submit_transaction siteverify req st = (resp, st')" "http_status resp = 200"
    "ip_counts (limiter st') = (ip_counts (limiter st))(client_ip req \<mapsto> e)"
    "max_per_ip (limiter st') = max_per_ip (limiter st)" "captcha_secret st' = captcha_secret st"
proof -
  obtain e where "check_entry (max_per_ip (limiter st)) (window_ns (limiter st)) (request_clock req)
      (client_ip req) (ip_counts (limiter st)) = (True, (ip_counts (limiter st))(client_ip req \<mapsto> e))"
    using assms(1,2)
    by (cases "at_check (request_clock req) - at_entry (request_clock req) > window_ns (limiter st)")
      (simp_all add: check_entry_def)
  with assms(3,4) that show thesis
    by (simp add: submit_transaction_def check_and_increment_ip_def Let_def)
qed

text \<open>Requests with a captcha token that the service accepts when it is asked, and no session.\<close>

definition human :: "string \<Rightarrow> captcha_service \<times> transaction_request \<Rightarrow> bool" where
  "human secret call \<longleftrightarrow> x_session_id (snd call) = None \<and>
     captcha_verify (fst call) secret (captcha_token (snd call))"

lemma fresh_addresses_served:
  assumes "\<forall>call \<in> set calls. human (captcha_secret st) call"
    and "distinct (map client_ip (requests calls))" and "0 < max_per_ip (limiter st)"
    and "\<forall>req \<in> set (requests calls). ip_counts (limiter st) (client_ip req) = None"
  shows "map http_status (fst (serve calls st)) = replicate (length calls) 200"
  using assms
proof (induction calls arbitrary: st)
  case (Cons call calls)
  have new: "ip_counts (limiter st) (client_ip (snd call)) = None" "0 < max_per_ip (limiter st)"
    "x_session_id (snd call) = None" "captcha_verify (fst call) (captcha_secret st) (captcha_token (snd call))"
    using Cons.prems by (simp_all add: human_def)
  obtain resp st' e where step: "submit_transaction (fst call) (snd call) st = (resp, st')" "http_status resp = 200"
    "ip_counts (limiter st') = (ip_counts (limiter st))(client_ip (snd call) \<mapsto> e)"
    "max_per_ip (limiter st') = max_per_ip (limiter st)" "captcha_secret st' = captcha_secret st"
    by (rule fresh_address_served [OF new])
  have "map http_status (fst (serve calls st')) = replicate (length calls) 200"
    by (rule Cons.IH) (use Cons.prems step in \<open>auto simp: image_iff\<close>)
  with step(1,2) show ?case by (simp add: split_beta)
qed simp

text \<open>C40: The per-client limit does not bind a client that names itself.  The address counted is the
  first entry of the forwarding header that the request carries.  So in any state with a positive
  limit, any sequence of requests without a session whose headers give pairwise different
  addresses that were not counted before is answered with status 200 throughout, however many
  requests there are, at whatever times and from whatever socket addresses, provided only that each
  request's own captcha token is accepted when the service is asked for it.\<close>

theorem forwarded_header_evades:
  assumes "map x_forwarded_for (requests calls) = map Some addresses"
    and "distinct addresses" and "\<forall>h \<in> set addresses. CHR '','' \<notin> set h \<and> trim h = h"
    and "\<forall>h \<in> set addresses. ip_counts (limiter st) h = None" and "0 < max_per_ip (limiter st)"
    and "\<forall>call \<in> set calls. human (captcha_secret st) call"
  shows "map http_status (fst (serve calls st)) = replicate (length calls) 200"
proof -
  have length: "length calls = length addresses"
    using arg_cong [OF assms(1), of length] by simp
  have "map client_ip (requests calls) = addresses"
  proof (rule nth_equalityI)
    fix i assume "i < length (map client_ip (requests calls))"
    then have i: "i < length calls" by simp
    let ?h = "addresses ! i"
    have h: "?h \<in> set addresses" using i length by simp
    have "x_forwarded_for (snd (calls ! i)) = Some ?h"
      using arg_cong [OF assms(1), of "\<lambda>xs. xs ! i"] i length by simp
    then have "client_ip (snd (calls ! i)) = trim (takeWhile (\<lambda>c. c \<noteq> CHR '','') ?h)"
      by (simp add: client_ip_def)
    also have "takeWhile (\<lambda>c. c \<noteq> CHR '','') ?h = ?h"
      unfolding takeWhile_eq_all_conv using assms(3) h by auto
    also have "trim ?h = ?h" using assms(3) h by blast
    finally show "map client_ip (requests calls) ! i = ?h" using i by simp
  qed (simp add: length)
  then have "distinct (map client_ip (requests calls))"
    and "\<forall>req \<in> set (requests calls). ip_counts (limiter st) (client_ip req) = None"
    using assms(2,4) by (metis, metis (no_types, lifting) imageI image_set)
  with assms(5,6) show ?thesis by (intro fresh_addresses_served)
qed

text \<open>Twelve requests from one socket address, a second apart, each with a token of its own that the
  service accepts once.\<close>

definition evading_call :: "string \<Rightarrow> nat \<Rightarrow> captcha_service \<times> transaction_request" where
  "evading_call h t = (\<lambda>secret token. Some (secret = ''key'' \<and> token = CHR ''t'' # h),
     (sample_request (Some h) (t * 10 ^ 9))\<lparr>x_session_id := None, captcha_token := CHR ''t'' # h\<rparr>)"

definition evading_addresses :: "string list" where
  "evading_addresses = [''1'', ''2'', ''3'', ''4'', ''5'', ''6'', ''7'', ''8'', ''9'', ''10'', ''11'', ''12'']"

theorem forwarded_header_evades_witness:
  "map http_status (fst (serve (map2 evading_call evading_addresses [0..<12]) (initial_state (Some ''key''))))
     = replicate 12 200"
proof -
  have twelve: "length evading_addresses = 12" by (simp add: evading_addresses_def)
  have headers: "map x_forwarded_for (requests (map2 evading_call evading_addresses [0..<12])) =
      map Some evading_addresses"
    by (rule nth_equalityI) (simp_all add: twelve evading_call_def sample_request_def del: upt_rec_numeral)
  have humans: "\<forall>call \<in> set (map2 evading_call evading_addresses [0..<12]).
      human (captcha_secret (initial_state (Some ''key''))) call"
    by (auto simp: human_def evading_call_def captcha_verify_def initial_state_def dest: set_zip_leftD)
  have "map http_status (fst (serve (map2 evading_call evading_addresses [0..<12]) (initial_state (Some ''key''))))
      = replicate (length (map2 evading_call evading_addresses [0..<12])) 200"
    by (rule forwarded_header_evades [OF headers _ _ _ _ humans])
      (simp_all add: evading_addresses_def trim_def is_blank_def initial_state_def new_rate_limiter_def)
  then show ?thesis by (simp add: twelve del: upt_rec_numeral)
qed

end
