(* ===== verification/Spec2Isabelle.thy ===== *)
theory Spec2Isabelle
  imports Common_Lemmas Privacy_Utils Ticket_Properties Payments_Payable Payments_Gaps Event_Sales Factory Mock_Event
    Verifier_Answers Verifier_Gates Anonymous_Claims Relayer
begin

text \<open>
  Zicket: a ticketing system of Soroban smart contracts, with a zero-knowledge proof verifier for
  anonymous claims and an HTTP relayer.  This theory imports the development; every definition is
  translated from the Rust sources of the repository.

  \<^bold>\<open>The program.\<close>  An organizer creates an event in the event contract
  (\<^verbatim>\<open>contracts/event\<close>), which the factory (\<^verbatim>\<open>contracts/factory\<close>) deploys.  Attendees reserve,
  buy or claim tickets there.  The event contract calls the payments contract
  (\<^verbatim>\<open>contracts/payments\<close>), which holds the money in escrow until the event is settled,
  cancelled or disputed, and the ticket contract (\<^verbatim>\<open>contracts/ticket\<close>), which mints the tickets and
  records who owns and uses them.  The crates \<^verbatim>\<open>common-utils\<close> and \<^verbatim>\<open>privacy-utils\<close> hold shared
  validation, revenue arithmetic and address masking.  An anonymous claim carries an UltraHonk proof
  that \<^verbatim>\<open>contracts/anon-claim-verifier\<close> checks with \<^verbatim>\<open>crates/ultrazk-soroban-verifier\<close>.  The
  relayer (\<^verbatim>\<open>relayer\<close>) limits the rate of requests and checks a captcha before it submits a
  transaction.

  \<^bold>\<open>How code becomes definitions.\<close>  A contract entry point is a call (theory \<open>Prelude\<close>): a function
  from the contract's state to a failure or a value with a new state.  A failure is a contract error
  \<open>Err e\<close>, which is the \<^verbatim>\<open>Result\<close> of the source, or \<open>Trap\<close>, which is a panic, a failed
  \<^verbatim>\<open>require_auth\<close> or an arithmetic overflow; after either the host rolls back, so the failing
  branch has no state.  \<open>bindE\<close> and \<open>thenE\<close> are \<^verbatim>\<open>?\<close> and sequencing.  The integers of the source
  are \<open>nat\<close> and \<open>int\<close> with the checks \<open>u32\<close>, \<open>u64\<close> and \<open>i128\<close> that trap on overflow (the release
  profile enables overflow checks), and with the saturating and checked operations where the source
  uses those.  Bytes are \<open>8 word\<close>.  A storage key enumeration \<^verbatim>\<open>DataKey\<close> is a record with one field
  per constructor.  Events go to a log in the state.  The proof verifier keeps no state, so its
  functions return a plain \<open>outcome\<close>.

  \<^bold>\<open>The host.\<close>  \<open>Soroban\<close> collects in one record everything that an invocation reads from outside:
  ledger number and time, authorizations, the token contracts, cross-contract calls to contracts
  that are not in this repository, XDR, SHA-256 and Ed25519.  \<open>Verifier_Field\<close> does the same for the
  BN254 functions and Keccak-256.  What the theorems need of them are the hypotheses \<open>token_laws\<close>,
  \<open>invoke_keeps_tokens\<close>, \<open>not_self_authorized\<close>, \<open>inverse_law\<close> and \<open>inverts_units\<close>, each met by a
  concrete instance in a witness.

  \<^bold>\<open>Theories.\<close>
  \<^item> \<open>Prelude\<close>, \<open>Frames\<close>, \<open>Indexed_Storage\<close>, \<open>State_Machine\<close>: calls and their execution and
    weakest-precondition rules; the locale \<open>history\<close> of relations that calls keep; the locales
    \<open>append_log\<close> and \<open>swap_index\<close> of paginated lists in storage; the locale \<open>state_machine\<close> of
    reachable states and invariants.
  \<^item> \<open>Common_Utils\<close>, \<open>Common_Lemmas\<close>, \<open>Privacy_Utils\<close>: \<^verbatim>\<open>common-utils/src/{errors,validation,revenue}.rs\<close>
    and \<^verbatim>\<open>privacy-utils/src/lib.rs\<close>.
  \<^item> \<open>Ticket_State\<close>, \<open>Ticket_Contract\<close>: \<^verbatim>\<open>ticket/src/*.rs\<close>; \<open>Ticket_Invariant\<close>,
    \<open>Ticket_Properties\<close>: well-formed storage, life cycle, lists, recovery keys.
  \<^item> \<open>Payments_Types\<close>, \<open>Payments_State\<close>, \<open>Payments_Storage\<close>: \<^verbatim>\<open>payments/src/{types,errors,events,storage}.rs\<close>;
    \<open>Payments_Core\<close>, \<open>Payments_Config\<close>, \<open>Payments_Refunds\<close>, \<open>Payments_Settlement\<close>,
    \<open>Payments_Splits\<close>, \<open>Payments_Disputes\<close>, \<open>Payments_Market\<close>: the entry points of
    \<^verbatim>\<open>payments/src/lib.rs\<close>.  \<open>Payments_Ledger\<close>, \<open>Payments_Solvency\<close>, \<open>Payments_History\<close>,
    \<open>Payments_Evolution\<close>, \<open>Payments_Machine\<close>: the escrow of an event and a token, that every entry
    point keeps it covered by the contract's balance, and what no entry point takes back.
    \<open>Payments_Sample\<close> runs a sale; \<open>Payments_Safety\<close>, \<open>Payments_Shares\<close>, \<open>Payments_Exact\<close>,
    \<open>Payments_Settled\<close>, \<open>Payments_Claims\<close> state the properties.  \<open>Payments_Payable\<close>: errors that
    a call avoids, and that the balance check blocks no withdrawal.  \<open>Payments_Gaps\<close>: calls that go
    through although the accounting or the caller's role speaks against them.
  \<^item> \<open>Event_Types\<close>, \<open>Event_State\<close>, \<open>Event_Contract\<close>, \<open>Event_Tickets\<close>: \<^verbatim>\<open>event/src/*.rs\<close>.  The state
    of the event contract contains the states of the two contracts it is linked to, and its calls
    into them run their models.  \<open>Event_Seats\<close>, \<open>Event_Life\<close>, \<open>Event_Reservations\<close>: seats are never
    oversold, statuses move along their edges.  \<open>Event_Machine\<close>, \<open>Event_Refinement\<close>: the linked
    system, whose steps refine into steps of the payments and the ticket machine, so the properties
    of those hold in it.  \<open>Event_People\<close>: attendee lists and nullifiers.  \<open>Event_Sample\<close> is a
    concrete network; \<open>Event_Properties\<close> and \<open>Event_Sales\<close> state the properties.
  \<^item> \<open>Factory\<close>: \<^verbatim>\<open>factory/src/*.rs\<close>, with its registry invariant.  \<open>Mock_Event\<close>:
    \<^verbatim>\<open>mock-event/src/lib.rs\<close>, compared with the event contract.
  \<^item> \<open>Verifier_Field\<close>, \<open>Verifier_Types\<close>, \<open>Verifier_Transcript\<close>, \<open>Verifier_Codec\<close>,
    \<open>Verifier_Relations\<close>, \<open>Verifier_Sumcheck\<close>, \<open>Verifier_Shplemini\<close>, \<open>Verifier_Honk\<close>: the files
    \<^verbatim>\<open>field\<close>, \<^verbatim>\<open>types\<close>, \<^verbatim>\<open>transcript\<close>, \<^verbatim>\<open>utils\<close>, \<^verbatim>\<open>relations\<close>, \<^verbatim>\<open>sumcheck\<close>, \<^verbatim>\<open>ec\<close> and \<^verbatim>\<open>shplemini\<close>,
    \<^verbatim>\<open>verifier\<close> of the verifier crate, and the claim verifier contract.  The lemmas beside them:
    the codecs against encoders, the crate's test vector, barycentric evaluation against Lagrange
    interpolation.  \<open>Verifier_Gates\<close>: the 26 subrelations equal the textbook identities.
    \<open>Verifier_Binding\<close>: the transcript is a hash chain that binds the proof.
    \<open>Verifier_Properties\<close> and \<open>Verifier_Answers\<close> state the properties.  \<open>Anonymous_Claims\<close> joins the
    verifier to the event contract: one ticket per nullifier as a field element.
  \<^item> \<open>Relayer\<close>: \<^verbatim>\<open>relayer/src/*.rs\<close>, the bound on what it serves and its limits.

  \<^bold>\<open>What is shown.\<close>  Money: the escrow of every event is backed by the contract's balance in every
  reachable state; settlement, shares, refunds and purchases happen at most once and to the unit.
  Tickets and seats: no tier is oversold, a ticket is used once, lists are exact.  Composition: the
  linked system is a refinement of its three contracts.  Proof verification: the sumcheck is the
  textbook check of the textbook relations, batch inversion is element-wise inversion, decoders
  accept exactly the well-formed inputs, the last challenge binds the whole proof unless Keccak
  collides, and the claim verifier returns.  The opening check of the commitments
  (\<open>Verifier_Shplemini\<close>) is modelled as the code computes it and shown to return; that its scalars
  are those of the Shplonk and Gemini protocols is not proved.  Where the code does not do what it
  means to do, the theorem states what it does: token withdrawals pay any caller, a dispute after a
  withdrawal overdraws, full refunds before a cancellation make its claims exceed the escrow, the
  event migration forgets payments, recovery keys survive transfers, zkPassport proofs are not
  checked, initialization can be taken over, and the relayer's limit is evaded by a header.

  \<^bold>\<open>Bounds and termination.\<close>  There is no fuel: recursion is structural, or over an offset that grows
  to the end of a byte string (\<open>canonical_from\<close>, \<open>delta_loop\<close>), so every operation is total.  Two
  machine operations have no bound in the model: the additions of the public-input offset, which
  stay below \<open>2 ^ 64\<close> for every key that loads, and the negation of an encoded point, which the host
  refuses for a coordinate that the pairing after it refuses as well.

  \<^bold>\<open>Not modelled.\<close>  Expiry of storage entries: every extension of a TTL in the source concerns a key
  that was just read or written.  The getters that return a stored value unchanged.  The trace output
  of \<^verbatim>\<open>ultrazk-soroban-verifier/src/debug.rs\<close>.  The Noir circuit, whose only trace in the contracts
  is the verification key; the soundness of UltraHonk and the hardness assumptions behind it.  The
  relayer's sockets, routing, JSON and logging.  Scripts, documents and tests.
\<close>

end
